(* ===== verification/GoLib.thy ===== *)
theory GoLib
  imports Main "HOL-Library.Word" "HOL-Library.List_Lexorder" "HOL-Library.Char_ord" "HOL-Library.Multiset"
begin

text \<open>
  What the program takes from the Go language and its standard library, shared by every
  component: values that may panic, error values, byte strings and their formatting
  (decimal, quoting, joining), \<^verbatim>\<open>strconv.Atoi\<close>, signed 64-bit durations, instants of time
  and their RFC 3339 text, maps that may be nil, and slice sorting.  A Go string is the list of its
  bytes (type \<open>string\<close>).
\<close>

named_theorems go_simps \<open>unfolding rules for the Go primitives\<close>

section \<open>Panics and errors\<close>

text \<open>A computation returns a value or panics.\<close>

datatype 'a outcome = Ret 'a | Panic string

fun bind_outcome :: "'a outcome \<Rightarrow> ('a \<Rightarrow> 'b outcome) \<Rightarrow> 'b outcome" where
  "bind_outcome (Ret x) f = f x"
| "bind_outcome (Panic m) f = Panic m"

definition returns :: "'a outcome \<Rightarrow> bool" where
  "returns r \<longleftrightarrow> (case r of Ret _ \<Rightarrow> True | Panic _ \<Rightarrow> False)"

lemma returns_simps [simp]: "returns (Ret x)" "\<not> returns (Panic m)"
  by (simp_all add: returns_def)

lemma returns_iff: "returns r \<longleftrightarrow> (\<exists>x. r = Ret x)"
  by (cases r) simp_all

text \<open>
  Error values: \<^verbatim>\<open>fmt.Errorf\<close> without a wrapped error, \<^verbatim>\<open>fmt.Errorf("...%w", err)\<close> (every
  use in the program ends with the wrapped error), and an error made outside the program, of
  which only a reason and the text of its \<^verbatim>\<open>Error\<close> method are known.
\<close>

datatype error =
    Errorf string
  | Wrapf string error
  | External string string

fun Error :: "error \<Rightarrow> string" where
  "Error (Errorf m) = m"
| "Error (Wrapf m e) = m @ Error e"
| "Error (External r m) = m"

text \<open>The error a chain of \<^verbatim>\<open>%w\<close> ends in, which \<^verbatim>\<open>errors.As\<close> and \<^verbatim>\<open>errors.Is\<close> look for.\<close>

fun root_cause :: "error \<Rightarrow> error" where
  "root_cause (Errorf m) = Errorf m"
| "root_cause (Wrapf m e) = root_cause e"
| "root_cause (External r m) = External r m"

section \<open>Strings\<close>

definition digit_char :: "nat \<Rightarrow> char" where
  "digit_char d = char_of (48 + d)"

fun digits :: "nat \<Rightarrow> string" where
  "digits n = (if n < 10 then [digit_char n] else digits (n div 10) @ [digit_char (n mod 10)])"

declare digits.simps [simp del]

text \<open>\<^verbatim>\<open>%d\<close> and \<^verbatim>\<open>strconv.Itoa\<close>.\<close>

definition Itoa :: "int \<Rightarrow> string" where
  "Itoa i = (if i < 0 then ''-'' @ digits (nat (- i)) else digits (nat i))"

fun strings_Join :: "string list \<Rightarrow> string \<Rightarrow> string" where
  "strings_Join [] sep = []"
| "strings_Join [x] sep = x"
| "strings_Join (x # y # zs) sep = x @ sep @ strings_Join (y # zs) sep"

text \<open>
  \<^verbatim>\<open>utf8.DecodeRuneInString\<close>: how many bytes the first rune of a string takes, where none (for
  Go's \<open>RuneError\<close> of width one) means that the first byte does not begin a valid encoding.  Overlong
  forms, surrogates and runes past U+10FFFF are not valid.
\<close>

definition byte_between :: "nat \<Rightarrow> nat \<Rightarrow> char \<Rightarrow> bool" where
  "byte_between lo hi c \<longleftrightarrow> lo \<le> of_char c \<and> of_char c \<le> hi"

definition second_byte :: "char \<Rightarrow> char \<Rightarrow> bool" where
  "second_byte a =
     byte_between (if a = CHR 0xE0 then 160 else if a = CHR 0xF0 then 144 else 128)
       (if a = CHR 0xED then 159 else if a = CHR 0xF4 then 143 else 191)"

abbreviation continuation :: "char \<Rightarrow> bool" where
  "continuation \<equiv> byte_between 128 191"

definition rune_width :: "string \<Rightarrow> nat" where
  "rune_width s =
    (case s of
       [] \<Rightarrow> 0
     | a # bs \<Rightarrow>
         if byte_between 0 127 a then 1
         else if byte_between 194 223 a then
           (case bs of b # _ \<Rightarrow> if second_byte a b then 2 else 0 | _ \<Rightarrow> 0)
         else if byte_between 224 239 a then
           (case bs of b # c # _ \<Rightarrow> if second_byte a b \<and> continuation c then 3 else 0 | _ \<Rightarrow> 0)
         else if byte_between 240 244 a then
           (case bs of
              b # c # d # _ \<Rightarrow> if second_byte a b \<and> continuation c \<and> continuation d then 4 else 0
            | _ \<Rightarrow> 0)
         else 0)"

text \<open>A string as a loop over its runes meets it: encoded runes, and single bytes that are invalid.\<close>

function (sequential) runes :: "string \<Rightarrow> string list" where
  "runes [] = []"
| "runes (a # s) = (let w = max 1 (rune_width (a # s)) in take w (a # s) # runes (drop w (a # s)))"
  by pat_completeness auto
termination
  by (relation "measure length") (auto simp: Let_def)

declare runes.simps(2) [simp del]

definition invalid_rune :: "string \<Rightarrow> bool" where
  "invalid_rune r \<longleftrightarrow> rune_width r = 0"

definition valid_utf8 :: "string \<Rightarrow> bool" where
  "valid_utf8 s \<longleftrightarrow> list_all (\<lambda>r. \<not> invalid_rune r) (runes s)"

text \<open>Each byte that is not part of a valid encoding replaced by U+FFFD, as \<^verbatim>\<open>strings.ToValidUTF8\<close> and the encoders do.\<close>

definition replacement_rune :: string where
  "replacement_rune = [CHR 0xEF, CHR 0xBF, CHR 0xBD]"

definition to_valid :: "string \<Rightarrow> string" where
  "to_valid s = concat (map (\<lambda>r. if invalid_rune r then replacement_rune else r) (runes s))"

lemma concat_runes: "concat (runes s) = s"
  by (induction s rule: runes.induct) (simp_all add: runes.simps(2) Let_def flip: append_assoc)

lemma rune_width_le: "rune_width s \<le> length s"
  by (auto simp: rune_width_def split: list.splits)

lemma rune_width_take: "rune_width (take (rune_width s) s) = rune_width s"
  by (auto simp: rune_width_def split: list.splits)

text \<open>Every part is an invalid byte of its own or a valid encoding of its whole length.\<close>

lemma runes_parts:
  "r \<in> set (runes s) \<Longrightarrow>
   r \<noteq> [] \<and> (if invalid_rune r then length r = 1 else rune_width r = length r)"
proof (induction s rule: runes.induct)
  case (2 a s)
  let ?s = "a # s" and ?w = "max 1 (rune_width (a # s))"
  have "take ?w ?s \<noteq> [] \<and> (if invalid_rune (take ?w ?s) then length (take ?w ?s) = 1
      else rune_width (take ?w ?s) = length (take ?w ?s))"
  proof (cases "rune_width ?s = 0")
    case True
    then have "rune_width [a] = 0"
      by (auto simp: rune_width_def split: list.splits if_splits)
    with True show ?thesis by (simp add: invalid_rune_def)
  next
    case False
    then have "?w = rune_width ?s" by simp
    with False rune_width_take [of ?s] rune_width_le [of ?s] show ?thesis
      by (auto simp: invalid_rune_def)
  qed
  with 2 show ?case by (auto simp: runes.simps(2) Let_def)
qed simp

lemma to_valid_valid: "valid_utf8 s \<Longrightarrow> to_valid s = s"
proof -
  assume "valid_utf8 s"
  then have "to_valid s = concat (runes s)"
    unfolding to_valid_def by (intro arg_cong [of _ _ concat] map_idI) (auto simp: valid_utf8_def list_all_iff)
  then show ?thesis by (simp add: concat_runes)
qed

lemma ascii_valid: "list_all (byte_between 0 127) s \<Longrightarrow> valid_utf8 s"
  by (induction s)
    (simp_all add: valid_utf8_def runes.simps(2) Let_def rune_width_def invalid_rune_def)

lemma to_valid_Nil_iff [simp]: "to_valid s = [] \<longleftrightarrow> s = []"
proof
  assume "to_valid s = []"
  then have "\<forall>r \<in> set (runes s). (if invalid_rune r then replacement_rune else r) = []"
    by (simp add: to_valid_def)
  then have "runes s = []"
    using runes_parts [of _ s] by (cases "runes s") (auto simp: replacement_rune_def split: if_splits)
  then show "s = []" using concat_runes [of s] by simp
qed (simp add: to_valid_def)

text \<open>A string that is not valid grows.\<close>

lemma to_valid_iff: "to_valid s = s \<longleftrightarrow> valid_utf8 s"
proof
  let ?f = "\<lambda>r. if invalid_rune r then replacement_rune else r"
  assume "to_valid s = s"
  then have "sum_list (map (length \<circ> ?f) (runes s)) = sum_list (map length (runes s))"
    using arg_cong [OF concat_runes [of s], of length]
    by (metis (no_types, lifting) length_concat map_map to_valid_def)
  moreover have part: "length r \<le> length (?f r) \<and> (invalid_rune r \<longrightarrow> length r < length (?f r))"
    if "r \<in> set (runes s)" for r
    using runes_parts [OF that] by (auto simp: replacement_rune_def)
  have "sum_list (map length rs) < sum_list (map (length \<circ> ?f) rs)"
    if "set rs \<subseteq> set (runes s)" "r \<in> set rs" "invalid_rune r" for rs r
    using that
  proof (induction rs)
    case (Cons q rs)
    have le: "sum_list (map length rs) \<le> sum_list (map (length \<circ> ?f) rs)"
    proof (rule sum_list_mono)
      fix x assume "x \<in> set rs"
      with Cons.prems(1) part [of x] show "length x \<le> (length \<circ> ?f) x" by auto
    qed
    have q: "length q \<le> length (?f q)" "invalid_rune q \<longrightarrow> length q < length (?f q)"
      using Cons.prems(1) part [of q] by auto
    show ?case
    proof (cases "r = q")
      case True
      then show ?thesis using q le Cons.prems(3) by (simp add: comp_def)
    next
      case False
      then show ?thesis
        using Cons q by (simp add: add_le_less_mono)
    qed
  qed simp
  ultimately show "valid_utf8 s"
    by (auto simp: valid_utf8_def list_all_iff dest: less_not_refl2)
next
  show "valid_utf8 s \<Longrightarrow> to_valid s = s" by (rule to_valid_valid)
qed

text \<open>
  \<^verbatim>\<open>%q\<close>: the escapes of \<^verbatim>\<open>strconv.Quote\<close>.  A byte that is not valid UTF-8 is written as its
  number; the runes beyond ASCII are taken as printable and copied.
\<close>

definition hex_char :: "nat \<Rightarrow> char" where
  "hex_char d = (if d < 10 then char_of (48 + d) else char_of (87 + d))"

definition quote_byte :: "char \<Rightarrow> string" where
  "quote_byte c =
    (let n = (of_char c :: nat); esc = (\<lambda>x. [CHR 0x5C, x]) in
     if n = 34 then esc (CHR 0x22) else if n = 92 then esc (CHR 0x5C)
     else if n = 7 then esc (CHR ''a'') else if n = 8 then esc (CHR ''b'')
     else if n = 12 then esc (CHR ''f'') else if n = 10 then esc (CHR ''n'')
     else if n = 13 then esc (CHR ''r'') else if n = 9 then esc (CHR ''t'')
     else if n = 11 then esc (CHR ''v'')
     else if n < 32 \<or> n = 127
       then [CHR 0x5C, CHR ''x'', hex_char (n div 16), hex_char (n mod 16)]
     else [c])"

definition byte_escape :: "char \<Rightarrow> string" where
  "byte_escape c =
    (let n = (of_char c :: nat) in [CHR 0x5C, CHR ''x'', hex_char (n div 16), hex_char (n mod 16)])"

definition quote_rune :: "string \<Rightarrow> string" where
  "quote_rune r = concat (map (if invalid_rune r then byte_escape else quote_byte) r)"

definition Quote :: "string \<Rightarrow> string" where
  "Quote s = CHR 0x22 # concat (map quote_rune (runes s)) @ [CHR 0x22]"

text \<open>
  \<^verbatim>\<open>strconv.Atoi\<close>: an optional sign, at least one digit and nothing else, and a value that
  fits a signed 64-bit integer; \<open>None\<close> stands for a non-nil error.
\<close>

definition digit_value :: "char \<Rightarrow> nat option" where
  "digit_value c = (let n = (of_char c :: nat) in if 48 \<le> n \<and> n \<le> 57 then Some (n - 48) else None)"

fun parse_digits :: "string \<Rightarrow> nat \<Rightarrow> nat option" where
  "parse_digits [] acc = Some acc"
| "parse_digits (c # cs) acc =
     (case digit_value c of None \<Rightarrow> None | Some d \<Rightarrow> parse_digits cs (acc * 10 + d))"

definition parse_unsigned :: "string \<Rightarrow> nat option" where
  "parse_unsigned s = (if s = [] then None else parse_digits s 0)"

definition in_int64 :: "int \<Rightarrow> bool" where
  "in_int64 i \<longleftrightarrow> - (2 ^ 63) \<le> i \<and> i < 2 ^ 63"

definition Atoi :: "string \<Rightarrow> int option" where
  "Atoi s =
    (let signed = (s \<noteq> [] \<and> (hd s = CHR ''-'' \<or> hd s = CHR ''+''));
         body = (if signed then tl s else s) in
     case parse_unsigned body of
       None \<Rightarrow> None
     | Some n \<Rightarrow> (let i = (if signed \<and> hd s = CHR ''-'' then - int n else int n) in
         if in_int64 i then Some i else None))"

lemma of_char_digit_char: "d < 10 \<Longrightarrow> (of_char (digit_char d) :: nat) = 48 + d"
  by (simp add: digit_char_def)

lemma digit_value_digit_char [simp]: "d < 10 \<Longrightarrow> digit_value (digit_char d) = Some d"
  by (simp add: digit_value_def of_char_digit_char Let_def)

lemma parse_digits_append:
  "parse_digits (xs @ ys) acc =
    (case parse_digits xs acc of None \<Rightarrow> None | Some a \<Rightarrow> parse_digits ys a)"
  by (induction xs arbitrary: acc) (auto split: option.splits)

lemma digits_nonempty [simp]: "digits n \<noteq> []"
  by (subst digits.simps) simp

lemma parse_digits_digits: "parse_digits (digits n) 0 = Some n"
proof (induction n rule: digits.induct)
  case (1 n)
  show ?case
  proof (cases "n < 10")
    case True
    then show ?thesis by (subst digits.simps) simp
  next
    case False
    with 1 have "parse_digits (digits (n div 10)) 0 = Some (n div 10)" by simp
    with False show ?thesis
      by (subst digits.simps) (simp add: parse_digits_append)
  qed
qed

lemma parse_unsigned_digits [simp]: "parse_unsigned (digits n) = Some n"
  by (simp add: parse_unsigned_def parse_digits_digits)

lemma digits_inj: "digits m = digits n \<Longrightarrow> m = n"
  by (metis option.inject parse_unsigned_digits)

lemma hd_digits_not_sign:
  "hd (digits n) \<noteq> CHR ''-''" "hd (digits n) \<noteq> CHR ''+''"
proof -
  have "digit_value (hd (digits n)) \<noteq> None"
    using parse_digits_digits [of n] digits_nonempty [of n]
    by (cases "digits n") (auto split: option.splits)
  then show "hd (digits n) \<noteq> CHR ''-''" "hd (digits n) \<noteq> CHR ''+''"
    by (auto simp: digit_value_def)
qed

lemma Atoi_Itoa: "in_int64 i \<Longrightarrow> Atoi (Itoa i) = Some i"
  by (simp add: Atoi_def Itoa_def hd_digits_not_sign Let_def)

lemma Itoa_inj: "Itoa i = Itoa j \<Longrightarrow> i = j"
proof -
  assume eq: "Itoa i = Itoa j"
  have sign: "i < 0 \<longleftrightarrow> j < 0"
    using eq hd_digits_not_sign(1)[of "nat i"] hd_digits_not_sign(1)[of "nat j"]
    by (auto simp: Itoa_def split: if_splits) (metis list.sel(1))+
  with eq have "digits (nat \<bar>i\<bar>) = digits (nat \<bar>j\<bar>)"
    by (auto simp: Itoa_def split: if_splits)
  then show "i = j" using sign digits_inj by fastforce
qed

lemma Atoi_in_int64: "Atoi s = Some i \<Longrightarrow> in_int64 i"
  by (auto simp: Atoi_def Let_def split: option.splits if_splits)

section \<open>Durations and instants\<close>

text \<open>
  \<^verbatim>\<open>time.Duration\<close> is a signed 64-bit count of nanoseconds, ordered as \<^verbatim>\<open>int64\<close> (so
  \<open>max\<close> is Go's built-in \<^verbatim>\<open>max\<close>); negation wraps around.
\<close>

datatype duration = Duration (nanos: "64 word")

definition dval :: "duration \<Rightarrow> int" where
  "dval d = sint (nanos d)"

definition dur :: "int \<Rightarrow> duration" where
  "dur n = Duration (word_of_int n)"

abbreviation milliseconds :: "int \<Rightarrow> duration" where
  "milliseconds n \<equiv> dur (n * 1000000)"

abbreviation seconds :: "int \<Rightarrow> duration" where
  "seconds n \<equiv> dur (n * 1000000000)"

abbreviation minutes :: "int \<Rightarrow> duration" where
  "minutes n \<equiv> seconds (n * 60)"

definition neg_duration :: "duration \<Rightarrow> duration" where
  "neg_duration d = Duration (- nanos d)"

instantiation duration :: linorder
begin

definition less_eq_duration :: "duration \<Rightarrow> duration \<Rightarrow> bool" where
  "less_eq_duration d e \<longleftrightarrow> dval d \<le> dval e"

definition less_duration :: "duration \<Rightarrow> duration \<Rightarrow> bool" where
  "less_duration d e \<longleftrightarrow> dval d < dval e"

instance
proof
  fix d e f :: duration
  show "d < e \<longleftrightarrow> d \<le> e \<and> \<not> e \<le> d" "d \<le> d" "d \<le> e \<or> e \<le> d"
    by (auto simp: less_eq_duration_def less_duration_def)
  show "d \<le> e \<Longrightarrow> e \<le> f \<Longrightarrow> d \<le> f" by (simp add: less_eq_duration_def)
  show "d \<le> e \<Longrightarrow> e \<le> d \<Longrightarrow> d = e"
    unfolding less_eq_duration_def dval_def
    by (metis antisym duration.expand signed_word_eqI)
qed

end

lemma dval_bounds: "- (2 ^ 63) \<le> dval d" "dval d < 2 ^ 63"
  using sint_ge [of "nanos d"] sint_lt [of "nanos d"] by (simp_all add: dval_def)

lemma dval_dur: "in_int64 n \<Longrightarrow> dval (dur n) = n"
  by (simp add: dval_def dur_def in_int64_def int_word_sint)

lemma dval_max: "dval (max d e) = max (dval d) (dval e)"
  by (simp add: max_def less_eq_duration_def)

lemma dval_neg: "dval d \<noteq> - (2 ^ 63) \<Longrightarrow> dval (neg_duration d) = - dval d"
proof -
  assume ne: "dval d \<noteq> - (2 ^ 63)"
  have "neg_duration d = dur (- dval d)"
    by (simp add: neg_duration_def dur_def dval_def)
  moreover have "in_int64 (- dval d)"
    using dval_bounds [of d] ne by (simp add: in_int64_def)
  ultimately show ?thesis by (simp add: dval_dur)
qed

text \<open>The most negative duration is its own negation.\<close>

lemma dval_neg_min: "dval d = - (2 ^ 63) \<Longrightarrow> neg_duration d = d"
proof -
  assume "dval d = - (2 ^ 63)"
  then have "d = Duration (word_of_int (- (2 ^ 63)))"
    by (metis dval_def duration.collapse of_int_sint scast_id)
  then show ?thesis by (simp add: neg_duration_def)
qed

text \<open>
  A \<^verbatim>\<open>time.Time\<close> is the instant it denotes, in nanoseconds since the Unix epoch; its monotonic
  reading and its location are not kept.  \<^verbatim>\<open>Add\<close> is exact, \<^verbatim>\<open>Sub\<close> saturates at the bounds
  of a duration.
\<close>

type_synonym gotime = int

definition zero_time :: gotime where
  "zero_time = - 62135596800 * 1000000000"

definition time_Add :: "gotime \<Rightarrow> duration \<Rightarrow> gotime" where
  "time_Add t d = t + dval d"

definition saturate64 :: "int \<Rightarrow> int" where
  "saturate64 n = max (- (2 ^ 63)) (min (2 ^ 63 - 1) n)"

definition time_Sub :: "gotime \<Rightarrow> gotime \<Rightarrow> duration" where
  "time_Sub t u = dur (saturate64 (t - u))"

abbreviation (input) time_Before :: "gotime \<Rightarrow> gotime \<Rightarrow> bool" where
  "time_Before t u \<equiv> t < u"

definition time_Unix :: "gotime \<Rightarrow> int" where
  "time_Unix t = t div 1000000000"

lemma dval_time_Sub: "dval (time_Sub t u) = saturate64 (t - u)"
  by (simp add: time_Sub_def dval_dur in_int64_def saturate64_def)

text \<open>\<^verbatim>\<open>Duration.Round\<close> to a positive multiple, away from zero at half-way values.\<close>

definition duration_Round :: "duration \<Rightarrow> duration \<Rightarrow> duration" where
  "duration_Round d m =
    (let v = dval d; k = dval m; r = \<bar>v\<bar> mod k in
     if k \<le> 0 then d
     else if r + r < k then dur (v - sgn v * r)
     else dur (saturate64 (v + sgn v * (k - r))))"

text \<open>\<^verbatim>\<open>Duration.String\<close>, such as \<^verbatim>\<open>1h0m2.5s\<close>, \<^verbatim>\<open>250ms\<close> or \<^verbatim>\<open>0s\<close>.\<close>

fun fmtFrac :: "nat \<Rightarrow> nat \<Rightarrow> bool \<Rightarrow> string \<Rightarrow> string \<times> nat" where
  "fmtFrac 0 v printing acc = ((if printing then CHR ''.'' # acc else acc), v)"
| "fmtFrac (Suc p) v printing acc =
     (let d = v mod 10; pr = (printing \<or> d \<noteq> 0) in
      fmtFrac p (v div 10) pr (if pr then digit_char d # acc else acc))"

definition format_units :: "nat \<Rightarrow> nat \<Rightarrow> string \<Rightarrow> string" where
  "format_units u prec unit = (case fmtFrac prec u False unit of (frac, v) \<Rightarrow> digits v @ frac)"

definition duration_String :: "duration \<Rightarrow> string" where
  "duration_String d =
    (let u = nat \<bar>dval d\<bar>; sign = (if dval d < 0 then ''-'' else '''') in
     sign @
     (if u = 0 then ''0s''
      else if u < 1000 then format_units u 0 ''ns''
      else if u < 1000000 then format_units u 3 [char_of (194::nat), char_of (181::nat), CHR ''s'']
      else if u < 1000000000 then format_units u 6 ''ms''
      else
        (case fmtFrac 9 u False ''s'' of (frac, secs) \<Rightarrow>
          (let mins = secs div 60; hours = mins div 60 in
           (if 0 < hours then digits hours @ ''h'' else '''') @
           (if 0 < mins then digits (mins mod 60) @ ''m'' else '''') @
           digits (secs mod 60) @ frac))))"

text \<open>
  \<^verbatim>\<open>Format(time.RFC3339)\<close> of an instant in a zone \<open>off\<close> seconds east of Greenwich: the civil
  date of a day number (proleptic Gregorian calendar), the time of day and the zone.
\<close>

definition civil_of_days :: "int \<Rightarrow> int \<times> int \<times> int" where
  "civil_of_days days =
    (let z = days + 719468; era = z div 146097; doe = z mod 146097;
         yoe = (doe - doe div 1460 + doe div 36524 - doe div 146096) div 365;
         doy = doe - (365 * yoe + yoe div 4 - yoe div 100);
         mp = (5 * doy + 2) div 153;
         d = doy - (153 * mp + 2) div 5 + 1;
         m = (if mp < 10 then mp + 3 else mp - 9);
         y = yoe + era * 400 in
     (if m \<le> 2 then y + 1 else y, m, d))"

definition pad :: "nat \<Rightarrow> int \<Rightarrow> string" where
  "pad w i = (let ds = digits (nat \<bar>i\<bar>) in
     (if i < 0 then ''-'' else '''') @ replicate (w - length ds) (CHR ''0'') @ ds)"

definition zone_suffix :: "int \<Rightarrow> string" where
  "zone_suffix off =
    (if off = 0 then ''Z''
     else (let m = \<bar>off\<bar> div 60 in
       (if off < 0 then ''-'' else ''+'') @ pad 2 (m div 60) @ '':'' @ pad 2 (m mod 60)))"

definition format_RFC3339 :: "int \<Rightarrow> gotime \<Rightarrow> string" where
  "format_RFC3339 off t =
    (let secs = time_Unix t + off; sod = secs mod 86400 in
     case civil_of_days (secs div 86400) of (y, m, d) \<Rightarrow>
       pad 4 y @ ''-'' @ pad 2 m @ ''-'' @ pad 2 d @ ''T'' @
       pad 2 (sod div 3600) @ '':'' @ pad 2 (sod mod 3600 div 60) @ '':'' @ pad 2 (sod mod 60) @
       zone_suffix off)"

section \<open>Maps\<close>

text \<open>
  A \<^verbatim>\<open>map[string]string\<close> (or of bytes) that is only read: the empty string, Go's zero value,
  for a missing key.
\<close>

definition index :: "(string \<rightharpoonup> string) \<Rightarrow> string \<Rightarrow> string" where
  "index m k = (case m k of None \<Rightarrow> '''' | Some v \<Rightarrow> v)"

lemma index_simps [simp]:
  "m k = None \<Longrightarrow> index m k = ''''" "m k = Some v \<Longrightarrow> index m k = v"
  by (simp_all add: index_def)

text \<open>
  A map that may be nil (\<open>None\<close>): reading and deleting treat nil as empty; \<open>map_store\<close> is the
  assignment guarded by \<^verbatim>\<open>if m == nil { m = make(...) }\<close>, so it never panics.
\<close>

type_synonym gomap = "(string \<rightharpoonup> string) option"

definition entries :: "gomap \<Rightarrow> (string \<rightharpoonup> string)" where
  "entries m = (case m of None \<Rightarrow> Map.empty | Some f \<Rightarrow> f)"

definition map_store :: "gomap \<Rightarrow> string \<Rightarrow> string \<Rightarrow> gomap" where
  "map_store m k v = Some ((entries m)(k \<mapsto> v))"

definition map_delete :: "gomap \<Rightarrow> string \<Rightarrow> gomap" where
  "map_delete m k = map_option (\<lambda>f. f(k := None)) m"

lemma entries_simps [simp]:
  "entries None = Map.empty" "entries (Some f) = f"
  "entries (map_store m k v) = (entries m)(k \<mapsto> v)"
  "entries (map_delete m k) = (entries m)(k := None)"
  by (auto simp: entries_def map_store_def map_delete_def split: option.splits)

section \<open>Sorting a slice\<close>

text \<open>
  \<^verbatim>\<open>sort.Slice\<close> permutes the slice so that no element is less than an earlier one; the order of
  elements of which neither is less is not specified, so a sorter is known by this contract alone.
\<close>

locale slice_sorter =
  fixes srt :: "('a \<Rightarrow> 'a \<Rightarrow> bool) \<Rightarrow> 'a list \<Rightarrow> 'a list"
    and key :: "'a \<Rightarrow> 'k::linorder"
  assumes permutes: "mset (srt (\<lambda>a b. key a < key b) xs) = mset xs"
    and ascending: "sorted (map key (srt (\<lambda>a b. key a < key b) xs))"
begin

abbreviation sorted_slice :: "'a list \<Rightarrow> 'a list" where
  "sorted_slice xs \<equiv> srt (\<lambda>a b. key a < key b) xs"

lemma set_sorted: "set (sorted_slice xs) = set xs"
  by (metis permutes set_mset_mset)

lemma length_sorted: "length (sorted_slice xs) = length xs"
  by (metis permutes size_mset)

text \<open>What a prefix of the sorted slice holds is at most what the rest holds.\<close>

lemma prefix_oldest:
  assumes "a \<in> set (take n (sorted_slice xs))" and "b \<in> set (drop n (sorted_slice xs))"
  shows "key a \<le> key b"
proof -
  have "sorted (map key (take n (sorted_slice xs)) @ map key (drop n (sorted_slice xs)))"
    using ascending [of xs] by (simp flip: map_append)
  with assms show ?thesis by (auto simp: sorted_append)
qed

lemma split_mset:
  "mset (take n (sorted_slice xs)) + mset (drop n (sorted_slice xs)) = mset xs"
  by (metis append_take_drop_id mset_append permutes)

end

text \<open>For at most twelve elements the library sorts by insertion.\<close>

fun insert_by :: "('a \<Rightarrow> 'a \<Rightarrow> bool) \<Rightarrow> 'a \<Rightarrow> 'a list \<Rightarrow> 'a list" where
  "insert_by lt x [] = [x]"
| "insert_by lt x (y # ys) = (if lt y x then y # insert_by lt x ys else x # y # ys)"

fun sort_Slice :: "('a \<Rightarrow> 'a \<Rightarrow> bool) \<Rightarrow> 'a list \<Rightarrow> 'a list" where
  "sort_Slice lt [] = []"
| "sort_Slice lt (x # xs) = insert_by lt x (sort_Slice lt xs)"

lemma mset_insert_by: "mset (insert_by lt x ys) = add_mset x (mset ys)"
  by (induction ys) auto

lemma sorted_insert_by:
  "sorted (map key ys) \<Longrightarrow> sorted (map key (insert_by (\<lambda>a b. key a < key b) x ys))"
  for key :: "'a \<Rightarrow> 'k::linorder"
proof (induction ys)
  case (Cons y ys)
  have "set (insert_by (\<lambda>a b. key a < key b) x ys) = insert x (set ys)"
    by (metis mset_insert_by set_mset_add_mset_insert set_mset_mset)
  with Cons show ?case by auto
qed simp

interpretation insertion: slice_sorter sort_Slice key for key :: "'a \<Rightarrow> 'k::linorder"
proof
  fix xs :: "'a list"
  show "mset (sort_Slice (\<lambda>a b. key a < key b) xs) = mset xs"
    by (induction xs) (auto simp: mset_insert_by)
  show "sorted (map key (sort_Slice (\<lambda>a b. key a < key b) xs))"
    by (induction xs) (auto simp: sorted_insert_by)
qed

lemmas [go_simps] = index_def map_store_def map_delete_def

end
