(* ===== verification/ApiTypes.thy ===== *)
theory ApiTypes
  imports GoLib
begin

text \<open>
  The custom resources of \<^verbatim>\<open>api/v1alpha1\<close>: the spec and status of a
  \<^verbatim>\<open>SecretRotationPolicy\<close> and of a \<^verbatim>\<open>RotationRecord\<close>, with the constants of the API and the
  validation that the \<^verbatim>\<open>kubebuilder\<close> markers put into the CRD schema.  Enumerated string types
  are datatypes whose first constructor is the zero value (the empty string); the schema admits
  no other string.  A field name used by several Go structs carries the struct's initials.
\<close>

section \<open>What the resources take from the Kubernetes API packages\<close>

text \<open>Only the fields that the program reads or writes.\<close>

record NamespacedName =
  nn_Name :: string
  nn_Namespace :: string

record ObjectMeta =
  Name :: string
  GenerateName :: string
  Namespace :: string
  Labels :: gomap
  Annotations :: gomap
  Finalizers :: "string list"
  OwnerReferences :: "string list"
  CreationTimestamp :: gotime
  DeletionTimestamp :: "gotime option"

definition empty_meta :: ObjectMeta where
  "empty_meta = \<lparr>Name = '''', GenerateName = '''', Namespace = '''', Labels = None,
     Annotations = None, Finalizers = [], OwnerReferences = [], CreationTimestamp = zero_time,
     DeletionTimestamp = None\<rparr>"

datatype ConditionStatus = ConditionUnset | ConditionTrue | ConditionFalse | ConditionUnknown

record Condition =
  Type :: string
  cond_Status :: ConditionStatus
  Reason :: string
  Message :: string
  LastTransitionTime :: gotime

record ObjectReference =
  or_APIVersion :: string
  or_Kind :: string
  or_Name :: string
  or_Namespace :: string

section \<open>Constants\<close>

definition ConditionReady :: string where
  "ConditionReady = ''Ready''"

definition ConditionScheduled :: string where
  "ConditionScheduled = ''Scheduled''"

definition ConditionProviderHealthy :: string where
  "ConditionProviderHealthy = ''ProviderHealthy''"

definition ConditionDegraded :: string where
  "ConditionDegraded = ''Degraded''"

definition AnnotationRotateNow :: string where
  "AnnotationRotateNow = ''secrets.keysmith.io/rotate''"

definition AnnotationRotateVal :: string where
  "AnnotationRotateVal = ''now''"

definition FinalizerName :: string where
  "FinalizerName = ''secrets.keysmith.io/finalizer''"

definition GroupVersion :: "string \<times> string" where
  "GroupVersion = (''secrets.keysmith.io'', ''v1alpha1'')"

lemmas condition_types =
  ConditionReady_def ConditionScheduled_def ConditionProviderHealthy_def ConditionDegraded_def

section \<open>Spec of a policy\<close>

record SecretReference =
  ref_Name :: string
  ref_Namespace :: string

record ProviderSpec =
  ps_Name :: string
  ConfigRef :: "string option"
  Params :: "string \<rightharpoonup> string"

record KeyMapping =
  ProviderKey :: string
  SecretKey :: string

record RestartTarget =
  rt_Kind :: string
  rt_Name :: string
  rt_Namespace :: string

datatype FailurePolicy = FailurePolicyUnset | FailurePolicyFail | FailurePolicyIgnore

record RotationPolicy =
  HistoryLimit :: "32 word option"
  Suspend :: bool
  rp_FailurePolicy :: FailurePolicy
  RetryLimit :: "32 word option"
  RetryBackoff :: "duration option"

datatype NotificationEvent =
  EventRotationSucceeded | EventRotationFailed | EventRotationSkipped

fun event_name :: "NotificationEvent \<Rightarrow> string" where
  "event_name EventRotationSucceeded = ''RotationSucceeded''"
| "event_name EventRotationFailed = ''RotationFailed''"
| "event_name EventRotationSkipped = ''RotationSkipped''"

record SecretKeySelector =
  sks_Name :: string
  sks_Key :: string

record NotificationSpec =
  URL :: string
  Events :: "NotificationEvent list"
  ns_SecretRef :: "SecretKeySelector option"

record SecretRotationPolicySpec =
  SecretRef :: SecretReference
  Schedule :: string
  RotationWindow :: "duration option"
  Provider :: ProviderSpec
  Keys :: "KeyMapping list"
  RestartTargets :: "RestartTarget list"
  Policy :: RotationPolicy
  Notifications :: "NotificationSpec list"

section \<open>Status of a policy, and the policy\<close>

datatype Phase =
  PhaseUnset | PhasePending | PhaseRotating | PhaseReady | PhaseFailed | PhaseSuspended

record SecretRotationPolicyStatus =
  LastRotationTime :: "gotime option"
  NextRotationTime :: "gotime option"
  srps_Phase :: Phase
  CurrentRetryCount :: "32 word"
  LastRotationRecord :: "ObjectReference option"
  Conditions :: "Condition list"

record SecretRotationPolicy =
  srp_Meta :: ObjectMeta
  srp_Spec :: SecretRotationPolicySpec
  srp_Status :: SecretRotationPolicyStatus

section \<open>Rotation records\<close>

datatype TriggerReason = TriggerUnset | TriggerSchedule | TriggerManual

datatype RecordPhase =
  RecordPhaseUnset | RecordPhasePending | RecordPhaseRunning | RecordPhaseSucceeded
| RecordPhaseFailed

record RotationRecordSpec =
  PolicyRef :: SecretReference
  TriggeredBy :: TriggerReason
  RequestedAt :: gotime

record RotationRecordStatus =
  rrs_Phase :: RecordPhase
  StartTime :: "gotime option"
  CompletionTime :: "gotime option"
  rrs_Duration :: string
  ProviderName :: string
  RotatedKeys :: "string list"
  RestartsTriggered :: "RestartTarget list"
  rrs_Error :: string
  RetryCount :: "32 word"

record RotationRecord =
  rr_Meta :: ObjectMeta
  rr_Spec :: RotationRecordSpec
  rr_Status :: RotationRecordStatus

section \<open>Updates of nested fields\<close>

abbreviation map_status ::
  "(SecretRotationPolicyStatus \<Rightarrow> SecretRotationPolicyStatus) \<Rightarrow>
   SecretRotationPolicy \<Rightarrow> SecretRotationPolicy" where
  "map_status f p \<equiv> p\<lparr>srp_Status := f (srp_Status p)\<rparr>"

abbreviation map_meta ::
  "(ObjectMeta \<Rightarrow> ObjectMeta) \<Rightarrow> SecretRotationPolicy \<Rightarrow> SecretRotationPolicy" where
  "map_meta f p \<equiv> p\<lparr>srp_Meta := f (srp_Meta p)\<rparr>"

abbreviation policy_name :: "SecretRotationPolicy \<Rightarrow> string" where
  "policy_name p \<equiv> Name (srp_Meta p)"

abbreviation policy_namespace :: "SecretRotationPolicy \<Rightarrow> string" where
  "policy_namespace p \<equiv> Namespace (srp_Meta p)"

section \<open>Validation by the CRD schema\<close>

text \<open>
  The pattern of \<^verbatim>\<open>spec.schedule\<close>: one of six descriptors, or five fields of digits, commas,
  hyphens, stars and slashes, each but the last followed by one white-space character.
\<close>

definition pattern_space :: "char \<Rightarrow> bool" where
  "pattern_space c \<longleftrightarrow> (of_char c :: nat) \<in> {9, 10, 12, 13, 32}"

definition pattern_field_char :: "char \<Rightarrow> bool" where
  "pattern_field_char c \<longleftrightarrow> (let n = (of_char c :: nat) in
     48 \<le> n \<and> n \<le> 57 \<or> n = 44 \<or> n = 45 \<or> n = 42 \<or> n = 47)"

fun split_spaces :: "string \<Rightarrow> string list" where
  "split_spaces [] = [[]]"
| "split_spaces (c # cs) =
     (if pattern_space c then [] # split_spaces cs
      else (case split_spaces cs of [] \<Rightarrow> [[c]] | w # ws \<Rightarrow> (c # w) # ws))"

definition schedule_descriptors :: "string list" where
  "schedule_descriptors =
    [''@annually'', ''@yearly'', ''@monthly'', ''@weekly'', ''@daily'', ''@hourly'']"

definition schedule_pattern :: "string \<Rightarrow> bool" where
  "schedule_pattern s \<longleftrightarrow> s \<in> set schedule_descriptors \<or>
     (length (split_spaces s) = 5 \<and>
      list_all (\<lambda>w. w \<noteq> [] \<and> list_all pattern_field_char w) (split_spaces s))"

definition provider_names :: "string list" where
  "provider_names = [''mock'', ''static'', ''aws'', ''vault'']"

definition restart_kinds :: "string list" where
  "restart_kinds = [''Deployment'', ''StatefulSet'', ''DaemonSet'']"

definition limit_at_least :: "int \<Rightarrow> 32 word option \<Rightarrow> bool" where
  "limit_at_least n l \<longleftrightarrow> (case l of None \<Rightarrow> True | Some w \<Rightarrow> n \<le> sint w)"

definition crd_valid :: "SecretRotationPolicySpec \<Rightarrow> bool" where
  "crd_valid sp \<longleftrightarrow>
     schedule_pattern (Schedule sp) \<and>
     ps_Name (Provider sp) \<in> set provider_names \<and>
     Keys sp \<noteq> [] \<and>
     list_all (\<lambda>t. rt_Kind t \<in> set restart_kinds) (RestartTargets sp) \<and>
     limit_at_least 1 (HistoryLimit (Policy sp)) \<and>
     limit_at_least 0 (RetryLimit (Policy sp)) \<and>
     list_all (\<lambda>n. Events n \<noteq> []) (Notifications sp)"

end
