(* ===== verification/Providers.thy ===== *)
theory Providers
  imports ApiTypes
begin

text \<open>
  The provider interface, the registry of providers and the key mapping of
  \<^verbatim>\<open>internal/provider/provider.go\<close>.  An interface value is the record of its methods; the
  methods act on the state \<open>'p\<close> of the provider objects (the counter of the mock, the
  generator behind \<^verbatim>\<open>crypto/rand\<close>).  The context argument of the methods is not kept: no
  provider of the program reads it.
\<close>

named_theorems provider_defs \<open>definitions of the providers' methods\<close>

section \<open>The interface\<close>

type_synonym Secret = "string \<rightharpoonup> string"

type_synonym params = "string \<rightharpoonup> string"

record 'p Provider =
  prov_Name :: string
  FetchSecret :: "params \<Rightarrow> 'p \<Rightarrow> (error + Secret) outcome \<times> 'p"
  RotateSecret :: "params \<Rightarrow> 'p \<Rightarrow> (error + Secret) outcome \<times> 'p"
  Validate :: "params \<Rightarrow> error option"

text \<open>
  What a caller that validates first may rely on: the methods return.  A provider whose back end
  is not there yet is a further contract: every fetch and rotation is an error and leaves the
  state alone.
\<close>

locale provider =
  fixes P :: "'p Provider"
  assumes rotate_returns: "Validate P ps = None \<Longrightarrow> returns (fst (RotateSecret P ps s))"
    and fetch_returns: "Validate P ps = None \<Longrightarrow> returns (fst (FetchSecret P ps s))"
begin

lemma rotate_cases:
  assumes "Validate P ps = None"
  obtains (failed) e s' where "RotateSecret P ps s = (Ret (Inl e), s')"
    | (rotated) sec s' where "RotateSecret P ps s = (Ret (Inr sec), s')"
proof -
  obtain r s' where "RotateSecret P ps s = (Ret r, s')"
    using rotate_returns [OF assms, of s]
    by (cases "RotateSecret P ps s") (auto simp: returns_iff)
  then show thesis using failed rotated by (cases r) auto
qed

end

locale stub_provider = provider +
  fixes rotate_error fetch_error :: error
  assumes rotate_fails: "RotateSecret P ps s = (Ret (Inl rotate_error), s)"
    and fetch_fails: "FetchSecret P ps s = (Ret (Inl fetch_error), s)"
begin

lemma never_rotates: "fst (RotateSecret P ps s) \<noteq> Ret (Inr sec)"
  by (simp add: rotate_fails)

end

section \<open>The registry\<close>

text \<open>
  The map of the registry as the association list of its entries in the order in which
  \<^verbatim>\<open>range\<close> visits them; \<open>registry_ok\<close> says that no name has two entries and that an entry is
  stored under its provider's name.
\<close>

record 'p Registry =
  providers :: "(string \<times> 'p Provider) list"

definition NewRegistry :: "'p Registry" where
  "NewRegistry = \<lparr>providers = []\<rparr>"

definition Register :: "'p Registry \<Rightarrow> 'p Provider \<Rightarrow> 'p Registry outcome" where
  "Register r p =
    (if map_of (providers r) (prov_Name p) \<noteq> None
     then Panic (''provider '' @ Quote (prov_Name p) @ '' already registered'')
     else Ret (r\<lparr>providers := (prov_Name p, p) # providers r\<rparr>))"

definition Names :: "'p Registry \<Rightarrow> string list" where
  "Names r = sort (map fst (providers r))"

definition nameList :: "'p Registry \<Rightarrow> string" where
  "nameList r = strings_Join (Names r) '', ''"

definition Get :: "'p Registry \<Rightarrow> string \<Rightarrow> error + 'p Provider" where
  "Get r name =
    (case map_of (providers r) name of
       None \<Rightarrow> Inl (Errorf (''unknown provider '' @ Quote name @ '' (registered: '' @
                            nameList r @ '')''))
     | Some p \<Rightarrow> Inr p)"

definition registry_ok :: "'p Registry \<Rightarrow> bool" where
  "registry_ok r \<longleftrightarrow> distinct (map fst (providers r)) \<and>
     list_all (\<lambda>(n, p). prov_Name p = n) (providers r)"

text \<open>Several registrations in a row, stopping at the first panic.\<close>

fun register_seq :: "('r \<Rightarrow> 'q \<Rightarrow> 'r outcome) \<Rightarrow> 'r \<Rightarrow> 'q list \<Rightarrow> 'r outcome" where
  "register_seq reg r [] = Ret r"
| "register_seq reg r (p # ps) = bind_outcome (reg r p) (\<lambda>r'. register_seq reg r' ps)"

text \<open>The contract of a registry of named things, and what a client may conclude from it.\<close>

locale name_registry =
  fixes empty :: 'r
    and reg :: "'r \<Rightarrow> 'q \<Rightarrow> 'r outcome"
    and get :: "'r \<Rightarrow> string \<Rightarrow> 'e + 'q"
    and names :: "'r \<Rightarrow> string list"
    and ok :: "'r \<Rightarrow> bool"
    and name_of :: "'q \<Rightarrow> string"
  assumes ok_empty: "ok empty"
    and names_empty: "names empty = []"
    and reg_panics: "ok r \<Longrightarrow> name_of p \<in> set (names r) \<Longrightarrow> \<not> returns (reg r p)"
    and reg_returns: "ok r \<Longrightarrow> name_of p \<notin> set (names r) \<Longrightarrow>
      \<exists>r'. reg r p = Ret r' \<and> ok r' \<and> set (names r') = insert (name_of p) (set (names r)) \<and>
        (\<forall>n q. get r' n = Inr q \<longleftrightarrow> (if n = name_of p then q = p else get r n = Inr q))"
    and get_iff: "ok r \<Longrightarrow> (\<exists>q. get r n = Inr q) \<longleftrightarrow> n \<in> set (names r)"
    and get_name: "ok r \<Longrightarrow> get r n = Inr q \<Longrightarrow> name_of q = n"
begin

lemma seq_returns:
  assumes "ok r" and "distinct (map name_of ps)" and "set (map name_of ps) \<inter> set (names r) = {}"
  shows "\<exists>r'. register_seq reg r ps = Ret r' \<and> ok r' \<and>
    set (names r') = set (map name_of ps) \<union> set (names r) \<and>
    (\<forall>n q. get r' n = Inr q \<longleftrightarrow> (q \<in> set ps \<and> name_of q = n) \<or> get r n = Inr q)"
  using assms
proof (induction ps arbitrary: r)
  case Nil
  then show ?case by simp
next
  case (Cons p ps)
  then obtain r1 where r1: "reg r p = Ret r1" "ok r1"
      "set (names r1) = insert (name_of p) (set (names r))"
      "\<And>n q. get r1 n = Inr q \<longleftrightarrow> (if n = name_of p then q = p else get r n = Inr q)"
    using reg_returns [of r p] by auto
  from Cons.prems r1 obtain r' where r': "register_seq reg r1 ps = Ret r'" "ok r'"
      "set (names r') = set (map name_of ps) \<union> set (names r1)"
      "\<And>n q. get r' n = Inr q \<longleftrightarrow> (q \<in> set ps \<and> name_of q = n) \<or> get r1 n = Inr q"
    using Cons.IH [of r1] by auto
  have "get r (name_of p) \<noteq> Inr q" for q
    using Cons.prems get_iff [of r "name_of p"] by auto
  then have "get r' n = Inr q \<longleftrightarrow> (q \<in> set (p # ps) \<and> name_of q = n) \<or> get r n = Inr q" for n q
    unfolding r'(4) r1(4) by auto
  with r1 r' show ?case by auto
qed

lemma seq_panics:
  assumes "ok r" and "\<not> distinct (map name_of ps) \<or> set (map name_of ps) \<inter> set (names r) \<noteq> {}"
  shows "\<not> returns (register_seq reg r ps)"
  using assms
proof (induction ps arbitrary: r)
  case (Cons p ps)
  show ?case
  proof (cases "name_of p \<in> set (names r)")
    case True
    with reg_panics [OF Cons.prems(1) this] show ?thesis
      by (cases "reg r p") simp_all
  next
    case False
    then obtain r1 where "reg r p = Ret r1" "ok r1"
        "set (names r1) = insert (name_of p) (set (names r))"
      using reg_returns [OF Cons.prems(1)] by blast
    with Cons False show ?thesis by auto
  qed
qed simp

end

section \<open>Key mapping\<close>

fun map_keys_loop :: "Secret \<Rightarrow> KeyMapping list \<Rightarrow> (string \<rightharpoonup> string) \<Rightarrow> error + (string \<rightharpoonup> string)"
  where
  "map_keys_loop secret [] result = Inr result"
| "map_keys_loop secret (m # ms) result =
     (case secret (ProviderKey m) of
        None \<Rightarrow> Inl (Errorf (''provider key '' @ Quote (ProviderKey m) @
                 '' not found in secret (available keys may differ per provider)''))
      | Some val \<Rightarrow> map_keys_loop secret ms (result(SecretKey m \<mapsto> val)))"

definition MapKeys :: "Secret \<Rightarrow> KeyMapping list \<Rightarrow> error + (string \<rightharpoonup> string)" where
  "MapKeys secret mappings = map_keys_loop secret mappings Map.empty"


section \<open>The registry meets its contract\<close>

lemma map_of_entries_name:
  "registry_ok r \<Longrightarrow> map_of (providers r) n = Some p \<Longrightarrow> prov_Name p = n"
  by (auto simp: registry_ok_def list_all_iff dest: map_of_SomeD)

lemma set_Names [simp]: "set (Names r) = fst ` set (providers r)"
  by (simp add: Names_def)

lemma Register_Ret:
  "Register r p = Ret r' \<longleftrightarrow>
     prov_Name p \<notin> set (Names r) \<and> r' = r\<lparr>providers := (prov_Name p, p) # providers r\<rparr>"
  by (auto simp: Register_def map_of_eq_None_iff split: if_splits)

lemma Get_Inr: "Get r n = Inr p \<longleftrightarrow> map_of (providers r) n = Some p"
  by (simp add: Get_def split: option.splits)

interpretation reg: name_registry NewRegistry Register Get Names registry_ok prov_Name
proof
  show "registry_ok NewRegistry" "Names NewRegistry = []"
    by (simp_all add: registry_ok_def NewRegistry_def Names_def)
next
  fix r :: "'p Registry" and p :: "'p Provider" and n
  assume ok: "registry_ok r"
  show "\<not> returns (Register r p)" if "prov_Name p \<in> set (Names r)"
    using that by (auto simp: returns_iff Register_Ret)
  show "\<exists>r'. Register r p = Ret r' \<and> registry_ok r' \<and>
      set (Names r') = insert (prov_Name p) (set (Names r)) \<and>
      (\<forall>n q. Get r' n = Inr q \<longleftrightarrow> (if n = prov_Name p then q = p else Get r n = Inr q))"
    if "prov_Name p \<notin> set (Names r)"
    using that ok by (auto simp: Register_Ret Get_Inr registry_ok_def)
  show "(\<exists>q. Get r n = Inr q) \<longleftrightarrow> n \<in> set (Names r)"
    using map_of_eq_None_iff [of "providers r" n] by (auto simp: Get_Inr)
  show "prov_Name q = n" if "Get r n = Inr q" for q
    using that ok map_of_entries_name by (auto simp: Get_Inr)
qed

lemma Names_sorted_distinct:
  "registry_ok r \<Longrightarrow> sorted (Names r) \<and> distinct (Names r)"
  by (simp add: Names_def registry_ok_def)

text \<open>The order in which \<^verbatim>\<open>range\<close> visits the map does not show in the list of names.\<close>

lemma Names_order_irrelevant:
  "mset (providers r) = mset (providers r') \<Longrightarrow> Names r = Names r'"
  by (simp add: Names_def properties_for_sort mset_map)

section \<open>What key mapping computes\<close>

text \<open>The value that ends up under a secret key: that of the last mapping to the key.\<close>

definition mapped_value :: "Secret \<Rightarrow> KeyMapping list \<Rightarrow> string \<Rightarrow> string option" where
  "mapped_value secret ms k =
    (case find (\<lambda>m. SecretKey m = k) (rev ms) of
       None \<Rightarrow> None
     | Some m \<Rightarrow> secret (ProviderKey m))"

definition missing_key_error :: "KeyMapping \<Rightarrow> error" where
  "missing_key_error m = Errorf (''provider key '' @ Quote (ProviderKey m) @
     '' not found in secret (available keys may differ per provider)'')"

lemma find_append: "find P (xs @ ys) = (case find P xs of None \<Rightarrow> find P ys | Some x \<Rightarrow> Some x)"
  by (induction xs) auto

lemma map_keys_loop_eq:
  "map_keys_loop secret ms result =
    (case find (\<lambda>m. secret (ProviderKey m) = None) ms of
       Some m \<Rightarrow> Inl (missing_key_error m)
     | None \<Rightarrow> Inr (\<lambda>k. case find (\<lambda>m. SecretKey m = k) (rev ms) of
                    None \<Rightarrow> result k
                  | Some m \<Rightarrow> secret (ProviderKey m)))"
proof (induction ms arbitrary: result)
  case Nil
  then show ?case by simp
next
  case (Cons m ms)
  then show ?case
    by (auto simp: missing_key_error_def find_append fun_eq_iff split: option.splits)
qed

section \<open>Properties\<close>

text \<open>
  C34.  Mapping keys is all or nothing: it fails with the first mapping whose
  provider key the secret does not have, and otherwise returns exactly the mapped secret keys, each
  with the provider's value under the last mapping to it.
\<close>

theorem MapKeys_reference:
  "MapKeys secret ms =
    (case find (\<lambda>m. secret (ProviderKey m) = None) ms of
       Some m \<Rightarrow> Inl (missing_key_error m)
     | None \<Rightarrow> Inr (\<lambda>k. case find (\<lambda>m. SecretKey m = k) (rev ms) of
                    None \<Rightarrow> None
                  | Some m \<Rightarrow> secret (ProviderKey m)))"
  unfolding MapKeys_def map_keys_loop_eq ..

text \<open>The keys of the result.\<close>

lemma MapKeys_dom: "MapKeys secret ms = Inr data \<Longrightarrow> dom data = SecretKey ` set ms"
proof -
  have "map_keys_loop secret ms result = Inr data \<Longrightarrow> dom data = SecretKey ` set ms \<union> dom result"
    for result
    by (induction ms arbitrary: result) (auto split: option.splits)
  then show "MapKeys secret ms = Inr data \<Longrightarrow> dom data = SecretKey ` set ms"
    by (fastforce simp: MapKeys_def)
qed

text \<open>
  A sequence of registrations into a fresh registry panics exactly when
  two of the providers have the same name.
\<close>

lemma registrations_return:
  "returns (register_seq Register NewRegistry ps) \<longleftrightarrow> distinct (map prov_Name ps)"
proof
  assume "returns (register_seq Register NewRegistry ps)"
  then show "distinct (map prov_Name ps)"
    using reg.seq_panics [OF reg.ok_empty, of ps] by blast
next
  assume "distinct (map prov_Name ps)"
  then show "returns (register_seq Register NewRegistry ps)"
    using reg.seq_returns [OF reg.ok_empty, of ps]
    by (auto simp: returns_iff reg.names_empty)
qed

text \<open>
  After the registrations the names are listed in ascending order
  without repetition, a name that was registered gives its provider, and any other name gives the
  error that lists the names.
\<close>

lemma lookup_after_registration:
  assumes "register_seq Register NewRegistry ps = Ret r"
  shows "sorted (Names r) \<and> distinct (Names r) \<and> set (Names r) = set (map prov_Name ps) \<and>
    Get r n = (case find (\<lambda>p. prov_Name p = n) ps of
        Some p \<Rightarrow> Inr p
      | None \<Rightarrow> Inl (Errorf (''unknown provider '' @ Quote n @ '' (registered: '' @
                 strings_Join (Names r) '', '' @ '')'')))"
proof -
  have "distinct (map prov_Name ps)"
    using assms reg.seq_panics [OF reg.ok_empty, of ps] by (metis returns_simps(1))
  then obtain "registry_ok r" and names: "set (Names r) = set (map prov_Name ps)"
      and get: "\<And>n q. Get r n = Inr q \<longleftrightarrow> q \<in> set ps \<and> prov_Name q = n"
    using reg.seq_returns [OF reg.ok_empty, of ps] assms reg.get_iff [OF reg.ok_empty]
    by (auto simp: reg.names_empty)
  moreover have "Get r n = Inl (Errorf (''unknown provider '' @ Quote n @ '' (registered: '' @
      strings_Join (Names r) '', '' @ '')''))" if "find (\<lambda>p. prov_Name p = n) ps = None"
  proof -
    have "\<And>q. map_of (providers r) n \<noteq> Some q"
      using that get [unfolded Get_Inr] by (auto simp: find_None_iff)
    then have "map_of (providers r) n = None" by blast
    then show ?thesis by (simp add: Get_def nameList_def)
  qed
  moreover have "Get r n = Inr p" if "find (\<lambda>p. prov_Name p = n) ps = Some p" for p
    using that get by (auto simp: find_Some_iff)
  ultimately have "Get r n = (case find (\<lambda>p. prov_Name p = n) ps of
        Some p \<Rightarrow> Inr p
      | None \<Rightarrow> Inl (Errorf (''unknown provider '' @ Quote n @ '' (registered: '' @
                 strings_Join (Names r) '', '' @ '')'')))"
    by (cases "find (\<lambda>p. prov_Name p = n) ps") simp_all
  with \<open>registry_ok r\<close> names show ?thesis
    by (simp only: Names_sorted_distinct)
qed

end
