(* ===== verification/Scheduler.thy ===== *)
theory Scheduler
  imports GoLib
begin

text \<open>
  The scheduling utilities of \<^verbatim>\<open>internal/rotation\<close>.  The cron library is a parameter: parsing
  an expression with the chosen fields gives an error or a schedule, known by its function
  \<^verbatim>\<open>Next\<close> from an instant to the next activation after it.  Its documentation says that
  \<^verbatim>\<open>Next\<close> is the zero time when no activation can be found.
\<close>

datatype cron_option = Minute | Hour | Dom | Month | Dow | Descriptor

type_synonym cron = "cron_option list \<Rightarrow> string \<Rightarrow> error + (gotime \<Rightarrow> gotime)"

definition standard_parser :: "cron_option list" where
  "standard_parser = [Minute, Hour, Dom, Month, Dow]"

definition NextScheduled :: "cron \<Rightarrow> string \<Rightarrow> gotime \<Rightarrow> gotime \<times> error option" where
  "NextScheduled cron schedule from =
    (case cron standard_parser schedule of
       Inl err \<Rightarrow>
         (zero_time, Some (Wrapf (''invalid cron schedule '' @ Quote schedule @ '': '') err))
     | Inr sched \<Rightarrow> (sched from, None))"

definition IsDue ::
  "cron \<Rightarrow> string \<Rightarrow> gotime option \<Rightarrow> duration \<Rightarrow> gotime \<Rightarrow> error + bool" where
  "IsDue cron schedule lastRotation rotationWindow now =
    (case lastRotation of
       None \<Rightarrow> Inr True
     | Some prev \<Rightarrow>
         (case NextScheduled cron schedule prev of
            (_, Some err) \<Rightarrow> Inl err
          | (next, None) \<Rightarrow>
              (let effectiveNext = time_Add next (neg_duration rotationWindow) in
               Inr (\<not> time_Before now effectiveNext))))"

text \<open>
  \<^verbatim>\<open>time.Until\<close> reads the clock: \<open>wall\<close> is what it reads.  The argument \<open>now\<close> only replaces a
  missing last rotation.
\<close>

definition RequeueDelay ::
  "cron \<Rightarrow> string \<Rightarrow> gotime option \<Rightarrow> duration \<Rightarrow> gotime \<Rightarrow> gotime \<Rightarrow> duration \<Rightarrow> error + duration"
  where
  "RequeueDelay cron schedule lastRotation rotationWindow now wall minDelay =
    (let from = (case lastRotation of Some prev \<Rightarrow> prev | None \<Rightarrow> now) in
     case NextScheduled cron schedule from of
       (_, Some err) \<Rightarrow> Inl err
     | (next, None) \<Rightarrow>
         (let effectiveNext = time_Add next (neg_duration rotationWindow) in
          Inr (max (time_Sub effectiveNext wall) minDelay)))"

section \<open>Facts about due times\<close>

text \<open>The instant from which a policy is due, when its schedule parses.\<close>

definition due_from :: "(gotime \<Rightarrow> gotime) \<Rightarrow> duration \<Rightarrow> gotime \<Rightarrow> gotime" where
  "due_from sched window prev = time_Add (sched prev) (neg_duration window)"

lemma IsDue_never_rotated [simp]: "IsDue cron schedule None window now = Inr True"
  by (simp add: IsDue_def)

lemma IsDue_Some:
  "IsDue cron schedule (Some prev) window now =
    (case cron standard_parser schedule of
       Inl err \<Rightarrow> Inl (Wrapf (''invalid cron schedule '' @ Quote schedule @ '': '') err)
     | Inr sched \<Rightarrow> Inr (due_from sched window prev \<le> now))"
  by (auto simp: IsDue_def NextScheduled_def due_from_def Let_def not_less split: sum.splits)

lemma RequeueDelay_Some:
  "RequeueDelay cron schedule (Some prev) window now wall minDelay =
    (case cron standard_parser schedule of
       Inl err \<Rightarrow> Inl (Wrapf (''invalid cron schedule '' @ Quote schedule @ '': '') err)
     | Inr sched \<Rightarrow> Inr (max (time_Sub (due_from sched window prev) wall) minDelay))"
  by (auto simp: RequeueDelay_def NextScheduled_def due_from_def Let_def split: sum.splits)

lemma due_from_eq:
  "dval window \<noteq> - (2 ^ 63) \<Longrightarrow> due_from sched window prev = sched prev - dval window"
  by (simp add: due_from_def time_Add_def dval_neg)

text \<open>The error of the due check depends on the schedule alone.\<close>

lemma IsDue_error_iff:
  "(\<exists>e. IsDue cron schedule prev window now = Inl e) \<longleftrightarrow>
    prev \<noteq> None \<and> (\<exists>e. cron standard_parser schedule = Inl e)"
  by (cases prev) (auto simp: IsDue_Some split: sum.splits)

lemma RequeueDelay_ok_if_not_due:
  assumes "IsDue cron schedule prev window now = Inr False"
  obtains t sched where "prev = Some t" and "cron standard_parser schedule = Inr sched"
    and "now < due_from sched window t"
    and "\<And>n w m. RequeueDelay cron schedule prev window n w m =
           Inr (max (time_Sub (due_from sched window t) w) m)"
proof (cases prev)
  case None
  with assms show ?thesis by simp
next
  case (Some t)
  with assms obtain sched where "cron standard_parser schedule = Inr sched"
      and "now < due_from sched window t"
    by (auto simp: IsDue_Some split: sum.splits)
  with Some that show ?thesis by (simp add: RequeueDelay_Some)
qed

lemma RequeueDelay_at_least:
  "RequeueDelay cron schedule prev window now wall m = Inr d \<Longrightarrow> m \<le> d"
  by (auto simp: RequeueDelay_def Let_def split: prod.splits option.splits)

section \<open>Properties\<close>

text \<open>A schedule for the examples: every hour on the hour, and nothing else parses.\<close>

definition hour :: int where
  "hour = 3600 * 1000000000"

definition hourly :: cron where
  "hourly opts s =
    (if s = ''0 * * * *'' then Inr (\<lambda>t. (t div hour + 1) * hour)
     else Inl (External ''parse'' ''expected exactly 5 fields''))"

text \<open>
  Once a policy has rotated, it is due exactly from the schedule's next
  activation after the last rotation, less the rotation window, in exact arithmetic: the 64-bit
  negation of the window cannot go wrong unless the window is the smallest duration.
\<close>

lemma due_from_reference:
  assumes "cron standard_parser schedule = Inr sched" and "dval window \<noteq> - (2 ^ 63)"
  shows "IsDue cron schedule (Some prev) window now = Inr (sched prev - dval window \<le> now)"
  using assms by (simp add: IsDue_Some due_from_eq)

text \<open>
  C20.  The requeue delay and the due check agree: a reconcile that comes back after
  the delay (or later) finds the policy due, and when the delay is not the minimum one, any
  reconcile in between does not.  The delay must not be saturated, that is, the next activation is
  less than 292 years away.
\<close>

theorem wake_up_is_due:
  assumes "RequeueDelay cron schedule (Some prev) window now wall m = Inr d"
    and "dval d < 2 ^ 63 - 1"
  shows "(\<forall>t \<ge> time_Add wall d. IsDue cron schedule (Some prev) window t = Inr True) \<and>
    (m < d \<longrightarrow> (\<forall>t < time_Add wall d. IsDue cron schedule (Some prev) window t = Inr False))"
proof -
  from assms(1) obtain sched where parses: "cron standard_parser schedule = Inr sched"
      and d: "d = max (time_Sub (due_from sched window prev) wall) m"
    by (auto simp: RequeueDelay_Some split: sum.splits)
  let ?due = "due_from sched window prev"
  have "?due \<le> time_Add wall d"
    using assms(2) by (auto simp: d time_Add_def dval_max dval_time_Sub saturate64_def)
  moreover have "t < ?due" if "m < d" "t < time_Add wall d" for t
  proof -
    have "d = time_Sub ?due wall" using that(1) d by (auto simp: max_def split: if_splits)
    moreover from this have "d \<noteq> time_Sub ?due wall \<or> saturate64 (?due - wall) < 2 ^ 63 - 1"
      using assms(2) by (simp add: dval_time_Sub)
    moreover have "- (2 ^ 63) < dval d"
      using that(1) dval_bounds(1) [of m] by (simp add: less_duration_def)
    ultimately show ?thesis
      using that(2) by (auto simp: time_Add_def dval_time_Sub saturate64_def)
  qed
  ultimately show ?thesis by (auto simp: IsDue_Some parses not_le)
qed

lemma wake_up_is_due_witness:
  "IsDue hourly ''0 * * * *'' (Some 1) (dur 0) hour = Inr True \<and>
   IsDue hourly ''0 * * * *'' (Some 1) (dur 0) (hour - 1) = Inr False"
proof -
  have v: "dval (dur 0) = 0" "dval (seconds 30) = 30 * 1000000000"
    by (simp_all add: dval_dur in_int64_def)
  have "RequeueDelay hourly ''0 * * * *'' (Some 1) (dur 0) 2 10 (seconds 30) = Inr (dur (hour - 10))"
    using v by (simp add: RequeueDelay_Some hourly_def due_from_eq time_Sub_def saturate64_def
        hour_def max_def less_eq_duration_def dval_dur in_int64_def)
  moreover have "dval (dur (hour - 10)) = hour - 10" by (simp add: dval_dur in_int64_def hour_def)
  ultimately show ?thesis
    using wake_up_is_due [of hourly "''0 * * * *''" 1 "dur 0" 2 10 "seconds 30" "dur (hour - 10)"] v
    by (simp add: time_Add_def hour_def less_duration_def)
qed

text \<open>
  C39.  When the rotation window reaches back over the whole interval to the
  next activation (or the library finds no activation at all and answers the zero time), a rotation
  leaves the policy due again at once and for ever.
\<close>

theorem window_never_rests:
  assumes "cron standard_parser schedule = Inr sched" and "dval window \<noteq> - (2 ^ 63)"
    and "sched prev \<le> prev + dval window" and "prev \<le> now"
  shows "IsDue cron schedule (Some prev) window now = Inr True"
  using assms by (simp add: IsDue_Some due_from_eq)

definition never :: cron where
  "never opts s = Inr (\<lambda>t. zero_time)"

lemma window_never_rests_witness:
  "IsDue never ''0 0 30 2 *'' (Some 1000) (dur 0) 1000 = Inr True"
proof -
  have "dval (dur 0) = 0" by (simp add: dval_dur in_int64_def)
  then show ?thesis
    using window_never_rests [of never "''0 0 30 2 *''" "\<lambda>t. zero_time" "dur 0" 1000 1000]
    by (simp add: never_def zero_time_def)
qed

end
