(* ===== verification/Effects.thy ===== *)
theory Effects
  imports Providers Scheduler "HOL-Library.State_Monad"
begin

text \<open>
  How the controller acts on what lies outside it.  Everything that is not part of the
  repository (the Kubernetes client, the helpers of controller-runtime and apimachinery, the cron
  library, the clock, HTTP) is a field of the record \<open>Ext\<close>, over an arbitrary type \<open>'w\<close> of
  states of the outside world.  The operator's process has a world, the state \<open>'p\<close> of the provider
  objects and a trace: the list of the calls it has made with effect, in order, each with its
  arguments and whether it succeeded.  A handler is a state transformer over the process.
\<close>

named_theorems emits_intro \<open>which events the operations emit\<close>

section \<open>Objects of the Kubernetes API that the controller handles\<close>

record KubeSecret =
  sec_Name :: string
  sec_Namespace :: string
  Data :: gomap
  sec_Labels :: gomap

datatype WorkloadKind = Deployment | StatefulSet | DaemonSet

record Workload =
  wl_Name :: string
  wl_Namespace :: string
  TemplateAnnotations :: gomap

text \<open>The body posted to a webhook.\<close>

record NotificationPayload =
  np_Event :: NotificationEvent
  np_Policy :: string
  np_Namespace :: string
  np_Timestamp :: string
  np_Record :: string
  np_Error :: string

record HTTPRequest =
  req_Method :: string
  req_URL :: string
  req_Header :: "(string \<times> string) list"
  req_Body :: string
  req_Timeout :: duration

section \<open>What lies outside\<close>

text \<open>
  The client's \<^verbatim>\<open>Update\<close>, \<^verbatim>\<open>Create\<close> and status update overwrite the object they are given
  with the server's answer, so they return an object beside the error.
\<close>

record 'w Ext =
  clock :: "'w \<Rightarrow> gotime \<times> 'w"
  zone_offset :: "gotime \<Rightarrow> int"
  parse_cron :: cron
  slice_sort :: "(RotationRecord \<Rightarrow> RotationRecord \<Rightarrow> bool) \<Rightarrow> RotationRecord list \<Rightarrow> RotationRecord list"
  IsNotFound :: "error \<Rightarrow> bool"
  ContainsFinalizer :: "ObjectMeta \<Rightarrow> string \<Rightarrow> bool"
  AddFinalizer :: "ObjectMeta \<Rightarrow> string \<Rightarrow> ObjectMeta"
  RemoveFinalizer :: "ObjectMeta \<Rightarrow> string \<Rightarrow> ObjectMeta"
  SetControllerReference :: "SecretRotationPolicy \<Rightarrow> RotationRecord \<Rightarrow> RotationRecord \<times> error option"
  SetStatusCondition :: "Condition list \<Rightarrow> Condition \<Rightarrow> Condition list"
  GroupVersion_String :: "string \<times> string \<Rightarrow> string"
  get_policy :: "NamespacedName \<Rightarrow> 'w \<Rightarrow> (error + SecretRotationPolicy) \<times> 'w"
  update_policy :: "SecretRotationPolicy \<Rightarrow> 'w \<Rightarrow> (SecretRotationPolicy \<times> error option) \<times> 'w"
  update_policy_status :: "SecretRotationPolicy \<Rightarrow> 'w \<Rightarrow> (SecretRotationPolicy \<times> error option) \<times> 'w"
  create_record :: "RotationRecord \<Rightarrow> 'w \<Rightarrow> (RotationRecord \<times> error option) \<times> 'w"
  update_record_status :: "RotationRecord \<Rightarrow> 'w \<Rightarrow> (RotationRecord \<times> error option) \<times> 'w"
  list_records :: "string \<Rightarrow> (string \<times> string) list \<Rightarrow> 'w \<Rightarrow> (error + RotationRecord list) \<times> 'w"
  delete_record :: "RotationRecord \<Rightarrow> 'w \<Rightarrow> error option \<times> 'w"
  get_secret :: "NamespacedName \<Rightarrow> 'w \<Rightarrow> (error + KubeSecret) \<times> 'w"
  create_or_update_secret ::
    "KubeSecret \<Rightarrow> (KubeSecret \<Rightarrow> KubeSecret) \<Rightarrow> 'w \<Rightarrow> ((gomap \<times> gomap) option \<times> error option) \<times> 'w"
  get_workload :: "WorkloadKind \<Rightarrow> NamespacedName \<Rightarrow> 'w \<Rightarrow> (error + Workload) \<times> 'w"
  update_workload :: "WorkloadKind \<Rightarrow> Workload \<Rightarrow> 'w \<Rightarrow> error option \<times> 'w"
  http_NewRequest :: "string \<Rightarrow> string \<Rightarrow> string \<Rightarrow> error option"
  http_Do :: "HTTPRequest \<Rightarrow> 'w \<Rightarrow> (error + int) \<times> 'w"

text \<open>The key under which the API server has a policy.\<close>

definition policy_key :: "SecretRotationPolicy \<Rightarrow> NamespacedName" where
  "policy_key p = \<lparr>nn_Name = policy_name p, nn_Namespace = policy_namespace p\<rparr>"

lemma policy_key_simps [simp]:
  "policy_key (p\<lparr>srp_Status := st\<rparr>) = policy_key p" "policy_key (map_status f p) = policy_key p"
  "policy_key (p\<lparr>srp_Spec := sp\<rparr>) = policy_key p"
  by (simp_all add: policy_key_def)

section \<open>Events and the process\<close>

text \<open>
  The metric events are the operations on the collectors of \<^verbatim>\<open>internal/metrics\<close>: the counter of
  rotations, the duration histogram, the next-rotation gauge and the decrement of the
  active-policies gauge.  A secret write has the object on which the mutation is called and what the
  mutation makes of it.  \<open>EvNotify\<close> is the start of a goroutine that posts a notification.
\<close>

datatype event =
    EvGetPolicy NamespacedName bool
  | EvUpdatePolicy SecretRotationPolicy bool
  | EvUpdatePolicyStatus SecretRotationPolicy bool
  | EvCreateRecord RotationRecord bool
  | EvUpdateRecordStatus RotationRecord bool
  | EvListRecords string "(string \<times> string) list" bool
  | EvDeleteRecord RotationRecord bool
  | EvGetSecret NamespacedName bool
  | EvPutSecret KubeSecret KubeSecret bool
  | EvGetWorkload WorkloadKind NamespacedName bool
  | EvUpdateWorkload WorkloadKind Workload bool
  | EvRotate string params bool
  | EvRotationsTotal string string string string
  | EvRotationDuration string string string duration
  | EvNextRotationTimestamp string string int
  | EvActivePoliciesDec
  | EvNotify string NotificationPayload
  | EvPost HTTPRequest bool

record ('w, 'p) process =
  world :: 'w
  prov_state :: 'p
  trace :: "event list"

type_synonym ('w, 'p, 'a) prog = "(('w, 'p) process, 'a) state"

definition external :: "('w \<Rightarrow> 'a \<times> 'w) \<Rightarrow> ('a \<Rightarrow> event) \<Rightarrow> ('w, 'p, 'a) prog" where
  "external f ev = State (\<lambda>s. case f (world s) of
     (a, w) \<Rightarrow> (a, s\<lparr>world := w, trace := trace s @ [ev a]\<rparr>))"

definition silent :: "('w \<Rightarrow> 'a \<times> 'w) \<Rightarrow> ('w, 'p, 'a) prog" where
  "silent f = State (\<lambda>s. case f (world s) of (a, w) \<Rightarrow> (a, s\<lparr>world := w\<rparr>))"

definition record_event :: "event \<Rightarrow> ('w, 'p, unit) prog" where
  "record_event e = State (\<lambda>s. ((), s\<lparr>trace := trace s @ [e]\<rparr>))"

definition failed :: "error + 'a \<Rightarrow> bool" where
  "failed r = (case r of Inl _ \<Rightarrow> True | Inr _ \<Rightarrow> False)"

lemma failed_simps [simp]: "failed (Inl e)" "\<not> failed (Inr a)"
  by (simp_all add: failed_def)

section \<open>The calls\<close>

definition Now :: "'w Ext \<Rightarrow> ('w, 'p, gotime) prog" where
  "Now X = silent (clock X)"

definition GetPolicy :: "'w Ext \<Rightarrow> NamespacedName \<Rightarrow> ('w, 'p, error + SecretRotationPolicy) prog" where
  "GetPolicy X key = external (get_policy X key) (\<lambda>r. EvGetPolicy key (\<not> failed r))"

definition UpdatePolicy ::
  "'w Ext \<Rightarrow> SecretRotationPolicy \<Rightarrow> ('w, 'p, SecretRotationPolicy \<times> error option) prog" where
  "UpdatePolicy X p = external (update_policy X p) (\<lambda>r. EvUpdatePolicy p (snd r = None))"

definition UpdatePolicyStatus ::
  "'w Ext \<Rightarrow> SecretRotationPolicy \<Rightarrow> ('w, 'p, SecretRotationPolicy \<times> error option) prog" where
  "UpdatePolicyStatus X p =
     external (update_policy_status X p) (\<lambda>r. EvUpdatePolicyStatus p (snd r = None))"

definition CreateRecord ::
  "'w Ext \<Rightarrow> RotationRecord \<Rightarrow> ('w, 'p, RotationRecord \<times> error option) prog" where
  "CreateRecord X rr = external (create_record X rr) (\<lambda>r. EvCreateRecord rr (snd r = None))"

definition UpdateRecordStatus ::
  "'w Ext \<Rightarrow> RotationRecord \<Rightarrow> ('w, 'p, RotationRecord \<times> error option) prog" where
  "UpdateRecordStatus X rr =
     external (update_record_status X rr) (\<lambda>r. EvUpdateRecordStatus rr (snd r = None))"

definition ListRecords ::
  "'w Ext \<Rightarrow> string \<Rightarrow> (string \<times> string) list \<Rightarrow> ('w, 'p, error + RotationRecord list) prog" where
  "ListRecords X ns labels =
     external (list_records X ns labels) (\<lambda>r. EvListRecords ns labels (\<not> failed r))"

definition DeleteRecord :: "'w Ext \<Rightarrow> RotationRecord \<Rightarrow> ('w, 'p, error option) prog" where
  "DeleteRecord X rr = external (delete_record X rr) (\<lambda>r. EvDeleteRecord rr (r = None))"

definition GetSecret :: "'w Ext \<Rightarrow> NamespacedName \<Rightarrow> ('w, 'p, error + KubeSecret) prog" where
  "GetSecret X key = external (get_secret X key) (\<lambda>r. EvGetSecret key (\<not> failed r))"

text \<open>
  \<^verbatim>\<open>ctrl.CreateOrUpdate\<close> reads the object of that name from the cluster into the local one, calls
  the mutation on it, and creates or updates it.  The answer has the data and labels that were read,
  if there was such an object, beside the error.
\<close>

definition object_read :: "KubeSecret \<Rightarrow> (gomap \<times> gomap) option \<Rightarrow> KubeSecret" where
  "object_read obj found =
    (case found of None \<Rightarrow> obj | Some (dat, labels) \<Rightarrow> obj\<lparr>Data := dat, sec_Labels := labels\<rparr>)"

definition CreateOrUpdateSecret ::
  "'w Ext \<Rightarrow> KubeSecret \<Rightarrow> (KubeSecret \<Rightarrow> KubeSecret) \<Rightarrow> ('w, 'p, error option) prog" where
  "CreateOrUpdateSecret X obj mutate = do {
     (_, err) \<leftarrow> external (create_or_update_secret X obj mutate)
       (\<lambda>(found, err). let old = object_read obj found in EvPutSecret old (mutate old) (err = None));
     State_Monad.return err
   }"

definition GetWorkload ::
  "'w Ext \<Rightarrow> WorkloadKind \<Rightarrow> NamespacedName \<Rightarrow> ('w, 'p, error + Workload) prog" where
  "GetWorkload X kind key =
     external (get_workload X kind key) (\<lambda>r. EvGetWorkload kind key (\<not> failed r))"

definition UpdateWorkload :: "'w Ext \<Rightarrow> WorkloadKind \<Rightarrow> Workload \<Rightarrow> ('w, 'p, error option) prog" where
  "UpdateWorkload X kind obj =
     external (update_workload X kind obj) (\<lambda>r. EvUpdateWorkload kind obj (r = None))"

definition HTTPDo :: "'w Ext \<Rightarrow> HTTPRequest \<Rightarrow> ('w, 'p, error + int) prog" where
  "HTTPDo X req = external (http_Do X req) (\<lambda>r. EvPost req (\<not> failed r))"

text \<open>The provider acts on the state of the provider objects only.\<close>

definition rotated_ok :: "(error + 'a) outcome \<Rightarrow> bool" where
  "rotated_ok r = (case r of Ret (Inr _) \<Rightarrow> True | _ \<Rightarrow> False)"

definition CallRotate :: "'p Provider \<Rightarrow> params \<Rightarrow> ('w, 'p, (error + Secret) outcome) prog" where
  "CallRotate P ps = State (\<lambda>s. case RotateSecret P ps (prov_state s) of
     (r, q) \<Rightarrow> (r, s\<lparr>prov_state := q, trace := trace s @ [EvRotate (prov_Name P) ps (rotated_ok r)]\<rparr>))"

section \<open>Events of a run\<close>

text \<open>
  \<open>events m s\<close> is what running \<open>m\<close> from \<open>s\<close> adds to the trace; \<open>emits m R\<close> says
  that \<open>m\<close> only appends to the trace, and that whatever the outside answers its result and the
  events it appends are related by \<open>R\<close>.
\<close>

definition result :: "('w, 'p, 'a) prog \<Rightarrow> ('w, 'p) process \<Rightarrow> 'a" where
  "result m s = fst (run_state m s)"

definition events :: "('w, 'p, 'a) prog \<Rightarrow> ('w, 'p) process \<Rightarrow> event list" where
  "events m s = drop (length (trace s)) (trace (snd (run_state m s)))"

definition emits :: "('w, 'p, 'a) prog \<Rightarrow> ('a \<Rightarrow> event list \<Rightarrow> bool) \<Rightarrow> bool" where
  "emits m R \<longleftrightarrow> (\<forall>s. \<exists>a t es. run_state m s = (a, t) \<and> trace t = trace s @ es \<and> R a es)"

lemma emitsI:
  "(\<And>s. \<exists>es. trace (snd (run_state m s)) = trace s @ es \<and> R (fst (run_state m s)) es) \<Longrightarrow> emits m R"
  unfolding emits_def by (metis prod.collapse)

lemma emitsD:
  assumes "emits m R"
  shows "R (result m s) (events m s)"
    and "trace (snd (run_state m s)) = trace s @ events m s"
proof -
  from assms obtain a t es where run: "run_state m s = (a, t)" "trace t = trace s @ es" "R a es"
    unfolding emits_def by blast
  then show "R (result m s) (events m s)" "trace (snd (run_state m s)) = trace s @ events m s"
    by (simp_all add: result_def events_def)
qed

lemma emits_weaken: "emits m R \<Longrightarrow> (\<And>a es. R a es \<Longrightarrow> R' a es) \<Longrightarrow> emits m R'"
  unfolding emits_def by fast

lemma emits_conj: "emits m R \<Longrightarrow> emits m R' \<Longrightarrow> emits m (\<lambda>a es. R a es \<and> R' a es)"
  unfolding emits_def by (metis Pair_inject same_append_eq)

lemma emits_return [emits_intro]: "R a [] \<Longrightarrow> emits (State_Monad.return a) R"
  by (rule emitsI) simp

lemma emits_bind [emits_intro]:
  assumes "emits m (\<lambda>a es. emits (f a) (\<lambda>b es'. R b (es @ es')))"
  shows "emits (State_Monad.bind m f) R"
proof (rule emitsI)
  fix s
  from assms obtain a t es where m: "run_state m s = (a, t)" "trace t = trace s @ es"
      "emits (f a) (\<lambda>b es'. R b (es @ es'))"
    unfolding emits_def [of m] by blast
  with emitsD [OF m(3), of t]
  show "\<exists>es. trace (snd (run_state (State_Monad.bind m f) s)) = trace s @ es \<and>
      R (fst (run_state (State_Monad.bind m f) s)) es"
    by (auto simp: result_def)
qed

lemma emits_external: "(\<And>a. R a [ev a]) \<Longrightarrow> emits (external f ev) R"
  by (rule emitsI) (auto simp: external_def split: prod.splits)

lemma emits_silent: "(\<And>a. R a []) \<Longrightarrow> emits (silent f) R"
  by (rule emitsI) (auto simp: silent_def split: prod.splits)

lemma emits_record_event [emits_intro]: "R () [e] \<Longrightarrow> emits (record_event e) R"
  by (rule emitsI) (simp add: record_event_def)

lemma emits_CallRotate [emits_intro]:
  "(\<And>r. R r [EvRotate (prov_Name P) ps (rotated_ok r)]) \<Longrightarrow> emits (CallRotate P ps) R"
  by (rule emitsI) (auto simp: CallRotate_def split: prod.splits)

lemma emits_Now [emits_intro]: "(\<And>t. R t []) \<Longrightarrow> emits (Now X) R"
  unfolding Now_def by (rule emits_silent)

lemma emits_GetPolicy [emits_intro]:
  "(\<And>r. R r [EvGetPolicy key (\<not> failed r)]) \<Longrightarrow> emits (GetPolicy X key) R"
  unfolding GetPolicy_def by (rule emits_external)

lemma emits_UpdatePolicy [emits_intro]:
  "(\<And>q err. R (q, err) [EvUpdatePolicy p (err = None)]) \<Longrightarrow> emits (UpdatePolicy X p) R"
  unfolding UpdatePolicy_def by (rule emits_external) (auto split: prod.splits)

lemma emits_UpdatePolicyStatus [emits_intro]:
  "(\<And>q err. R (q, err) [EvUpdatePolicyStatus p (err = None)]) \<Longrightarrow> emits (UpdatePolicyStatus X p) R"
  unfolding UpdatePolicyStatus_def by (rule emits_external) (auto split: prod.splits)

lemma emits_CreateRecord [emits_intro]:
  "(\<And>q err. R (q, err) [EvCreateRecord rr (err = None)]) \<Longrightarrow> emits (CreateRecord X rr) R"
  unfolding CreateRecord_def by (rule emits_external) (auto split: prod.splits)

lemma emits_UpdateRecordStatus [emits_intro]:
  "(\<And>q err. R (q, err) [EvUpdateRecordStatus rr (err = None)]) \<Longrightarrow> emits (UpdateRecordStatus X rr) R"
  unfolding UpdateRecordStatus_def by (rule emits_external) (auto split: prod.splits)

lemma emits_ListRecords [emits_intro]:
  "(\<And>r. R r [EvListRecords ns labels (\<not> failed r)]) \<Longrightarrow> emits (ListRecords X ns labels) R"
  unfolding ListRecords_def by (rule emits_external)

lemma emits_DeleteRecord [emits_intro]:
  "(\<And>r. R r [EvDeleteRecord rr (r = None)]) \<Longrightarrow> emits (DeleteRecord X rr) R"
  unfolding DeleteRecord_def by (rule emits_external)

lemma emits_GetSecret [emits_intro]:
  "(\<And>r. R r [EvGetSecret key (\<not> failed r)]) \<Longrightarrow> emits (GetSecret X key) R"
  unfolding GetSecret_def by (rule emits_external)

lemma emits_GetWorkload [emits_intro]:
  "(\<And>r. R r [EvGetWorkload kind key (\<not> failed r)]) \<Longrightarrow> emits (GetWorkload X kind key) R"
  unfolding GetWorkload_def by (rule emits_external)

lemma emits_UpdateWorkload [emits_intro]:
  "(\<And>r. R r [EvUpdateWorkload kind obj (r = None)]) \<Longrightarrow> emits (UpdateWorkload X kind obj) R"
  unfolding UpdateWorkload_def by (rule emits_external)

lemma emits_HTTPDo [emits_intro]:
  "(\<And>r. R r [EvPost req (\<not> failed r)]) \<Longrightarrow> emits (HTTPDo X req) R"
  unfolding HTTPDo_def by (rule emits_external)

lemma emits_if [emits_intro]:
  "(c \<Longrightarrow> emits m R) \<Longrightarrow> (\<not> c \<Longrightarrow> emits n R) \<Longrightarrow> emits (if c then m else n) R"
  by simp

lemma emits_case_option [emits_intro]:
  "(x = None \<Longrightarrow> emits m R) \<Longrightarrow> (\<And>y. x = Some y \<Longrightarrow> emits (f y) R) \<Longrightarrow> emits (case_option m f x) R"
  by (cases x) simp_all

lemma emits_case_sum [emits_intro]:
  "(\<And>e. x = Inl e \<Longrightarrow> emits (f e) R) \<Longrightarrow> (\<And>y. x = Inr y \<Longrightarrow> emits (g y) R) \<Longrightarrow> emits (case_sum f g x) R"
  by (cases x) simp_all

lemma emits_case_outcome [emits_intro]:
  "(\<And>y. x = Ret y \<Longrightarrow> emits (f y) R) \<Longrightarrow> (\<And>m. x = Panic m \<Longrightarrow> emits (g m) R) \<Longrightarrow>
   emits (case_outcome f g x) R"
  by (cases x) simp_all

lemma emits_case_prod [emits_intro]:
  "(\<And>a b. x = (a, b) \<Longrightarrow> emits (f a b) R) \<Longrightarrow> emits (case_prod f x) R"
  by (cases x) simp

lemma emits_Let [emits_intro]: "(\<And>y. y = x \<Longrightarrow> emits (f y) R) \<Longrightarrow> emits (Let x f) R"
  by (simp add: Let_def)

lemma emits_CreateOrUpdateSecret [emits_intro]:
  "(\<And>err old. sec_Name old = sec_Name obj \<Longrightarrow> sec_Namespace old = sec_Namespace obj \<Longrightarrow>
      R err [EvPutSecret old (mutate old) (err = None)]) \<Longrightarrow>
   emits (CreateOrUpdateSecret X obj mutate) R"
  unfolding CreateOrUpdateSecret_def
  by (intro emits_bind emits_external emits_case_prod emits_return)
    (auto simp: Let_def object_read_def split: option.splits)

section \<open>Runs from a given process\<close>

text \<open>
  What the outside answers in the state of the world in which it is asked: the rules above forget
  it, the rules here keep it.
\<close>

lemma result_bind: "result (State_Monad.bind m f) s = result (f (result m s)) (snd (run_state m s))"
  by (simp add: result_def split: prod.splits)

lemma events_bind:
  assumes "emits m Q" and "\<And>a. emits (f a) (Q' a)"
  shows "events (State_Monad.bind m f) s =
    events m s @ events (f (result m s)) (snd (run_state m s))"
proof -
  obtain a t where run: "run_state m s = (a, t)" by fastforce
  then obtain es es' where "trace t = trace s @ es" and "trace (snd (run_state (f a) t)) = trace t @ es'"
    using emitsD(2) [OF assms(1), of s] emitsD(2) [OF assms(2) [of a], of t] by simp
  with run show ?thesis by (simp add: events_def result_def)
qed

lemma run_external:
  "result (external f ev) s = fst (f (world s))"
  "events (external f ev) s = [ev (fst (f (world s)))]"
  "snd (run_state (external f ev) s) =
     s\<lparr>world := snd (f (world s)), trace := trace s @ [ev (fst (f (world s)))]\<rparr>"
  by (simp_all add: external_def result_def events_def split: prod.splits)

lemma run_silent:
  "result (silent f) s = fst (f (world s))"
  "events (silent f) s = []"
  "snd (run_state (silent f) s) = s\<lparr>world := snd (f (world s))\<rparr>"
  by (simp_all add: silent_def result_def events_def split: prod.splits)

lemma run_return [simp]:
  "result (State_Monad.return a) s = a" "events (State_Monad.return a) s = []"
  by (simp_all add: result_def events_def)

lemma emits_external_of: "(\<And>w. R (fst (f w)) [ev (fst (f w))]) \<Longrightarrow> emits (external f ev) R"
  by (rule emitsI) (simp add: external_def case_prod_beta)

lemma emits_CallRotate_of:
  "(\<And>q. R (fst (RotateSecret P ps q))
       [EvRotate (prov_Name P) ps (rotated_ok (fst (RotateSecret P ps q)))]) \<Longrightarrow>
   emits (CallRotate P ps) R"
  by (rule emitsI) (simp add: CallRotate_def case_prod_beta)

lemma emits_all: "(\<And>s. R (result m s) (events m s)) \<Longrightarrow> emits m Q \<Longrightarrow> emits m R"
  unfolding emits_def result_def events_def
  by (metis append_eq_conv_conj fst_conv snd_conv)

end
