(* ===== verification/Notifications.thy ===== *)
theory Notifications
  imports Effects
begin

text \<open>
  The webhook notifications of \<^verbatim>\<open>internal/controller/notifications.go\<close>: which endpoints an
  event is dispatched to, the JSON body and the HTTP request.  The \<^verbatim>\<open>go\<close> statement is the event
  \<open>EvNotify\<close>; the body of the goroutine is \<open>deliver_notification\<close>, whose error is only logged.
\<close>

section \<open>Dispatch\<close>

definition notification_url ::
  "'w Ext \<Rightarrow> string \<Rightarrow> NotificationSpec \<Rightarrow> ('w, 'p, string option) prog" where
  "notification_url X ns notif =
    (case ns_SecretRef notif of
       Some sel \<Rightarrow>
         (if URL notif = '''' then do {
            r \<leftarrow> GetSecret X \<lparr>nn_Name = sks_Name sel, nn_Namespace = ns\<rparr>;
            State_Monad.return (case r of
               Inl err \<Rightarrow> None
             | Inr secret \<Rightarrow> Some (index (entries (Data secret)) (sks_Key sel)))
          }
          else State_Monad.return (Some (URL notif)))
     | None \<Rightarrow> State_Monad.return (Some (URL notif)))"

definition dispatch_one ::
  "'w Ext \<Rightarrow> string \<Rightarrow> NotificationEvent \<Rightarrow> NotificationPayload \<Rightarrow> NotificationSpec \<Rightarrow>
   ('w, 'p, unit) prog" where
  "dispatch_one X ns event payload notif =
    (if event \<notin> set (Events notif) then State_Monad.return ()
     else do {
       u \<leftarrow> notification_url X ns notif;
       (case u of
          None \<Rightarrow> State_Monad.return ()
        | Some url \<Rightarrow>
            if url = '''' then State_Monad.return ()
            else record_event (EvNotify url payload))
     })"

fun dispatch_loop ::
  "'w Ext \<Rightarrow> string \<Rightarrow> NotificationEvent \<Rightarrow> NotificationPayload \<Rightarrow> NotificationSpec list \<Rightarrow>
   ('w, 'p, unit) prog" where
  "dispatch_loop X ns event payload [] = State_Monad.return ()"
| "dispatch_loop X ns event payload (n # ns') = do {
     _ \<leftarrow> dispatch_one X ns event payload n;
     dispatch_loop X ns event payload ns'
   }"

definition dispatchNotifications ::
  "'w Ext \<Rightarrow> SecretRotationPolicy \<Rightarrow> NotificationEvent \<Rightarrow> NotificationPayload \<Rightarrow> ('w, 'p, unit) prog"
  where
  "dispatchNotifications X policy event payload =
     dispatch_loop X (policy_namespace policy) event payload (Notifications (srp_Spec policy))"

section \<open>The JSON body\<close>

text \<open>
  Strings as \<^verbatim>\<open>encoding/json\<close> writes them: the HTML characters and the two Unicode line
  separators are escaped too, and a byte that is not part of valid UTF-8 is written as the escape of
  U+FFFD.
\<close>

definition json_u :: "nat \<Rightarrow> string" where
  "json_u n = [CHR 0x5C, CHR ''u'', CHR ''0'', CHR ''0'', hex_char (n div 16), hex_char (n mod 16)]"

definition json_byte :: "char \<Rightarrow> string" where
  "json_byte c =
    (let n = (of_char c :: nat) in
     if n = 34 \<or> n = 92 then [CHR 0x5C, c]
     else if n = 8 then [CHR 0x5C, CHR ''b''] else if n = 12 then [CHR 0x5C, CHR ''f'']
     else if n = 10 then [CHR 0x5C, CHR ''n''] else if n = 13 then [CHR 0x5C, CHR ''r'']
     else if n = 9 then [CHR 0x5C, CHR ''t'']
     else if n < 32 \<or> n = 60 \<or> n = 62 \<or> n = 38 then json_u n
     else [c])"

definition json_rune :: "string \<Rightarrow> string" where
  "json_rune r =
    (if invalid_rune r then [CHR 0x5C] @ ''ufffd''
     else if r = [CHR 0xE2, CHR 0x80, CHR 0xA8] then [CHR 0x5C] @ ''u2028''
     else if r = [CHR 0xE2, CHR 0x80, CHR 0xA9] then [CHR 0x5C] @ ''u2029''
     else concat (map json_byte r))"

definition json_chars :: "string \<Rightarrow> string" where
  "json_chars s = concat (map json_rune (runes s))"

definition json_string :: "string \<Rightarrow> string" where
  "json_string s = CHR 0x22 # json_chars s @ [CHR 0x22]"

definition json_member :: "string \<Rightarrow> string \<Rightarrow> string" where
  "json_member key val = json_string key @ '':'' @ json_string val"

definition payload_members :: "NotificationPayload \<Rightarrow> (string \<times> string) list" where
  "payload_members p =
    [(''event'', event_name (np_Event p)), (''policy'', np_Policy p),
     (''namespace'', np_Namespace p), (''timestamp'', np_Timestamp p)] @
    (if np_Record p = '''' then [] else [(''record'', np_Record p)]) @
    (if np_Error p = '''' then [] else [(''error'', np_Error p)])"

definition json_Marshal :: "NotificationPayload \<Rightarrow> string" where
  "json_Marshal p =
     ''{'' @ strings_Join (map (\<lambda>(k, v). json_member k v) (payload_members p)) '','' @ ''}''"

section \<open>Posting\<close>

definition postNotification ::
  "'w Ext \<Rightarrow> duration \<Rightarrow> string \<Rightarrow> NotificationPayload \<Rightarrow> ('w, 'p, error option) prog" where
  "postNotification X timeout url payload =
    (let body = json_Marshal payload in
     case http_NewRequest X ''POST'' url body of
       Some err \<Rightarrow> State_Monad.return (Some (Wrapf ''creating notification request: '' err))
     | None \<Rightarrow> do {
         resp \<leftarrow> HTTPDo X \<lparr>req_Method = ''POST'', req_URL = url,
                   req_Header = [(''Content-Type'', ''application/json''),
                                 (''User-Agent'', ''keysmith-operator/v1alpha1'')],
                   req_Body = body, req_Timeout = timeout\<rparr>;
         State_Monad.return (case resp of
            Inl err \<Rightarrow> Some (Wrapf (''sending notification to '' @ Quote url @ '': '') err)
          | Inr status \<Rightarrow>
              (if 400 \<le> status
               then Some (Errorf (''notification endpoint '' @ Quote url @ '' returned HTTP '' @
                      Itoa status))
               else None))
       })"

text \<open>The goroutine, whose context has no parent and ends after a time of its own.\<close>

definition notificationTimeout :: duration where
  "notificationTimeout = seconds 10"

definition deliver_notification ::
  "'w Ext \<Rightarrow> string \<Rightarrow> NotificationPayload \<Rightarrow> ('w, 'p, error option) prog" where
  "deliver_notification X url payload = postNotification X notificationTimeout url payload"

section \<open>Reading the body back\<close>

text \<open>A decoder for objects whose members are strings, and what it makes of a body.\<close>

definition hex_value :: "char \<Rightarrow> nat option" where
  "hex_value c = (let n = (of_char c :: nat) in
     if 48 \<le> n \<and> n \<le> 57 then Some (n - 48) else if 97 \<le> n \<and> n \<le> 102 then Some (n - 87) else None)"

definition utf8 :: "nat \<Rightarrow> string" where
  "utf8 n =
    (if n < 128 then [char_of n]
     else if n < 2048 then [char_of (192 + n div 64), char_of (128 + n mod 64)]
     else [char_of (224 + n div 4096), char_of (128 + n div 64 mod 64), char_of (128 + n mod 64)])"

definition unicode_escape :: "char \<Rightarrow> char \<Rightarrow> char \<Rightarrow> char \<Rightarrow> string option" where
  "unicode_escape a b c d =
    (case (hex_value a, hex_value b, hex_value c, hex_value d) of
       (Some i, Some j, Some k, Some l) \<Rightarrow> Some (utf8 (((i * 16 + j) * 16 + k) * 16 + l))
     | _ \<Rightarrow> None)"

definition short_escape :: "char \<Rightarrow> char option" where
  "short_escape e =
    (if e = CHR 0x22 \<or> e = CHR 0x5C then Some e
     else if e = CHR ''b'' then Some (char_of (8 :: nat))
     else if e = CHR ''f'' then Some (char_of (12 :: nat))
     else if e = CHR ''n'' then Some (char_of (10 :: nat))
     else if e = CHR ''r'' then Some (char_of (13 :: nat))
     else if e = CHR ''t'' then Some (char_of (9 :: nat)) else None)"

definition prefixed :: "string \<Rightarrow> (string \<times> string) option \<Rightarrow> (string \<times> string) option" where
  "prefixed bs r = (case r of None \<Rightarrow> None | Some (s, rest) \<Rightarrow> Some (bs @ s, rest))"

fun json_unquote :: "string \<Rightarrow> (string \<times> string) option" where
  "json_unquote [] = None"
| "json_unquote (c # cs) =
    (if c = CHR 0x22 then Some ([], cs)
     else if c \<noteq> CHR 0x5C then prefixed [c] (json_unquote cs)
     else (case cs of
         [] \<Rightarrow> None
       | e # ds \<Rightarrow>
           if e \<noteq> CHR ''u'' then
             (case short_escape e of None \<Rightarrow> None | Some b \<Rightarrow> prefixed [b] (json_unquote ds))
           else (case ds of
               a # b # c' # d # rest \<Rightarrow>
                 (case unicode_escape a b c' d of
                    None \<Rightarrow> None | Some bs \<Rightarrow> prefixed bs (json_unquote rest))
             | _ \<Rightarrow> None)))"

definition json_read_string :: "string \<Rightarrow> (string \<times> string) option" where
  "json_read_string s =
    (case s of [] \<Rightarrow> None | c # cs \<Rightarrow> if c = CHR 0x22 then json_unquote cs else None)"

definition json_read_member :: "string \<Rightarrow> ((string \<times> string) \<times> string) option" where
  "json_read_member s =
    (case json_read_string s of
       Some (k, c # cs) \<Rightarrow>
         if c = CHR '':'' then
           (case json_read_string cs of Some (v, rest) \<Rightarrow> Some ((k, v), rest) | None \<Rightarrow> None)
         else None
     | _ \<Rightarrow> None)"

text \<open>The members up to the closing brace; there are fewer of them than characters.\<close>

fun json_read_members :: "nat \<Rightarrow> string \<Rightarrow> (string \<times> string) list option" where
  "json_read_members 0 s = None"
| "json_read_members (Suc n) s =
    (case json_read_member s of
       Some (m, c # rest) \<Rightarrow>
         if c = CHR ''}'' then (if rest = [] then Some [m] else None)
         else if c = CHR '','' then map_option (Cons m) (json_read_members n rest)
         else None
     | _ \<Rightarrow> None)"

definition json_Unmarshal :: "string \<Rightarrow> (string \<times> string) list option" where
  "json_Unmarshal s =
    (case s of [] \<Rightarrow> None
     | c # cs \<Rightarrow> if c = CHR ''{'' then json_read_members (length cs) cs else None)"

lemma prefixed_simps [simp]:
  "prefixed bs None = None" "prefixed bs (Some (s, rest)) = Some (bs @ s, rest)"
  by (simp_all add: prefixed_def)

lemma hex_value_hex_char [simp]: "d < 16 \<Longrightarrow> hex_value (hex_char d) = Some d"
  by (auto simp: hex_value_def hex_char_def Let_def)

lemma unquote_u: "n < 128 \<Longrightarrow> json_unquote (json_u n @ cs) = prefixed [char_of n] (json_unquote cs)"
proof -
  assume n: "n < 128"
  have "hex_value (CHR ''0'') = Some 0" by (simp add: hex_value_def)
  with n have "unicode_escape (CHR ''0'') (CHR ''0'') (hex_char (n div 16)) (hex_char (n mod 16)) =
      Some [char_of n]"
    by (simp add: unicode_escape_def utf8_def)
  then show ?thesis by (simp add: json_u_def)
qed

lemma unquote_byte: "json_unquote (json_byte c @ cs) = prefixed [c] (json_unquote cs)"
proof -
  define n where "n = (of_char c :: nat)"
  then have cn: "c = char_of n" by simp
  have eqs: "c = CHR 0x22 \<longleftrightarrow> n = 34" "c = CHR 0x5C \<longleftrightarrow> n = 92" "c = CHR ''u'' \<longleftrightarrow> n = 117"
    using of_char_eq_iff [of c "CHR 0x22", where ?'a = nat]
      of_char_eq_iff [of c "CHR 0x5C", where ?'a = nat]
      of_char_eq_iff [of c "CHR ''u''", where ?'a = nat] by (simp_all add: n_def)
  show ?thesis
  proof (cases "n < 32 \<or> n = 60 \<or> n = 62 \<or> n = 38")
    case True
    then have "n < 128" by auto
    from unquote_u [OF this] True show ?thesis
      by (auto simp: json_byte_def Let_def short_escape_def cn simp flip: n_def)
  next
    case False
    then show ?thesis
      by (auto simp: json_byte_def Let_def short_escape_def eqs simp flip: n_def)
  qed
qed

lemma char_of_eqI: "(of_char c :: nat) = n \<Longrightarrow> char_of n = c"
  by auto

lemma unquote_bytes: "json_unquote (concat (map json_byte r) @ cs) = prefixed r (json_unquote cs)"
proof (induction r)
  case Nil
  then show ?case by (cases "json_unquote cs") (auto simp: prefixed_def)
next
  case (Cons c r)
  then show ?case
    by (cases "json_unquote cs") (auto simp: unquote_byte prefixed_def)
qed

lemma unquote_escapes:
  "json_unquote ([CHR 0x5C] @ ''u2028'' @ cs) = prefixed [CHR 0xE2, CHR 0x80, CHR 0xA8] (json_unquote cs)"
  "json_unquote ([CHR 0x5C] @ ''u2029'' @ cs) = prefixed [CHR 0xE2, CHR 0x80, CHR 0xA9] (json_unquote cs)"
  "json_unquote ([CHR 0x5C] @ ''ufffd'' @ cs) = prefixed replacement_rune (json_unquote cs)"
proof -
  have "hex_value (CHR ''2'') = Some 2" "hex_value (CHR ''0'') = Some 0"
      "hex_value (CHR ''8'') = Some 8" "hex_value (CHR ''9'') = Some 9"
      "hex_value (CHR ''f'') = Some 15" "hex_value (CHR ''d'') = Some 13"
    by (simp_all add: hex_value_def)
  moreover have "char_of (226 :: nat) = CHR 0xE2" "char_of (128 :: nat) = CHR 0x80"
      "char_of (168 :: nat) = CHR 0xA8" "char_of (169 :: nat) = CHR 0xA9"
      "char_of (239 :: nat) = CHR 0xEF" "char_of (191 :: nat) = CHR 0xBF"
      "char_of (189 :: nat) = CHR 0xBD"
    by (rule char_of_eqI; simp)+
  ultimately have "unicode_escape (CHR ''2'') (CHR ''0'') (CHR ''2'') (CHR ''8'') =
      Some [CHR 0xE2, CHR 0x80, CHR 0xA8]"
    "unicode_escape (CHR ''2'') (CHR ''0'') (CHR ''2'') (CHR ''9'') =
      Some [CHR 0xE2, CHR 0x80, CHR 0xA9]"
    "unicode_escape (CHR ''f'') (CHR ''f'') (CHR ''f'') (CHR ''d'') = Some replacement_rune"
    by (simp_all add: unicode_escape_def utf8_def replacement_rune_def)
  then show
    "json_unquote ([CHR 0x5C] @ ''u2028'' @ cs) = prefixed [CHR 0xE2, CHR 0x80, CHR 0xA8] (json_unquote cs)"
    "json_unquote ([CHR 0x5C] @ ''u2029'' @ cs) = prefixed [CHR 0xE2, CHR 0x80, CHR 0xA9] (json_unquote cs)"
    "json_unquote ([CHR 0x5C] @ ''ufffd'' @ cs) = prefixed replacement_rune (json_unquote cs)"
    by simp_all
qed

lemma unquote_rune:
  "json_unquote (json_rune r @ cs) =
     prefixed (if invalid_rune r then replacement_rune else r) (json_unquote cs)"
  using unquote_escapes [of cs] unquote_bytes [of r cs]
  by (auto simp: json_rune_def simp del: json_unquote.simps append_Cons append_Nil)

text \<open>What comes back is the string with its invalid bytes replaced.\<close>

lemma unquote_chars: "json_unquote (json_chars s @ CHR 0x22 # rest) = Some (to_valid s, rest)"
proof -
  let ?f = "\<lambda>r. if invalid_rune r then replacement_rune else r"
  have "json_unquote (concat (map json_rune rs) @ CHR 0x22 # rest) = Some (concat (map ?f rs), rest)"
    for rs
    by (induction rs) (simp_all add: unquote_rune del: json_unquote.simps, simp)
  then show ?thesis by (simp add: json_chars_def to_valid_def)
qed

lemma read_string: "json_read_string (json_string s @ rest) = Some (to_valid s, rest)"
  by (simp add: json_read_string_def json_string_def unquote_chars)

lemma read_member: "json_read_member (json_member k v @ rest) = Some ((to_valid k, to_valid v), rest)"
  using read_string [of k "'':'' @ json_string v @ rest"] read_string [of v rest]
  by (simp add: json_read_member_def json_member_def)

abbreviation valid_member :: "string \<times> string \<Rightarrow> string \<times> string" where
  "valid_member \<equiv> map_prod to_valid to_valid"

lemma read_members:
  assumes "ms \<noteq> []" and "length ms \<le> n"
  shows "json_read_members n
    (strings_Join (map (\<lambda>(k, v). json_member k v) ms) '','' @ ''}'') = Some (map valid_member ms)"
  using assms
proof (induction ms arbitrary: n)
  case (Cons m ms)
  then obtain n' where n: "n = Suc n'" by (cases n) auto
  obtain k v where m: "m = (k, v)" by fastforce
  show ?case
  proof (cases ms)
    case Nil
    with n m read_member [of k v "''}''"] show ?thesis by simp
  next
    case (Cons m' ms')
    let ?tail = "strings_Join (map (\<lambda>(k, v). json_member k v) ms) '','' @ ''}''"
    have "strings_Join (map (\<lambda>(k, v). json_member k v) (m # ms)) '','' @ ''}'' =
        json_member k v @ CHR '','' # ?tail"
      using Cons m by simp
    moreover have "json_read_members n' ?tail = Some (map valid_member ms)"
      using Cons.IH [of n'] Cons.prems n Cons by simp
    ultimately show ?thesis
      using n m read_member [of k v "CHR '','' # ?tail"] by simp
  qed
qed simp

text \<open>The payload whose strings have their invalid bytes replaced, and the payloads without any.\<close>

definition sanitize :: "NotificationPayload \<Rightarrow> NotificationPayload" where
  "sanitize p =
    \<lparr>np_Event = np_Event p, np_Policy = to_valid (np_Policy p), np_Namespace = to_valid (np_Namespace p),
     np_Timestamp = to_valid (np_Timestamp p), np_Record = to_valid (np_Record p),
     np_Error = to_valid (np_Error p)\<rparr>"

definition valid_payload :: "NotificationPayload \<Rightarrow> bool" where
  "valid_payload p \<longleftrightarrow> list_all valid_utf8
     [np_Policy p, np_Namespace p, np_Timestamp p, np_Record p, np_Error p]"

lemma to_valid_ascii: "list_all (byte_between 0 127) s \<Longrightarrow> to_valid s = s"
  by (rule to_valid_valid [OF ascii_valid])

lemma payload_members_sanitize: "payload_members (sanitize p) = map valid_member (payload_members p)"
proof -
  have "to_valid (event_name e) = event_name e" for e
    by (rule to_valid_ascii) (cases e; simp add: byte_between_def)
  moreover have "to_valid k = k"
    if "k \<in> {''event'', ''policy'', ''namespace'', ''timestamp'', ''record'', ''error''}" for k
    using that by (intro to_valid_ascii) (auto simp: byte_between_def)
  ultimately show ?thesis by (simp add: payload_members_def sanitize_def)
qed

lemma sanitize_iff: "sanitize p = p \<longleftrightarrow> valid_payload p"
  by (cases p) (simp add: sanitize_def valid_payload_def to_valid_iff)

lemma payload_members_inject: "payload_members p = payload_members q \<longleftrightarrow> p = q"
proof
  have fields: "map_of (payload_members p) ''event'' = Some (event_name (np_Event p))"
      "map_of (payload_members p) ''policy'' = Some (np_Policy p)"
      "map_of (payload_members p) ''namespace'' = Some (np_Namespace p)"
      "map_of (payload_members p) ''timestamp'' = Some (np_Timestamp p)"
      "index (map_of (payload_members p)) ''record'' = np_Record p"
      "index (map_of (payload_members p)) ''error'' = np_Error p" for p
    by (simp_all add: payload_members_def index_def)
  have event: "event_name e = event_name f \<Longrightarrow> e = f" for e f
    by (cases e; cases f) simp_all
  assume "payload_members p = payload_members q"
  with fields [of p] fields [of q] show "p = q"
    by (intro NotificationPayload.equality event) simp_all
qed simp

lemma decode_payload: "json_Unmarshal (json_Marshal p) = Some (payload_members (sanitize p))"
proof -
  let ?ms = "payload_members p"
  have "length ms \<le> length (strings_Join (map (\<lambda>(k, v). json_member k v) ms) sep)" for ms sep
  proof (induction ms)
    case (Cons m ms)
    then show ?case
      by (cases ms) (auto simp: json_member_def json_string_def split: prod.splits)
  qed simp
  from this [of ?ms "'',''"]
  have "json_read_members (length (strings_Join (map (\<lambda>(k, v). json_member k v) ?ms) '','' @ ''}''))
      (strings_Join (map (\<lambda>(k, v). json_member k v) ?ms) '','' @ ''}'') = Some (map valid_member ?ms)"
    by (intro read_members) (auto simp: payload_members_def)
  then show ?thesis by (simp add: json_Unmarshal_def json_Marshal_def payload_members_sanitize)
qed

section \<open>Properties\<close>

text \<open>
  C24.  A decoder reads the members of a payload back from its JSON body, in order
  and whatever the strings hold (quotes, backslashes, control and HTML characters, line separators),
  but for bytes that are not valid UTF-8: each comes back as U+FFFD.  So a payload comes back
  unchanged exactly if its strings are valid UTF-8, and two payloads with the same body agree up to
  such bytes.
\<close>

theorem payload_round_trip:
  "json_Unmarshal (json_Marshal p) = Some (payload_members (sanitize p)) \<and>
   (json_Unmarshal (json_Marshal p) = Some (payload_members p) \<longleftrightarrow> valid_payload p) \<and>
   (json_Marshal p = json_Marshal q \<longrightarrow> sanitize p = sanitize q)"
  by (metis decode_payload option.inject payload_members_inject sanitize_iff)

text \<open>A byte that begins no rune in one payload, and another name in the other.\<close>

definition garbled_payload :: NotificationPayload where
  "garbled_payload =
    \<lparr>np_Event = EventRotationFailed, np_Policy = ''db'', np_Namespace = ''prod'',
     np_Timestamp = ''1970-01-01T01:00:00Z'', np_Record = ''db-1'', np_Error = [CHR 0xFF]\<rparr>"

lemma payload_round_trip_witness:
  "json_Unmarshal (json_Marshal garbled_payload) =
     Some (payload_members (garbled_payload\<lparr>np_Error := replacement_rune\<rparr>)) \<and>
   json_Marshal garbled_payload \<noteq> json_Marshal (garbled_payload\<lparr>np_Policy := ''cache''\<rparr>)"
proof -
  let ?other = "garbled_payload\<lparr>np_Policy := ''cache''\<rparr>"
  have "to_valid s = s" if "s \<in> {''db'', ''prod'', ''1970-01-01T01:00:00Z'', ''db-1'', ''cache''}" for s
    using that by (intro to_valid_ascii) (auto simp: byte_between_def)
  moreover have "to_valid [CHR 0xFF] = replacement_rune"
    by (simp add: to_valid_def runes.simps(2) Let_def rune_width_def byte_between_def invalid_rune_def)
  ultimately have "sanitize garbled_payload = garbled_payload\<lparr>np_Error := replacement_rune\<rparr>"
    "sanitize garbled_payload \<noteq> sanitize ?other"
    by (simp_all add: sanitize_def garbled_payload_def)
  with payload_round_trip [of garbled_payload ?other] show ?thesis by simp
qed

end
