(* ===== verification/Restarts.thy ===== *)
theory Restarts
  imports Effects
begin

text \<open>
  Rolling restarts of the dependent workloads: \<open>triggerRestarts\<close> of
  \<^verbatim>\<open>internal/controller/secretrotationpolicy_controller.go\<close>.
\<close>

definition restartedAt :: string where
  "restartedAt = ''secrets.keysmith.io/restartedAt''"

definition workload_kind :: "string \<Rightarrow> WorkloadKind option" where
  "workload_kind k =
    (if k = ''Deployment'' then Some Deployment
     else if k = ''StatefulSet'' then Some StatefulSet
     else if k = ''DaemonSet'' then Some DaemonSet
     else None)"

text \<open>The namespaced name of a target; an empty namespace is the policy's.\<close>

definition target_key :: "string \<Rightarrow> RestartTarget \<Rightarrow> NamespacedName" where
  "target_key policyNS target =
    \<lparr>nn_Name = rt_Name target,
     nn_Namespace = (if rt_Namespace target = '''' then policyNS else rt_Namespace target)\<rparr>"

definition mark_restarted :: "string \<Rightarrow> Workload \<Rightarrow> Workload" where
  "mark_restarted restartAt obj =
     obj\<lparr>TemplateAnnotations := map_store (TemplateAnnotations obj) restartedAt restartAt\<rparr>"

definition restart_workload ::
  "'w Ext \<Rightarrow> WorkloadKind \<Rightarrow> NamespacedName \<Rightarrow> string \<Rightarrow> ('w, 'p, error option) prog" where
  "restart_workload X kind key restartAt = do {
     r \<leftarrow> GetWorkload X kind key;
     (case r of
        Inl err \<Rightarrow> State_Monad.return (Some err)
      | Inr obj \<Rightarrow> UpdateWorkload X kind (mark_restarted restartAt obj))
   }"

fun restart_loop ::
  "'w Ext \<Rightarrow> string \<Rightarrow> string \<Rightarrow> RestartTarget list \<Rightarrow> RestartTarget list \<Rightarrow>
   ('w, 'p, RestartTarget list) prog" where
  "restart_loop X policyNS restartAt [] restarted = State_Monad.return restarted"
| "restart_loop X policyNS restartAt (target # targets) restarted =
    (case workload_kind (rt_Kind target) of
       None \<Rightarrow> restart_loop X policyNS restartAt targets restarted
     | Some kind \<Rightarrow> do {
         patchErr \<leftarrow> restart_workload X kind (target_key policyNS target) restartAt;
         restart_loop X policyNS restartAt targets
           (if patchErr = None then restarted @ [target] else restarted)
       })"

definition triggerRestarts ::
  "'w Ext \<Rightarrow> SecretRotationPolicy \<Rightarrow> ('w, 'p, RestartTarget list) prog" where
  "triggerRestarts X policy = do {
     t \<leftarrow> Now X;
     restart_loop X (policy_namespace policy) (format_RFC3339 (zone_offset X t) t)
       (RestartTargets (srp_Spec policy)) []
   }"

end
