(* ===== verification/History.thy ===== *)
theory History
  imports Effects
begin

text \<open>
  Pruning of the rotation history: \<open>pruneHistory\<close> of
  \<^verbatim>\<open>internal/controller/secretrotationpolicy_controller.go\<close>.  The number of records is
  compared with the limit as signed 32-bit integers; the loop indexes the sorted slice and panics
  past its end.
\<close>

definition defaultHistoryLimit :: "32 word" where
  "defaultHistoryLimit = 10"

definition history_limit :: "SecretRotationPolicy \<Rightarrow> 32 word" where
  "history_limit policy =
    (case HistoryLimit (Policy (srp_Spec policy)) of
       None \<Rightarrow> defaultHistoryLimit
     | Some l \<Rightarrow> l)"

definition policy_label :: string where
  "policy_label = ''secrets.keysmith.io/policy''"

definition older :: "RotationRecord \<Rightarrow> RotationRecord \<Rightarrow> bool" where
  "older a b \<longleftrightarrow>
     time_Before (CreationTimestamp (rr_Meta a)) (CreationTimestamp (rr_Meta b))"

text \<open>The records at the next \<open>n\<close> indices are deleted, whatever the deletions answer.\<close>

fun delete_loop :: "'w Ext \<Rightarrow> RotationRecord list \<Rightarrow> nat \<Rightarrow> ('w, 'p, unit outcome) prog" where
  "delete_loop X items 0 = State_Monad.return (Ret ())"
| "delete_loop X [] (Suc n) =
     State_Monad.return (Panic ''runtime error: index out of range'')"
| "delete_loop X (item # items) (Suc n) = do {
     _ \<leftarrow> DeleteRecord X item;
     delete_loop X items n
   }"

definition pruneHistory :: "'w Ext \<Rightarrow> SecretRotationPolicy \<Rightarrow> ('w, 'p, unit outcome) prog" where
  "pruneHistory X policy =
    (let limit = history_limit policy in do {
       r \<leftarrow> ListRecords X (policy_namespace policy) [(policy_label, policy_name policy)];
       (case r of
          Inl err \<Rightarrow> State_Monad.return (Ret ())
        | Inr items \<Rightarrow>
            (if sint (word_of_nat (length items) :: 32 word) \<le> sint limit
             then State_Monad.return (Ret ())
             else
               (let sorted_items = slice_sort X older items;
                    toDelete = int (length sorted_items) - sint limit in
                delete_loop X sorted_items (nat toDelete))))
     })"

section \<open>What pruning deletes\<close>

abbreviation creation :: "RotationRecord \<Rightarrow> gotime" where
  "creation rr \<equiv> CreationTimestamp (rr_Meta rr)"

lemma older_eq: "older = (\<lambda>a b. creation a < creation b)"
  by (simp add: fun_eq_iff older_def)

lemma emits_delete_loop_exact:
  "emits (delete_loop X items n) (\<lambda>r es. (returns r \<longleftrightarrow> n \<le> length items) \<and>
     (\<exists>oks. length oks = min n (length items) \<and> es = map2 EvDeleteRecord (take n items) oks))"
proof (induction X items n rule: delete_loop.induct)
  case (1 X items)
  show ?case by (simp add: emits_return)
next
  case (2 X n)
  show ?case by (simp add: emits_return)
next
  case (3 X item items n)
  have one: "\<exists>oks'. length oks' = Suc k \<and>
      EvDeleteRecord item ok # map2 EvDeleteRecord xs oks = map2 EvDeleteRecord (item # xs) oks'"
    if "length oks = k" for k ok xs oks
    using that by (intro exI [of _ "ok # oks"]) simp
  show ?case
    unfolding delete_loop.simps
    by (intro emits_bind emits_DeleteRecord emits_weaken [OF 3]) (auto intro!: one)
qed

text \<open>The deletions from a world whose list request answers \<open>items\<close>.\<close>

lemma pruneHistory_run:
  fixes s :: "('w, 'p) process"
  assumes "list_records X (policy_namespace policy) [(policy_label, policy_name policy)] (world s) =
      (Inr items, w)"
    and "length items < 2 ^ 31" and "sint (history_limit policy) < int (length items)"
    and "length (slice_sort X older items) = length items"
  defines "n \<equiv> nat (int (length items) - sint (history_limit policy))"
  shows "\<exists>oks. (returns (result (pruneHistory X policy) s) \<longleftrightarrow> n \<le> length items) \<and>
    length oks = min n (length items) \<and>
    events (pruneHistory X policy) s =
      EvListRecords (policy_namespace policy) [(policy_label, policy_name policy)] True #
      map2 EvDeleteRecord (take n (slice_sort X older items)) oks"
proof -
  let ?labels = "[(policy_label, policy_name policy)]"
  let ?list = "ListRecords X (policy_namespace policy) ?labels"
  define rest where "rest = (\<lambda>r :: error + RotationRecord list. case r of
      Inl err \<Rightarrow> (State_Monad.return (Ret ()) :: ('w, 'p, unit outcome) prog)
    | Inr items \<Rightarrow>
        (if sint (word_of_nat (length items) :: 32 word) \<le> sint (history_limit policy)
         then State_Monad.return (Ret ())
         else delete_loop X (slice_sort X older items)
           (nat (int (length (slice_sort X older items)) - sint (history_limit policy)))))"
  have prog: "pruneHistory X policy = State_Monad.bind ?list rest"
    unfolding pruneHistory_def rest_def Let_def ..
  have "sint (word_of_nat (length items) :: 32 word) = int (length items)"
    using assms(2) by (simp add: signed_of_nat signed_take_bit_int_eq_self)
  then have delete: "rest (Inr items) = delete_loop X (slice_sort X older items) n"
    using assms(3,4) by (simp add: rest_def n_def)
  have list: "result ?list s = Inr items"
      "events ?list s = [EvListRecords (policy_namespace policy) ?labels True]"
    using assms(1) by (simp_all add: ListRecords_def run_external)
  have silent_rest: "emits (rest r) (\<lambda>_ _. True)" for r
    unfolding rest_def by (intro emits_intro emits_weaken [OF emits_delete_loop_exact]) auto
  have "emits ?list (\<lambda>_ _. True)" by (rule emits_ListRecords) simp
  from events_bind [OF this silent_rest] have
    "events (pruneHistory X policy) s = EvListRecords (policy_namespace policy) ?labels True #
       events (delete_loop X (slice_sort X older items) n) (snd (run_state ?list s))"
    by (simp add: prog list delete)
  moreover have "result (pruneHistory X policy) s =
      result (delete_loop X (slice_sort X older items) n) (snd (run_state ?list s))"
    by (simp add: prog result_bind list delete)
  ultimately show ?thesis
    using emitsD(1) [OF emits_delete_loop_exact [of X "slice_sort X older items" n]] assms(4)
    by fastforce
qed

end
