(* ===== verification/Reconciler.thy ===== *)
theory Reconciler
  imports Notifications Restarts History
begin

text \<open>
  The reconciler of \<^verbatim>\<open>internal/controller/secretrotationpolicy_controller.go\<close>: \<^verbatim>\<open>Reconcile\<close>,
  the rotation it executes, and the handlers for deletion, suspension and errors.  A reconcile
  returns a result and an optional error, or panics with the provider or with the pruning.  Log
  output is not kept.
\<close>

section \<open>Results and constants\<close>

record Result =
  Requeue :: bool
  RequeueAfter :: duration

type_synonym reconciled = "(Result \<times> error option) outcome"

definition no_result :: Result where
  "no_result = \<lparr>Requeue = False, RequeueAfter = dur 0\<rparr>"

definition requeue_after :: "duration \<Rightarrow> Result" where
  "requeue_after d = no_result\<lparr>RequeueAfter := d\<rparr>"

definition minRequeueDelay :: duration where
  "minRequeueDelay = seconds 30"

definition defaultRetryBackoff :: duration where
  "defaultRetryBackoff = seconds 30"

record 'p SecretRotationPolicyReconciler =
  Registry :: "'p Registry"

section \<open>Records of rotations\<close>

definition newRotationRecord ::
  "'w Ext \<Rightarrow> SecretRotationPolicy \<Rightarrow> TriggerReason \<Rightarrow> ('w, 'p, RotationRecord) prog" where
  "newRotationRecord X policy trigger = do {
     now \<leftarrow> Now X;
     State_Monad.return
       \<lparr>rr_Meta = empty_meta\<lparr>GenerateName := policy_name policy @ ''-'',
          Namespace := policy_namespace policy,
          Labels := Some [policy_label \<mapsto> policy_name policy]\<rparr>,
        rr_Spec = \<lparr>PolicyRef = \<lparr>ref_Name = policy_name policy,
                                 ref_Namespace = policy_namespace policy\<rparr>,
                    TriggeredBy = trigger, RequestedAt = now\<rparr>,
        rr_Status = \<lparr>rrs_Phase = RecordPhaseRunning, StartTime = None, CompletionTime = None,
          rrs_Duration = '''', ProviderName = '''', RotatedKeys = [], RestartsTriggered = [],
          rrs_Error = '''', RetryCount = 0\<rparr>\<rparr>
   }"

definition finalized_status ::
  "RecordPhase \<Rightarrow> gotime \<Rightarrow> duration \<Rightarrow> string \<Rightarrow> string list \<Rightarrow> RestartTarget list \<Rightarrow> string \<Rightarrow>
   RotationRecordStatus \<Rightarrow> RotationRecordStatus" where
  "finalized_status phase now duration providerName keys restarted errMsg st =
     st\<lparr>rrs_Phase := phase, CompletionTime := Some now,
        rrs_Duration := duration_String (duration_Round duration (milliseconds 1)),
        ProviderName := providerName, RotatedKeys := keys, RestartsTriggered := restarted,
        rrs_Error := errMsg\<rparr>"

text \<open>The error of the status update is dropped; the record is what the server answers.\<close>

definition finalizeRecord ::
  "'w Ext \<Rightarrow> RotationRecord \<Rightarrow> RecordPhase \<Rightarrow> duration \<Rightarrow> string \<Rightarrow> string list \<Rightarrow>
   RestartTarget list \<Rightarrow> string \<Rightarrow> ('w, 'p, RotationRecord) prog" where
  "finalizeRecord X record0 phase duration providerName keys restarted errMsg = do {
     now \<leftarrow> Now X;
     let record1 = record0\<lparr>rr_Status := finalized_status phase now duration providerName keys
                             restarted errMsg (rr_Status record0)\<rparr>;
     (record2, _) \<leftarrow> UpdateRecordStatus X record1;
     State_Monad.return record2
   }"

section \<open>Conditions\<close>

text \<open>Setting a condition of the policy, with the current time as transition time.\<close>

definition put_condition ::
  "'w Ext \<Rightarrow> string \<Rightarrow> ConditionStatus \<Rightarrow> string \<Rightarrow> string \<Rightarrow> gotime \<Rightarrow> SecretRotationPolicy \<Rightarrow>
   SecretRotationPolicy" where
  "put_condition X type status reason message now policy =
     map_status (\<lambda>st. st\<lparr>Conditions := SetStatusCondition X (Conditions st)
       \<lparr>Type = type, cond_Status = status, Reason = reason, Message = message,
        LastTransitionTime = now\<rparr>\<rparr>) policy"

definition set_condition ::
  "'w Ext \<Rightarrow> string \<Rightarrow> ConditionStatus \<Rightarrow> string \<Rightarrow> string \<Rightarrow> SecretRotationPolicy \<Rightarrow>
   ('w, 'p, SecretRotationPolicy) prog" where
  "set_condition X type status reason message policy = do {
     now \<leftarrow> Now X;
     State_Monad.return (put_condition X type status reason message now policy)
   }"

section \<open>Handlers that only write the status\<close>

definition setSuspended :: "'w Ext \<Rightarrow> SecretRotationPolicy \<Rightarrow> ('w, 'p, reconciled) prog" where
  "setSuspended X policy0 = do {
     let policy1 = map_status (\<lambda>st. st\<lparr>srps_Phase := PhaseSuspended\<rparr>) policy0;
     policy2 \<leftarrow> set_condition X ConditionReady ConditionFalse ''Suspended''
                 ''Rotation is suspended via spec.policy.suspend=true'' policy1;
     (_, err) \<leftarrow> UpdatePolicyStatus X policy2;
     State_Monad.return (Ret (requeue_after (minutes 5), err))
   }"

definition setProviderUnhealthy ::
  "'w Ext \<Rightarrow> SecretRotationPolicy \<Rightarrow> error \<Rightarrow> ('w, 'p, reconciled) prog" where
  "setProviderUnhealthy X policy0 err = do {
     let policy1 = map_status (\<lambda>st. st\<lparr>srps_Phase := PhaseFailed\<rparr>) policy0;
     policy2 \<leftarrow> set_condition X ConditionProviderHealthy ConditionFalse ''ProviderError''
                 (Error err) policy1;
     _ \<leftarrow> UpdatePolicyStatus X policy2;
     State_Monad.return (Ret (requeue_after (minutes 1), None))
   }"

definition markDegraded ::
  "'w Ext \<Rightarrow> SecretRotationPolicy \<Rightarrow> string \<Rightarrow> string \<Rightarrow> ('w, 'p, reconciled) prog" where
  "markDegraded X policy0 reason msg = do {
     policy1 \<leftarrow> set_condition X ConditionDegraded ConditionTrue reason msg policy0;
     _ \<leftarrow> UpdatePolicyStatus X policy1;
     State_Monad.return (Ret (requeue_after (minutes 1), None))
   }"

definition handleDeletion :: "'w Ext \<Rightarrow> SecretRotationPolicy \<Rightarrow> ('w, 'p, reconciled) prog" where
  "handleDeletion X policy =
    (let finish = do {
           _ \<leftarrow> record_event EvActivePoliciesDec;
           State_Monad.return (Ret (no_result, None))
         } in
     if ContainsFinalizer X (srp_Meta policy) FinalizerName then do {
       (_, err) \<leftarrow> UpdatePolicy X (map_meta (\<lambda>m. RemoveFinalizer X m FinalizerName) policy);
       (case err of
          Some e \<Rightarrow> State_Monad.return (Ret (no_result, Some e))
        | None \<Rightarrow> finish)
     }
     else finish)"

section \<open>Executing a rotation\<close>

definition notification_payload ::
  "NotificationEvent \<Rightarrow> SecretRotationPolicy \<Rightarrow> gotime \<Rightarrow> RotationRecord \<Rightarrow> string \<Rightarrow>
   NotificationPayload" where
  "notification_payload event policy now record errMsg =
     \<lparr>np_Event = event, np_Policy = policy_name policy, np_Namespace = policy_namespace policy,
      np_Timestamp = format_RFC3339 0 now, np_Record = Name (rr_Meta record),
      np_Error = errMsg\<rparr>"

text \<open>The provider returned an error: lines 187 to 219.\<close>

definition providerFailed ::
  "'w Ext \<Rightarrow> SecretRotationPolicy \<Rightarrow> 'p Provider \<Rightarrow> RotationRecord \<Rightarrow> duration \<Rightarrow> error \<Rightarrow>
   ('w, 'p, reconciled) prog" where
  "providerFailed X policy0 prov record0 duration provErr = do {
     record1 \<leftarrow> finalizeRecord X record0 RecordPhaseFailed duration (prov_Name prov) [] []
                 (Error provErr);
     let policy1 = map_status (\<lambda>st. st\<lparr>srps_Phase :=
           (if rp_FailurePolicy (Policy (srp_Spec policy0)) = FailurePolicyIgnore
            then PhaseReady else PhaseFailed)\<rparr>) policy0;
     policy2 \<leftarrow> set_condition X ConditionReady ConditionFalse ''RotationFailed'' (Error provErr)
                 policy1;
     (policy3, _) \<leftarrow> UpdatePolicyStatus X policy2;
     now \<leftarrow> Now X;
     _ \<leftarrow> dispatchNotifications X policy3 EventRotationFailed
           (notification_payload EventRotationFailed policy3 now record1 (Error provErr));
     State_Monad.return (Ret (requeue_after
       (case RetryBackoff (Policy (srp_Spec policy3)) of
          None \<Rightarrow> defaultRetryBackoff
        | Some d \<Rightarrow> d), None))
   }"

text \<open>The object named by the policy's secret reference, and what the update makes of it.\<close>

definition target_secret :: "SecretRotationPolicy \<Rightarrow> KubeSecret" where
  "target_secret policy =
    (let ref = SecretRef (srp_Spec policy);
         targetNS = (if ref_Namespace ref \<noteq> '''' then ref_Namespace ref else policy_namespace policy) in
     \<lparr>sec_Name = ref_Name ref, sec_Namespace = targetNS, Data = None, sec_Labels = None\<rparr>)"

definition managed_by_label :: string where
  "managed_by_label = ''secrets.keysmith.io/managed-by''"

definition write_secret :: "SecretRotationPolicy \<Rightarrow> (string \<rightharpoonup> string) \<Rightarrow> KubeSecret \<Rightarrow> KubeSecret"
  where
  "write_secret policy data sec =
     sec\<lparr>Data := Some data,
         sec_Labels := map_store (map_store (sec_Labels sec) managed_by_label ''keysmith'')
                         policy_label (policy_name policy)\<rparr>"

definition record_reference :: "'w Ext \<Rightarrow> RotationRecord \<Rightarrow> ObjectReference" where
  "record_reference X record =
     \<lparr>or_APIVersion = GroupVersion_String X GroupVersion, or_Kind = ''RotationRecord'',
      or_Name = Name (rr_Meta record), or_Namespace = Namespace (rr_Meta record)\<rparr>"

text \<open>The status of the policy after a rotation, without its conditions.\<close>

definition rotated_status ::
  "'w Ext \<Rightarrow> RotationRecord \<Rightarrow> gotime \<Rightarrow> gotime \<Rightarrow> SecretRotationPolicyStatus \<Rightarrow>
   SecretRotationPolicyStatus" where
  "rotated_status X record now next st =
     st\<lparr>LastRotationTime := Some now, srps_Phase := PhaseReady, CurrentRetryCount := 0,
        LastRotationRecord := Some (record_reference X record), NextRotationTime := Some next\<rparr>"

text \<open>The messages of the three conditions set after a rotation.\<close>

definition complete_message :: "duration \<Rightarrow> string \<Rightarrow> string" where
  "complete_message duration name =
     ''Secret rotated successfully in '' @
     duration_String (duration_Round duration (milliseconds 1)) @ '' via '' @ name @ '' provider''"

definition scheduled_message :: "'w Ext \<Rightarrow> gotime \<Rightarrow> string" where
  "scheduled_message X next =
     ''Next rotation scheduled for '' @ format_RFC3339 (zone_offset X next) next"

definition healthy_message :: "string \<Rightarrow> string" where
  "healthy_message name = ''Provider '' @ Quote name @ '' responded successfully''"

text \<open>The secret has been written: lines 252 to 329.\<close>

definition finishRotation ::
  "'w Ext \<Rightarrow> SecretRotationPolicy \<Rightarrow> 'p Provider \<Rightarrow> bool \<Rightarrow> RotationRecord \<Rightarrow> duration \<Rightarrow>
   ('w, 'p, reconciled) prog" where
  "finishRotation X policy0 prov manual record0 duration = do {
     policy1 \<leftarrow> (if manual then do {
         (p, _) \<leftarrow> UpdatePolicy X (map_meta
            (\<lambda>m. m\<lparr>Annotations := map_delete (Annotations m) AnnotationRotateNow\<rparr>) policy0);
         State_Monad.return p
       } else State_Monad.return policy0);
     let rotatedKeys = map SecretKey (Keys (srp_Spec policy1));
     restarted \<leftarrow> triggerRestarts X policy1;
     record1 \<leftarrow> finalizeRecord X record0 RecordPhaseSucceeded duration (prov_Name prov) rotatedKeys
                 restarted '''';
     now \<leftarrow> Now X;
     let next = fst (NextScheduled (parse_cron X) (Schedule (srp_Spec policy1)) now);
     let policy2 = map_status (rotated_status X record1 now next) policy1;
     _ \<leftarrow> record_event (EvNextRotationTimestamp (policy_name policy2) (policy_namespace policy2)
           (time_Unix next));
     policy3 \<leftarrow> set_condition X ConditionReady ConditionTrue ''RotationComplete''
                 (complete_message duration (prov_Name prov)) policy2;
     policy4 \<leftarrow> set_condition X ConditionScheduled ConditionTrue ''NextRotationScheduled''
                 (scheduled_message X next) policy3;
     policy5 \<leftarrow> set_condition X ConditionProviderHealthy ConditionTrue ''ProviderReachable''
                 (healthy_message (prov_Name prov)) policy4;
     (policy6, err) \<leftarrow> UpdatePolicyStatus X policy5;
     (case err of
        Some e \<Rightarrow> State_Monad.return (Ret (no_result, Some (Wrapf ''updating policy status: '' e)))
      | None \<Rightarrow> do {
          pruned \<leftarrow> pruneHistory X policy6;
          (case pruned of
             Panic msg \<Rightarrow> State_Monad.return (Panic msg)
           | Ret _ \<Rightarrow> do {
               t \<leftarrow> Now X;
               _ \<leftarrow> dispatchNotifications X policy6 EventRotationSucceeded
                     (notification_payload EventRotationSucceeded policy6 t record1 '''');
               w \<leftarrow> Now X;
               State_Monad.return (Ret (requeue_after (time_Sub next w), None))
             })
        })
   }"

text \<open>The provider returned a secret: lines 221 to 329.\<close>

definition providerSucceeded ::
  "'w Ext \<Rightarrow> SecretRotationPolicy \<Rightarrow> 'p Provider \<Rightarrow> bool \<Rightarrow> RotationRecord \<Rightarrow> duration \<Rightarrow> Secret \<Rightarrow>
   ('w, 'p, reconciled) prog" where
  "providerSucceeded X policy prov manual record0 duration secret =
    (case MapKeys secret (Keys (srp_Spec policy)) of
       Inl err \<Rightarrow> do {
         _ \<leftarrow> finalizeRecord X record0 RecordPhaseFailed duration (prov_Name prov) [] [] (Error err);
         State_Monad.return (Ret (no_result, Some (Wrapf ''mapping provider keys: '' err)))
       }
     | Inr data \<Rightarrow> do {
         err \<leftarrow> CreateOrUpdateSecret X (target_secret policy) (write_secret policy data);
         (case err of
            Some e \<Rightarrow> do {
              _ \<leftarrow> finalizeRecord X record0 RecordPhaseFailed duration (prov_Name prov) [] []
                    (Error e);
              State_Monad.return (Ret (no_result, Some (Wrapf ''updating kubernetes secret: '' e)))
            }
          | None \<Rightarrow> finishRotation X policy prov manual record0 duration)
       })"

definition executeRotation ::
  "'w Ext \<Rightarrow> SecretRotationPolicy \<Rightarrow> 'p Provider \<Rightarrow> bool \<Rightarrow> ('w, 'p, reconciled) prog" where
  "executeRotation X policy0 prov manual = do {
     start \<leftarrow> Now X;
     (policy1, _) \<leftarrow> UpdatePolicyStatus X
       (map_status (\<lambda>st. st\<lparr>srps_Phase := PhaseRotating\<rparr>) policy0);
     let trigger = (if manual then TriggerManual else TriggerSchedule);
     record0 \<leftarrow> newRotationRecord X policy1 trigger;
     (case SetControllerReference X policy1 record0 of
        (record1, Some err) \<Rightarrow> State_Monad.return (Ret (no_result,
           Some (Wrapf ''setting owner reference on RotationRecord: '' err)))
      | (record1, None) \<Rightarrow> do {
          (record2, _) \<leftarrow> CreateRecord X record1;
          rotated \<leftarrow> CallRotate prov (Params (Provider (srp_Spec policy1)));
          (case rotated of
             Panic msg \<Rightarrow> State_Monad.return (Panic msg)
           | Ret res \<Rightarrow> do {
               t \<leftarrow> Now X;
               let duration = time_Sub t start;
               let outcome = (if failed res then ''failure'' else ''success'');
               _ \<leftarrow> record_event (EvRotationsTotal (policy_name policy1) (policy_namespace policy1)
                     (prov_Name prov) outcome);
               _ \<leftarrow> record_event (EvRotationDuration (policy_name policy1)
                     (policy_namespace policy1) (prov_Name prov) duration);
               (case res of
                  Inl provErr \<Rightarrow> providerFailed X policy1 prov record2 duration provErr
                | Inr secret \<Rightarrow> providerSucceeded X policy1 prov manual record2 duration secret)
             })
        })
   }"

section \<open>The reconcile loop\<close>

definition manual_requested :: "SecretRotationPolicy \<Rightarrow> bool" where
  "manual_requested policy \<longleftrightarrow>
     index (entries (Annotations (srp_Meta policy))) AnnotationRotateNow = AnnotationRotateVal"

definition rotation_window :: "SecretRotationPolicy \<Rightarrow> duration" where
  "rotation_window policy =
    (case RotationWindow (srp_Spec policy) of None \<Rightarrow> dur 0 | Some d \<Rightarrow> d)"

definition being_deleted :: "SecretRotationPolicy \<Rightarrow> bool" where
  "being_deleted policy \<longleftrightarrow>
    (case DeletionTimestamp (srp_Meta policy) of None \<Rightarrow> False | Some t \<Rightarrow> t \<noteq> zero_time)"

text \<open>Not due: publish the next rotation time and requeue (lines 125 to 142).\<close>

definition requeueNotDue :: "'w Ext \<Rightarrow> SecretRotationPolicy \<Rightarrow> ('w, 'p, reconciled) prog" where
  "requeueNotDue X policy =
    (let schedule = Schedule (srp_Spec policy);
         lastRotation = LastRotationTime (srp_Status policy) in do {
       now \<leftarrow> Now X;
       wall \<leftarrow> Now X;
       (case RequeueDelay (parse_cron X) schedule lastRotation (rotation_window policy) now wall
               minRequeueDelay of
          Inl err \<Rightarrow> markDegraded X policy ''InvalidSchedule'' (Error err)
        | Inr delay \<Rightarrow> do {
            _ \<leftarrow> (case lastRotation of
                   None \<Rightarrow> State_Monad.return ()
                 | Some t \<Rightarrow>
                     (case NextScheduled (parse_cron X) schedule t of
                        (next, None) \<Rightarrow> do {
                          _ \<leftarrow> UpdatePolicyStatus X
                                (map_status (\<lambda>st. st\<lparr>NextRotationTime := Some next\<rparr>) policy);
                          State_Monad.return ()
                        }
                      | (_, Some _) \<Rightarrow> State_Monad.return ()));
            State_Monad.return (Ret (requeue_after delay, None))
          })
     })"

text \<open>The checks on the provider and the schedule, and the rotation (lines 97 to 144).\<close>

definition reconcileActive ::
  "'w Ext \<Rightarrow> 'p Registry \<Rightarrow> SecretRotationPolicy \<Rightarrow> ('w, 'p, reconciled) prog" where
  "reconcileActive X registry policy =
    (case Get registry (ps_Name (Provider (srp_Spec policy))) of
       Inl err \<Rightarrow> setProviderUnhealthy X policy err
     | Inr prov \<Rightarrow>
         (case Validate prov (Params (Provider (srp_Spec policy))) of
            Some err \<Rightarrow> setProviderUnhealthy X policy (Wrapf ''provider validation: '' err)
          | None \<Rightarrow>
              (let manual = manual_requested policy in do {
                 now \<leftarrow> Now X;
                 (case IsDue (parse_cron X) (Schedule (srp_Spec policy))
                         (LastRotationTime (srp_Status policy)) (rotation_window policy) now of
                    Inl err \<Rightarrow> markDegraded X policy ''InvalidSchedule'' (Error err)
                  | Inr due \<Rightarrow>
                      if \<not> due \<and> \<not> manual then requeueNotDue X policy
                      else executeRotation X policy prov manual)
               })))"

text \<open>The checks on the fetched policy (lines 77 to 95).\<close>

definition reconcilePolicy ::
  "'w Ext \<Rightarrow> 'p Registry \<Rightarrow> SecretRotationPolicy \<Rightarrow> ('w, 'p, reconciled) prog" where
  "reconcilePolicy X registry policy =
    (if being_deleted policy then handleDeletion X policy
     else if \<not> ContainsFinalizer X (srp_Meta policy) FinalizerName then do {
       (_, err) \<leftarrow> UpdatePolicy X (map_meta (\<lambda>m. AddFinalizer X m FinalizerName) policy);
       State_Monad.return (case err of
          Some e \<Rightarrow> Ret (no_result, Some (Wrapf ''adding finalizer: '' e))
        | None \<Rightarrow> Ret (no_result\<lparr>Requeue := True\<rparr>, None))
     }
     else if Suspend (Policy (srp_Spec policy)) then setSuspended X policy
     else reconcileActive X registry policy)"

definition Reconcile ::
  "'w Ext \<Rightarrow> 'p SecretRotationPolicyReconciler \<Rightarrow> NamespacedName \<Rightarrow> ('w, 'p, reconciled) prog"
  where
  "Reconcile X r req = do {
     fetched \<leftarrow> GetPolicy X req;
     (case fetched of
        Inl err \<Rightarrow> State_Monad.return
          (if IsNotFound X err then Ret (no_result, None)
           else Ret (no_result, Some (Wrapf ''fetching SecretRotationPolicy: '' err)))
      | Inr policy \<Rightarrow> reconcilePolicy X (Registry r) policy)
   }"


section \<open>What the conditions leave alone\<close>

lemma put_condition_simps [simp]:
  "srp_Meta (put_condition X type status reason msg now p) = srp_Meta p"
  "srp_Spec (put_condition X type status reason msg now p) = srp_Spec p"
  "srps_Phase (srp_Status (put_condition X type status reason msg now p)) =
     srps_Phase (srp_Status p)"
  "LastRotationTime (srp_Status (put_condition X type status reason msg now p)) =
     LastRotationTime (srp_Status p)"
  "NextRotationTime (srp_Status (put_condition X type status reason msg now p)) =
     NextRotationTime (srp_Status p)"
  "LastRotationRecord (srp_Status (put_condition X type status reason msg now p)) =
     LastRotationRecord (srp_Status p)"
  "CurrentRetryCount (srp_Status (put_condition X type status reason msg now p)) =
     CurrentRetryCount (srp_Status p)"
  "Conditions (srp_Status (put_condition X type status reason msg now p)) =
     SetStatusCondition X (Conditions (srp_Status p))
       \<lparr>Type = type, cond_Status = status, Reason = reason, Message = msg,
        LastTransitionTime = now\<rparr>"
  by (simp_all add: put_condition_def)

lemma rotated_status_simps [simp]:
  "srps_Phase (rotated_status X rr now next st) = PhaseReady"
  "LastRotationTime (rotated_status X rr now next st) = Some now"
  "NextRotationTime (rotated_status X rr now next st) = Some next"
  "CurrentRetryCount (rotated_status X rr now next st) = 0"
  "LastRotationRecord (rotated_status X rr now next st) = Some (record_reference X rr)"
  "Conditions (rotated_status X rr now next st) = Conditions st"
  by (simp_all add: rotated_status_def)

end
