(* ===== verification/Webhook.thy ===== *)
theory Webhook
  imports ApiTypes Scheduler
begin

text \<open>
  The admission webhooks of \<^verbatim>\<open>internal/webhook\<close>: defaulting and validation of a policy.  The
  validating methods return no warnings and an optional error.
\<close>

section \<open>Defaulting\<close>

definition Default :: "SecretRotationPolicy \<Rightarrow> SecretRotationPolicy" where
  "Default srp =
    (let pol = Policy (srp_Spec srp);
         pol1 = (if HistoryLimit pol = None then pol\<lparr>HistoryLimit := Some 10\<rparr> else pol);
         pol2 = (if rp_FailurePolicy pol1 = FailurePolicyUnset
                 then pol1\<lparr>rp_FailurePolicy := FailurePolicyFail\<rparr> else pol1) in
     srp\<lparr>srp_Spec := (srp_Spec srp)\<lparr>Policy := pol2\<rparr>\<rparr>)"

section \<open>Validation\<close>

definition validate :: "cron \<Rightarrow> SecretRotationPolicy \<Rightarrow> error option" where
  "validate cron srp =
    (let sp = srp_Spec srp in
     case cron [Minute, Hour, Dom, Month, Dow] (Schedule sp) of
       Inl err \<Rightarrow> Some (Wrapf (''spec.schedule '' @ Quote (Schedule sp) @
                    '' is not a valid cron expression: '') err)
     | Inr _ \<Rightarrow>
         if ref_Name (SecretRef sp) = '''' then Some (Errorf ''spec.secretRef.name is required'')
         else if Keys sp = [] then Some (Errorf ''spec.keys must contain at least one entry'')
         else None)"

definition ValidateCreate :: "cron \<Rightarrow> SecretRotationPolicy \<Rightarrow> error option" where
  "ValidateCreate cron srp = validate cron srp"

definition ValidateUpdate ::
  "cron \<Rightarrow> SecretRotationPolicy \<Rightarrow> SecretRotationPolicy \<Rightarrow> error option" where
  "ValidateUpdate cron oldSRP newSRP = validate cron newSRP"

definition ValidateDelete :: "SecretRotationPolicy \<Rightarrow> error option" where
  "ValidateDelete srp = None"

section \<open>Facts\<close>

lemma validate_None_iff:
  "validate cron srp = None \<longleftrightarrow>
    (\<exists>sched. cron standard_parser (Schedule (srp_Spec srp)) = Inr sched) \<and>
    ref_Name (SecretRef (srp_Spec srp)) \<noteq> '''' \<and> Keys (srp_Spec srp) \<noteq> []"
  by (auto simp: validate_def standard_parser_def Let_def split: sum.splits)

lemma Default_fields:
  "HistoryLimit (Policy (srp_Spec (Default srp))) =
     (case HistoryLimit (Policy (srp_Spec srp)) of None \<Rightarrow> Some 10 | Some l \<Rightarrow> Some l)"
  "rp_FailurePolicy (Policy (srp_Spec (Default srp))) =
     (if rp_FailurePolicy (Policy (srp_Spec srp)) = FailurePolicyUnset then FailurePolicyFail
      else rp_FailurePolicy (Policy (srp_Spec srp)))"
  "Schedule (srp_Spec (Default srp)) = Schedule (srp_Spec srp)"
  "SecretRef (srp_Spec (Default srp)) = SecretRef (srp_Spec srp)"
  "Keys (srp_Spec (Default srp)) = Keys (srp_Spec srp)"
  "Provider (srp_Spec (Default srp)) = Provider (srp_Spec srp)"
  "RestartTargets (srp_Spec (Default srp)) = RestartTargets (srp_Spec srp)"
  "Notifications (srp_Spec (Default srp)) = Notifications (srp_Spec srp)"
  "RetryLimit (Policy (srp_Spec (Default srp))) = RetryLimit (Policy (srp_Spec srp))"
  by (auto simp: Default_def Let_def split: option.splits)

text \<open>
  Defaulting sets the history limit and the failure policy where they are
  missing and nothing else: it is idempotent, keeps what is set, and neither the webhook's nor the
  schema's verdict changes.
\<close>

lemma Default_admits:
  "Default (Default srp) = Default srp \<and>
   validate cron (Default srp) = validate cron srp \<and>
   crd_valid (srp_Spec (Default srp)) = crd_valid (srp_Spec srp) \<and>
   HistoryLimit (Policy (srp_Spec (Default srp))) =
     (case HistoryLimit (Policy (srp_Spec srp)) of None \<Rightarrow> Some 10 | Some l \<Rightarrow> Some l) \<and>
   rp_FailurePolicy (Policy (srp_Spec (Default srp))) \<noteq> FailurePolicyUnset"
proof -
  have "validate cron (Default srp) = validate cron srp"
    unfolding validate_def Let_def Default_fields ..
  moreover have "crd_valid (srp_Spec (Default srp)) = crd_valid (srp_Spec srp)"
    unfolding crd_valid_def Default_fields
    by (auto simp: limit_at_least_def split: option.splits)
  moreover have "Default (Default srp) = Default srp"
    by (simp add: Default_def Let_def)
  ultimately show ?thesis by (simp add: Default_fields)
qed

section \<open>Properties\<close>

text \<open>
  C31.  The webhook and the scheduler agree on the schedules: for an
  admitted policy neither the due check, nor the requeue delay, nor the next activation ever
  returns an error.
\<close>

theorem admitted_schedule_never_fails:
  assumes "ValidateCreate cron srp = None \<or> ValidateUpdate cron old srp = None"
  shows "(\<exists>b. IsDue cron (Schedule (srp_Spec srp)) prev window now = Inr b) \<and>
    (\<exists>d. RequeueDelay cron (Schedule (srp_Spec srp)) prev window now wall m = Inr d) \<and>
    snd (NextScheduled cron (Schedule (srp_Spec srp)) from) = None"
proof -
  obtain sched where "cron standard_parser (Schedule (srp_Spec srp)) = Inr sched"
    using assms by (auto simp: ValidateCreate_def ValidateUpdate_def validate_None_iff)
  then show ?thesis
    by (cases prev) (auto simp: IsDue_Some RequeueDelay_def NextScheduled_def Let_def)
qed

definition example_policy :: SecretRotationPolicy where
  "example_policy =
    \<lparr>srp_Meta = empty_meta\<lparr>Name := ''db'', Namespace := ''prod'',
       Finalizers := [FinalizerName]\<rparr>,
     srp_Spec = \<lparr>SecretRef = \<lparr>ref_Name = ''db-credentials'', ref_Namespace = ''''\<rparr>,
       Schedule = ''0 * * * *'', RotationWindow = None,
       Provider = \<lparr>ps_Name = ''mock'', ConfigRef = None, Params = Map.empty\<rparr>,
       Keys = [\<lparr>ProviderKey = ''password'', SecretKey = ''DB_PASSWORD''\<rparr>],
       RestartTargets = [\<lparr>rt_Kind = ''Deployment'', rt_Name = ''web'', rt_Namespace = ''''\<rparr>],
       Policy = \<lparr>HistoryLimit = Some 1, Suspend = False, rp_FailurePolicy = FailurePolicyFail,
         RetryLimit = None, RetryBackoff = None\<rparr>,
       Notifications = [\<lparr>URL = ''https://hooks.example.com/x'',
         Events = [EventRotationSucceeded, EventRotationFailed], ns_SecretRef = None\<rparr>]\<rparr>,
     srp_Status = \<lparr>LastRotationTime = None, NextRotationTime = None, srps_Phase = PhaseUnset,
       CurrentRetryCount = 0, LastRotationRecord = None, Conditions = []\<rparr>\<rparr>"

lemma admitted_schedule_never_fails_witness:
  "\<exists>b. IsDue hourly ''0 * * * *'' (Some 1) (dur 0) 7 = Inr b"
  using admitted_schedule_never_fails
    [of hourly example_policy example_policy "Some 1" "dur 0" 7 7 "dur 0" 7]
  by (simp add: ValidateCreate_def validate_def example_policy_def hourly_def)

end
