(* ===== verification/Cluster.thy ===== *)
theory Cluster
  imports Reconciler Webhook
begin

text \<open>
  An API server in memory, with a clock that ticks at every reading, that has the policies, the
  records, the secrets and the requests posted so far, and in which every workload exists.  It
  shows that what the properties assume of the outside can hold, and it runs the controller on
  concrete policies.  It models no code of the repository.
\<close>

record cluster =
  cl_now :: gotime
  cl_policies :: "NamespacedName \<rightharpoonup> SecretRotationPolicy"
  cl_records :: "RotationRecord list"
  cl_secrets :: "KubeSecret list"
  cl_posted :: "HTTPRequest list"

definition not_found :: error where
  "not_found = External ''NotFound'' ''not found''"

definition same_object :: "ObjectMeta \<Rightarrow> ObjectMeta \<Rightarrow> bool" where
  "same_object a b \<longleftrightarrow> Name a = Name b \<and> Namespace a = Namespace b"

fun set_condition_in :: "Condition list \<Rightarrow> Condition \<Rightarrow> Condition list" where
  "set_condition_in [] c = [c]"
| "set_condition_in (d # ds) c =
     (if Type d = Type c
      then (if cond_Status d = cond_Status c
            then c\<lparr>LastTransitionTime := LastTransitionTime d\<rparr> else c) # ds
      else d # set_condition_in ds c)"

text \<open>Every policy is stored under its own key.\<close>

definition cluster_policies :: "cluster \<Rightarrow> NamespacedName \<rightharpoonup> SecretRotationPolicy" where
  "cluster_policies c key =
    (case cl_policies c key of
       None \<Rightarrow> None
     | Some p \<Rightarrow> if policy_key p = key then Some p else None)"

definition cluster_get :: "NamespacedName \<Rightarrow> cluster \<Rightarrow> (error + SecretRotationPolicy) \<times> cluster"
  where
  "cluster_get key c =
    (case cluster_policies c key of None \<Rightarrow> (Inl not_found, c) | Some p \<Rightarrow> (Inr p, c))"

text \<open>
  An update leaves the status alone, a status update everything else.  A policy under deletion goes
  with its last finalizer.
\<close>

definition cluster_update ::
  "SecretRotationPolicy \<Rightarrow> cluster \<Rightarrow> (SecretRotationPolicy \<times> error option) \<times> cluster" where
  "cluster_update p c =
    (case cluster_policies c (policy_key p) of
       None \<Rightarrow> ((p, Some not_found), c)
     | Some q \<Rightarrow> (let p' = p\<lparr>srp_Status := srp_Status q\<rparr> in
         ((p', None), c\<lparr>cl_policies := (cl_policies c)(policy_key p :=
            (if being_deleted p \<and> Finalizers (srp_Meta p) = [] then None else Some p'))\<rparr>)))"

definition cluster_update_status ::
  "SecretRotationPolicy \<Rightarrow> cluster \<Rightarrow> (SecretRotationPolicy \<times> error option) \<times> cluster" where
  "cluster_update_status p c =
    (case cluster_policies c (policy_key p) of
       None \<Rightarrow> ((p, Some not_found), c)
     | Some q \<Rightarrow> ((p, None), c\<lparr>cl_policies :=
         (cl_policies c)(policy_key p \<mapsto> q\<lparr>srp_Status := srp_Status p\<rparr>)\<rparr>))"

definition cluster_create ::
  "RotationRecord \<Rightarrow> cluster \<Rightarrow> (RotationRecord \<times> error option) \<times> cluster" where
  "cluster_create rr c =
    (let m = rr_Meta rr;
         rr' = rr\<lparr>rr_Meta := m\<lparr>Name := GenerateName m @ Itoa (cl_now c),
                 CreationTimestamp := cl_now c\<rparr>\<rparr> in
     ((rr', None), c\<lparr>cl_records := cl_records c @ [rr']\<rparr>))"

definition cluster_update_record ::
  "RotationRecord \<Rightarrow> cluster \<Rightarrow> (RotationRecord \<times> error option) \<times> cluster" where
  "cluster_update_record rr c =
    ((rr, None), c\<lparr>cl_records := map (\<lambda>r. if same_object (rr_Meta r) (rr_Meta rr) then rr else r)
                                 (cl_records c)\<rparr>)"

definition cluster_list ::
  "string \<Rightarrow> (string \<times> string) list \<Rightarrow> cluster \<Rightarrow> (error + RotationRecord list) \<times> cluster" where
  "cluster_list ns labels c =
    (Inr (filter (\<lambda>r. Namespace (rr_Meta r) = ns \<and>
       list_all (\<lambda>(k, v). entries (Labels (rr_Meta r)) k = Some v) labels) (cl_records c)), c)"

definition cluster_delete :: "RotationRecord \<Rightarrow> cluster \<Rightarrow> error option \<times> cluster" where
  "cluster_delete rr c =
    (None, c\<lparr>cl_records := filter (\<lambda>r. \<not> same_object (rr_Meta r) (rr_Meta rr)) (cl_records c)\<rparr>)"

definition find_secret :: "string \<Rightarrow> string \<Rightarrow> cluster \<Rightarrow> KubeSecret option" where
  "find_secret name ns c = find (\<lambda>s. sec_Name s = name \<and> sec_Namespace s = ns) (cl_secrets c)"

definition cluster_get_secret :: "NamespacedName \<Rightarrow> cluster \<Rightarrow> (error + KubeSecret) \<times> cluster" where
  "cluster_get_secret key c =
    (case find_secret (nn_Name key) (nn_Namespace key) c of
       None \<Rightarrow> (Inl not_found, c) | Some s \<Rightarrow> (Inr s, c))"

definition cluster_put_secret ::
  "KubeSecret \<Rightarrow> (KubeSecret \<Rightarrow> KubeSecret) \<Rightarrow> cluster \<Rightarrow>
   ((gomap \<times> gomap) option \<times> error option) \<times> cluster" where
  "cluster_put_secret obj mutate c =
    (case find_secret (sec_Name obj) (sec_Namespace obj) c of
       None \<Rightarrow> ((None, None), c\<lparr>cl_secrets := cl_secrets c @ [mutate obj]\<rparr>)
     | Some s \<Rightarrow> ((Some (Data s, sec_Labels s), None), c\<lparr>cl_secrets := map (\<lambda>s'. if sec_Name s' = sec_Name s \<and>
         sec_Namespace s' = sec_Namespace s then mutate s' else s') (cl_secrets c)\<rparr>))"

definition cluster_ext :: "cluster Ext" where
  "cluster_ext =
    \<lparr>clock = (\<lambda>c. (cl_now c, c\<lparr>cl_now := cl_now c + 1\<rparr>)), zone_offset = (\<lambda>_. 0),
     parse_cron = hourly, slice_sort = sort_Slice,
     IsNotFound = (\<lambda>e. root_cause e = not_found),
     ContainsFinalizer = (\<lambda>m f. f \<in> set (Finalizers m)),
     AddFinalizer = (\<lambda>m f. m\<lparr>Finalizers := Finalizers m @ [f]\<rparr>),
     RemoveFinalizer = (\<lambda>m f. m\<lparr>Finalizers := filter (\<lambda>g. g \<noteq> f) (Finalizers m)\<rparr>),
     SetControllerReference = (\<lambda>p rr. (rr\<lparr>rr_Meta :=
       (rr_Meta rr)\<lparr>OwnerReferences := [policy_name p]\<rparr>\<rparr>, None)),
     SetStatusCondition = set_condition_in, GroupVersion_String = (\<lambda>(g, v). g @ ''/'' @ v),
     get_policy = cluster_get, update_policy = cluster_update,
     update_policy_status = cluster_update_status, create_record = cluster_create,
     update_record_status = cluster_update_record, list_records = cluster_list,
     delete_record = cluster_delete, get_secret = cluster_get_secret,
     create_or_update_secret = cluster_put_secret,
     get_workload = (\<lambda>kind key c. (Inr \<lparr>wl_Name = nn_Name key, wl_Namespace = nn_Namespace key,
       TemplateAnnotations = None\<rparr>, c)),
     update_workload = (\<lambda>kind obj c. (None, c)),
     http_NewRequest = (\<lambda>_ _ _. None),
     http_Do = (\<lambda>req c. (Inr 200, c\<lparr>cl_posted := cl_posted c @ [req]\<rparr>))\<rparr>"

lemmas cluster_defs =
  cluster_ext_def policy_key_def cluster_policies_def cluster_get_def cluster_update_def cluster_update_status_def cluster_create_def
  cluster_update_record_def cluster_list_def cluster_delete_def cluster_get_secret_def
  cluster_put_secret_def find_secret_def

text \<open>The example policy in a cluster of its own, an hour after the epoch.\<close>

definition example_key :: NamespacedName where
  "example_key = \<lparr>nn_Name = ''db'', nn_Namespace = ''prod''\<rparr>"

definition example_cluster :: cluster where
  "example_cluster =
    \<lparr>cl_now = hour, cl_policies = [example_key \<mapsto> example_policy], cl_records = [], cl_secrets = [],
     cl_posted = []\<rparr>"

lemma example_policy_key [simp]: "policy_key example_policy = example_key"
  by (simp add: policy_key_def example_policy_def example_key_def empty_meta_def)

lemma cluster_gets:
  "cl_policies c key = Some p \<Longrightarrow> policy_key p = key \<Longrightarrow> get_policy cluster_ext key c = (Inr p, c)"
  by (simp add: cluster_ext_def cluster_get_def cluster_policies_def)

text \<open>Three records of earlier rotations, the newest first.\<close>

definition old_record :: "gotime \<Rightarrow> RotationRecord" where
  "old_record t =
    \<lparr>rr_Meta = empty_meta\<lparr>Name := ''db-'' @ Itoa t, Namespace := ''prod'',
       Labels := Some [''secrets.keysmith.io/policy'' \<mapsto> ''db''], CreationTimestamp := t\<rparr>,
     rr_Spec = \<lparr>PolicyRef = \<lparr>ref_Name = ''db'', ref_Namespace = ''prod''\<rparr>,
       TriggeredBy = TriggerSchedule, RequestedAt = t\<rparr>,
     rr_Status = \<lparr>rrs_Phase = RecordPhaseSucceeded, StartTime = None, CompletionTime = Some t,
       rrs_Duration = ''0s'', ProviderName = ''mock'', RotatedKeys = [], RestartsTriggered = [],
       rrs_Error = '''', RetryCount = 0\<rparr>\<rparr>"

definition history_cluster :: cluster where
  "history_cluster = example_cluster\<lparr>cl_records := [old_record 3, old_record 2, old_record 1]\<rparr>"

lemma example_list:
  "list_records cluster_ext ''prod'' [(''secrets.keysmith.io/policy'', ''db'')] history_cluster =
    (Inr [old_record 3, old_record 2, old_record 1], history_cluster)"
  by (simp add: cluster_defs history_cluster_def old_record_def empty_meta_def)

definition start_process :: "cluster \<Rightarrow> 'p \<Rightarrow> (cluster, 'p) process" where
  "start_process c q = \<lparr>world = c, prov_state = q, trace = []\<rparr>"

end
