(* ===== verification/Lifecycle.thy ===== *)
theory Lifecycle
  imports Reconciler
begin

text \<open>
  The life cycle of one rotation as an abstract machine over the events of the process: a mark on
  the policy, a record, the provider call, the metrics, the secret, the annotation, the restarts,
  the closed record, the stored status, the pruning and the notifications, with the three ways to
  fail.  \<open>executeRotation\<close> refines it: whatever the outside answers, the events of a rotation are a
  run of the machine and the stage it ends in says what is returned.
\<close>

section \<open>The machine\<close>

datatype stage =
    Idle
  | Marked
  | Recorded
  | Attempted bool
  | Counted bool
  | Measured bool
  | Refused
  | Aborted
  | Rejected
  | Reported
  | Written
  | Restarting
  | Closed
  | Published
  | Unsaved
  | Stored
  | Pruning
  | Notifying

definition closes_as :: "RecordPhase \<Rightarrow> RotationRecord \<Rightarrow> bool" where
  "closes_as ph rr \<longleftrightarrow> rrs_Phase (rr_Status rr) = ph \<and> CompletionTime (rr_Status rr) \<noteq> None"

definition rejected_as :: "event \<Rightarrow> stage \<Rightarrow> stage option" where
  "rejected_as e st =
    (case e of
       EvUpdateRecordStatus rr _ \<Rightarrow> if closes_as RecordPhaseFailed rr then Some st else None
     | _ \<Rightarrow> None)"

definition restart_stage :: "event \<Rightarrow> stage option" where
  "restart_stage e =
    (case e of
       EvGetWorkload _ _ _ \<Rightarrow> Some Restarting
     | EvUpdateWorkload _ _ _ \<Rightarrow> Some Restarting
     | EvUpdateRecordStatus rr _ \<Rightarrow> if closes_as RecordPhaseSucceeded rr then Some Closed else None
     | _ \<Rightarrow> None)"

definition notify_stage :: "NotificationEvent \<Rightarrow> stage \<Rightarrow> event \<Rightarrow> stage option" where
  "notify_stage ev st e =
    (case e of
       EvGetSecret _ _ \<Rightarrow> Some st
     | EvNotify _ payload \<Rightarrow> if np_Event payload = ev then Some st else None
     | _ \<Rightarrow> None)"

definition advance :: "bool \<Rightarrow> stage \<Rightarrow> event \<Rightarrow> stage option" where
  "advance manual st e =
    (case st of
       Idle \<Rightarrow>
         (case e of
            EvUpdatePolicyStatus p _ \<Rightarrow>
              if srps_Phase (srp_Status p) = PhaseRotating then Some Marked else None
          | _ \<Rightarrow> None)
     | Marked \<Rightarrow> (case e of EvCreateRecord _ _ \<Rightarrow> Some Recorded | _ \<Rightarrow> None)
     | Recorded \<Rightarrow> (case e of EvRotate _ _ ok \<Rightarrow> Some (Attempted ok) | _ \<Rightarrow> None)
     | Attempted ok \<Rightarrow>
         (case e of
            EvRotationsTotal _ _ _ res \<Rightarrow>
              if res = (if ok then ''success'' else ''failure'') then Some (Counted ok) else None
          | _ \<Rightarrow> None)
     | Counted ok \<Rightarrow> (case e of EvRotationDuration _ _ _ _ \<Rightarrow> Some (Measured ok) | _ \<Rightarrow> None)
     | Measured ok \<Rightarrow>
         (if ok then
            (case e of
               EvPutSecret _ _ written \<Rightarrow> Some (if written then Written else Refused)
             | _ \<Rightarrow> rejected_as e Aborted)
          else rejected_as e Rejected)
     | Refused \<Rightarrow> rejected_as e Aborted
     | Rejected \<Rightarrow>
         (case e of
            EvUpdatePolicyStatus p _ \<Rightarrow>
              if srps_Phase (srp_Status p) \<in> {PhaseReady, PhaseFailed} then Some Reported else None
          | _ \<Rightarrow> None)
     | Reported \<Rightarrow> notify_stage EventRotationFailed Reported e
     | Written \<Rightarrow>
         (if manual then (case e of EvUpdatePolicy _ _ \<Rightarrow> Some Restarting | _ \<Rightarrow> None)
          else restart_stage e)
     | Restarting \<Rightarrow> restart_stage e
     | Closed \<Rightarrow> (case e of EvNextRotationTimestamp _ _ _ \<Rightarrow> Some Published | _ \<Rightarrow> None)
     | Published \<Rightarrow>
         (case e of
            EvUpdatePolicyStatus p ok \<Rightarrow>
              if srps_Phase (srp_Status p) = PhaseReady \<and> LastRotationTime (srp_Status p) \<noteq> None
              then Some (if ok then Stored else Unsaved) else None
          | _ \<Rightarrow> None)
     | Stored \<Rightarrow> (case e of EvListRecords _ _ _ \<Rightarrow> Some Pruning | _ \<Rightarrow> None)
     | Pruning \<Rightarrow>
         (case e of
            EvDeleteRecord _ _ \<Rightarrow> Some Pruning
          | _ \<Rightarrow> notify_stage EventRotationSucceeded Notifying e)
     | Notifying \<Rightarrow> notify_stage EventRotationSucceeded Notifying e
     | Aborted \<Rightarrow> None
     | Unsaved \<Rightarrow> None)"

lemmas advance_simps =
  advance_def rejected_as_def restart_stage_def notify_stage_def

fun run_stages :: "bool \<Rightarrow> stage \<Rightarrow> event list \<Rightarrow> stage option" where
  "run_stages manual st [] = Some st"
| "run_stages manual st (e # es) =
     (case advance manual st e of None \<Rightarrow> None | Some st' \<Rightarrow> run_stages manual st' es)"

text \<open>What the code returns in the stage in which a rotation ends.\<close>

definition returned_error :: "string \<Rightarrow> reconciled \<Rightarrow> bool" where
  "returned_error prefix out \<longleftrightarrow> (\<exists>e. out = Ret (no_result, Some (Wrapf prefix e)))"

fun stage_result :: "stage \<Rightarrow> reconciled \<Rightarrow> bool" where
  "stage_result Marked out = returned_error ''setting owner reference on RotationRecord: '' out"
| "stage_result (Attempted ok) out = (\<not> ok \<and> \<not> returns out)"
| "stage_result Aborted out =
     (returned_error ''mapping provider keys: '' out \<or>
      returned_error ''updating kubernetes secret: '' out)"
| "stage_result Reported out = (\<exists>d. out = Ret (requeue_after d, None))"
| "stage_result Unsaved out = returned_error ''updating policy status: '' out"
| "stage_result Pruning out = (\<not> returns out \<or> (\<exists>d. out = Ret (requeue_after d, None)))"
| "stage_result Notifying out = (\<exists>d. out = Ret (requeue_after d, None))"
| "stage_result _ out = False"

lemma run_stages_append [simp]:
  "run_stages m st (es @ es') =
     (case run_stages m st es of None \<Rightarrow> None | Some st' \<Rightarrow> run_stages m st' es')"
  by (induction es arbitrary: st) (auto split: option.splits)

section \<open>The parts of a rotation\<close>

lemma emits_set_condition [emits_intro]:
  "(\<And>now. R (put_condition X type status reason msg now p) []) \<Longrightarrow>
   emits (set_condition X type status reason msg p) R"
  unfolding set_condition_def by (intro emits_intro) simp

lemma emits_newRotationRecord [emits_intro]:
  "(\<And>rr. R rr []) \<Longrightarrow> emits (newRotationRecord X p trigger) R"
  unfolding newRotationRecord_def by (intro emits_intro) simp

lemma emits_finalizeRecord [emits_intro]:
  assumes "\<And>now q stored. R q [EvUpdateRecordStatus (rr\<lparr>rr_Status :=
      finalized_status phase now d n keys restarted msg (rr_Status rr)\<rparr>) stored]"
  shows "emits (finalizeRecord X rr phase d n keys restarted msg) R"
  unfolding finalizeRecord_def by (intro emits_intro) (auto intro: assms)

lemma closes_as_finalized [simp]:
  "closes_as ph (rr\<lparr>rr_Status := finalized_status ph' now d n keys restarted msg st\<rparr>) \<longleftrightarrow> ph' = ph"
  by (simp add: closes_as_def finalized_status_def)

text \<open>Restarts stay in the restarting stage.\<close>

definition workload_event :: "event \<Rightarrow> bool" where
  "workload_event e \<longleftrightarrow>
     (case e of EvGetWorkload _ _ _ \<Rightarrow> True | EvUpdateWorkload _ _ _ \<Rightarrow> True | _ \<Rightarrow> False)"

lemma emits_restart_workload:
  "emits (restart_workload X kind key t)
     (\<lambda>err es. \<exists>ok. es = [EvGetWorkload kind key ok] \<or>
        (\<exists>obj. es = [EvGetWorkload kind key True, EvUpdateWorkload kind (mark_restarted t obj) (err = None)]))"
  unfolding restart_workload_def by (intro emits_intro) auto

lemma run_stages_restarting:
  "list_all workload_event es \<Longrightarrow> run_stages m Restarting es = Some Restarting"
  by (induction es) (auto simp: advance_simps workload_event_def split: event.splits)

lemma emits_restart_loop:
  "emits (restart_loop X ns t targets acc) (\<lambda>r es. list_all workload_event es \<and>
     (es = [] \<or> (\<exists>kind key ok es'. es = EvGetWorkload kind key ok # es')))"
proof (induction targets arbitrary: acc)
  case Nil
  show ?case by (simp add: emits_return)
next
  case (Cons target targets)
  note IH = Cons.IH [THEN emits_weaken]
  show ?case
    unfolding restart_loop.simps
    by (intro emits_intro IH emits_weaken [OF emits_restart_workload])
      (auto simp: workload_event_def)
qed

lemma emits_triggerRestarts:
  "emits (triggerRestarts X p) (\<lambda>r es. list_all workload_event es \<and>
     (es = [] \<or> (\<exists>kind key ok es'. es = EvGetWorkload kind key ok # es')))"
  unfolding triggerRestarts_def
  by (intro emits_intro) (simp add: emits_restart_loop)

text \<open>Notifications stay in the reporting stages.\<close>

definition notify_event :: "NotificationEvent \<Rightarrow> event \<Rightarrow> bool" where
  "notify_event ev e \<longleftrightarrow>
     (case e of EvGetSecret _ _ \<Rightarrow> True | EvNotify _ p \<Rightarrow> np_Event p = ev | _ \<Rightarrow> False)"

lemma emits_dispatch_one:
  "np_Event payload = ev \<Longrightarrow>
   emits (dispatch_one X ns ev payload n) (\<lambda>_ es. list_all (notify_event ev) es)"
  unfolding dispatch_one_def notification_url_def
  by (intro emits_intro) (auto simp: notify_event_def)

lemma emits_dispatchNotifications:
  assumes "np_Event payload = ev"
  shows "emits (dispatchNotifications X p ev payload) (\<lambda>_ es. list_all (notify_event ev) es)"
proof -
  have "emits (dispatch_loop X ns ev payload ns') (\<lambda>_ es. list_all (notify_event ev) es)" for ns ns'
  proof (induction ns')
    case Nil
    show ?case by (simp add: emits_return)
  next
    case (Cons n ns')
    show ?case
      unfolding dispatch_loop.simps
      by (intro emits_bind emits_weaken [OF emits_dispatch_one [OF assms]]
          emits_weaken [OF Cons.IH]) simp
  qed
  then show ?thesis by (simp add: dispatchNotifications_def)
qed

lemma run_stages_reported:
  "list_all (notify_event EventRotationFailed) es \<Longrightarrow> run_stages m Reported es = Some Reported"
  by (induction es) (auto simp: advance_simps notify_event_def split: event.splits)

lemma run_stages_notifying:
  "list_all (notify_event EventRotationSucceeded) es \<Longrightarrow>
   run_stages m Notifying es = Some Notifying"
  by (induction es) (auto simp: advance_simps notify_event_def split: event.splits)

lemma run_stages_pruned:
  "list_all (notify_event EventRotationSucceeded) es \<Longrightarrow>
   run_stages m Pruning es = Some Pruning \<or> run_stages m Pruning es = Some Notifying"
  by (cases es) (auto simp: advance_simps notify_event_def run_stages_notifying split: event.splits)

text \<open>Pruning.\<close>

lemma emits_delete_loop:
  "emits (delete_loop X items n) (\<lambda>r es. run_stages m Pruning es = Some Pruning)"
  by (induction X items n rule: delete_loop.induct)
    (auto simp: advance_simps intro!: emits_bind emits_DeleteRecord emits_return)

lemma emits_pruneHistory:
  "emits (pruneHistory X p) (\<lambda>r es. run_stages m Stored es = Some Pruning)"
  unfolding pruneHistory_def
  by (intro emits_intro emits_weaken [OF emits_delete_loop [of X _ _ m]])
    (auto simp: advance_simps)

section \<open>Refinement\<close>

definition accepted :: "bool \<Rightarrow> stage \<Rightarrow> reconciled \<Rightarrow> event list \<Rightarrow> bool" where
  "accepted m st out es \<longleftrightarrow> (\<exists>st'. run_stages m st es = Some st' \<and> stage_result st' out)"


lemma refines_triggerRestarts:
  "(\<And>r es. list_all workload_event es \<Longrightarrow>
      es = [] \<or> (\<exists>kind key ok es'. es = EvGetWorkload kind key ok # es') \<Longrightarrow> R r es) \<Longrightarrow>
   emits (triggerRestarts X p) R"
  by (rule emits_weaken [OF emits_triggerRestarts]) blast

lemma refines_dispatch:
  "np_Event payload = ev \<Longrightarrow> (\<And>es. list_all (notify_event ev) es \<Longrightarrow> R () es) \<Longrightarrow>
   emits (dispatchNotifications X p ev payload) R"
  by (rule emits_weaken [OF emits_dispatchNotifications]) auto

lemma refines_prune:
  "(\<And>r es. run_stages m Stored es = Some Pruning \<Longrightarrow> R r es) \<Longrightarrow> emits (pruneHistory X p) R"
  by (rule emits_weaken [OF emits_pruneHistory])

lemma np_Event_payload [simp]: "np_Event (notification_payload ev p now rr msg) = ev"
  by (simp add: notification_payload_def)

lemmas refines_intro = emits_intro refines_triggerRestarts refines_dispatch

text \<open>A run that has come to a stage and goes on from there.\<close>

lemma accepted_Cons:
  "accepted m st out (e # es) \<longleftrightarrow> (\<exists>st'. advance m st e = Some st' \<and> accepted m st' out es)"
  by (auto simp: accepted_def split: option.splits)

lemma accepted_append:
  "run_stages m st es = Some st' \<Longrightarrow> accepted m st out (es @ es') \<longleftrightarrow> accepted m st' out es'"
  by (simp add: accepted_def)

lemma accepted_Nil: "accepted m st out [] \<longleftrightarrow> stage_result st out"
  by (simp add: accepted_def)

text \<open>Without the annotation update the first event after the secret is that of the restarts.\<close>

lemma accepted_restarts:
  assumes "list_all workload_event es"
    and "es = [] \<or> (\<exists>kind key ok es'. es = EvGetWorkload kind key ok # es')"
    and "st = Restarting \<or> st = Written \<and> \<not> m"
    and "accepted m Closed out es'" and "closes_as RecordPhaseSucceeded rr"
  shows "accepted m st out (es @ EvUpdateRecordStatus rr ok # es')"
proof (cases "es = []")
  case True
  with assms show ?thesis by (auto simp: accepted_Cons advance_simps)
next
  case False
  with assms obtain kind key k es1 where es: "es = EvGetWorkload kind key k # es1" by auto
  then have "list_all workload_event es1" using assms(1) by simp
  then have "accepted m Restarting out (es1 @ EvUpdateRecordStatus rr ok # es')"
    using assms(4,5)
    by (simp add: accepted_append [OF run_stages_restarting] accepted_Cons advance_simps)
  with es assms(3) show ?thesis by (auto simp: accepted_Cons advance_simps)
qed

lemma accepted_stored:
  "run_stages m Stored es = Some Pruning \<Longrightarrow> list_all (notify_event EventRotationSucceeded) es' \<Longrightarrow>
   accepted m Stored (Ret (requeue_after d, None)) (es @ es')"
  using run_stages_pruned [of es' m] by (auto simp: accepted_def)

lemma accepted_stored_panic:
  "run_stages m Stored es = Some Pruning \<Longrightarrow> accepted m Stored (Panic msg) es"
  by (simp add: accepted_def)

lemma refines_finishRotation:
  "emits (finishRotation X p prov manual rr d) (accepted manual Written)"
  unfolding finishRotation_def
  by (intro refines_intro refines_prune [of manual])
    (auto intro!: accepted_restarts accepted_stored accepted_stored_panic
      simp: accepted_Cons accepted_Nil advance_simps returned_error_def)

lemma refines_providerFailed:
  "emits (providerFailed X p prov rr d e) (accepted manual (Measured False))"
  unfolding providerFailed_def
  by (intro refines_intro)
    (auto simp: accepted_def advance_simps run_stages_reported)

lemma refines_providerSucceeded:
  "emits (providerSucceeded X p prov manual rr d secret) (accepted manual (Measured True))"
  unfolding providerSucceeded_def
  by (intro refines_intro emits_weaken [OF refines_finishRotation])
    (auto simp: accepted_Cons accepted_Nil advance_simps returned_error_def)

lemma refines_executeRotation:
  "emits (executeRotation X p prov manual) (accepted manual Idle)"
  unfolding executeRotation_def
  by (intro refines_intro emits_weaken [OF refines_providerFailed [of _ _ _ _ _ _ manual]]
      emits_weaken [OF refines_providerSucceeded])
    (auto simp: accepted_Cons accepted_Nil advance_simps returned_error_def rotated_ok_def)


section \<open>What a run of the machine looks like\<close>

text \<open>
  The stages after the metrics: a refused provider call, a secret that could not be written, and a
  completed rotation.
\<close>

lemma accepted_Idle_cases:
  assumes "accepted m Idle out es"
  obtains (no_owner) p ok where "es = [EvUpdatePolicyStatus p ok]"
      "returned_error ''setting owner reference on RotationRecord: '' out"
    | (panicked) p ok rr okc n ps where
      "es = [EvUpdatePolicyStatus p ok, EvCreateRecord rr okc, EvRotate n ps False]"
      "\<not> returns out"
    | (measured) p ok rr okc n ps okr pol ns n' pol' ns' n'' d es' where
      "es = [EvUpdatePolicyStatus p ok, EvCreateRecord rr okc, EvRotate n ps okr,
             EvRotationsTotal pol ns n' (if okr then ''success'' else ''failure''),
             EvRotationDuration pol' ns' n'' d] @ es'"
      "accepted m (Measured okr) out es'"
proof -
  from assms obtain p ok es1 where 1: "es = EvUpdatePolicyStatus p ok # es1"
      "accepted m Marked out es1"
    by (cases es) (auto simp: accepted_Cons accepted_Nil advance_simps split: event.splits if_splits)
  show thesis
  proof (cases es1)
    case Nil
    with 1 no_owner show thesis by (simp add: accepted_Nil)
  next
    case (Cons e es2)
    with 1 obtain rr okc where 2: "e = EvCreateRecord rr okc" "accepted m Recorded out es2"
      by (auto simp: accepted_Cons advance_simps split: event.splits)
    then obtain n ps okr es3 where 3: "es2 = EvRotate n ps okr # es3"
        "accepted m (Attempted okr) out es3"
      by (cases es2) (auto simp: accepted_Cons accepted_Nil advance_simps split: event.splits)
    show thesis
    proof (cases es3)
      case Nil
      with 1 Cons 2 3 panicked show thesis by (simp add: accepted_Nil)
    next
      case (Cons e' es4)
      with 3 obtain pol ns n' where 4:
          "e' = EvRotationsTotal pol ns n' (if okr then ''success'' else ''failure'')"
          "accepted m (Counted okr) out es4"
        by (auto simp: accepted_Cons advance_simps split: event.splits if_splits)
      then obtain pol' ns' n'' d es5 where "es4 = EvRotationDuration pol' ns' n'' d # es5"
          "accepted m (Measured okr) out es5"
        by (cases es4) (auto simp: accepted_Cons accepted_Nil advance_simps split: event.splits)
      with 1 \<open>es1 = e # es2\<close> 2 3 Cons 4 show thesis by (intro measured) auto
    qed
  qed
qed

lemma accepted_Reported:
  "accepted m Reported out es \<longleftrightarrow>
    list_all (notify_event EventRotationFailed) es \<and> (\<exists>d. out = Ret (requeue_after d, None))"
  by (induction es)
    (auto simp: accepted_Cons accepted_Nil advance_simps notify_event_def split: event.splits)

lemma accepted_Rejected_cases:
  assumes "accepted m (Measured False) out es"
  obtains rr k p k' es' d where "es = EvUpdateRecordStatus rr k # EvUpdatePolicyStatus p k' # es'"
    "closes_as RecordPhaseFailed rr" "srps_Phase (srp_Status p) \<in> {PhaseReady, PhaseFailed}"
    "list_all (notify_event EventRotationFailed) es'" "out = Ret (requeue_after d, None)"
proof -
  from assms obtain rr k es1 where 1: "es = EvUpdateRecordStatus rr k # es1"
      "closes_as RecordPhaseFailed rr" "accepted m Rejected out es1"
    by (cases es) (auto simp: accepted_Cons accepted_Nil advance_simps split: event.splits if_splits)
  then obtain p k' es2 where "es1 = EvUpdatePolicyStatus p k' # es2"
      "srps_Phase (srp_Status p) \<in> {PhaseReady, PhaseFailed}" "accepted m Reported out es2"
    by (cases es1) (auto simp: accepted_Cons accepted_Nil advance_simps split: event.splits if_splits)
  with 1 that show thesis by (auto simp: accepted_Reported)
qed

text \<open>The events after the status of a completed rotation: pruning and notifications.\<close>

definition epilogue_event :: "event \<Rightarrow> bool" where
  "epilogue_event e \<longleftrightarrow>
     (case e of EvListRecords _ _ _ \<Rightarrow> True | EvDeleteRecord _ _ \<Rightarrow> True
      | _ \<Rightarrow> notify_event EventRotationSucceeded e)"

lemma accepted_Notifying:
  "accepted m Notifying out es \<longleftrightarrow>
    list_all (notify_event EventRotationSucceeded) es \<and> (\<exists>d. out = Ret (requeue_after d, None))"
  by (induction es)
    (auto simp: accepted_Cons accepted_Nil advance_simps notify_event_def split: event.splits)

lemma notify_epilogue: "notify_event EventRotationSucceeded e \<Longrightarrow> epilogue_event e"
  by (auto simp: epilogue_event_def notify_event_def split: event.splits)

lemma notify_epilogue_all:
  "list_all (notify_event EventRotationSucceeded) es \<Longrightarrow> list_all epilogue_event es"
  by (auto simp: list_all_iff notify_epilogue)

lemma accepted_Pruning:
  "accepted m Pruning out es \<Longrightarrow>
    list_all epilogue_event es \<and> (\<not> returns out \<or> (\<exists>d. out = Ret (requeue_after d, None)))"
proof (induction es)
  case Nil
  then show ?case by (simp add: accepted_Nil)
next
  case (Cons e es)
  from Cons.prems consider
      (deleted) rr ok where "e = EvDeleteRecord rr ok" "accepted m Pruning out es"
    | (notified) "notify_event EventRotationSucceeded e" "accepted m Notifying out es"
    by (auto simp: accepted_Cons advance_simps notify_event_def split: event.splits if_splits)
  then show ?case
  proof cases
    case deleted
    with Cons.IH show ?thesis by (simp add: epilogue_event_def)
  next
    case notified
    then show ?thesis
      by (simp add: accepted_Notifying notify_epilogue notify_epilogue_all)
  qed
qed

lemma pruned_epilogue:
  assumes "run_stages m Stored es = Some Pruning"
  shows "list_all epilogue_event es"
proof -
  have "accepted m Stored (Panic []) es" using assms by (rule accepted_stored_panic)
  then show ?thesis
    by (cases es) (use accepted_Pruning in \<open>auto simp: accepted_Cons accepted_Nil advance_simps
        epilogue_event_def split: event.splits\<close>)
qed

lemma accepted_Restarting_cases:
  assumes "accepted m Restarting out es"
  obtains ws rr k pol ns t p k' es' where
    "es = ws @ [EvUpdateRecordStatus rr k, EvNextRotationTimestamp pol ns t,
                EvUpdatePolicyStatus p k'] @ es'"
    "list_all workload_event ws" "closes_as RecordPhaseSucceeded rr"
    "srps_Phase (srp_Status p) = PhaseReady" "LastRotationTime (srp_Status p) \<noteq> None"
    "list_all epilogue_event es'" "\<not> k' \<Longrightarrow> es' = []"
    "k' \<Longrightarrow> \<not> returns out \<or> (\<exists>d. out = Ret (requeue_after d, None))"
    "\<not> k' \<Longrightarrow> returned_error ''updating policy status: '' out"
  using assms
proof (induction es arbitrary: thesis)
  case Nil
  then show ?case by (simp add: accepted_Nil)
next
  case (Cons e es)
  show ?case
  proof (cases "workload_event e")
    case True
    with Cons.prems(2) have "accepted m Restarting out es"
      by (auto simp: accepted_Cons advance_simps workload_event_def split: event.splits)
    from this show ?thesis
    proof (rule Cons.IH [rotated])
      fix ws rr k pol ns t p k' es'
      assume "es = ws @ [EvUpdateRecordStatus rr k, EvNextRotationTimestamp pol ns t,
                EvUpdatePolicyStatus p k'] @ es'"
        "list_all workload_event ws" "closes_as RecordPhaseSucceeded rr"
        "srps_Phase (srp_Status p) = PhaseReady" "LastRotationTime (srp_Status p) \<noteq> None"
        "list_all epilogue_event es'" "\<not> k' \<Longrightarrow> es' = []"
        "k' \<Longrightarrow> \<not> returns out \<or> (\<exists>d. out = Ret (requeue_after d, None))"
        "\<not> k' \<Longrightarrow> returned_error ''updating policy status: '' out"
      with True show thesis by (intro Cons.prems(1) [of "e # ws" rr k pol ns t p k' es']) auto
    qed
  next
    case False
    with Cons.prems(2) obtain rr k where 1: "e = EvUpdateRecordStatus rr k"
        "closes_as RecordPhaseSucceeded rr" "accepted m Closed out es"
      by (auto simp: accepted_Cons advance_simps workload_event_def split: event.splits if_splits)
    then obtain pol ns t es1 where 2: "es = EvNextRotationTimestamp pol ns t # es1"
        "accepted m Published out es1"
      by (cases es) (auto simp: accepted_Cons accepted_Nil advance_simps split: event.splits)
    then obtain p k' es2 where 3: "es1 = EvUpdatePolicyStatus p k' # es2"
        "srps_Phase (srp_Status p) = PhaseReady" "LastRotationTime (srp_Status p) \<noteq> None"
        "accepted m (if k' then Stored else Unsaved) out es2"
      by (cases es1)
        (auto simp: accepted_Cons accepted_Nil advance_simps split: event.splits if_splits)
    have tail: "list_all epilogue_event es2 \<and> (\<not> returns out \<or> (\<exists>d. out = Ret (requeue_after d, None)))"
      if k' using that 3(4) accepted_Pruning
      by (cases es2) (auto simp: accepted_Cons accepted_Nil advance_simps epilogue_event_def
          split: event.splits)
    have unsaved: "es2 = [] \<and> returned_error ''updating policy status: '' out" if "\<not> k'"
      using that 3(4) by (cases es2) (auto simp: accepted_Cons accepted_Nil advance_simps)
    have "list_all epilogue_event es2"
      using tail unsaved by (cases k') simp_all
    with 1 2 3 tail unsaved show ?thesis
      by (intro Cons.prems(1) [of "[]" rr k pol ns t p k' es2]) auto
  qed
qed

end
