(* ===== verification/Handlers.thy ===== *)
theory Handlers
  imports Cluster Reconciler "HOL-Library.Sublist"
begin

text \<open>
  What the handlers of the controller promise: pruning, restarts and notifications.  The events of
  a handler are compared with what it is given and what the outside answers.
\<close>

section \<open>Pruning\<close>


text \<open>
  C21.  With a limit that is not negative and below the number of
  records, pruning deletes exactly the excess: the records are split into those deleted and the
  \<open>limit\<close> many kept, no kept record is older than a deleted one, and the deletions are attempted one
  after the other whatever each answers.  Of the sorter only the contract is used.
\<close>

theorem pruneHistory_keeps_newest:
  assumes "slice_sorter (slice_sort X) creation"
    and "list_records X (policy_namespace policy) [(policy_label, policy_name policy)] (world s) =
      (Inr items, w)"
    and "length items < 2 ^ 31" and "0 \<le> sint (history_limit policy)"
    and "sint (history_limit policy) < int (length items)"
  shows "result (pruneHistory X policy) s = Ret () \<and>
    (\<exists>deleted kept oks. length oks = length deleted \<and>
      events (pruneHistory X policy) s =
        EvListRecords (policy_namespace policy) [(policy_label, policy_name policy)] True #
        map2 EvDeleteRecord deleted oks \<and>
      mset deleted + mset kept = mset items \<and>
      int (length kept) = sint (history_limit policy) \<and>
      (\<forall>d \<in> set deleted. \<forall>k \<in> set kept. creation d \<le> creation k))"
proof -
  let ?sorted = "slice_sort X older items"
  let ?n = "nat (int (length items) - sint (history_limit policy))"
  have len: "length ?sorted = length items"
    using slice_sorter.length_sorted [OF assms(1)] by (simp add: older_eq)
  obtain oks where run: "returns (result (pruneHistory X policy) s)"
      "length oks = ?n" "?n \<le> length items"
      "events (pruneHistory X policy) s =
        EvListRecords (policy_namespace policy) [(policy_label, policy_name policy)] True #
        map2 EvDeleteRecord (take ?n ?sorted) oks"
    using pruneHistory_run [OF assms(2,3,5) len] assms(4) by auto
  have "mset (take ?n ?sorted) + mset (drop ?n ?sorted) = mset items"
    using slice_sorter.split_mset [OF assms(1)] by (simp add: older_eq)
  moreover have "creation d \<le> creation k"
    if "d \<in> set (take ?n ?sorted)" "k \<in> set (drop ?n ?sorted)" for d k
    using slice_sorter.prefix_oldest [OF assms(1)] that unfolding older_eq by blast
  moreover have "int (length (drop ?n ?sorted)) = sint (history_limit policy)"
    using assms(4,5) len by simp
  moreover have "result (pruneHistory X policy) s = Ret ()"
    using run(1) by (simp add: returns_iff)
  ultimately show ?thesis
    using run(2,3,4) len by (intro conjI exI [of _ "take ?n ?sorted"] exI [of _ "drop ?n ?sorted"]
        exI [of _ oks]) auto
qed

lemma example_sorter: "slice_sorter (slice_sort cluster_ext) (creation :: RotationRecord \<Rightarrow> gotime)"
  using insertion.slice_sorter_axioms by (simp add: cluster_ext_def)

definition limited :: "32 word \<Rightarrow> SecretRotationPolicy" where
  "limited n = example_policy\<lparr>srp_Spec := (srp_Spec example_policy)
     \<lparr>Policy := (Policy (srp_Spec example_policy))\<lparr>HistoryLimit := Some n\<rparr>\<rparr>\<rparr>"

lemma limited_simps [simp]:
  "policy_name (limited n) = ''db''" "policy_namespace (limited n) = ''prod''"
  "history_limit (limited n) = n"
  by (simp_all add: limited_def example_policy_def history_limit_def empty_meta_def)

lemma pruneHistory_keeps_newest_witness:
  "result (pruneHistory cluster_ext (limited 1)) (start_process history_cluster ()) = Ret () \<and>
   (\<exists>deleted kept. mset deleted + mset kept = {#old_record 3, old_record 2, old_record 1#} \<and>
      length kept = 1 \<and> (\<forall>d \<in> set deleted. \<forall>k \<in> set kept. creation d \<le> creation k))"
  using pruneHistory_keeps_newest [OF example_sorter, of "limited 1" "start_process history_cluster ()"
      "[old_record 3, old_record 2, old_record 1]" history_cluster] example_list
  by (auto simp: start_process_def policy_label_def)

text \<open>
  C40.  A negative limit, which the schema excludes and the code does
  not, deletes every record of a non-empty history and then panics past the end of the slice.
\<close>

theorem negative_limit_deletes_all:
  assumes "slice_sorter (slice_sort X) creation"
    and "list_records X (policy_namespace policy) [(policy_label, policy_name policy)] (world s) =
      (Inr items, w)"
    and "length items < 2 ^ 31" and "sint (history_limit policy) < 0"
  shows "\<not> returns (result (pruneHistory X policy) s) \<and>
    (\<exists>deleted oks. length oks = length deleted \<and> mset deleted = mset items \<and>
      events (pruneHistory X policy) s =
        EvListRecords (policy_namespace policy) [(policy_label, policy_name policy)] True #
        map2 EvDeleteRecord deleted oks)"
proof -
  let ?sorted = "slice_sort X older items"
  have len: "length ?sorted = length items"
    using slice_sorter.length_sorted [OF assms(1)] by (simp add: older_eq)
  have "mset ?sorted = mset items"
    using slice_sorter.permutes [OF assms(1)] by (simp add: older_eq)
  moreover have "sint (history_limit policy) < int (length items)" using assms(4) by simp
  ultimately show ?thesis
    using pruneHistory_run [OF assms(2,3) _ len] assms(4) len
    by (auto intro!: exI [of _ ?sorted])
qed

lemma negative_limit_deletes_all_witness:
  "\<not> returns (result (pruneHistory cluster_ext (limited (- 1))) (start_process history_cluster ()))"
proof -
  have "sint (- 1 :: 32 word) < 0" by simp
  then show ?thesis
    using negative_limit_deletes_all [OF example_sorter, of "limited (- 1)"
        "start_process history_cluster ()"
        "[old_record 3, old_record 2, old_record 1]" history_cluster] example_list
    by (simp add: start_process_def policy_label_def)
qed

section \<open>Restarts\<close>

text \<open>
  What a trace says of the restarts: the workloads looked up, those updated successfully (each
  update follows the lookup of its workload), and that all updates carry one time stamp.
\<close>

definition looked_up :: "event list \<Rightarrow> (WorkloadKind option \<times> NamespacedName) list" where
  "looked_up es = concat (map (\<lambda>e. case e of
     EvGetWorkload kind key _ \<Rightarrow> [(Some kind, key)] | _ \<Rightarrow> []) es)"

fun updated_after :: "NamespacedName \<Rightarrow> event list \<Rightarrow> (WorkloadKind option \<times> NamespacedName) list" where
  "updated_after key [] = []"
| "updated_after key (e # es) =
    (case e of
       EvGetWorkload _ key' _ \<Rightarrow> updated_after key' es
     | EvUpdateWorkload kind _ ok \<Rightarrow>
         (if ok then [(Some kind, key)] else []) @ updated_after key es
     | _ \<Rightarrow> updated_after key es)"

definition stamped :: "string \<Rightarrow> event \<Rightarrow> bool" where
  "stamped t e \<longleftrightarrow>
     (case e of
        EvUpdateWorkload _ obj _ \<Rightarrow> entries (TemplateAnnotations obj) restartedAt = Some t
      | _ \<Rightarrow> True)"

definition target_id :: "string \<Rightarrow> RestartTarget \<Rightarrow> WorkloadKind option \<times> NamespacedName" where
  "target_id ns target = (workload_kind (rt_Kind target), target_key ns target)"

lemma looked_up_simps [simp]:
  "looked_up [] = []"
  "looked_up (EvGetWorkload kind key ok # es) = (Some kind, key) # looked_up es"
  "looked_up (EvUpdateWorkload kind obj ok # es) = looked_up es"
  by (simp_all add: looked_up_def)

lemma stamped_simps [simp]:
  "stamped t (EvGetWorkload kind key ok)"
  "stamped t (EvUpdateWorkload kind (mark_restarted t obj) ok)"
  by (simp_all add: stamped_def mark_restarted_def)

lemma emits_restart_workload_exact [emits_intro]:
  assumes "\<And>e. R (Some e) [EvGetWorkload kind key False]"
    and "\<And>obj err. R err [EvGetWorkload kind key True,
           EvUpdateWorkload kind (mark_restarted t obj) (err = None)]"
  shows "emits (restart_workload X kind key t) R"
  unfolding restart_workload_def by (intro emits_intro) (auto intro: assms)

lemma emits_restart_loop_exact:
  "emits (restart_loop X ns t targets acc) (\<lambda>r es. list_all (stamped t) es \<and>
     looked_up es = map (target_id ns) (filter (\<lambda>x. workload_kind (rt_Kind x) \<noteq> None) targets) \<and>
     (\<exists>rs. r = acc @ rs \<and> subseq rs targets \<and>
        (\<forall>key. updated_after key es = map (target_id ns) rs)))"
proof (induction targets arbitrary: acc)
  case Nil
  show ?case by (simp add: emits_return)
next
  case (Cons x xs)
  have keep: "\<exists>rs. acc @ x # r' = acc @ rs \<and> subseq rs (x # xs) \<and> P rs"
    if "subseq r' xs" "P (x # r')" for r' P
    using that by (intro exI [of _ "x # r'"]) simp
  have skip: "\<exists>rs. acc @ r' = acc @ rs \<and> subseq rs (x # xs) \<and> P rs"
    if "subseq r' xs" "P r'" for r' P
    using that by (intro exI [of _ r']) (simp add: list_emb_Cons)
  show ?case
    unfolding restart_loop.simps
    by (intro emits_intro emits_weaken [OF Cons.IH])
      (auto simp: target_id_def intro!: keep skip)
qed

lemma emits_triggerRestarts_exact:
  "emits (triggerRestarts X p) (\<lambda>r es. subseq r (RestartTargets (srp_Spec p)) \<and>
     (\<forall>key. updated_after key es = map (target_id (policy_namespace p)) r) \<and>
     looked_up es = map (target_id (policy_namespace p))
       (filter (\<lambda>x. rt_Kind x \<in> set restart_kinds) (RestartTargets (srp_Spec p))) \<and>
     (\<exists>t. list_all (stamped t) es))"
proof -
  have kinds: "(\<exists>y. workload_kind k = Some y) = (k \<in> set restart_kinds)" for k
    by (simp add: workload_kind_def restart_kinds_def)
  show ?thesis
    unfolding triggerRestarts_def
    by (intro emits_intro emits_weaken [OF emits_restart_loop_exact]) (auto simp: kinds)
qed

text \<open>
  C22.  Of the restart targets, in the order of the spec, those of a
  supported kind are looked up once each under the target's name and namespace (the policy's when
  the target has none); the list that is returned, and goes into the record, is a subsequence of
  the targets: those whose workload was updated successfully.  All updates carry the same time
  stamp in the pod template annotation.
\<close>

theorem restarts_reported_exactly:
  "subseq (result (triggerRestarts X p) s) (RestartTargets (srp_Spec p)) \<and>
   updated_after key (events (triggerRestarts X p) s) =
     map (target_id (policy_namespace p)) (result (triggerRestarts X p) s) \<and>
   looked_up (events (triggerRestarts X p) s) = map (target_id (policy_namespace p))
     (filter (\<lambda>x. rt_Kind x \<in> set restart_kinds) (RestartTargets (srp_Spec p))) \<and>
   (\<exists>t. list_all (stamped t) (events (triggerRestarts X p) s))"
  using emitsD(1) [OF emits_triggerRestarts_exact, of X p s] by simp

section \<open>Notifications\<close>

definition notified :: "event list \<Rightarrow> (string \<times> NotificationPayload) list" where
  "notified es = concat (map (\<lambda>e. case e of EvNotify url p \<Rightarrow> [(url, p)] | _ \<Rightarrow> []) es)"

lemma notified_simps [simp]:
  "notified [] = []" "notified (EvNotify url p # es) = (url, p) # notified es"
  "notified (EvGetSecret key ok # es) = notified es"
  "notified (es @ es') = notified es @ notified es'"
  by (simp_all add: notified_def)

text \<open>
  The URL of a notification: its own, or that in the key of the referenced secret, as the API
  server answers when it is asked.
\<close>

definition resolves :: "'w Ext \<Rightarrow> string \<Rightarrow> NotificationSpec \<Rightarrow> string option \<Rightarrow> bool" where
  "resolves X ns n u \<longleftrightarrow>
    (if URL n \<noteq> '''' then u = Some (URL n)
     else case ns_SecretRef n of
       None \<Rightarrow> u = Some ''''
     | Some sel \<Rightarrow> (\<exists>w. u = (case fst (get_secret X \<lparr>nn_Name = sks_Name sel, nn_Namespace = ns\<rparr> w) of
           Inl _ \<Rightarrow> None
         | Inr sec \<Rightarrow> Some (index (entries (Data sec)) (sks_Key sel)))))"

definition deliveries :: "NotificationPayload \<Rightarrow> string option list \<Rightarrow> (string \<times> NotificationPayload) list"
  where
  "deliveries payload us =
     concat (map (\<lambda>u. case u of None \<Rightarrow> [] | Some url \<Rightarrow> if url = '''' then [] else [(url, payload)]) us)"

lemma emits_notification_url:
  "emits (notification_url X ns n) (\<lambda>u es. resolves X ns n u \<and> notified es = [])"
  unfolding notification_url_def GetSecret_def
  by (intro emits_intro emits_external_of) (auto simp: resolves_def)

lemma emits_dispatch_loop_exact:
  "emits (dispatch_loop X ns ev payload subs) (\<lambda>_ es.
     \<exists>us. list_all2 (resolves X ns) (filter (\<lambda>n. ev \<in> set (Events n)) subs) us \<and>
       notified es = deliveries payload us)"
proof (induction subs)
  case Nil
  show ?case by (simp add: emits_return deliveries_def)
next
  case (Cons n subs)
  have one: "\<exists>us'. list_all2 (resolves X ns) (n # ns') us' \<and>
      notified (es @ es') = deliveries payload us'"
    if "resolves X ns n u" "list_all2 (resolves X ns) ns' us" "notified es' = deliveries payload us"
      "notified es = deliveries payload [u]" for u us ns' es es'
    using that by (intro exI [of _ "u # us"]) (simp add: deliveries_def)
  show ?case
    unfolding dispatch_loop.simps dispatch_one_def
    by (intro emits_intro emits_weaken [OF emits_notification_url] emits_weaken [OF Cons.IH])
      (auto intro!: one simp: deliveries_def split: option.splits if_splits)
qed

text \<open>
  C23.  A notification is sent for each entry of the spec that subscribes to the
  event and resolves to a non-empty URL, in the order of the spec, with the given payload; an entry
  with a URL of its own always resolves to it, whatever happens to the other entries.
\<close>

theorem dispatch_exact:
  "\<exists>us. list_all2 (resolves X (policy_namespace p))
      (filter (\<lambda>n. ev \<in> set (Events n)) (Notifications (srp_Spec p))) us \<and>
    notified (events (dispatchNotifications X p ev payload) s) = deliveries payload us"
  using emitsD(1) [OF emits_dispatch_loop_exact] by (simp add: dispatchNotifications_def)

end
