(* ===== verification/MockProvider.thy ===== *)
theory MockProvider
  imports Providers
begin

text \<open>
  The mock provider of \<^verbatim>\<open>internal/provider/mock\<close>: values that carry the number of the
  rotation, taken from an atomic 64-bit counter.  The state of the provider objects of the process
  is \<open>provider_state\<close>: this counter, and the generator that the static provider reads.
\<close>

record 'r provider_state =
  rotateCount :: "64 word"
  entropy :: 'r

definition providerName :: string where
  "providerName = ''mock''"

text \<open>\<^verbatim>\<open>New\<close>: a fresh counter.\<close>

definition new_mock :: "'r provider_state \<Rightarrow> 'r provider_state" where
  "new_mock s = s\<lparr>rotateCount := 0\<rparr>"

definition mock_prefix :: "params \<Rightarrow> string" where
  "mock_prefix ps = (let prefix = index ps ''prefix'' in if prefix = '''' then providerName else prefix)"

definition mock_secret :: "string \<Rightarrow> 64 word \<Rightarrow> Secret" where
  "mock_secret prefix n =
    [''password'' \<mapsto> prefix @ ''-password-v'' @ Itoa (sint n),
     ''username'' \<mapsto> prefix @ ''-user'',
     ''apiKey'' \<mapsto> prefix @ ''-apikey-v'' @ Itoa (sint n)]"

definition mock_Validate :: "params \<Rightarrow> error option" where
  "mock_Validate ps = None"

definition mock_FetchSecret ::
  "params \<Rightarrow> 'r provider_state \<Rightarrow> (error + Secret) outcome \<times> 'r provider_state" where
  "mock_FetchSecret ps s = (Ret (Inr (mock_secret (mock_prefix ps) (rotateCount s))), s)"

definition mock_RotateSecret ::
  "params \<Rightarrow> 'r provider_state \<Rightarrow> (error + Secret) outcome \<times> 'r provider_state" where
  "mock_RotateSecret ps s =
    (let n = rotateCount s + 1; s' = s\<lparr>rotateCount := n\<rparr> in
     (Ret (Inr (mock_secret (mock_prefix ps) n)), s'))"

definition Mock :: "'r provider_state Provider" where
  "Mock = \<lparr>prov_Name = providerName, FetchSecret = mock_FetchSecret,
     RotateSecret = mock_RotateSecret, Validate = mock_Validate\<rparr>"

lemmas [provider_defs] =
  mock_Validate_def mock_FetchSecret_def mock_RotateSecret_def Mock_def providerName_def

interpretation mock: provider "Mock :: 'r provider_state Provider"
  by unfold_locales (simp_all add: provider_defs Let_def)

section \<open>Versions\<close>

text \<open>The rotations of a run of the mock provider, with the parameters of each call.\<close>

fun mock_rotations ::
  "params list \<Rightarrow> 'r provider_state \<Rightarrow> Secret list \<times> 'r provider_state" where
  "mock_rotations [] s = ([], s)"
| "mock_rotations (ps # rest) s =
     (case mock_RotateSecret ps s of
        (Ret (Inr sec), s') \<Rightarrow>
          (case mock_rotations rest s' of (secs, s'') \<Rightarrow> (sec # secs, s''))
      | (_, s') \<Rightarrow> ([], s'))"

lemma mock_secret_lookup [simp]:
  "mock_secret p n ''password'' = Some (p @ ''-password-v'' @ Itoa (sint n))"
  "mock_secret p n ''username'' = Some (p @ ''-user'')"
  "mock_secret p n ''apiKey'' = Some (p @ ''-apikey-v'' @ Itoa (sint n))"
  by (simp_all add: mock_secret_def)

lemma mock_RotateSecret_eq:
  "mock_RotateSecret ps s =
    (Ret (Inr (mock_secret (mock_prefix ps) (rotateCount s + 1))),
     s\<lparr>rotateCount := rotateCount s + 1\<rparr>)"
  by (simp add: mock_RotateSecret_def Let_def)

lemma mock_rotations_nth:
  "mock_rotations pss s = (secs, s') \<Longrightarrow>
     length secs = length pss \<and> rotateCount s' = rotateCount s + of_nat (length pss) \<and>
     entropy s' = entropy s \<and>
     (\<forall>i < length pss. secs ! i =
        mock_secret (mock_prefix (pss ! i)) (rotateCount s + of_nat (Suc i)))"
proof (induction pss arbitrary: s secs)
  case Nil
  then show ?case by simp
next
  case (Cons ps pss)
  obtain secs1 where run: "mock_rotations pss (s\<lparr>rotateCount := rotateCount s + 1\<rparr>) = (secs1, s')"
      and secs: "secs = mock_secret (mock_prefix ps) (rotateCount s + 1) # secs1"
    using Cons.prems by (auto simp: mock_RotateSecret_eq split: prod.splits)
  have "secs ! i = mock_secret (mock_prefix ((ps # pss) ! i)) (rotateCount s + of_nat (Suc i))"
    if "i < length (ps # pss)" for i
    using that Cons.IH [OF run] by (cases i) (simp_all add: secs algebra_simps)
  then show ?case using Cons.IH [OF run] by (simp add: secs algebra_simps)
qed

text \<open>
  Two versions have the same password for a prefix exactly when their numbers are the same
  counter value.
\<close>

lemma mock_password_inj:
  "mock_secret p m ''password'' = mock_secret p n ''password'' \<longleftrightarrow> m = n"
  by (auto dest: Itoa_inj intro: signed_word_eqI)

section \<open>Properties\<close>

text \<open>
  C33.  The mock provider never hands out the same password twice: in a run of
  at most 2 to the power 64 rotations, two rotations with the same prefix have different passwords
  and different API keys, and a fetch after the run returns the secret of the last rotation.
\<close>

theorem mock_rotations_fresh:
  assumes "mock_rotations pss s = (secs, s')" and "length pss \<le> 2 ^ 64"
    and "i < j" and "j < length pss"
    and "mock_prefix (pss ! i) = mock_prefix (pss ! j)"
  shows "(secs ! i) ''password'' \<noteq> (secs ! j) ''password'' \<and>
    (secs ! i) ''apiKey'' \<noteq> (secs ! j) ''apiKey'' \<and>
    fst (mock_FetchSecret (last pss) s') = Ret (Inr (last secs))"
proof -
  note run = mock_rotations_nth [OF assms(1)]
  have nth: "secs ! k = mock_secret (mock_prefix (pss ! k)) (rotateCount s + of_nat (Suc k))"
    if "k < length pss" for k
    using run that by blast
  have "take_bit 64 i = i" "take_bit 64 j = j"
    using assms(2,3,4) by (simp_all add: take_bit_nat_eq_self_iff)
  with assms(3) have "of_nat (Suc i) \<noteq> (of_nat (Suc j) :: 64 word)"
    by (simp add: word_of_nat_eq_iff)
  then have "rotateCount s + of_nat (Suc i) \<noteq> rotateCount s + of_nat (Suc j)" by simp
  then have "Itoa (sint (rotateCount s + of_nat (Suc i))) \<noteq>
      Itoa (sint (rotateCount s + of_nat (Suc j)))"
    by (metis Itoa_inj signed_word_eqI)
  moreover have "last secs = mock_secret (mock_prefix (last pss)) (rotateCount s')"
  proof -
    have "pss \<noteq> []" "length secs = length pss" using assms(4) run by auto
    then show ?thesis
      using run nth [of "length pss - 1"]
      by (cases secs rule: rev_cases; cases pss rule: rev_cases)
        (simp_all add: nth_append del: of_nat_Suc)
  qed
  ultimately show ?thesis
    using nth [of i] nth [of j] assms(3,4,5)
    by (simp add: mock_FetchSecret_def del: of_nat_Suc)
qed

lemma mock_rotations_fresh_witness:
  "(fst (mock_rotations [Map.empty, Map.empty] \<lparr>rotateCount = 0, entropy = ()\<rparr>) ! 0) ''password'' \<noteq>
   (fst (mock_rotations [Map.empty, Map.empty] \<lparr>rotateCount = 0, entropy = ()\<rparr>) ! 1) ''password''"
  using mock_rotations_fresh [of "[Map.empty, Map.empty]" "\<lparr>rotateCount = 0, entropy = ()\<rparr>"
      "fst (mock_rotations [Map.empty, Map.empty] \<lparr>rotateCount = 0, entropy = ()\<rparr>)" _ 0 1]
  by (cases "mock_rotations [Map.empty, Map.empty] \<lparr>rotateCount = 0, entropy = ()\<rparr>") simp

end
