(* ===== verification/StaticProvider.thy ===== *)
theory StaticProvider
  imports MockProvider
begin

text \<open>
  The static provider of \<^verbatim>\<open>internal/provider/static\<close>: passwords cut from the URL-safe base64
  text of random bytes.  \<^verbatim>\<open>crypto/rand.Read\<close> fills the buffer it is given, so the source of
  randomness is a parameter \<open>rand\<close>: from a length and the generator's state it returns an
  error or the byte at each index of the buffer, and the generator's next state.
\<close>

section \<open>URL-safe base64\<close>

definition b64_alphabet :: string where
  "b64_alphabet = ''ABCDEFGHIJKLMNOPQRSTUVWXYZabcdefghijklmnopqrstuvwxyz0123456789-_''"

definition b64_char :: "nat \<Rightarrow> char" where
  "b64_char i = b64_alphabet ! i"

definition sextet :: "nat \<Rightarrow> nat \<Rightarrow> nat" where
  "sextet v shift = v div 2 ^ shift mod 64"

definition b64_group :: "8 word \<Rightarrow> 8 word \<Rightarrow> 8 word \<Rightarrow> nat" where
  "b64_group a b c = unat a * 65536 + unat b * 256 + unat c"

fun EncodeToString :: "8 word list \<Rightarrow> string" where
  "EncodeToString [] = []"
| "EncodeToString [a] =
     (let v = b64_group a 0 0 in
      [b64_char (sextet v 18), b64_char (sextet v 12), CHR ''='', CHR ''=''])"
| "EncodeToString [a, b] =
     (let v = b64_group a b 0 in
      [b64_char (sextet v 18), b64_char (sextet v 12), b64_char (sextet v 6), CHR ''=''])"
| "EncodeToString (a # b # c # rest) =
     (let v = b64_group a b c in
      [b64_char (sextet v 18), b64_char (sextet v 12), b64_char (sextet v 6),
       b64_char (sextet v 0)] @ EncodeToString rest)"

section \<open>The provider\<close>

type_synonym 'r rand = "nat \<Rightarrow> 'r \<Rightarrow> (error + (nat \<Rightarrow> 8 word)) \<times> 'r"

definition defaultLength :: int where
  "defaultLength = 32"

text \<open>
  \<^verbatim>\<open>make([]byte, n)\<close> panics for a negative length and for one above the address space
  (2 to the power 48 bytes on 64-bit Linux); slicing \<open>s[:n]\<close> panics outside the string.
\<close>

definition byte_length :: "int \<Rightarrow> int" where
  "byte_length n = (let v = sint (word_of_int (n * 6 + 7) :: 64 word) in sgn v * (\<bar>v\<bar> div 8))"

definition slice_to :: "string \<Rightarrow> int \<Rightarrow> string outcome" where
  "slice_to s n =
    (if 0 \<le> n \<and> n \<le> int (length s) then Ret (take (nat n) s)
     else Panic ''runtime error: slice bounds out of range'')"

definition randomString :: "'r rand \<Rightarrow> int \<Rightarrow> 'r \<Rightarrow> (error + string) outcome \<times> 'r" where
  "randomString rand n r =
    (let byteLen = byte_length n in
     if byteLen < 0 \<or> 2 ^ 48 < byteLen
     then (Panic ''runtime error: makeslice: len out of range'', r)
     else
       (case rand (nat byteLen) r of
          (Inl err, r') \<Rightarrow> (Ret (Inl (Wrapf ''failed to generate random bytes: '' err)), r')
        | (Inr bytes, r') \<Rightarrow>
            (let encoded = EncodeToString (map bytes [0..<nat byteLen]) in
             (bind_outcome (slice_to encoded n) (\<lambda>s. Ret (Inr s)), r'))))"

definition static_length :: "params \<Rightarrow> int" where
  "static_length ps =
    (case ps ''length'' of
       None \<Rightarrow> defaultLength
     | Some l \<Rightarrow> (case Atoi l of None \<Rightarrow> defaultLength | Some n \<Rightarrow> n))"

definition generate ::
  "'r rand \<Rightarrow> params \<Rightarrow> 'r provider_state \<Rightarrow> (error + Secret) outcome \<times> 'r provider_state" where
  "generate rand ps s =
    (case randomString rand (static_length ps) (entropy s) of
       (res, r') \<Rightarrow>
         (bind_outcome res (\<lambda>x. Ret (case x of
            Inl err \<Rightarrow> Inl (Wrapf ''static provider: '' err)
          | Inr pass \<Rightarrow> Inr [''password'' \<mapsto> pass])),
          s\<lparr>entropy := r'\<rparr>))"

definition static_Validate :: "params \<Rightarrow> error option" where
  "static_Validate ps =
    (let complain = (\<lambda>l. Some (Errorf
           (''static provider: length must be an integer between 8 and 256, got '' @ Quote l))) in
     case ps ''length'' of
       None \<Rightarrow> None
     | Some l \<Rightarrow>
         (case Atoi l of
            None \<Rightarrow> complain l
          | Some n \<Rightarrow> if n < 8 \<or> 256 < n then complain l else None))"

definition static_FetchSecret ::
  "'r rand \<Rightarrow> params \<Rightarrow> 'r provider_state \<Rightarrow> (error + Secret) outcome \<times> 'r provider_state" where
  "static_FetchSecret rand ps s = generate rand ps s"

definition static_RotateSecret ::
  "'r rand \<Rightarrow> params \<Rightarrow> 'r provider_state \<Rightarrow> (error + Secret) outcome \<times> 'r provider_state" where
  "static_RotateSecret rand ps s = generate rand ps s"

definition Static :: "'r rand \<Rightarrow> 'r provider_state Provider" where
  "Static rand = \<lparr>prov_Name = ''static'', FetchSecret = static_FetchSecret rand,
     RotateSecret = static_RotateSecret rand, Validate = static_Validate\<rparr>"


section \<open>The encoding\<close>

lemma length_b64_alphabet [simp]: "length b64_alphabet = 64"
  by (simp add: b64_alphabet_def)

lemma b64_char_in_alphabet [simp]: "i < 64 \<Longrightarrow> b64_char i \<in> set b64_alphabet"
  by (simp add: b64_char_def)

lemma distinct_b64_alphabet: "distinct b64_alphabet"
  by (simp add: b64_alphabet_def)

lemma padding_not_in_alphabet: "CHR ''='' \<notin> set b64_alphabet"
  by (simp add: b64_alphabet_def)

lemma unat_byte [simp]: "unat (a :: 8 word) < 256"
  using unsigned_less [of a] by simp

lemma sextet_less [simp]: "sextet v i < 64"
  by (simp add: sextet_def)

lemma group_sextets:
  fixes a b c :: nat
  assumes "a < 256" "b < 256" "c < 256"
  defines "v \<equiv> a * 65536 + b * 256 + c"
  shows "sextet v 18 = a div 4" and "sextet v 12 = a mod 4 * 16 + b div 16"
    and "sextet v 6 = b mod 16 * 4 + c div 64" and "sextet v 0 = c mod 64"
proof -
  obtain a1 a0 b1 b0 c1 c0 where defs: "a1 = a div 4" "a0 = a mod 4" "b1 = b div 16"
      "b0 = b mod 16" "c1 = c div 64" "c0 = c mod 64" by blast
  then have a: "a = 4 * a1 + a0" "a0 < 4" "a1 < 64" and b: "b = 16 * b1 + b0" "b0 < 16" "b1 < 16"
      and c: "c = 64 * c1 + c0" "c0 < 64" "c1 < 4"
    using assms(1-3) by (simp_all add: less_mult_imp_div_less)
  have "v = 262144 * a1 + (65536 * a0 + 256 * b + c)" "65536 * a0 + 256 * b + c < 262144"
    using a assms(2,3) unfolding v_def by linarith+
  then have "v div 262144 = a1" by simp
  then show "sextet v 18 = a div 4" using a(3) by (simp add: sextet_def defs)
  have "v = 4096 * (64 * a1 + (16 * a0 + b1)) + (256 * b0 + c)"
    unfolding v_def a(1) b(1) by (simp add: algebra_simps)
  moreover have "256 * b0 + c < 4096" using b(2) assms(3) by linarith
  ultimately have "v div 4096 = 64 * a1 + (16 * a0 + b1)" by simp
  then have "v div 4096 mod 64 = (16 * a0 + b1) mod 64" by simp
  then show "sextet v 12 = a mod 4 * 16 + b div 16"
    using a(2) b(3) by (simp add: sextet_def flip: defs)
  have "v = 64 * (64 * (16 * a + b1) + (4 * b0 + c1)) + c0"
    unfolding v_def b(1) c(1) by (simp add: algebra_simps)
  then have "v div 64 = 64 * (16 * a + b1) + (4 * b0 + c1)" using c(2) by simp
  then have "v div 64 mod 64 = (4 * b0 + c1) mod 64" by (simp only: mod_mult_self4)
  then show "sextet v 6 = b mod 16 * 4 + c div 64"
    using b(2) c(3) by (simp add: sextet_def flip: defs)
  have "v = 64 * (a * 1024 + b * 4) + c" by (simp add: v_def)
  then have "v mod 64 = c mod 64" by (simp only: mod_mult_self4)
  then show "sextet v 0 = c mod 64" by (simp add: sextet_def)
qed

lemma length_EncodeToString: "length (EncodeToString bs) = 4 * ((length bs + 2) div 3)"
  by (induction bs rule: EncodeToString.induct) (simp_all add: Let_def div_add_self2, presburger)

text \<open>The first six-bit groups, one for every six bits begun, are letters of the alphabet.\<close>

lemma EncodeToString_alphabet:
  "n \<le> (4 * length bs + 2) div 3 \<Longrightarrow> set (take n (EncodeToString bs)) \<subseteq> set b64_alphabet"
proof (induction bs arbitrary: n rule: EncodeToString.induct)
  case 1
  then show ?case by simp
next
  case (2 a)
  then have "n \<le> 2" by simp
  then have "set (take n (EncodeToString [a])) \<subseteq> set (take 2 (EncodeToString [a]))"
    by (rule set_take_subset_set_take)
  also have "\<dots> \<subseteq> set b64_alphabet" by (simp add: Let_def)
  finally show ?case .
next
  case (3 a b)
  then have "n \<le> 3" by simp
  then have "set (take n (EncodeToString [a, b])) \<subseteq> set (take 3 (EncodeToString [a, b]))"
    by (rule set_take_subset_set_take)
  also have "\<dots> \<subseteq> set b64_alphabet" by (simp add: Let_def)
  finally show ?case .
next
  case (4 a b c rest)
  let ?v = "b64_group a b c"
  let ?head = "[b64_char (sextet ?v 18), b64_char (sextet ?v 12),
    b64_char (sextet ?v 6), b64_char (sextet ?v 0)]"
  have "n - 4 \<le> (4 * length rest + 2) div 3" using "4.prems" by simp
  then have "set (take (n - 4) (EncodeToString rest)) \<subseteq> set b64_alphabet" by (rule "4.IH" [OF refl])
  moreover have "set ?head \<subseteq> set b64_alphabet" by simp
  moreover have "take n (EncodeToString (a # b # c # rest)) =
      take n ?head @ take (n - 4) (EncodeToString rest)"
    unfolding EncodeToString.simps Let_def take_append by (simp add: numeral_eq_Suc)
  ultimately show ?case using set_take_subset [of n ?head] by auto
qed

text \<open>A decoder, against which the encoder is checked.\<close>

definition b64_value :: "char \<Rightarrow> nat option" where
  "b64_value c = map_of (zip b64_alphabet [0..<64]) c"

fun DecodeString :: "string \<Rightarrow> 8 word list option" where
  "DecodeString [] = Some []"
| "DecodeString (p # q # r # s # rest) =
     (case (b64_value p, b64_value q) of
        (Some i, Some j) \<Rightarrow>
          (if r = CHR ''='' then
             (if s = CHR ''='' \<and> rest = [] then Some [word_of_nat (i * 4 + j div 16)] else None)
           else
             (case b64_value r of
                None \<Rightarrow> None
              | Some k \<Rightarrow>
                  (if s = CHR ''='' then
                     (if rest = [] then
                        Some [word_of_nat (i * 4 + j div 16), word_of_nat (j mod 16 * 16 + k div 4)]
                      else None)
                   else
                     (case (b64_value s, DecodeString rest) of
                        (Some l, Some bs) \<Rightarrow>
                          Some (word_of_nat (i * 4 + j div 16) #
                                word_of_nat (j mod 16 * 16 + k div 4) #
                                word_of_nat (k mod 4 * 64 + l) # bs)
                      | _ \<Rightarrow> None))))
      | _ \<Rightarrow> None)"
| "DecodeString _ = None"

lemma b64_value_b64_char [simp]: "i < 64 \<Longrightarrow> b64_value (b64_char i) = Some i"
  unfolding b64_value_def b64_char_def
  using map_of_zip_nth [of b64_alphabet "[0..<64]" i] by (simp add: distinct_b64_alphabet)

lemma b64_char_not_padding [simp]: "i < 64 \<Longrightarrow> b64_char i \<noteq> CHR ''=''"
  using padding_not_in_alphabet b64_char_in_alphabet by metis

lemma sextet_bytes:
  "sextet (b64_group a b c) 18 * 4 + sextet (b64_group a b c) 12 div 16 = unat a"
  "sextet (b64_group a b c) 12 mod 16 * 16 + sextet (b64_group a b c) 6 div 4 = unat b"
  "sextet (b64_group a b c) 6 mod 4 * 64 + sextet (b64_group a b c) 0 = unat c"
proof -
  have "unat b div 16 < 16" "unat c div 64 < 4"
    using unat_byte [of b] unat_byte [of c] by (simp_all add: less_mult_imp_div_less)
  then show
    "sextet (b64_group a b c) 18 * 4 + sextet (b64_group a b c) 12 div 16 = unat a"
    "sextet (b64_group a b c) 12 mod 16 * 16 + sextet (b64_group a b c) 6 div 4 = unat b"
    "sextet (b64_group a b c) 6 mod 4 * 64 + sextet (b64_group a b c) 0 = unat c"
    by (simp_all add: b64_group_def group_sextets)
qed

lemma Decode_Encode: "DecodeString (EncodeToString bs) = Some bs"
proof (induction bs rule: EncodeToString.induct)
  case 1
  then show ?case by simp
next
  case (2 a)
  then show ?case using sextet_bytes(1) [of a 0 0] by (simp add: Let_def)
next
  case (3 a b)
  then show ?case using sextet_bytes(1,2) [of a b 0] by (simp add: Let_def)
next
  case (4 a b c rest)
  then show ?case using sextet_bytes [of a b c] by (simp add: Let_def)
qed

lemma EncodeToString_inj: "EncodeToString as = EncodeToString bs \<Longrightarrow> as = bs"
  by (metis Decode_Encode option.inject)

section \<open>Passwords\<close>

lemma byte_length_eq: "0 \<le> n \<Longrightarrow> n \<le> 2 ^ 48 \<Longrightarrow> byte_length n = (6 * n + 7) div 8"
proof -
  assume n: "0 \<le> n" "n \<le> 2 ^ 48"
  then have "sint (word_of_int (n * 6 + 7) :: 64 word) = 6 * n + 7"
    by (simp del: of_int_add of_int_mult add: int_word_sint mult.commute)
  with n show ?thesis by (simp add: byte_length_def Let_def sgn_if)
qed

text \<open>Enough bytes are drawn for the requested characters to precede the padding.\<close>

lemma enough_letters:
  assumes "0 \<le> n" and "n \<le> 2 ^ 48"
  shows "nat n \<le> (4 * nat (byte_length n) + 2) div 3"
proof -
  have "6 * nat n \<le> 8 * nat (byte_length n)"
    using assms by (simp add: byte_length_eq)
  then show ?thesis by linarith
qed

lemma randomString_password:
  assumes "0 \<le> n" and "n \<le> 2 ^ 48" and "rand (nat (byte_length n)) r = (Inr bytes, r')"
  defines "encoded \<equiv> EncodeToString (map bytes [0..<nat (byte_length n)])"
  shows "randomString rand n r = (Ret (Inr (take (nat n) encoded)), r')"
    and "length (take (nat n) encoded) = nat n"
    and "set (take (nat n) encoded) \<subseteq> set b64_alphabet"
proof -
  let ?k = "nat (byte_length n)"
  have enough: "nat n \<le> (4 * ?k + 2) div 3" by (rule enough_letters [OF assms(1,2)])
  have len: "length encoded = 4 * ((?k + 2) div 3)"
    by (simp add: encoded_def length_EncodeToString)
  then have fits: "nat n \<le> length encoded" using enough by linarith
  have "0 \<le> byte_length n" "byte_length n \<le> 2 ^ 48"
    using assms(1,2) by (simp_all add: byte_length_eq)
  then show "randomString rand n r = (Ret (Inr (take (nat n) encoded)), r')"
    using assms(1,3) fits
    by (simp add: randomString_def slice_to_def Let_def encoded_def nat_le_iff)
  show "length (take (nat n) encoded) = nat n" using fits by simp
  show "set (take (nat n) encoded) \<subseteq> set b64_alphabet"
    using EncodeToString_alphabet [of "nat n" "map bytes [0..<?k]"] enough
    by (simp add: encoded_def)
qed

lemma static_Validate_length:
  "static_Validate ps = None \<Longrightarrow> 8 \<le> static_length ps \<and> static_length ps \<le> 256"
  by (auto simp: static_Validate_def static_length_def defaultLength_def Let_def
      split: option.splits if_splits)

text \<open>A validated rotation: an error exactly when the source of randomness fails.\<close>

lemma generate_validated:
  assumes "static_Validate ps = None"
  defines "n \<equiv> static_length ps"
  shows "generate rand ps s =
    (case rand (nat (byte_length n)) (entropy s) of
       (Inl err, r') \<Rightarrow>
         (Ret (Inl (Wrapf ''static provider: ''
            (Wrapf ''failed to generate random bytes: '' err))), s\<lparr>entropy := r'\<rparr>)
     | (Inr bytes, r') \<Rightarrow>
         (Ret (Inr [''password'' \<mapsto>
            take (nat n) (EncodeToString (map bytes [0..<nat (byte_length n)]))]),
          s\<lparr>entropy := r'\<rparr>))"
proof -
  have n: "0 \<le> n" "n \<le> 2 ^ 48"
    using static_Validate_length [OF assms(1)] by (simp_all add: n_def)
  then have bounds: "\<not> byte_length n < 0" "\<not> 2 ^ 48 < byte_length n"
    by (simp_all add: byte_length_eq)
  show ?thesis
  proof (cases "rand (nat (byte_length n)) (entropy s)")
    case (Pair res r')
    show ?thesis
    proof (cases res)
      case (Inl err)
      with Pair bounds show ?thesis
        by (simp add: generate_def randomString_def Let_def flip: n_def)
    next
      case (Inr bytes)
      with Pair randomString_password(1) [OF n, of rand "entropy s" bytes r'] show ?thesis
        by (simp add: generate_def flip: n_def)
    qed
  qed
qed

interpretation static: provider "Static rand :: 'r provider_state Provider" for rand
proof
  fix ps and s :: "'r provider_state"
  assume "Validate (Static rand) ps = None"
  then have "static_Validate ps = None" by (simp add: Static_def)
  then show "returns (fst (RotateSecret (Static rand) ps s))"
      "returns (fst (FetchSecret (Static rand) ps s))"
    by (simp_all add: Static_def static_RotateSecret_def static_FetchSecret_def
        generate_validated split: prod.splits sum.splits)
qed

section \<open>Properties\<close>

text \<open>
  C32.  A validated rotation of the static provider never panics.  It fails exactly
  when the source of randomness does, with the error wrapped twice, and otherwise returns one key,
  \<open>password\<close>, of the requested length (32 by default, between 8 and 256), all of whose characters
  are letters of the URL-safe base64 alphabet and none the padding.
\<close>

theorem static_rotation:
  assumes "static_Validate ps = None"
  shows "case rand (nat (byte_length (static_length ps))) (entropy s) of
      (Inl err, r') \<Rightarrow> static_RotateSecret rand ps s =
        (Ret (Inl (Wrapf ''static provider: '' (Wrapf ''failed to generate random bytes: '' err))),
         s\<lparr>entropy := r'\<rparr>)
    | (Inr bytes, r') \<Rightarrow> (\<exists>pass. static_RotateSecret rand ps s =
          (Ret (Inr [''password'' \<mapsto> pass]), s\<lparr>entropy := r'\<rparr>) \<and>
        int (length pass) = static_length ps \<and> 8 \<le> length pass \<and> length pass \<le> 256 \<and>
        set pass \<subseteq> set b64_alphabet \<and> CHR ''='' \<notin> set pass)"
proof -
  let ?n = "static_length ps"
  have n: "8 \<le> ?n" "?n \<le> 256" using static_Validate_length [OF assms] by simp_all
  then have "0 \<le> ?n" "?n \<le> 2 ^ 48" by simp_all
  note pw = randomString_password(2,3) [OF this, of rand "entropy s"]
  show ?thesis
  proof (cases "rand (nat (byte_length ?n)) (entropy s)")
    case (Pair res r')
    then show ?thesis
      using generate_validated [OF assms, of rand s] pw n padding_not_in_alphabet
      by (cases res) (force simp: static_RotateSecret_def)+
  qed
qed

definition counting_rand :: "nat rand" where
  "counting_rand n r = (Inr (\<lambda>i. of_nat (r + i)), r + n)"

lemma static_rotation_witness:
  "\<exists>pass. static_RotateSecret counting_rand Map.empty \<lparr>rotateCount = 0, entropy = 7\<rparr> =
     (Ret (Inr [''password'' \<mapsto> pass]), \<lparr>rotateCount = 0, entropy = 31\<rparr>) \<and> length pass = 32"
  using static_rotation [of Map.empty counting_rand "\<lparr>rotateCount = 0, entropy = 7\<rparr>"]
  by (auto simp: static_Validate_def static_length_def defaultLength_def counting_rand_def
      byte_length_eq)

text \<open>
  The URL-safe base64 text of the drawn bytes determines them: decoding
  gives them back, and the text is a multiple of four characters long.
\<close>

lemma encoding_round_trip:
  "DecodeString (EncodeToString bs) = Some bs \<and>
   length (EncodeToString bs) = 4 * ((length bs + 2) div 3)"
  by (simp add: Decode_Encode length_EncodeToString)

text \<open>
  A length written in decimal is accepted exactly between 8 and 256,
  and an accepted length is the one that the generator then uses.
\<close>

lemma static_Validate_decimal:
  assumes "in_int64 n" and "ps ''length'' = Some (Itoa n)"
  shows "(static_Validate ps = None \<longleftrightarrow> 8 \<le> n \<and> n \<le> 256) \<and> static_length ps = n"
  using assms by (auto simp: static_Validate_def static_length_def Atoi_Itoa Let_def)

end
