(* ===== verification/StubProviders.thy ===== *)
theory StubProviders
  imports MockProvider
begin

text \<open>
  The providers of \<^verbatim>\<open>internal/provider/aws\<close> and \<^verbatim>\<open>internal/provider/vault\<close>: parameter
  checks in front of back ends that are not implemented yet, so that every fetch and every rotation
  is an error.
\<close>

section \<open>AWS Secrets Manager\<close>

text \<open>The three bytes of the dash in the messages.\<close>

definition em_dash :: string where
  "em_dash = map char_of [226, 128, 148 :: nat]"

definition aws_Validate :: "params \<Rightarrow> error option" where
  "aws_Validate ps =
    (if index ps ''secretId'' = ''''
     then Some (Errorf ''aws provider: secretId param is required'') else None)"

definition aws_fetch_error :: error where
  "aws_fetch_error = Errorf (''aws provider: not yet implemented '' @ em_dash @
     '' add aws-sdk-go-v2 and implement FetchSecret'')"

definition aws_rotate_error :: error where
  "aws_rotate_error = Errorf (''aws provider: not yet implemented '' @ em_dash @
     '' add aws-sdk-go-v2 and implement RotateSecret'')"

definition aws_FetchSecret :: "params \<Rightarrow> 'p \<Rightarrow> (error + Secret) outcome \<times> 'p" where
  "aws_FetchSecret ps s = (Ret (Inl aws_fetch_error), s)"

definition aws_RotateSecret :: "params \<Rightarrow> 'p \<Rightarrow> (error + Secret) outcome \<times> 'p" where
  "aws_RotateSecret ps s = (Ret (Inl aws_rotate_error), s)"

definition AWS :: "'p Provider" where
  "AWS = \<lparr>prov_Name = ''aws'', FetchSecret = aws_FetchSecret,
     RotateSecret = aws_RotateSecret, Validate = aws_Validate\<rparr>"

section \<open>HashiCorp Vault\<close>

definition vault_Validate :: "params \<Rightarrow> error option" where
  "vault_Validate ps =
    (if index ps ''path'' = ''''
     then Some (Errorf ''vault provider: path param is required (e.g. secret/data/myapp)'')
     else if index ps ''address'' = ''''
     then Some (Errorf
       ''vault provider: address param is required (e.g. https://vault.example.com)'')
     else None)"

definition vault_fetch_error :: error where
  "vault_fetch_error = Errorf (''vault provider: not yet implemented '' @ em_dash @
     '' add vault-client-go and implement FetchSecret'')"

definition vault_rotate_error :: error where
  "vault_rotate_error = Errorf (''vault provider: not yet implemented '' @ em_dash @
     '' add vault-client-go and implement RotateSecret'')"

definition vault_FetchSecret :: "params \<Rightarrow> 'p \<Rightarrow> (error + Secret) outcome \<times> 'p" where
  "vault_FetchSecret ps s = (Ret (Inl vault_fetch_error), s)"

definition vault_RotateSecret :: "params \<Rightarrow> 'p \<Rightarrow> (error + Secret) outcome \<times> 'p" where
  "vault_RotateSecret ps s = (Ret (Inl vault_rotate_error), s)"

definition Vault :: "'p Provider" where
  "Vault = \<lparr>prov_Name = ''vault'', FetchSecret = vault_FetchSecret,
     RotateSecret = vault_RotateSecret, Validate = vault_Validate\<rparr>"

lemmas [provider_defs] =
  aws_FetchSecret_def aws_RotateSecret_def AWS_def
  vault_FetchSecret_def vault_RotateSecret_def Vault_def

interpretation aws: stub_provider AWS aws_rotate_error aws_fetch_error
  by unfold_locales (simp_all add: provider_defs)

interpretation vault: stub_provider Vault vault_rotate_error vault_fetch_error
  by unfold_locales (simp_all add: provider_defs)

end
