(* ===== verification/Setup.thy ===== *)
theory Setup
  imports StaticProvider StubProviders Reconciler
begin

text \<open>
  The start of the operator, \<^verbatim>\<open>cmd/main.go\<close>: the values of the command-line flags and what
  they make of the options of the webhook server, the metrics server and the manager, and the
  registry of providers that the reconciler is given.
\<close>

section \<open>Flags\<close>

record Flags =
  metricsAddr :: string
  metricsCertPath :: string
  metricsCertName :: string
  metricsCertKey :: string
  webhookCertPath :: string
  webhookCertName :: string
  webhookCertKey :: string
  enableLeaderElection :: bool
  probeAddr :: string
  secureMetrics :: bool
  enableHTTP2 :: bool

text \<open>The defaults.\<close>

definition default_flags :: Flags where
  "default_flags = \<lparr>metricsAddr = ''0'',
     metricsCertPath = '''', metricsCertName = ''tls.crt'', metricsCertKey = ''tls.key'',
     webhookCertPath = '''', webhookCertName = ''tls.crt'', webhookCertKey = ''tls.key'',
     enableLeaderElection = False, probeAddr = '':8081'', secureMetrics = True,
     enableHTTP2 = False\<rparr>"

section \<open>Server options\<close>

text \<open>Of a \<^verbatim>\<open>tls.Config\<close> only the field that is set.\<close>

record tls_config =
  NextProtos :: "string list"

definition disableHTTP2 :: "tls_config \<Rightarrow> tls_config" where
  "disableHTTP2 c = c\<lparr>NextProtos := [''http/1.1'']\<rparr>"

definition tlsOpts :: "Flags \<Rightarrow> (tls_config \<Rightarrow> tls_config) list" where
  "tlsOpts fl = (if \<not> enableHTTP2 fl then [] @ [disableHTTP2] else [])"

record WebhookOptions =
  wo_TLSOpts :: "(tls_config \<Rightarrow> tls_config) list"
  wo_CertDir :: string
  wo_CertName :: string
  wo_KeyName :: string

definition webhookServerOptions :: "Flags \<Rightarrow> WebhookOptions" where
  "webhookServerOptions fl =
    (let opts = \<lparr>wo_TLSOpts = tlsOpts fl, wo_CertDir = '''', wo_CertName = '''',
                 wo_KeyName = ''''\<rparr> in
     if 0 < length (webhookCertPath fl)
     then opts\<lparr>wo_CertDir := webhookCertPath fl, wo_CertName := webhookCertName fl,
               wo_KeyName := webhookCertKey fl\<rparr>
     else opts)"

datatype MetricsFilter = WithAuthenticationAndAuthorization

record MetricsOptions =
  BindAddress :: string
  SecureServing :: bool
  mo_TLSOpts :: "(tls_config \<Rightarrow> tls_config) list"
  FilterProvider :: "MetricsFilter option"
  mo_CertDir :: string
  mo_CertName :: string
  mo_KeyName :: string

definition metricsServerOptions :: "Flags \<Rightarrow> MetricsOptions" where
  "metricsServerOptions fl =
    (let opts0 = \<lparr>BindAddress = metricsAddr fl, SecureServing = secureMetrics fl,
                  mo_TLSOpts = tlsOpts fl, FilterProvider = None, mo_CertDir = '''',
                  mo_CertName = '''', mo_KeyName = ''''\<rparr>;
         opts1 = (if secureMetrics fl
                  then opts0\<lparr>FilterProvider := Some WithAuthenticationAndAuthorization\<rparr>
                  else opts0) in
     if 0 < length (metricsCertPath fl)
     then opts1\<lparr>mo_CertDir := metricsCertPath fl, mo_CertName := metricsCertName fl,
                mo_KeyName := metricsCertKey fl\<rparr>
     else opts1)"

record ManagerOptions =
  man_Metrics :: MetricsOptions
  man_Webhook :: WebhookOptions
  HealthProbeBindAddress :: string
  LeaderElection :: bool
  LeaderElectionID :: string

definition manager_options :: "Flags \<Rightarrow> ManagerOptions" where
  "manager_options fl =
    \<lparr>man_Metrics = metricsServerOptions fl, man_Webhook = webhookServerOptions fl,
     HealthProbeBindAddress = probeAddr fl, LeaderElection = enableLeaderElection fl,
     LeaderElectionID = ''4bbe2ea3.keysmith.io''\<rparr>"

text \<open>The configuration of a server is made by applying its options in turn.\<close>

definition apply_tls :: "(tls_config \<Rightarrow> tls_config) list \<Rightarrow> tls_config \<Rightarrow> tls_config" where
  "apply_tls opts c = fold (\<lambda>f. f) opts c"

section \<open>The registry of the operator\<close>

definition operator_registry :: "'r rand \<Rightarrow> 'r provider_state Registry outcome" where
  "operator_registry rand =
     bind_outcome (Register NewRegistry Mock) (\<lambda>r.
     bind_outcome (Register r (Static rand)) (\<lambda>r.
     bind_outcome (Register r AWS) (\<lambda>r.
     Register r Vault)))"

definition operator ::
  "'r rand \<Rightarrow> 'r provider_state SecretRotationPolicyReconciler outcome" where
  "operator rand = bind_outcome (operator_registry rand) (\<lambda>r. Ret \<lparr>Registry = r\<rparr>)"

text \<open>The four registrations are one sequence, to which the contract of the registry applies.\<close>

definition operator_providers :: "'r rand \<Rightarrow> 'r provider_state Provider list" where
  "operator_providers rand = [Mock, Static rand, AWS, Vault]"

lemma bind_Ret [simp]: "bind_outcome m Ret = m"
  by (cases m) simp_all

lemma operator_registry_seq:
  "operator_registry rand = register_seq Register NewRegistry (operator_providers rand)"
  by (simp add: operator_registry_def operator_providers_def)

lemma operator_provider_names [simp]:
  "map prov_Name (operator_providers rand) = [''mock'', ''static'', ''aws'', ''vault'']"
  by (simp add: operator_providers_def provider_defs Static_def)

text \<open>The registration succeeds, and the registry knows exactly the four providers.\<close>

lemma operator_registry_contract:
  "\<exists>r. operator_registry rand = Ret r \<and> registry_ok r \<and> set (Names r) = set provider_names \<and>
     (\<forall>n q. Get r n = Inr q \<longleftrightarrow> q \<in> set (operator_providers rand) \<and> prov_Name q = n)"
proof -
  have ne: "Get NewRegistry n \<noteq> Inr q" for n and q :: "'a provider_state Provider"
    by (simp add: Get_Inr NewRegistry_def)
  have "distinct (map prov_Name (operator_providers rand))"
    by simp
  from reg.seq_returns [OF reg.ok_empty this] ne show ?thesis
    by (auto simp: operator_registry_seq reg.names_empty provider_names_def)
qed

lemma operator_Names:
  "operator_registry rand = Ret r \<Longrightarrow> Names r = [''aws'', ''mock'', ''static'', ''vault'']"
proof -
  assume "operator_registry rand = Ret r"
  then have "set (Names r) = set [''aws'', ''mock'', ''static'', ''vault'']"
      and "sorted (Names r) \<and> distinct (Names r)"
    using operator_registry_contract [of rand] Names_sorted_distinct [of r]
    by (auto simp: provider_names_def)
  then show ?thesis by (intro sorted_distinct_set_unique) auto
qed

section \<open>Properties\<close>

text \<open>
  C25.  The operator's start never panics on its registrations, every
  provider name that the schema admits resolves to the provider of that name, and every other name
  is refused with an error that lists the four names.
\<close>

theorem operator_registry_complete:
  "\<exists>r. operator rand = Ret \<lparr>Registry = r\<rparr> \<and>
     Names r = [''aws'', ''mock'', ''static'', ''vault''] \<and>
     (\<forall>n. Get r n =
        (if n = ''mock'' then Inr Mock
         else if n = ''static'' then Inr (Static rand)
         else if n = ''aws'' then Inr AWS
         else if n = ''vault'' then Inr Vault
         else Inl (Errorf (''unknown provider '' @ Quote n @
           '' (registered: aws, mock, static, vault)''))))"
proof -
  obtain r where r: "operator_registry rand = Ret r"
      and names: "set (Names r) = set provider_names"
      and get: "\<And>n q. Get r n = Inr q \<longleftrightarrow> q \<in> set (operator_providers rand) \<and> prov_Name q = n"
    using operator_registry_contract [of rand] by blast
  have list: "Names r = [''aws'', ''mock'', ''static'', ''vault'']" by (rule operator_Names [OF r])
  have "Get r n = Inl (Errorf (''unknown provider '' @ Quote n @
      '' (registered: aws, mock, static, vault)''))" if "n \<notin> set provider_names" for n
  proof -
    have "map_of (providers r) n = None"
      using that names by (simp add: map_of_eq_None_iff)
    then show ?thesis by (simp add: Get_def nameList_def list)
  qed
  moreover have "Get r ''mock'' = Inr Mock" "Get r ''static'' = Inr (Static rand)"
      "Get r ''aws'' = Inr AWS" "Get r ''vault'' = Inr Vault"
    by (simp_all add: get operator_providers_def provider_defs Static_def)
  ultimately show ?thesis
    using r list by (simp add: operator_def provider_names_def)
qed

text \<open>
  Unless the flag enables HTTP/2, both the metrics server and the
  webhook server speak HTTP/1.1 only, whatever their configuration was before; with it neither
  configuration is touched.  Secure metrics are always behind authentication and authorization.
\<close>

lemma http2_is_off_by_default:
  "apply_tls (mo_TLSOpts (man_Metrics (manager_options fl))) c =
     (if enableHTTP2 fl then c else c\<lparr>NextProtos := [''http/1.1'']\<rparr>) \<and>
   apply_tls (wo_TLSOpts (man_Webhook (manager_options fl))) c =
     (if enableHTTP2 fl then c else c\<lparr>NextProtos := [''http/1.1'']\<rparr>) \<and>
   (SecureServing (man_Metrics (manager_options fl)) \<longleftrightarrow>
      FilterProvider (man_Metrics (manager_options fl)) = Some WithAuthenticationAndAuthorization)"
  by (simp add: manager_options_def metricsServerOptions_def webhookServerOptions_def tlsOpts_def
      apply_tls_def disableHTTP2_def Let_def)

end
