(* ===== verification/Metrics.thy ===== *)
theory Metrics
  imports Effects
begin

text \<open>
  The collectors of \<^verbatim>\<open>internal/metrics/metrics.go\<close> and the values they hold after the metric
  events of a trace.  A value of a labelled collector is known by its label values, in the order of
  the collector's label names.
\<close>

section \<open>The collectors\<close>

datatype CollectorKind = CounterVec | HistogramVec | GaugeVec | Gauge

record Collector =
  co_Kind :: CollectorKind
  co_Namespace :: string
  co_Name :: string
  co_Labels :: "string list"

definition RotationsTotal :: Collector where
  "RotationsTotal = \<lparr>co_Kind = CounterVec, co_Namespace = ''keysmith'',
     co_Name = ''rotations_total'',
     co_Labels = [''policy'', ''namespace'', ''provider'', ''result'']\<rparr>"

definition RotationDuration :: Collector where
  "RotationDuration = \<lparr>co_Kind = HistogramVec, co_Namespace = ''keysmith'',
     co_Name = ''rotation_duration_seconds'',
     co_Labels = [''policy'', ''namespace'', ''provider'']\<rparr>"

definition NextRotationTimestamp :: Collector where
  "NextRotationTimestamp = \<lparr>co_Kind = GaugeVec, co_Namespace = ''keysmith'',
     co_Name = ''next_rotation_timestamp_seconds'', co_Labels = [''policy'', ''namespace'']\<rparr>"

definition ActivePolicies :: Collector where
  "ActivePolicies = \<lparr>co_Kind = Gauge, co_Namespace = ''keysmith'',
     co_Name = ''active_policies_total'', co_Labels = []\<rparr>"

text \<open>What \<^verbatim>\<open>init\<close> registers.\<close>

definition collectors :: "Collector list" where
  "collectors = [RotationsTotal, RotationDuration, NextRotationTimestamp, ActivePolicies]"

section \<open>Their values\<close>

text \<open>
  A histogram is known by its observations.  The labels of the next-rotation gauge without a value
  have never been set.
\<close>

record Metrics =
  rotations_total :: "string list \<Rightarrow> nat"
  rotation_durations :: "string list \<Rightarrow> duration list"
  next_rotation :: "string list \<Rightarrow> int option"
  active_policies :: int

definition no_metrics :: Metrics where
  "no_metrics = \<lparr>rotations_total = (\<lambda>_. 0), rotation_durations = (\<lambda>_. []),
     next_rotation = (\<lambda>_. None), active_policies = 0\<rparr>"

definition collect :: "event \<Rightarrow> Metrics \<Rightarrow> Metrics" where
  "collect e m =
    (case e of
       EvRotationsTotal policy ns name res \<Rightarrow>
         m\<lparr>rotations_total := (rotations_total m)
             ([policy, ns, name, res] := rotations_total m [policy, ns, name, res] + 1)\<rparr>
     | EvRotationDuration policy ns name d \<Rightarrow>
         m\<lparr>rotation_durations := (rotation_durations m)
             ([policy, ns, name] := rotation_durations m [policy, ns, name] @ [d])\<rparr>
     | EvNextRotationTimestamp policy ns t \<Rightarrow>
         m\<lparr>next_rotation := (next_rotation m)([policy, ns] := Some t)\<rparr>
     | EvActivePoliciesDec \<Rightarrow> m\<lparr>active_policies := active_policies m - 1\<rparr>
     | _ \<Rightarrow> m)"

definition collected :: "event list \<Rightarrow> Metrics \<Rightarrow> Metrics" where
  "collected es m = fold collect es m"

lemma collected_simps [simp]:
  "collected [] m = m"
  "collected (e # es) m = collected es (collect e m)"
  "collected (es @ es') m = collected es' (collected es m)"
  by (simp_all add: collected_def)

text \<open>The gauge of active policies counts the decrements; nothing in the program increments it.\<close>

lemma active_policies_collected:
  "active_policies (collected es m) =
     active_policies m - int (length (filter (\<lambda>e. e = EvActivePoliciesDec) es))"
  by (induction es arbitrary: m) (auto simp: collect_def split: event.splits)

lemma rotations_total_collected:
  "rotations_total (collected es m) [policy, ns, name, res] =
     rotations_total m [policy, ns, name, res] +
     length (filter (\<lambda>e. e = EvRotationsTotal policy ns name res) es)"
  by (induction es arbitrary: m) (auto simp: collect_def split: event.splits)

lemma rotation_durations_collected:
  "rotation_durations (collected es m) [policy, ns, name] =
     rotation_durations m [policy, ns, name] @
     concat (map (\<lambda>e. case e of EvRotationDuration p n k d \<Rightarrow>
       (if (p, n, k) = (policy, ns, name) then [d] else []) | _ \<Rightarrow> []) es)"
  by (induction es arbitrary: m) (auto simp: collect_def split: event.splits)

end
