(* ===== verification/Reconciliation.thy ===== *)
theory Reconciliation
  imports Lifecycle Handlers Setup Metrics
begin

text \<open>
  One reconcile as a whole: when it rotates, what its trace says of the outcome, and what it
  promises under a schema-valid policy.  The rotation itself is the machine of \<open>Lifecycle\<close>; here are
  the steps around it.
\<close>

section \<open>What a trace says\<close>

definition provider_calls :: "event list \<Rightarrow> string list" where
  "provider_calls es = concat (map (\<lambda>e. case e of EvRotate n _ _ \<Rightarrow> [n] | _ \<Rightarrow> []) es)"

definition attempts :: "event list \<Rightarrow> bool list" where
  "attempts es = concat (map (\<lambda>e. case e of EvRotate _ _ ok \<Rightarrow> [ok] | _ \<Rightarrow> []) es)"

definition counts :: "event list \<Rightarrow> string list" where
  "counts es = concat (map (\<lambda>e. case e of EvRotationsTotal _ _ _ res \<Rightarrow> [res] | _ \<Rightarrow> []) es)"

definition writes :: "event list \<Rightarrow> bool list" where
  "writes es = concat (map (\<lambda>e. case e of EvPutSecret _ _ ok \<Rightarrow> [ok] | _ \<Rightarrow> []) es)"

definition openings :: "event list \<Rightarrow> RecordPhase list" where
  "openings es = concat (map (\<lambda>e. case e of
     EvCreateRecord rr _ \<Rightarrow> [rrs_Phase (rr_Status rr)] | _ \<Rightarrow> []) es)"

definition closings :: "event list \<Rightarrow> RecordPhase list" where
  "closings es = concat (map (\<lambda>e. case e of
     EvUpdateRecordStatus rr _ \<Rightarrow> [rrs_Phase (rr_Status rr)] | _ \<Rightarrow> []) es)"

lemmas trace_defs =
  provider_calls_def attempts_def counts_def writes_def openings_def closings_def

lemma trace_append [simp]:
  "provider_calls (es @ es') = provider_calls es @ provider_calls es'"
  "attempts (es @ es') = attempts es @ attempts es'"
  "counts (es @ es') = counts es @ counts es'"
  "writes (es @ es') = writes es @ writes es'"
  "openings (es @ es') = openings es @ openings es'"
  "closings (es @ es') = closings es @ closings es'"
  by (simp_all add: trace_defs)

lemma trace_Cons [simp]:
  "provider_calls (e # es) = (case e of EvRotate n _ _ \<Rightarrow> [n] | _ \<Rightarrow> []) @ provider_calls es"
  "attempts (e # es) = (case e of EvRotate _ _ ok \<Rightarrow> [ok] | _ \<Rightarrow> []) @ attempts es"
  "counts (e # es) = (case e of EvRotationsTotal _ _ _ res \<Rightarrow> [res] | _ \<Rightarrow> []) @ counts es"
  "writes (e # es) = (case e of EvPutSecret _ _ ok \<Rightarrow> [ok] | _ \<Rightarrow> []) @ writes es"
  "openings (e # es) = (case e of EvCreateRecord rr _ \<Rightarrow> [rrs_Phase (rr_Status rr)] | _ \<Rightarrow> []) @ openings es"
  "closings (e # es) = (case e of EvUpdateRecordStatus rr _ \<Rightarrow> [rrs_Phase (rr_Status rr)] | _ \<Rightarrow> []) @ closings es"
  by (simp_all add: trace_defs)

lemma trace_Nil [simp]:
  "provider_calls [] = []" "attempts [] = []" "counts [] = []" "writes [] = []"
  "openings [] = []" "closings [] = []"
  by (simp_all add: trace_defs)

text \<open>The events of the handlers that do not rotate.\<close>

definition quiet :: "event \<Rightarrow> bool" where
  "quiet e \<longleftrightarrow> (case e of EvGetPolicy _ _ \<Rightarrow> True | EvUpdatePolicy _ _ \<Rightarrow> True
     | EvUpdatePolicyStatus _ _ \<Rightarrow> True | EvActivePoliciesDec \<Rightarrow> True | _ \<Rightarrow> False)"

lemma quiet_trace:
  "list_all quiet es \<Longrightarrow> provider_calls es = [] \<and> attempts es = [] \<and> counts es = [] \<and>
     writes es = [] \<and> openings es = [] \<and> closings es = []"
  by (induction es) (auto simp: quiet_def split: event.splits)

section \<open>The handlers that do not rotate\<close>

lemma emits_setSuspended:
  "emits (setSuspended X p) (\<lambda>out es. \<exists>now err. out = Ret (requeue_after (minutes 5), err) \<and>
     es = [EvUpdatePolicyStatus (put_condition X ConditionReady ConditionFalse ''Suspended''
       ''Rotation is suspended via spec.policy.suspend=true'' now
       (map_status (\<lambda>st. st\<lparr>srps_Phase := PhaseSuspended\<rparr>) p)) (err = None)])"
  unfolding setSuspended_def set_condition_def Let_def by (intro emits_intro) auto

lemma emits_setProviderUnhealthy:
  "emits (setProviderUnhealthy X p e) (\<lambda>out es. out = Ret (requeue_after (minutes 1), None) \<and>
     (\<exists>now ok. es = [EvUpdatePolicyStatus (put_condition X ConditionProviderHealthy ConditionFalse
       ''ProviderError'' (Error e) now (map_status (\<lambda>st. st\<lparr>srps_Phase := PhaseFailed\<rparr>) p)) ok]))"
  unfolding setProviderUnhealthy_def set_condition_def Let_def by (intro emits_intro) auto

lemma emits_markDegraded:
  "emits (markDegraded X p reason msg) (\<lambda>out es. out = Ret (requeue_after (minutes 1), None) \<and>
     (\<exists>now ok. es = [EvUpdatePolicyStatus
       (put_condition X ConditionDegraded ConditionTrue reason msg now p) ok]))"
  unfolding markDegraded_def set_condition_def by (intro emits_intro) auto

lemma emits_handleDeletion:
  "emits (handleDeletion X p) (\<lambda>out es.
     if ContainsFinalizer X (srp_Meta p) FinalizerName
     then (\<exists>err. out = Ret (no_result, err) \<and>
       es = EvUpdatePolicy (map_meta (\<lambda>m. RemoveFinalizer X m FinalizerName) p) (err = None) #
         (if err = None then [EvActivePoliciesDec] else []))
     else out = Ret (no_result, None) \<and> es = [EvActivePoliciesDec])"
  unfolding handleDeletion_def Let_def by (intro emits_intro) auto

lemma emits_requeueNotDue:
  "emits (requeueNotDue X p) (\<lambda>out es. list_all quiet es \<and> EvActivePoliciesDec \<notin> set es \<and>
     (\<exists>d. out = Ret (requeue_after d, None)))"
  unfolding requeueNotDue_def Let_def
  by (intro emits_intro emits_weaken [OF emits_markDegraded]) (auto simp: quiet_def)

section \<open>When a reconcile rotates\<close>

text \<open>
  The provider that a reconcile of a fetched policy calls, if it calls one, at a reading of the
  clock.
\<close>

definition rotation_granted ::
  "'w Ext \<Rightarrow> 'p Registry \<Rightarrow> SecretRotationPolicy \<Rightarrow> gotime \<Rightarrow> 'p Provider option" where
  "rotation_granted X registry p now =
    (if being_deleted p \<or> \<not> ContainsFinalizer X (srp_Meta p) FinalizerName \<or>
        Suspend (Policy (srp_Spec p)) then None
     else case Get registry (ps_Name (Provider (srp_Spec p))) of
       Inl _ \<Rightarrow> None
     | Inr prov \<Rightarrow>
         if Validate prov (Params (Provider (srp_Spec p))) \<noteq> None then None
         else case IsDue (parse_cron X) (Schedule (srp_Spec p)) (LastRotationTime (srp_Status p))
                (rotation_window p) now of
           Inl _ \<Rightarrow> None
         | Inr due \<Rightarrow> if due \<or> manual_requested p then Some prov else None)"

lemma emits_executeRotation [emits_intro]: "emits (executeRotation X p prov manual) (\<lambda>_ _. True)"
  by (rule emits_weaken [OF refines_executeRotation]) simp

lemma emits_reconcileActive: "emits (reconcileActive X reg p) (\<lambda>_ _. True)"
  unfolding reconcileActive_def Let_def
  by (intro emits_intro emits_weaken [OF emits_setProviderUnhealthy] emits_weaken [OF emits_markDegraded]
      emits_weaken [OF emits_requeueNotDue]) simp_all

lemma emits_reconcilePolicy: "emits (reconcilePolicy X reg p) (\<lambda>_ _. True)"
  unfolding reconcilePolicy_def
  by (intro emits_intro emits_weaken [OF emits_reconcileActive]
      emits_weaken [OF emits_setSuspended] emits_weaken [OF emits_handleDeletion]) simp_all

text \<open>Fetching the policy, and reading the clock.\<close>

definition fetched :: "'w Ext \<Rightarrow> NamespacedName \<Rightarrow> ('w, 'p) process \<Rightarrow> ('w, 'p) process" where
  "fetched X req s =
     s\<lparr>world := snd (get_policy X req (world s)),
       trace := trace s @ [EvGetPolicy req (\<not> failed (fst (get_policy X req (world s))))]\<rparr>"

definition ticked :: "'w Ext \<Rightarrow> ('w, 'p) process \<Rightarrow> ('w, 'p) process" where
  "ticked X s = s\<lparr>world := snd (clock X (world s))\<rparr>"

lemma prov_state_steps [simp]:
  "prov_state (fetched X req s) = prov_state s" "prov_state (ticked X s) = prov_state s"
  "world (fetched X req s) = snd (get_policy X req (world s))"
  "world (ticked X s) = snd (clock X (world s))"
  by (simp_all add: fetched_def ticked_def)

lemma run_GetPolicy:
  "result (GetPolicy X req) s = fst (get_policy X req (world s))"
  "events (GetPolicy X req) s = [EvGetPolicy req (\<not> failed (fst (get_policy X req (world s))))]"
  "snd (run_state (GetPolicy X req) s) = fetched X req s"
  by (simp_all add: GetPolicy_def run_external fetched_def)

lemma run_Now:
  "result (Now X) s = fst (clock X (world s))" "events (Now X) s = []"
  "snd (run_state (Now X) s) = ticked X s"
  by (simp_all add: Now_def run_silent ticked_def)

lemma Reconcile_steps:
  "result (Reconcile X r req) s =
     (case fst (get_policy X req (world s)) of
        Inl err \<Rightarrow> if IsNotFound X err then Ret (no_result, None)
          else Ret (no_result, Some (Wrapf ''fetching SecretRotationPolicy: '' err))
      | Inr p \<Rightarrow> result (reconcilePolicy X (Registry r) p) (fetched X req s))"
  "events (Reconcile X r req) s =
     EvGetPolicy req (\<not> failed (fst (get_policy X req (world s)))) #
     (case fst (get_policy X req (world s)) of
        Inl err \<Rightarrow> []
      | Inr p \<Rightarrow> events (reconcilePolicy X (Registry r) p) (fetched X req s))"
proof -
  show "result (Reconcile X r req) s =
     (case fst (get_policy X req (world s)) of
        Inl err \<Rightarrow> if IsNotFound X err then Ret (no_result, None)
          else Ret (no_result, Some (Wrapf ''fetching SecretRotationPolicy: '' err))
      | Inr p \<Rightarrow> result (reconcilePolicy X (Registry r) p) (fetched X req s))"
    by (simp add: Reconcile_def result_bind run_GetPolicy split: sum.split)
  define cont where "cont = (\<lambda>f. case f of
        Inl err \<Rightarrow> State_Monad.return
          (if IsNotFound X err then Ret (no_result, None)
           else Ret (no_result, Some (Wrapf ''fetching SecretRotationPolicy: '' err)))
      | Inr policy \<Rightarrow> reconcilePolicy X (Registry r) policy)"
  have "emits (GetPolicy X req) (\<lambda>_ _. True)" by (rule emits_GetPolicy) simp
  moreover have "emits (cont f) (\<lambda>_ _. True)" for f
    unfolding cont_def by (intro emits_intro emits_reconcilePolicy) simp
  ultimately have "events (State_Monad.bind (GetPolicy X req) cont) s =
      events (GetPolicy X req) s @ events (cont (fst (get_policy X req (world s)))) (fetched X req s)"
    unfolding run_GetPolicy(1,3) [symmetric] by (rule events_bind)
  then show "events (Reconcile X r req) s =
     EvGetPolicy req (\<not> failed (fst (get_policy X req (world s)))) #
     (case fst (get_policy X req (world s)) of
        Inl err \<Rightarrow> []
      | Inr p \<Rightarrow> events (reconcilePolicy X (Registry r) p) (fetched X req s))"
    by (simp add: Reconcile_def cont_def run_GetPolicy split: sum.split)
qed

lemma run_bind_Now:
  "result (State_Monad.bind (Now X) f) s = result (f (fst (clock X (world s)))) (ticked X s)"
  "events (State_Monad.bind (Now X) f) s = events (f (fst (clock X (world s)))) (ticked X s)"
  by (simp_all add: Now_def silent_def result_def events_def ticked_def split: prod.splits)

lemma rotation_granted_SomeD:
  assumes "rotation_granted X reg p now = Some prov"
  shows "\<not> being_deleted p" and "ContainsFinalizer X (srp_Meta p) FinalizerName"
    and "\<not> Suspend (Policy (srp_Spec p))"
    and "Get reg (ps_Name (Provider (srp_Spec p))) = Inr prov"
    and "Validate prov (Params (Provider (srp_Spec p))) = None"
    and "\<exists>due. IsDue (parse_cron X) (Schedule (srp_Spec p)) (LastRotationTime (srp_Status p))
      (rotation_window p) now = Inr due \<and> (due \<or> manual_requested p)"
  using assms by (auto simp: rotation_granted_def split: if_splits sum.splits)

lemma granted_run:
  assumes "rotation_granted X reg p (fst (clock X (world s))) = Some prov"
  shows "result (reconcilePolicy X reg p) s =
      result (executeRotation X p prov (manual_requested p)) (ticked X s)"
    and "events (reconcilePolicy X reg p) s =
      events (executeRotation X p prov (manual_requested p)) (ticked X s)"
  using rotation_granted_SomeD [OF assms]
  by (auto simp: reconcilePolicy_def reconcileActive_def Let_def run_bind_Now)

lemma quiet_emits:
  "emits (setSuspended X p) (\<lambda>_ es. list_all quiet es)"
  "emits (setProviderUnhealthy X p e) (\<lambda>_ es. list_all quiet es)"
  "emits (markDegraded X p reason msg) (\<lambda>_ es. list_all quiet es)"
  "emits (handleDeletion X p) (\<lambda>_ es. list_all quiet es)"
  "emits (requeueNotDue X p) (\<lambda>_ es. list_all quiet es)"
  by (rule emits_weaken [OF emits_setSuspended] emits_weaken [OF emits_setProviderUnhealthy]
      emits_weaken [OF emits_markDegraded] emits_weaken [OF emits_handleDeletion]
      emits_weaken [OF emits_requeueNotDue]; auto simp: quiet_def split: if_splits)+

lemma quiet_add_finalizer:
  "emits (do {
       (_, err) \<leftarrow> UpdatePolicy X q;
       State_Monad.return (case err of
          Some e \<Rightarrow> Ret (no_result, Some (Wrapf ''adding finalizer: '' e))
        | None \<Rightarrow> Ret (no_result\<lparr>Requeue := True\<rparr>, None))
     }) (\<lambda>_ es. list_all quiet es)"
  by (intro emits_intro) (auto simp: quiet_def)

lemma not_granted_run:
  assumes "rotation_granted X reg p (fst (clock X (world s))) = None"
  shows "list_all quiet (events (reconcilePolicy X reg p) s)"
proof -
  note quiet = quiet_emits [THEN emitsD(1)] quiet_add_finalizer [THEN emitsD(1)]
  have "list_all quiet (events (reconcileActive X reg p) s)"
    if "\<not> being_deleted p" "ContainsFinalizer X (srp_Meta p) FinalizerName"
      "\<not> Suspend (Policy (srp_Spec p))"
    using assms that
    by (auto simp: reconcileActive_def Let_def run_bind_Now rotation_granted_def quiet
        split: sum.splits option.splits)
  then show ?thesis by (simp add: reconcilePolicy_def quiet)
qed

text \<open>A reconcile, with its trace after the fetch.\<close>

lemma Reconcile_cases:
  fixes s :: "('w, 'p) process"
  obtains (missing) e where "fst (get_policy X req (world s)) = Inl e"
      "events (Reconcile X r req) s = [EvGetPolicy req False]"
      "result (Reconcile X r req) s = (if IsNotFound X e then Ret (no_result, None)
          else Ret (no_result, Some (Wrapf ''fetching SecretRotationPolicy: '' e)))"
    | (resting) p es where "fst (get_policy X req (world s)) = Inr p"
      "rotation_granted X (Registry r) p (fst (clock X (snd (get_policy X req (world s))))) = None"
      "events (Reconcile X r req) s = EvGetPolicy req True # es" "list_all quiet es"
      "result (Reconcile X r req) s = result (reconcilePolicy X (Registry r) p) (fetched X req s)"
    | (rotating) p prov t where "fst (get_policy X req (world s)) = Inr p"
      "rotation_granted X (Registry r) p (fst (clock X (snd (get_policy X req (world s))))) = Some prov"
      "events (Reconcile X r req) s =
        EvGetPolicy req True # events (executeRotation X p prov (manual_requested p)) t"
      "result (Reconcile X r req) s = result (executeRotation X p prov (manual_requested p)) t"
      "prov_state t = prov_state s"
proof (cases "fst (get_policy X req (world s))")
  case (Inl e)
  then show thesis by (intro missing) (auto simp: Reconcile_steps)
next
  case (Inr p)
  note steps = Reconcile_steps [of X r req s, unfolded Inr sum.case failed_simps not_False_eq_True]
  show thesis
  proof (cases "rotation_granted X (Registry r) p
      (fst (clock X (snd (get_policy X req (world s)))))")
    case None
    with Inr steps not_granted_run [of X "Registry r" p "fetched X req s"] show thesis
      by (intro resting) simp_all
  next
    case (Some prov)
    with Inr steps granted_run [of X "Registry r" p "fetched X req s" prov] show thesis
      by (intro rotating [of p prov "ticked X (fetched X req s)"]) simp_all
  qed
qed

section \<open>The outcome of a rotation, read off the trace\<close>

text \<open>What the machine says of the traces after the metrics.\<close>

lemma tails_trace:
  "list_all workload_event es \<or> list_all epilogue_event es \<or>
     list_all (notify_event EventRotationFailed) es \<Longrightarrow>
   provider_calls es = [] \<and> attempts es = [] \<and> counts es = [] \<and> writes es = [] \<and>
     openings es = [] \<and> closings es = []"
  by (induction es)
    (auto simp: workload_event_def epilogue_event_def notify_event_def split: event.splits)

lemma accepted_Restarting_trace:
  assumes "accepted m Restarting out es"
  shows "attempts es = [] \<and> counts es = [] \<and> writes es = [] \<and> openings es = [] \<and>
    closings es = [RecordPhaseSucceeded]"
  using assms
proof (cases rule: accepted_Restarting_cases)
  case (1 ws rr k pol ns t p k' es')
  then show ?thesis
    using tails_trace [of ws] tails_trace [of es'] by (simp add: closes_as_def)
qed

lemma accepted_Written_trace:
  assumes "accepted m Written out es"
  shows "attempts es = [] \<and> counts es = [] \<and> writes es = [] \<and> openings es = [] \<and>
    closings es = [RecordPhaseSucceeded]"
proof (cases m)
  case True
  with assms obtain p k es' where "es = EvUpdatePolicy p k # es'" "accepted m Restarting out es'"
    by (cases es) (auto simp: accepted_Cons accepted_Nil advance_simps split: event.splits)
  then show ?thesis using accepted_Restarting_trace by fastforce
next
  case False
  with assms have "accepted m Restarting out es"
    by (cases es) (auto simp: accepted_Cons accepted_Nil advance_simps)
  then show ?thesis by (rule accepted_Restarting_trace)
qed

lemma accepted_Aborting:
  assumes "accepted m Refused out es"
  obtains rr k where "es = [EvUpdateRecordStatus rr k]" "closes_as RecordPhaseFailed rr"
    "stage_result Aborted out"
proof -
  from assms obtain rr k es' where "es = EvUpdateRecordStatus rr k # es'"
      "closes_as RecordPhaseFailed rr" "accepted m Aborted out es'"
    by (cases es) (auto simp: accepted_Cons accepted_Nil advance_simps split: event.splits if_splits)
  with that show thesis by (cases es') (auto simp: accepted_Cons accepted_Nil advance_simps)
qed

lemma accepted_Measured_True_cases:
  assumes "accepted m (Measured True) out es"
  obtains (unmapped) rr k where "es = [EvUpdateRecordStatus rr k]" "closes_as RecordPhaseFailed rr"
      "stage_result Aborted out"
    | (refused) old sec rr k where "es = [EvPutSecret old sec False, EvUpdateRecordStatus rr k]"
      "closes_as RecordPhaseFailed rr" "stage_result Aborted out"
    | (written) old sec es' where "es = EvPutSecret old sec True # es'" "accepted m Written out es'"
proof -
  from assms obtain e es' st where es: "es = e # es'"
      "advance m (Measured True) e = Some st" "accepted m st out es'"
    by (cases es) (auto simp: accepted_Cons accepted_Nil)
  then consider (put) old sec w where "e = EvPutSecret old sec w" "st = (if w then Written else Refused)"
    | (close) rr k where "e = EvUpdateRecordStatus rr k" "closes_as RecordPhaseFailed rr"
      "st = Aborted"
    by (auto simp: advance_simps split: event.splits if_splits)
  then show thesis
  proof cases
    case put
    with es written refused show thesis by (cases w) (auto elim: accepted_Aborting)
  next
    case close
    with es unmapped show thesis
      by (cases es') (auto simp: accepted_Cons accepted_Nil advance_simps)
  qed
qed

text \<open>
  The outcomes of a reconcile: the provider's answers, what the counter counts, the writes of the
  secret and how the record is closed.  No rotation; a panic in the provider; an error of the
  provider; a provider key that is missing; a secret that cannot be written; a completed rotation.
\<close>

definition rotation_outcomes ::
  "(bool list \<times> string list \<times> bool list \<times> RecordPhase list) set" where
  "rotation_outcomes =
    {([], [], [], []),
     ([False], [], [], []),
     ([False], [''failure''], [], [RecordPhaseFailed]),
     ([True], [''success''], [], [RecordPhaseFailed]),
     ([True], [''success''], [False], [RecordPhaseFailed]),
     ([True], [''success''], [True], [RecordPhaseSucceeded])}"

definition outcome_of :: "event list \<Rightarrow> bool list \<times> string list \<times> bool list \<times> RecordPhase list" where
  "outcome_of es = (attempts es, counts es, writes es, closings es)"

lemma accepted_Rejected_trace:
  assumes "accepted m (Measured False) out es"
  shows "outcome_of es = ([], [], [], [RecordPhaseFailed]) \<and> openings es = []"
  using assms
proof (cases rule: accepted_Rejected_cases)
  case (1 rr k p k' es' d)
  then show ?thesis
    using tails_trace [of es'] by (simp add: outcome_of_def closes_as_def)
qed

lemma accepted_Measured_trace:
  assumes "accepted m (Measured True) out es"
  shows "outcome_of es \<in> {([], [], [], [RecordPhaseFailed]), ([], [], [False], [RecordPhaseFailed]),
      ([], [], [True], [RecordPhaseSucceeded])} \<and> openings es = []"
  using assms
proof (cases rule: accepted_Measured_True_cases)
  case (written old sec es')
  then show ?thesis
    using accepted_Written_trace [of m out es'] by (simp add: outcome_of_def)
qed (simp_all add: outcome_of_def closes_as_def)

lemma accepted_Idle_trace:
  assumes "accepted m Idle out es"
  shows "outcome_of es \<in> rotation_outcomes \<and> length (openings es) = length (attempts es)"
  using assms
proof (cases rule: accepted_Idle_cases)
  case (measured p ok rr okc n ps okr pol ns n' pol' ns' n'' d es')
  then show ?thesis
    using accepted_Measured_trace [of m out es'] accepted_Rejected_trace [of m out es']
    by (cases okr) (auto simp: outcome_of_def rotation_outcomes_def)
qed (simp_all add: outcome_of_def rotation_outcomes_def)

lemma executeRotation_trace:
  "outcome_of (events (executeRotation X p prov manual) s) \<in> rotation_outcomes \<and>
   length (openings (events (executeRotation X p prov manual) s)) =
     length (attempts (events (executeRotation X p prov manual) s))"
  using accepted_Idle_trace [OF emitsD(1) [OF refines_executeRotation]] .

lemma outcome_of_fetched [simp]: "outcome_of (EvGetPolicy req ok # es) = outcome_of es"
  by (simp add: outcome_of_def)

lemma quiet_outcome: "list_all quiet es \<Longrightarrow> outcome_of es = ([], [], [], []) \<and> openings es = []"
  using quiet_trace [of es] by (simp add: outcome_of_def)

section \<open>Which provider is called\<close>

definition no_owner_conflict :: "'w Ext \<Rightarrow> bool" where
  "no_owner_conflict X \<longleftrightarrow> (\<forall>p rr. snd (SetControllerReference X p rr) = None)"

lemma calls_after:
  "emits (providerFailed X p prov rr d e) (\<lambda>_ es. provider_calls es = [])"
  "emits (providerSucceeded X p prov manual rr d sec) (\<lambda>_ es. provider_calls es = [])"
proof -
  have calls: "provider_calls es = [] \<longleftrightarrow> attempts es = []" for es
    by (induction es) (auto split: event.splits)
  show "emits (providerFailed X p prov rr d e) (\<lambda>_ es. provider_calls es = [])"
    by (rule emits_weaken [OF refines_providerFailed [of X p prov rr d e manual]])
      (use accepted_Rejected_trace in \<open>auto simp: calls outcome_of_def\<close>)
  show "emits (providerSucceeded X p prov manual rr d sec) (\<lambda>_ es. provider_calls es = [])"
    by (rule emits_weaken [OF refines_providerSucceeded])
      (use accepted_Measured_trace in \<open>auto simp: calls outcome_of_def\<close>)
qed

lemma emits_executeRotation_calls:
  assumes "no_owner_conflict X"
  shows "emits (executeRotation X p prov manual) (\<lambda>_ es. provider_calls es = [prov_Name prov])"
proof -
  have "snd (SetControllerReference X q rr) = None" for q rr
    using assms by (simp add: no_owner_conflict_def)
  then have "SetControllerReference X q rr \<noteq> (rr', Some e)" for q rr rr' e
    by (metis option.distinct(1) snd_conv)
  then show ?thesis
    unfolding executeRotation_def
    by (intro emits_intro emits_weaken [OF calls_after(1)] emits_weaken [OF calls_after(2)])
      simp_all
qed

section \<open>Answers that keep the policy\<close>

text \<open>
  The API server answers an update with the object of the same name and the spec it was given.
\<close>

definition same_policy :: "SecretRotationPolicy \<Rightarrow> SecretRotationPolicy \<Rightarrow> bool" where
  "same_policy p q \<longleftrightarrow> srp_Spec p = srp_Spec q \<and> policy_name p = policy_name q \<and>
     policy_namespace p = policy_namespace q"

definition keeps_policy :: "'w Ext \<Rightarrow> bool" where
  "keeps_policy X \<longleftrightarrow> (\<forall>p w. same_policy (fst (fst (update_policy_status X p w))) p \<and>
     same_policy (fst (fst (update_policy X p w))) p)"

lemma same_policy_simps [simp]:
  "same_policy p p"
  "same_policy (map_status f p) q \<longleftrightarrow> same_policy p q"
  "same_policy q (map_status f p) \<longleftrightarrow> same_policy q p"
  "same_policy (put_condition X type status reason msg now p) q \<longleftrightarrow> same_policy p q"
  "same_policy q (put_condition X type status reason msg now p) \<longleftrightarrow> same_policy q p"
  "same_policy q (p\<lparr>srp_Meta := (srp_Meta p)\<lparr>Annotations := a\<rparr>\<rparr>) \<longleftrightarrow> same_policy q p"
  by (simp_all add: same_policy_def)

lemma same_policy_spec: "same_policy p q \<Longrightarrow> srp_Spec p = srp_Spec q"
  by (simp add: same_policy_def)

lemma same_policy_trans [trans]: "same_policy p q \<Longrightarrow> same_policy q r \<Longrightarrow> same_policy p r"
  by (simp add: same_policy_def)

lemma emits_UpdatePolicyStatus_keeps:
  assumes "keeps_policy X"
    and "\<And>q err. same_policy q p \<Longrightarrow> R (q, err) [EvUpdatePolicyStatus p (err = None)]"
  shows "emits (UpdatePolicyStatus X p) R"
  unfolding UpdatePolicyStatus_def
proof (rule emits_external_of)
  fix w
  obtain q err where "fst (update_policy_status X p w) = (q, err)" by fastforce
  moreover from this have "same_policy q p" using assms(1) unfolding keeps_policy_def
    by (metis fst_conv)
  ultimately show "R (fst (update_policy_status X p w))
      [EvUpdatePolicyStatus p (snd (fst (update_policy_status X p w)) = None)]"
    using assms(2) by simp
qed

lemma emits_UpdatePolicy_keeps:
  assumes "keeps_policy X"
    and "\<And>q err. same_policy q p \<Longrightarrow> R (q, err) [EvUpdatePolicy p (err = None)]"
  shows "emits (UpdatePolicy X p) R"
  unfolding UpdatePolicy_def
proof (rule emits_external_of)
  fix w
  obtain q err where "fst (update_policy X p w) = (q, err)" by fastforce
  moreover from this have "same_policy q p" using assms(1) unfolding keeps_policy_def
    by (metis fst_conv)
  ultimately show "R (fst (update_policy X p w))
      [EvUpdatePolicy p (snd (fst (update_policy X p w)) = None)]"
    using assms(2) by simp
qed

section \<open>The secrets written\<close>

text \<open>Each secret write: the object that was read, and what is written.\<close>

definition put_secrets :: "event list \<Rightarrow> (KubeSecret \<times> KubeSecret) list" where
  "put_secrets es = concat (map (\<lambda>e. case e of EvPutSecret old sec _ \<Rightarrow> [(old, sec)] | _ \<Rightarrow> []) es)"

lemma put_secrets_simps [simp]:
  "put_secrets [] = []"
  "put_secrets (e # es) = (case e of EvPutSecret old sec _ \<Rightarrow> [(old, sec)] | _ \<Rightarrow> []) @ put_secrets es"
  "put_secrets (es @ es') = put_secrets es @ put_secrets es'"
  by (simp_all add: put_secrets_def)

lemma put_secrets_writes: "put_secrets es = [] \<longleftrightarrow> writes es = []"
  by (induction es) (auto split: event.splits)

text \<open>
  A secret that comes from the provider: the data of a successful call, mapped, written into what was
  read of the object that the policy names.
\<close>

definition delivered :: "SecretRotationPolicy \<Rightarrow> 'p Provider \<Rightarrow> KubeSecret \<times> KubeSecret \<Rightarrow> bool" where
  "delivered p prov = (\<lambda>(old, sec). \<exists>q secret data.
     fst (RotateSecret prov (Params (Provider (srp_Spec p))) q) = Ret (Inr secret) \<and>
     MapKeys secret (Keys (srp_Spec p)) = Inr data \<and>
     sec_Name old = sec_Name (target_secret p) \<and> sec_Namespace old = sec_Namespace (target_secret p) \<and>
     sec = write_secret p data old)"

lemma delivered_same: "same_policy p q \<Longrightarrow> delivered p prov = delivered q prov"
  by (simp add: same_policy_def delivered_def target_secret_def write_secret_def fun_eq_iff Let_def)

lemma emits_providerSucceeded_secret:
  assumes "fst (RotateSecret prov (Params (Provider (srp_Spec p))) q) = Ret (Inr secret)"
  shows "emits (providerSucceeded X p prov manual rr d secret)
    (\<lambda>_ es. list_all (delivered p prov) (put_secrets es))"
proof -
  have no_more: "emits (finishRotation X p prov manual rr d) (\<lambda>_ es. put_secrets es = [])"
    by (rule emits_weaken [OF refines_finishRotation])
      (use accepted_Written_trace in \<open>auto simp: put_secrets_writes\<close>)
  have "delivered p prov (old, write_secret p data old)"
    if "MapKeys secret (Keys (srp_Spec p)) = Inr data"
      "sec_Name old = sec_Name (target_secret p)" "sec_Namespace old = sec_Namespace (target_secret p)"
    for data old
    using assms that unfolding delivered_def by blast
  then show ?thesis
    unfolding providerSucceeded_def
    by (intro emits_intro emits_weaken [OF no_more]) auto
qed

lemma emits_executeRotation_secret:
  assumes "keeps_policy X"
  shows "emits (executeRotation X p prov manual)
    (\<lambda>_ es. list_all (delivered p prov) (put_secrets es))"
proof -
  have failed: "emits (providerFailed X q prov rr d e) (\<lambda>_ es. put_secrets es = [])" for q rr d e
    by (rule emits_weaken [OF refines_providerFailed [of _ _ _ _ _ _ manual]])
      (use accepted_Rejected_trace in \<open>auto simp: put_secrets_writes outcome_of_def\<close>)
  show ?thesis
    unfolding executeRotation_def
    by (intro emits_bind emits_Now emits_case_prod emits_Let emits_UpdatePolicyStatus_keeps [OF assms]
        emits_newRotationRecord emits_case_option emits_return emits_CreateRecord
        emits_CallRotate_of emits_case_outcome emits_record_event emits_case_sum
        emits_weaken [OF failed] emits_weaken [OF emits_providerSucceeded_secret])
      (auto simp: delivered_same)
qed

section \<open>The status after a rotation\<close>

definition statuses :: "event list \<Rightarrow> SecretRotationPolicy list" where
  "statuses es = concat (map (\<lambda>e. case e of EvUpdatePolicyStatus p _ \<Rightarrow> [p] | _ \<Rightarrow> []) es)"

definition published :: "event list \<Rightarrow> (string \<times> string \<times> int) list" where
  "published es =
     concat (map (\<lambda>e. case e of EvNextRotationTimestamp n ns t \<Rightarrow> [(n, ns, t)] | _ \<Rightarrow> []) es)"

lemma statuses_simps [simp]:
  "statuses [] = []" "published [] = []"
  "statuses (e # es) = (case e of EvUpdatePolicyStatus p _ \<Rightarrow> [p] | _ \<Rightarrow> []) @ statuses es"
  "published (e # es) =
     (case e of EvNextRotationTimestamp n ns t \<Rightarrow> [(n, ns, t)] | _ \<Rightarrow> []) @ published es"
  "statuses (es @ es') = statuses es @ statuses es'"
  "published (es @ es') = published es @ published es'"
  by (simp_all add: statuses_def published_def)

lemma tails_statuses [simp]:
  "list_all workload_event es \<Longrightarrow> statuses es = []"
  "list_all workload_event es \<Longrightarrow> published es = []"
  "list_all epilogue_event es \<Longrightarrow> statuses es = []"
  "list_all epilogue_event es \<Longrightarrow> published es = []"
  "list_all (notify_event ev) es \<Longrightarrow> statuses es = []"
  "list_all (notify_event ev) es \<Longrightarrow> published es = []"
  by (induction es)
    (auto simp: workload_event_def epilogue_event_def notify_event_def split: event.splits)

text \<open>The stored status agrees with the schedule and with the gauge.\<close>

definition completed_status ::
  "'w Ext \<Rightarrow> SecretRotationPolicy \<Rightarrow> SecretRotationPolicy \<Rightarrow> bool" where
  "completed_status X p q \<longleftrightarrow> (\<exists>now. let st = srp_Status q;
       next = fst (NextScheduled (parse_cron X) (Schedule (srp_Spec p)) now) in
     same_policy q p \<and> srps_Phase st = PhaseReady \<and> CurrentRetryCount st = 0 \<and>
     LastRotationTime st = Some now \<and> NextRotationTime st = Some next)"

definition announces :: "SecretRotationPolicy \<Rightarrow> string \<times> string \<times> int \<Rightarrow> bool" where
  "announces q a \<longleftrightarrow>
     a = (policy_name q, policy_namespace q, time_Unix (the (NextRotationTime (srp_Status q))))"

lemma emits_finishRotation_status:
  assumes "keeps_policy X"
  shows "emits (finishRotation X p prov manual rr d) (\<lambda>_ es.
    \<exists>q. statuses es = [q] \<and> completed_status X p q \<and>
      list_all (announces q) (published es) \<and> length (published es) = 1)"
  unfolding finishRotation_def
  by (intro emits_bind emits_if emits_UpdatePolicy_keeps [OF assms] emits_Let
      refines_triggerRestarts emits_finalizeRecord emits_Now emits_record_event
      emits_set_condition emits_case_prod emits_UpdatePolicyStatus_keeps [OF assms]
      emits_case_option emits_return refines_prune [of manual] emits_case_outcome refines_dispatch)
    (auto simp: completed_status_def announces_def Let_def
      dest: pruned_epilogue same_policy_spec)

end
