(* ===== verification/Guarantees.thy ===== *)
theory Guarantees
  imports Reconciliation
begin

text \<open>
  What a reconcile guarantees whatever the outside answers: that it does not panic for policies
  that the schema admits, that a failed rotation leaves the cluster alone, which errors it returns,
  and how the gauge of active policies moves.
\<close>

section \<open>No panics\<close>

definition never_panics :: "'p Provider \<Rightarrow> params \<Rightarrow> bool" where
  "never_panics prov ps \<longleftrightarrow> (\<forall>q. returns (fst (RotateSecret prov ps q)))"

text \<open>The providers of the operator keep to the contract of \<open>provider\<close>.\<close>

lemma operator_provider_never_panics:
  assumes "operator_registry rand = Ret reg" and "Get reg n = Inr prov" and "Validate prov ps = None"
  shows "never_panics prov ps"
proof -
  have "prov \<in> set (operator_providers rand)"
    using operator_registry_contract [of rand] assms(1,2) by auto
  then consider "prov = Mock" | "prov = Static rand" | "prov = AWS" | "prov = Vault"
    by (auto simp: operator_providers_def)
  then show ?thesis
    using assms(3) mock.rotate_returns static.rotate_returns aws.rotate_returns vault.rotate_returns
    by cases (auto simp: never_panics_def)
qed

lemma emits_pruneHistory_returns:
  assumes "slice_sorter (slice_sort X) creation" and "0 \<le> sint (history_limit p)"
  shows "emits (pruneHistory X p) (\<lambda>r es. r = Ret ())"
proof -
  have "length (slice_sort X older items) = length items" for items
    using slice_sorter.length_sorted [OF assms(1)] by (simp add: older_eq)
  then have "emits (delete_loop X (slice_sort X older items)
      (nat (int (length (slice_sort X older items)) - sint (history_limit p)))) (\<lambda>r es. r = Ret ())"
    for items
    using assms(2)
    by (intro emits_weaken [OF emits_delete_loop_exact]) (auto simp: returns_iff)
  then show ?thesis
    unfolding pruneHistory_def Let_def by (intro emits_intro) simp_all
qed

lemma history_limit_same: "same_policy p q \<Longrightarrow> history_limit p = history_limit q"
  by (simp add: same_policy_def history_limit_def)

lemma emits_any:
  "emits (triggerRestarts X p) (\<lambda>_ _. True)" "emits (dispatchNotifications X p ev payload) (\<lambda>_ _. True)"
  by (rule emits_weaken [OF emits_triggerRestarts]; simp)
    (simp add: emits_weaken [OF emits_dispatch_loop_exact] dispatchNotifications_def)

lemma emits_finishRotation_returns:
  assumes "keeps_policy X" and "slice_sorter (slice_sort X) creation"
    and "0 \<le> sint (history_limit p)"
  shows "emits (finishRotation X p prov manual rr d) (\<lambda>out _. returns out)"
  unfolding finishRotation_def
  by (intro emits_bind emits_if emits_UpdatePolicy_keeps [OF assms(1)] emits_Let
      emits_weaken [OF emits_any(1)] emits_weaken [OF emits_any(2)] emits_finalizeRecord
      emits_Now emits_record_event emits_set_condition emits_case_prod
      emits_UpdatePolicyStatus_keeps [OF assms(1)] emits_case_option emits_return
      emits_weaken [OF emits_pruneHistory_returns [OF assms(2)]] emits_case_outcome)
    (use assms(3) in \<open>auto dest!: same_policy_spec simp: history_limit_def\<close>)

lemma emits_executeRotation_returns:
  assumes "keeps_policy X" and "slice_sorter (slice_sort X) creation"
    and "0 \<le> sint (history_limit p)" and "never_panics prov (Params (Provider (srp_Spec p)))"
  shows "emits (executeRotation X p prov manual) (\<lambda>out _. returns out)"
proof -
  have finish: "emits (finishRotation X q prov manual rr d) (\<lambda>out _. returns out)"
    if "same_policy q p" for q rr d
    by (rule emits_finishRotation_returns [OF assms(1,2)])
      (use assms(3) history_limit_same [OF that] in simp)
  have success: "emits (providerSucceeded X q prov manual rr d secret) (\<lambda>out _. returns out)"
    if "same_policy q p" for q rr d secret
    unfolding providerSucceeded_def
    by (intro emits_intro emits_weaken [OF finish [OF that]]) auto
  have failure: "emits (providerFailed X q prov rr d e) (\<lambda>out _. returns out)" for q rr d e
    by (rule emits_weaken [OF refines_providerFailed [of _ _ _ _ _ _ manual]])
      (auto elim: accepted_Rejected_cases)
  have no_panic: "fst (RotateSecret prov (Params (Provider (srp_Spec q))) r) \<noteq> Panic msg"
    if "same_policy q p" for q r msg
    using assms(4) same_policy_spec [OF that] by (metis never_panics_def returns_simps(2))
  show ?thesis
    unfolding executeRotation_def
    by (intro emits_bind emits_Now emits_case_prod emits_Let emits_UpdatePolicyStatus_keeps [OF assms(1)]
        emits_newRotationRecord emits_case_option emits_return emits_CreateRecord
        emits_CallRotate_of emits_case_outcome emits_record_event emits_case_sum
        emits_weaken [OF failure] emits_weaken [OF success])
      (auto simp: no_panic)
qed

lemma quiet_handlers_return:
  "emits (setSuspended X p) (\<lambda>out _. returns out)"
  "emits (setProviderUnhealthy X p e) (\<lambda>out _. returns out)"
  "emits (markDegraded X p reason msg) (\<lambda>out _. returns out)"
  "emits (handleDeletion X p) (\<lambda>out _. returns out)"
  "emits (requeueNotDue X p) (\<lambda>out _. returns out)"
  by (rule emits_weaken [OF emits_setSuspended] emits_weaken [OF emits_setProviderUnhealthy]
      emits_weaken [OF emits_markDegraded] emits_weaken [OF emits_handleDeletion]
      emits_weaken [OF emits_requeueNotDue]; auto split: if_splits)+

lemma emits_reconcilePolicy_returns:
  assumes "keeps_policy X" and "slice_sorter (slice_sort X) creation"
    and "0 \<le> sint (history_limit p)"
    and "\<And>prov. Get reg (ps_Name (Provider (srp_Spec p))) = Inr prov \<Longrightarrow>
      Validate prov (Params (Provider (srp_Spec p))) = None \<Longrightarrow>
      never_panics prov (Params (Provider (srp_Spec p)))"
  shows "emits (reconcilePolicy X reg p) (\<lambda>out _. returns out)"
  unfolding reconcilePolicy_def reconcileActive_def Let_def
  by (intro emits_intro quiet_handlers_return [THEN emits_weaken]
      emits_executeRotation_returns [OF assms(1,2,3), THEN emits_weaken] assms(4))
    (auto split: option.splits)

lemma crd_valid_limit: "crd_valid (srp_Spec p) \<Longrightarrow> 0 \<le> sint (history_limit p)"
proof -
  have "sint (10 :: 32 word) = 10" by simp
  then show "crd_valid (srp_Spec p) \<Longrightarrow> 0 \<le> sint (history_limit p)"
    by (auto simp: crd_valid_def limit_at_least_def history_limit_def defaultHistoryLimit_def
        split: option.splits)
qed

lemma operator_reconcile_returns:
  assumes "operator rand = Ret r" and "keeps_policy X" and "slice_sorter (slice_sort X) creation"
    and "\<And>p. fst (get_policy X req (world s)) = Inr p \<Longrightarrow> crd_valid (srp_Spec p)"
  shows "\<exists>res err. result (Reconcile X r req) s = Ret (res, err)"
proof -
  obtain reg where reg: "operator_registry rand = Ret reg" "r = \<lparr>Registry = reg\<rparr>"
    using assms(1) by (cases "operator_registry rand") (auto simp: operator_def)
  have "emits (reconcilePolicy X reg p) (\<lambda>out _. returns out)" if "crd_valid (srp_Spec p)" for p
    using operator_provider_never_panics [OF reg(1)]
    by (intro emits_reconcilePolicy_returns assms(2,3) crd_valid_limit [OF that])
  then have "returns (result (Reconcile X r req) s)"
    using assms(4) reg(2)
    by (auto simp: Reconcile_steps dest: emitsD(1) split: sum.split)
  then show ?thesis by (auto simp: returns_iff)
qed

section \<open>Failed rotations\<close>

text \<open>
  The events that a rotation may have when the provider fails: no secret, no workload, no change of
  the policy's own metadata, no pruning, and only notifications of the failure.
\<close>

definition contained :: "event \<Rightarrow> bool" where
  "contained e \<longleftrightarrow>
    (case e of
       EvPutSecret _ _ _ \<Rightarrow> False | EvGetWorkload _ _ _ \<Rightarrow> False | EvUpdateWorkload _ _ _ \<Rightarrow> False
     | EvUpdatePolicy _ _ \<Rightarrow> False | EvListRecords _ _ _ \<Rightarrow> False | EvDeleteRecord _ _ \<Rightarrow> False
     | EvNextRotationTimestamp _ _ _ \<Rightarrow> False
     | EvNotify _ payload \<Rightarrow> np_Event payload = EventRotationFailed
     | _ \<Rightarrow> True)"

lemma notify_contained:
  "list_all (notify_event EventRotationFailed) es \<Longrightarrow> list_all contained es"
  by (induction es) (auto simp: notify_event_def contained_def split: event.splits)

lemma accepted_failed_contained:
  assumes "accepted m Idle out es" and "attempts es = [False]"
  shows "list_all contained es"
  using assms(1)
proof (cases rule: accepted_Idle_cases)
  case (measured p ok rr okc n ps okr pol ns n' pol' ns' n'' d es')
  then have "attempts es = okr # attempts es'" by simp
  with assms(2) have "\<not> okr" by simp
  with measured(2) have "accepted m (Measured False) out es'" by simp
  then have "list_all contained es'"
    by (rule accepted_Rejected_cases) (simp add: contained_def notify_contained)
  with measured(1) show ?thesis by (simp add: contained_def)
qed (simp_all add: contained_def)

definition failed_call :: "(error + Secret) outcome \<Rightarrow> bool" where
  "failed_call r \<longleftrightarrow> (case r of Ret (Inl _) \<Rightarrow> True | _ \<Rightarrow> False)"

definition always_fails :: "'p Provider \<Rightarrow> bool" where
  "always_fails prov \<longleftrightarrow> (\<forall>ps q. failed_call (fst (RotateSecret prov ps q)))"

lemma stubs_always_fail: "always_fails AWS" "always_fails Vault"
  by (simp_all add: always_fails_def failed_call_def aws.rotate_fails vault.rotate_fails)

text \<open>The wait after a failure, and the phase it leaves.\<close>

definition backoff :: "SecretRotationPolicy \<Rightarrow> duration" where
  "backoff p = (case RetryBackoff (Policy (srp_Spec p)) of None \<Rightarrow> seconds 30 | Some d \<Rightarrow> d)"

definition failure_phase :: "SecretRotationPolicy \<Rightarrow> Phase" where
  "failure_phase p =
    (if rp_FailurePolicy (Policy (srp_Spec p)) = FailurePolicyIgnore then PhaseReady
     else PhaseFailed)"

lemma emits_providerFailed_exact:
  assumes "keeps_policy X"
  shows "emits (providerFailed X p prov rr d e) (\<lambda>out es.
    out = Ret (requeue_after (backoff p), None) \<and>
    (\<exists>q. statuses es = [q] \<and> srps_Phase (srp_Status q) = failure_phase p))"
  unfolding providerFailed_def
  by (intro emits_bind emits_finalizeRecord emits_Let emits_set_condition emits_case_prod
      emits_UpdatePolicyStatus_keeps [OF assms] emits_Now refines_dispatch emits_return)
    (auto simp: backoff_def failure_phase_def defaultRetryBackoff_def dest!: same_policy_spec
      split: option.split)

lemma emits_executeRotation_fails:
  assumes "keeps_policy X" and "no_owner_conflict X" and "always_fails prov"
  shows "emits (executeRotation X p prov manual) (\<lambda>out es.
    out = Ret (requeue_after (backoff p), None) \<and> attempts es = [False] \<and>
    srps_Phase (srp_Status (last (statuses es))) = failure_phase p)"
proof -
  have no_conflict: "SetControllerReference X q rr \<noteq> (rr', Some e)" for q rr rr' e
    using assms(2) unfolding no_owner_conflict_def by (metis option.distinct(1) snd_conv)
  have no_secret: "fst (RotateSecret prov ps q) \<noteq> Ret (Inr sec)"
      "fst (RotateSecret prov ps q) \<noteq> Panic msg" for ps q sec msg
    using assms(3) unfolding always_fails_def failed_call_def
    by (auto split: outcome.splits sum.splits)
  have failure: "emits (providerFailed X q prov rr d e) (\<lambda>out es. attempts es = [] \<and>
      out = Ret (requeue_after (backoff q), None) \<and>
      (\<exists>q'. statuses es = [q'] \<and> srps_Phase (srp_Status q') = failure_phase q))" for q rr d e
    by (rule emits_weaken [OF emits_conj [OF emits_providerFailed_exact [OF assms(1)]
          refines_providerFailed [of _ _ _ _ _ _ manual]]])
      (use accepted_Rejected_trace in \<open>auto simp: outcome_of_def\<close>)
  have same: "backoff q = backoff p \<and> failure_phase q = failure_phase p" if "same_policy q p" for q
    using that by (simp add: same_policy_def backoff_def failure_phase_def)
  show ?thesis
    unfolding executeRotation_def
    by (intro emits_bind emits_Now emits_case_prod emits_Let emits_UpdatePolicyStatus_keeps [OF assms(1)]
        emits_newRotationRecord emits_case_option emits_return emits_CreateRecord
        emits_CallRotate_of emits_case_outcome emits_record_event emits_case_sum
        emits_weaken [OF failure])
      (auto simp: no_conflict no_secret rotated_ok_def dest!: same)
qed

section \<open>The gauge of active policies\<close>

lemma accepted_no_decrement: "accepted m st out es \<Longrightarrow> EvActivePoliciesDec \<notin> set es"
proof (induction es arbitrary: st)
  case (Cons e es)
  have "advance m st EvActivePoliciesDec = None"
    by (cases st) (simp_all add: advance_simps)
  with Cons show ?case by (auto simp: accepted_Cons)
qed simp

lemma emits_no_decrement:
  "\<not> being_deleted p \<Longrightarrow> emits (reconcilePolicy X reg p) (\<lambda>_ es. EvActivePoliciesDec \<notin> set es)"
  unfolding reconcilePolicy_def reconcileActive_def Let_def
  by (intro emits_intro emits_weaken [OF emits_setSuspended]
      emits_weaken [OF emits_setProviderUnhealthy] emits_weaken [OF emits_markDegraded]
      emits_weaken [OF emits_requeueNotDue]
      emits_weaken [OF refines_executeRotation])
    (auto dest: accepted_no_decrement)

section \<open>Errors\<close>

definition wrapped_in :: "string list \<Rightarrow> error \<Rightarrow> bool" where
  "wrapped_in ms e \<longleftrightarrow> (case e of Wrapf m _ \<Rightarrow> m \<in> set ms | _ \<Rightarrow> False)"

lemma wrapped_in_Wrapf [simp]: "wrapped_in ms (Wrapf m e) \<longleftrightarrow> m \<in> set ms"
  by (simp add: wrapped_in_def)

lemma wrapped_in_mono: "wrapped_in ms e \<Longrightarrow> set ms \<subseteq> set ms' \<Longrightarrow> wrapped_in ms' e"
  by (auto simp: wrapped_in_def split: error.splits)

definition rotation_errors :: "string list" where
  "rotation_errors =
    [''setting owner reference on RotationRecord: '', ''mapping provider keys: '',
     ''updating kubernetes secret: '', ''updating policy status: '']"

lemma accepted_errors:
  assumes "accepted m Idle (Ret (res, Some e)) es"
  shows "res = no_result \<and> wrapped_in rotation_errors e"
proof -
  from assms obtain st where "stage_result st (Ret (res, Some e))"
    by (auto simp: accepted_def)
  then show ?thesis
    by (cases "(st, Ret (res, Some e))" rule: stage_result.cases)
      (auto simp: returned_error_def wrapped_in_def rotation_errors_def)
qed

lemma emits_active_errors:
  "emits (reconcileActive X reg p) (\<lambda>out es. \<forall>res e. out = Ret (res, Some e) \<longrightarrow>
     res = no_result \<and> wrapped_in rotation_errors e)"
  unfolding reconcileActive_def Let_def
  by (intro emits_intro emits_weaken [OF emits_setProviderUnhealthy]
      emits_weaken [OF emits_markDegraded] emits_weaken [OF emits_requeueNotDue]
      emits_weaken [OF refines_executeRotation])
    (use accepted_errors in auto)

section \<open>Rotations that succeed\<close>

text \<open>The provider answers every call with a secret that has the mapped keys.\<close>

definition yields_keys :: "'p Provider \<Rightarrow> SecretRotationPolicy \<Rightarrow> bool" where
  "yields_keys prov p \<longleftrightarrow> (\<forall>q. \<exists>sec data.
     fst (RotateSecret prov (Params (Provider (srp_Spec p))) q) = Ret (Inr sec) \<and>
     MapKeys sec (Keys (srp_Spec p)) = Inr data)"

definition secrets_writable :: "'w Ext \<Rightarrow> bool" where
  "secrets_writable X \<longleftrightarrow> (\<forall>obj f w. snd (fst (create_or_update_secret X obj f w)) = None)"

lemma emits_CreateOrUpdateSecret_writable:
  "secrets_writable X \<Longrightarrow> (\<And>old. R None [EvPutSecret old (mutate old) True]) \<Longrightarrow>
   emits (CreateOrUpdateSecret X obj mutate) R"
  unfolding CreateOrUpdateSecret_def secrets_writable_def
  by (intro emits_bind emits_external_of emits_case_prod emits_return)
    (auto simp: Let_def prod_eq_iff split: prod.splits)

lemma emits_executeRotation_succeeds:
  assumes "keeps_policy X" and "no_owner_conflict X" and "secrets_writable X"
    and "yields_keys prov p"
  shows "emits (executeRotation X p prov manual) (\<lambda>out es. writes es = [True])"
proof -
  have no_conflict: "SetControllerReference X q rr \<noteq> (rr', Some e)" for q rr rr' e
    using assms(2) unfolding no_owner_conflict_def by (metis option.distinct(1) snd_conv)
  have answer: "\<exists>sec data. r = Ret (Inr sec) \<and> MapKeys sec (Keys (srp_Spec q)) = Inr data"
    if "same_policy q p" "fst (RotateSecret prov (Params (Provider (srp_Spec q))) st) = r" for q st r
    using assms(4) that same_policy_spec [OF that(1)] unfolding yields_keys_def by metis
  have finish: "emits (finishRotation X q prov manual rr d) (\<lambda>_ es. writes es = [])" for q rr d
    by (rule emits_weaken [OF refines_finishRotation])
      (use accepted_Written_trace in auto)
  have success: "emits (providerSucceeded X q prov manual rr d sec) (\<lambda>_ es. writes es = [True])"
    if "MapKeys sec (Keys (srp_Spec q)) = Inr data" for q rr d sec data
    unfolding providerSucceeded_def that sum.case
    by (intro emits_bind emits_CreateOrUpdateSecret_writable [OF assms(3)] emits_case_option
        emits_weaken [OF finish]) simp_all
  have after: "emits (case res of
        Inl provErr \<Rightarrow> providerFailed X q prov rr d provErr
      | Inr secret \<Rightarrow> providerSucceeded X q prov manual rr d secret) (\<lambda>_ es. writes es = [True])"
    if "same_policy q p" "fst (RotateSecret prov (Params (Provider (srp_Spec q))) st) = Ret res"
    for q st rr d res
    using answer [OF that] success by auto
  have no_panic: "fst (RotateSecret prov (Params (Provider (srp_Spec q))) st) \<noteq> Panic msg"
    if "same_policy q p" for q st msg
    using answer [OF that] by (metis outcome.distinct(1))
  show ?thesis
    unfolding executeRotation_def
    by (intro emits_bind emits_Now emits_case_prod emits_Let emits_UpdatePolicyStatus_keeps [OF assms(1)]
        emits_newRotationRecord emits_case_option emits_return emits_CreateRecord
        emits_CallRotate_of emits_case_outcome emits_record_event emits_weaken [OF after])
      (auto simp: no_conflict no_panic)
qed

end
