(* ===== verification/Examples.thy ===== *)
theory Examples
  imports Cluster Guarantees
begin

text \<open>
  The operator and the process of the examples: the mock provider and the cluster of \<open>Cluster\<close>,
  with the example policy due for its first rotation.
\<close>

lemma example_server: "keeps_policy cluster_ext" "no_owner_conflict cluster_ext"
  by (auto simp: keeps_policy_def no_owner_conflict_def same_policy_def cluster_defs Let_def
      split: option.splits)

lemma example_crd: "crd_valid (srp_Spec example_policy)"
  by (simp add: crd_valid_def schedule_pattern_def example_policy_def schedule_descriptors_def
      pattern_space_def pattern_field_char_def provider_names_def restart_kinds_def
      limit_at_least_def Let_def)

lemma example_get:
  "get_policy cluster_ext example_key example_cluster = (Inr example_policy, example_cluster)"
  by (rule cluster_gets) (simp_all add: example_cluster_def)

definition example_reconciler :: "unit provider_state SecretRotationPolicyReconciler" where
  "example_reconciler = \<lparr>Registry = \<lparr>providers = [(''mock'', Mock)]\<rparr>\<rparr>"

definition example_process :: "(cluster, unit provider_state) process" where
  "example_process = start_process example_cluster \<lparr>rotateCount = 0, entropy = ()\<rparr>"

lemma example_world [simp]: "world example_process = example_cluster"
  by (simp add: example_process_def start_process_def)

lemma example_granted:
  "rotation_granted cluster_ext (Registry example_reconciler) example_policy t = Some Mock"
  by (simp add: rotation_granted_def being_deleted_def example_policy_def empty_meta_def
      cluster_ext_def example_reconciler_def Get_def provider_defs)

lemma example_writes:
  "secrets_writable cluster_ext" "yields_keys Mock example_policy"
  by (auto simp: secrets_writable_def yields_keys_def cluster_defs provider_defs Let_def
      example_policy_def MapKeys_def split: option.splits)

end
