(* ===== verification/Recurrence.thy ===== *)
theory Recurrence
  imports Examples
begin

text \<open>
  One rotation after another: what a reconcile finds of an earlier one.  The two meet in the stored
  policy only, so the earlier reconcile is known by the status it stored and the later one by the
  policy it fetches.
\<close>

section \<open>The last status of a completed rotation\<close>

text \<open>A rotation that has written the secret ends its statuses with the one of a completed rotation.\<close>

definition ends_completed :: "'w Ext \<Rightarrow> SecretRotationPolicy \<Rightarrow> event list \<Rightarrow> bool" where
  "ends_completed X p es \<longleftrightarrow> True \<in> set (writes es) \<longrightarrow>
     statuses es \<noteq> [] \<and> completed_status X p (last (statuses es))"

lemma completed_same: "same_policy p q \<Longrightarrow> completed_status X p = completed_status X q"
  by (auto simp: completed_status_def same_policy_def fun_eq_iff Let_def)

lemma emits_providerSucceeded_completes:
  assumes "keeps_policy X"
  shows "emits (providerSucceeded X p prov manual rr d secret) (\<lambda>_ es. ends_completed X p es)"
  unfolding providerSucceeded_def
  by (intro emits_intro emits_weaken [OF emits_finishRotation_status [OF assms]])
    (auto simp: ends_completed_def)

lemma emits_executeRotation_completes:
  assumes "keeps_policy X"
  shows "emits (executeRotation X p prov manual) (\<lambda>_ es. ends_completed X p es)"
proof -
  have failed: "emits (providerFailed X q prov rr d e) (\<lambda>_ es. writes es = [])" for q rr d e
    by (rule emits_weaken [OF refines_providerFailed [of _ _ _ _ _ _ manual]])
      (use accepted_Rejected_trace in \<open>auto simp: outcome_of_def\<close>)
  show ?thesis
    unfolding executeRotation_def
    by (intro emits_bind emits_Now emits_case_prod emits_Let emits_UpdatePolicyStatus_keeps [OF assms]
        emits_newRotationRecord emits_case_option emits_return emits_CreateRecord
        emits_CallRotate_of emits_case_outcome emits_record_event emits_case_sum
        emits_weaken [OF failed] emits_weaken [OF emits_providerSucceeded_completes [OF assms]])
      (auto simp: ends_completed_def completed_same)
qed

section \<open>The next reconcile\<close>

lemma completed_last:
  assumes "keeps_policy X" and "True \<in> set (writes (events (Reconcile X r req) s))"
  shows "completed_status X (projr (fst (get_policy X req (world s))))
    (last (statuses (events (Reconcile X r req) s)))"
proof (cases rule: Reconcile_cases [where X = X and req = req and s = s and r = r])
  case (rotating p prov t)
  then show ?thesis
    using emitsD(1) [OF emits_executeRotation_completes [OF assms(1)],
        of p prov "manual_requested p" t] assms(2)
    by (auto simp: ends_completed_def)
qed (use assms(2) quiet_trace in fastforce)+

text \<open>
  C13.  A secret is rotated once for each activation of its schedule: when
  a reconcile has written the secret, and a later one fetches the policy with the status that was
  stored then and without the annotation that asks for a rotation, it calls no provider and writes
  no secret as long as its clock is before the stored next rotation less the window.
\<close>

theorem completed_rotation_rests:
  assumes "keeps_policy X" and "True \<in> set (writes (events (Reconcile X r req) s))"
    and "q = last (statuses (events (Reconcile X r req) s))"
    and "NextRotationTime (srp_Status q) = Some due"
    and "get_policy X req (world s') = (Inr p, w)"
    and "srp_Spec p = srp_Spec q"
    and "LastRotationTime (srp_Status p) = LastRotationTime (srp_Status q)"
    and "\<not> manual_requested p" and "dval (rotation_window p) \<noteq> - (2 ^ 63)"
    and "fst (clock X w) < due - dval (rotation_window p)"
  shows "provider_calls (events (Reconcile X r req) s') = [] \<and>
    put_secrets (events (Reconcile X r req) s') = []"
proof -
  have "completed_status X (projr (fst (get_policy X req (world s)))) q"
    unfolding assms(3) by (rule completed_last [OF assms(1,2)])
  then obtain now where now: "LastRotationTime (srp_Status q) = Some now"
      "due = fst (NextScheduled (parse_cron X) (Schedule (srp_Spec q)) now)"
    using assms(4) by (auto simp: completed_status_def Let_def dest: same_policy_spec)
  have "rotation_granted X (Registry r) p (fst (clock X w)) = None"
    using assms(6-10) now
    by (auto simp: rotation_granted_def IsDue_Some NextScheduled_def due_from_eq
        split: sum.splits)
  then show ?thesis
    using assms(5) not_granted_run [of X "Registry r" p "fetched X req s'"]
    by (auto simp: Reconcile_steps put_secrets_writes quiet_trace)
qed

lemma completed_rotation_rests_witness:
  "\<exists>now. provider_calls (events (Reconcile cluster_ext example_reconciler example_key)
     (start_process (example_cluster\<lparr>cl_now := now, cl_policies := [example_key \<mapsto> example_policy\<lparr>srp_Status :=
        srp_Status (last (statuses (events (Reconcile cluster_ext example_reconciler example_key)
          example_process)))\<rparr>]\<rparr>) \<lparr>rotateCount = 1, entropy = ()\<rparr>)) = []"
proof -
  let ?es = "events (Reconcile cluster_ext example_reconciler example_key) example_process"
  define q where "q = last (statuses ?es)"
  have "writes ?es = [True]"
  proof (cases rule: Reconcile_cases [where X = cluster_ext and req = example_key
        and s = example_process and r = example_reconciler])
    case (rotating p prov t)
    then show ?thesis
      using emitsD(1) [OF emits_executeRotation_succeeds [OF example_server example_writes]]
      by (simp add: example_get example_granted)
  qed (simp_all add: example_get example_granted)
  then have written: "True \<in> set (writes ?es)" by simp
  have q: "completed_status cluster_ext example_policy q"
    using completed_last [OF example_server(1) written] by (simp add: example_get q_def)
  then obtain now where now: "LastRotationTime (srp_Status q) = Some now"
      "NextRotationTime (srp_Status q) = Some ((now div hour + 1) * hour)"
      "srp_Spec q = srp_Spec example_policy"
    by (auto simp: completed_status_def NextScheduled_def hourly_def cluster_ext_def
        example_policy_def Let_def dest: same_policy_spec)
  define p where "p = example_policy\<lparr>srp_Status := srp_Status q\<rparr>"
  define c where "c = example_cluster\<lparr>cl_now := now, cl_policies := [example_key \<mapsto> p]\<rparr>"
  have p: "srp_Spec p = srp_Spec q" "LastRotationTime (srp_Status p) = LastRotationTime (srp_Status q)"
      "\<not> manual_requested p" "rotation_window p = dur 0"
    by (simp_all add: p_def now manual_requested_def example_policy_def empty_meta_def
        AnnotationRotateVal_def rotation_window_def)
  have get: "get_policy cluster_ext example_key c = (Inr p, c)"
    by (rule cluster_gets) (simp_all add: c_def p_def)
  have zero: "dval (dur 0) = 0" by (simp add: dval_dur in_int64_def)
  have "now < (now div hour + 1) * hour"
    using pos_mod_bound [of hour now] div_mult_mod_eq [of now hour]
    by (simp add: hour_def distrib_right)
  then have "fst (clock cluster_ext c) < (now div hour + 1) * hour - dval (rotation_window p)"
    by (simp add: cluster_ext_def c_def p(4) zero)
  then have "provider_calls (events (Reconcile cluster_ext example_reconciler example_key)
      (start_process c \<lparr>rotateCount = 1, entropy = ()\<rparr>)) = []"
    using completed_rotation_rests [OF example_server(1) written q_def now(2), of _ p c] p get zero
    by (simp add: start_process_def)
  then show ?thesis unfolding c_def p_def q_def by blast
qed

end
