(* ===== verification/System.thy ===== *)
theory System
  imports Guarantees
begin

text \<open>
  The operator over time.  Reconciles run one after the other, as the controller's single worker
  does; a notification that a reconcile starts is delivered later by a goroutine of its own, in any
  order; and between any two of these steps the outside may change in any way.  What waits is what the
  \<^verbatim>\<open>go\<close> statements (\<open>EvNotify\<close>) have started and no goroutine has taken up.  A panic of a
  reconcile is recovered by the worker, so the system goes on from where the reconcile stopped.
\<close>

section \<open>Reachable states and invariants\<close>

inductive reachable :: "('s \<Rightarrow> bool) \<Rightarrow> ('s \<Rightarrow> 's \<Rightarrow> bool) \<Rightarrow> 's \<Rightarrow> bool"
  for init :: "'s \<Rightarrow> bool" and step :: "'s \<Rightarrow> 's \<Rightarrow> bool" where
  start: "init s \<Longrightarrow> reachable init step s"
| further: "reachable init step s \<Longrightarrow> step s t \<Longrightarrow> reachable init step t"

locale inductive_invariant =
  fixes init :: "'s \<Rightarrow> bool" and step :: "'s \<Rightarrow> 's \<Rightarrow> bool" and inv :: "'s \<Rightarrow> bool"
  assumes starts: "init s \<Longrightarrow> inv s"
    and keeps: "inv s \<Longrightarrow> step s t \<Longrightarrow> inv t"
begin

lemma holds: "reachable init step s \<Longrightarrow> inv s"
  by (induction rule: reachable.induct) (auto intro: starts keeps)

end

section \<open>The system\<close>

text \<open>
  The process, the notifications whose goroutines have not run yet, and those whose goroutines have
  run, in the order in which they ran.
\<close>

record ('w, 'p) system =
  proc :: "('w, 'p) process"
  pending :: "(string \<times> NotificationPayload) list"
  delivered_to :: "(string \<times> NotificationPayload) list"

definition run_on :: "('w, 'p, 'a) prog \<Rightarrow> ('w, 'p) process \<Rightarrow> ('w, 'p) process" where
  "run_on m s = snd (run_state m s)"

inductive system_step ::
  "'w Ext \<Rightarrow> 'p SecretRotationPolicyReconciler \<Rightarrow> ('w, 'p) system \<Rightarrow> ('w, 'p) system \<Rightarrow> bool"
  for X :: "'w Ext" and r :: "'p SecretRotationPolicyReconciler" where
  reconcile: "system_step X r S (S\<lparr>proc := run_on (Reconcile X r req) (proc S),
     pending := pending S @ notified (events (Reconcile X r req) (proc S))\<rparr>)"
| deliver: "pending S = before @ (url, payload) # after \<Longrightarrow>
   system_step X r S (S\<lparr>proc := run_on (deliver_notification X url payload) (proc S),
     pending := before @ after, delivered_to := delivered_to S @ [(url, payload)]\<rparr>)"
| outside: "system_step X r S (S\<lparr>proc := (proc S)\<lparr>world := w\<rparr>\<rparr>)"

definition booted :: "('w, 'p) system \<Rightarrow> bool" where
  "booted S \<longleftrightarrow> trace (proc S) = [] \<and> pending S = [] \<and> delivered_to S = []"

inductive_cases system_stepE: "system_step X r S T"

section \<open>What the steps append to the trace\<close>

lemma emits_Reconcile: "emits (Reconcile X r req) (\<lambda>_ _. True)"
  unfolding Reconcile_def by (intro emits_intro emits_reconcilePolicy) simp

lemma trace_run_on: "emits m R \<Longrightarrow> trace (run_on m s) = trace s @ events m s"
  by (simp add: run_on_def emitsD(2))

definition notification_request :: "string \<times> NotificationPayload \<Rightarrow> HTTPRequest" where
  "notification_request d =
    \<lparr>req_Method = ''POST'', req_URL = fst d,
     req_Header = [(''Content-Type'', ''application/json''),
                   (''User-Agent'', ''keysmith-operator/v1alpha1'')],
     req_Body = json_Marshal (snd d), req_Timeout = notificationTimeout\<rparr>"

text \<open>A notification for which a request can be made of its URL and body.\<close>

definition sendable :: "'w Ext \<Rightarrow> string \<times> NotificationPayload \<Rightarrow> bool" where
  "sendable X d \<longleftrightarrow> http_NewRequest X ''POST'' (fst d) (json_Marshal (snd d)) = None"

lemma emits_deliver:
  "emits (deliver_notification X url payload)
     (\<lambda>_ es. if sendable X (url, payload)
       then \<exists>ok. es = [EvPost (notification_request (url, payload)) ok] else es = [])"
  unfolding deliver_notification_def postNotification_def Let_def
  by (intro emits_intro) (auto simp: notification_request_def sendable_def)

definition posts :: "event list \<Rightarrow> HTTPRequest list" where
  "posts es = concat (map (\<lambda>e. case e of EvPost req _ \<Rightarrow> [req] | _ \<Rightarrow> []) es)"

lemma posts_simps [simp]:
  "posts [] = []" "posts (e # es) = (case e of EvPost req _ \<Rightarrow> [req] | _ \<Rightarrow> []) @ posts es"
  "posts (es @ es') = posts es @ posts es'"
  by (simp_all add: posts_def)

lemma accepted_posts: "accepted m st out es \<Longrightarrow> posts es = []"
proof (induction es arbitrary: st)
  case (Cons e es)
  have "advance m st (EvPost req ok) = None" for req ok
    by (cases st) (simp_all add: advance_simps)
  with Cons show ?case by (cases e) (auto simp: accepted_Cons)
qed simp

lemma quiet_posts: "list_all quiet es \<Longrightarrow> posts es = []"
  by (induction es) (auto simp: quiet_def split: event.splits)

lemma Reconcile_posts: "posts (events (Reconcile X r req) s) = []"
proof (cases rule: Reconcile_cases [where X = X and req = req and s = s and r = r])
  case (rotating p prov t)
  then show ?thesis by (simp add: accepted_posts [OF emitsD(1) [OF refines_executeRotation]])
qed (simp_all add: quiet_posts)

lemma Reconcile_outcome: "outcome_of (events (Reconcile X r req) s) \<in> rotation_outcomes"
  "length (openings (events (Reconcile X r req) s)) = length (attempts (events (Reconcile X r req) s))"
proof -
  have "outcome_of (events (Reconcile X r req) s) \<in> rotation_outcomes \<and>
    length (openings (events (Reconcile X r req) s)) =
      length (attempts (events (Reconcile X r req) s))"
  proof (cases rule: Reconcile_cases [where X = X and req = req and s = s and r = r])
    case (missing e)
    then show ?thesis by (simp add: rotation_outcomes_def outcome_of_def)
  next
    case (resting p es)
    then show ?thesis
      using quiet_outcome [of es] by (simp add: rotation_outcomes_def) (simp add: outcome_of_def)
  next
    case (rotating p prov t)
    then show ?thesis using executeRotation_trace [of X p prov _ t] by simp
  qed
  then show "outcome_of (events (Reconcile X r req) s) \<in> rotation_outcomes"
    "length (openings (events (Reconcile X r req) s)) = length (attempts (events (Reconcile X r req) s))"
    by blast+
qed

section \<open>The ledger\<close>

text \<open>What all the rotations so far have left behind agrees.\<close>

definition balanced :: "event list \<Rightarrow> bool" where
  "balanced es \<longleftrightarrow>
     count_list (closings es) RecordPhaseSucceeded = count_list (writes es) True \<and>
     count_list (counts es) ''success'' = count_list (attempts es) True \<and>
     length (closings es) = length (counts es) \<and>
     length (openings es) = length (attempts es) \<and>
     length (counts es) \<le> length (attempts es)"

lemma balanced_append: "balanced es \<Longrightarrow> balanced es' \<Longrightarrow> balanced (es @ es')"
  by (simp add: balanced_def)

lemma outcome_balanced:
  "outcome_of es \<in> rotation_outcomes \<Longrightarrow> length (openings es) = length (attempts es) \<Longrightarrow> balanced es"
  by (auto simp: outcome_of_def rotation_outcomes_def balanced_def)

lemma balanced_posts: "balanced []" "balanced [EvPost req ok]"
  by (simp_all add: balanced_def)

text \<open>
  The answers to the creations of records, and how many status updates of records with a phase the
  server has accepted.
\<close>

definition created :: "event list \<Rightarrow> bool list" where
  "created es = concat (map (\<lambda>e. case e of EvCreateRecord _ ok \<Rightarrow> [ok] | _ \<Rightarrow> []) es)"

definition accepted_as :: "RecordPhase \<Rightarrow> event list \<Rightarrow> nat" where
  "accepted_as ph es = sum_list (map (\<lambda>e. case e of
     EvUpdateRecordStatus rr ok \<Rightarrow> of_bool (ok \<and> rrs_Phase (rr_Status rr) = ph) | _ \<Rightarrow> 0) es)"

lemma created_simps [simp]:
  "created [] = []" "created (es @ es') = created es @ created es'"
  "created (e # es) = (case e of EvCreateRecord _ ok \<Rightarrow> [ok] | _ \<Rightarrow> []) @ created es"
  by (simp_all add: created_def)

lemma accepted_as_simps [simp]:
  "accepted_as ph [] = 0" "accepted_as ph (es @ es') = accepted_as ph es + accepted_as ph es'"
  by (simp_all add: accepted_as_def)

lemma accepted_as_le: "accepted_as ph es \<le> count_list (closings es) ph"
  by (induction es) (auto simp: accepted_as_def split: event.splits)

lemma length_created: "length (created es) = length (openings es)"
  by (induction es) (auto split: event.splits)

text \<open>
  At every moment: nothing is claimed before it has happened.  A record says succeeded only for a
  secret that is already written, a secret is written and a success counted only for a call that has
  already returned one, and a call is made only after the creation of its record has been tried.
\<close>

definition in_order :: "event list \<Rightarrow> bool" where
  "in_order es \<longleftrightarrow>
     accepted_as RecordPhaseSucceeded es \<le> count_list (closings es) RecordPhaseSucceeded \<and>
     count_list (closings es) RecordPhaseSucceeded \<le> count_list (writes es) True \<and>
     length (writes es) \<le> count_list (attempts es) True \<and>
     count_list (counts es) ''success'' \<le> count_list (attempts es) True \<and>
     length (attempts es) \<le> length (created es)"

definition always_in_order :: "event list \<Rightarrow> bool" where
  "always_in_order es \<longleftrightarrow> (\<forall>xs ys. es = xs @ ys \<longrightarrow> in_order xs)"

lemma in_order_append: "in_order es \<Longrightarrow> in_order es' \<Longrightarrow> in_order (es @ es')"
  by (simp add: in_order_def)

lemma always_in_order_append:
  assumes "always_in_order es" and "always_in_order es'"
  shows "always_in_order (es @ es')"
proof -
  have "in_order es" using assms(1) by (auto simp: always_in_order_def)
  with assms show ?thesis
    unfolding always_in_order_def by (metis append_eq_append_conv2 in_order_append)
qed

text \<open>Events that are none of the books'.\<close>

lemma always_in_order_quiet:
  assumes "list_all (\<lambda>e. quiet e \<or> (\<exists>req ok. e = EvPost req ok)) es"
  shows "always_in_order es"
proof -
  have "in_order xs" if "list_all (\<lambda>e. quiet e \<or> (\<exists>req ok. e = EvPost req ok)) xs" for xs
    using that
    by (induction xs) (auto simp: in_order_def quiet_def accepted_as_def split: event.splits)
  with assms show ?thesis by (auto simp: always_in_order_def)
qed

text \<open>What the books hold in each stage of a rotation.\<close>

type_synonym books = "nat \<times> bool list \<times> string list \<times> bool list \<times> RecordPhase list"

definition books_of :: "event list \<Rightarrow> books" where
  "books_of es = (length (created es), attempts es, counts es, writes es, closings es)"

fun books_in :: "stage \<Rightarrow> books set" where
  "books_in Idle = {(0, [], [], [], [])}"
| "books_in Marked = {(0, [], [], [], [])}"
| "books_in Recorded = {(1, [], [], [], [])}"
| "books_in (Attempted ok) = {(1, [ok], [], [], [])}"
| "books_in (Counted ok) = {(1, [ok], [if ok then ''success'' else ''failure''], [], [])}"
| "books_in (Measured ok) = {(1, [ok], [if ok then ''success'' else ''failure''], [], [])}"
| "books_in Refused = {(1, [True], [''success''], [False], [])}"
| "books_in Aborted =
     {(1, [True], [''success''], [], [RecordPhaseFailed]),
      (1, [True], [''success''], [False], [RecordPhaseFailed])}"
| "books_in Rejected = {(1, [False], [''failure''], [], [RecordPhaseFailed])}"
| "books_in Reported = {(1, [False], [''failure''], [], [RecordPhaseFailed])}"
| "books_in Written = {(1, [True], [''success''], [True], [])}"
| "books_in Restarting = {(1, [True], [''success''], [True], [])}"
| "books_in _ = {(1, [True], [''success''], [True], [RecordPhaseSucceeded])}"

lemma books_of_snoc:
  "books_of (es @ [e]) =
     (case books_of es of (n, as, cs, ws, cl) \<Rightarrow>
        (n + length (created [e]), as @ attempts [e], cs @ counts [e], ws @ writes [e],
         cl @ closings [e]))"
  by (simp add: books_of_def)

lemma advance_books:
  assumes "advance m st e = Some st'" and "b \<in> books_in st"
  shows "(case b of (n, as, cs, ws, cl) \<Rightarrow>
        (n + length (created [e]), as @ attempts [e], cs @ counts [e], ws @ writes [e],
         cl @ closings [e])) \<in> books_in st'"
  using assms
  by (cases st; cases e; auto simp: advance_simps closes_as_def split: if_splits)

lemma run_stages_books: "run_stages m Idle es = Some st \<Longrightarrow> books_of es \<in> books_in st"
proof (induction es arbitrary: st rule: rev_induct)
  case Nil
  then show ?case by (auto simp: books_of_def)
next
  case (snoc e es)
  then obtain st0 where "run_stages m Idle es = Some st0" "advance m st0 e = Some st"
    by (auto split: option.splits)
  then show ?case using snoc.IH advance_books unfolding books_of_snoc by blast
qed

lemma books_in_order: "books_of es \<in> books_in st \<Longrightarrow> in_order es"
  using accepted_as_le [of RecordPhaseSucceeded es]
  by (cases st) (auto simp: books_of_def in_order_def)

lemma accepted_in_order:
  assumes "accepted m Idle out es"
  shows "always_in_order es"
  unfolding always_in_order_def
proof (intro allI impI)
  fix xs ys assume "es = xs @ ys"
  then obtain st where "run_stages m Idle xs = Some st"
    using assms by (auto simp: accepted_def split: option.splits)
  then show "in_order xs" by (rule books_in_order [OF run_stages_books])
qed

lemma Reconcile_in_order: "always_in_order (events (Reconcile X r req) s)"
proof -
  have get: "always_in_order [EvGetPolicy req ok]" for ok
    by (rule always_in_order_quiet) (simp add: quiet_def)
  show ?thesis
  proof (cases rule: Reconcile_cases [where X = X and req = req and s = s and r = r])
    case (missing e)
    then show ?thesis using get by simp
  next
    case (resting p es)
    then have "always_in_order es" by (intro always_in_order_quiet) (auto simp: list_all_iff)
    with resting always_in_order_append [OF get] show ?thesis by fastforce
  next
    case (rotating p prov t)
    with always_in_order_append [OF get accepted_in_order [OF emitsD(1) [OF refines_executeRotation]]]
    show ?thesis by fastforce
  qed
qed

definition ledger :: "('w, 'p) system \<Rightarrow> bool" where
  "ledger S \<longleftrightarrow> balanced (trace (proc S)) \<and> always_in_order (trace (proc S))"

lemma delivery_books:
  "balanced (events (deliver_notification X url payload) s)"
  "always_in_order (events (deliver_notification X url payload) s)"
  using emitsD(1) [OF emits_deliver, of X url payload s]
  by (auto simp: balanced_posts intro!: always_in_order_quiet split: if_splits)

interpretation ledger: inductive_invariant booted "system_step X r" ledger
  for X :: "'w Ext" and r :: "'p SecretRotationPolicyReconciler"
proof
  fix S T :: "('w, 'p) system"
  show "booted S \<Longrightarrow> ledger S"
    by (simp add: booted_def ledger_def balanced_posts always_in_order_quiet)
  assume inv: "ledger S" and "system_step X r S T"
  from this(2) show "ledger T"
  proof (cases rule: system_step.cases)
    case (reconcile req)
    with inv show ?thesis
      by (simp add: ledger_def trace_run_on [OF emits_Reconcile] balanced_append
          outcome_balanced Reconcile_outcome always_in_order_append Reconcile_in_order)
  next
    case (deliver before url payload after)
    with inv show ?thesis
      by (simp add: ledger_def trace_run_on [OF emits_deliver] balanced_append
          always_in_order_append delivery_books)
  next
    case (outside w)
    with inv show ?thesis by (simp add: ledger_def)
  qed
qed

section \<open>The mail\<close>

text \<open>
  A notification tells the truth when it reports what the record closed last has been closed as, and
  a success only when the status update after it has been accepted.
\<close>

definition tells_truth :: "RecordPhase \<Rightarrow> bool \<Rightarrow> event \<Rightarrow> bool" where
  "tells_truth ph saved e =
    (case e of
       EvNotify _ payload \<Rightarrow>
         (case np_Event payload of
            EventRotationSucceeded \<Rightarrow> ph = RecordPhaseSucceeded \<and> saved
          | EventRotationFailed \<Rightarrow> ph = RecordPhaseFailed
          | _ \<Rightarrow> False)
     | _ \<Rightarrow> True)"

definition closed_phase :: "event \<Rightarrow> RecordPhase \<Rightarrow> RecordPhase" where
  "closed_phase e ph = (case e of EvUpdateRecordStatus rr _ \<Rightarrow> rrs_Phase (rr_Status rr) | _ \<Rightarrow> ph)"

definition status_saved :: "event \<Rightarrow> bool \<Rightarrow> bool" where
  "status_saved e saved = (case e of EvUpdatePolicyStatus _ ok \<Rightarrow> ok | _ \<Rightarrow> saved)"

fun truthful :: "RecordPhase \<Rightarrow> bool \<Rightarrow> event list \<Rightarrow> bool" where
  "truthful ph saved [] \<longleftrightarrow> True"
| "truthful ph saved (e # es) \<longleftrightarrow>
     tells_truth ph saved e \<and> truthful (closed_phase e ph) (status_saved e saved) es"

lemma truthful_append:
  "truthful ph saved es \<Longrightarrow> (\<And>ph saved. truthful ph saved es') \<Longrightarrow> truthful ph saved (es @ es')"
  by (induction es arbitrary: ph saved) auto

lemma truthful_silent:
  "list_all (\<lambda>e. \<forall>url payload. e \<noteq> EvNotify url payload) es \<Longrightarrow> truthful ph saved es"
  by (induction es arbitrary: ph saved) (auto simp: tells_truth_def split: event.splits)

text \<open>What a stage remembers of the record and the status.\<close>

fun remembers :: "stage \<Rightarrow> RecordPhase \<Rightarrow> bool \<Rightarrow> bool" where
  "remembers Closed ph saved = (ph = RecordPhaseSucceeded)"
| "remembers Published ph saved = (ph = RecordPhaseSucceeded)"
| "remembers Stored ph saved = (ph = RecordPhaseSucceeded \<and> saved)"
| "remembers Pruning ph saved = (ph = RecordPhaseSucceeded \<and> saved)"
| "remembers Notifying ph saved = (ph = RecordPhaseSucceeded \<and> saved)"
| "remembers Rejected ph saved = (ph = RecordPhaseFailed)"
| "remembers Reported ph saved = (ph = RecordPhaseFailed)"
| "remembers _ ph saved = True"

lemma advance_truthful:
  assumes "advance m st e = Some st'" and "remembers st ph saved"
  shows "tells_truth ph saved e \<and> remembers st' (closed_phase e ph) (status_saved e saved)"
  using assms
  by (cases st; cases e; auto simp: advance_simps closes_as_def tells_truth_def closed_phase_def
      status_saved_def split: if_splits)

lemma run_stages_truthful:
  "run_stages m st es = Some st' \<Longrightarrow> remembers st ph saved \<Longrightarrow> truthful ph saved es"
proof (induction es arbitrary: st ph saved)
  case (Cons e es)
  then obtain st1 where st1: "advance m st e = Some st1" "run_stages m st1 es = Some st'"
    by (auto split: option.splits)
  with advance_truthful [OF st1(1)] Cons show ?case by auto
qed simp

lemma Reconcile_truthful: "truthful ph saved (events (Reconcile X r req) s)"
proof (cases rule: Reconcile_cases [where X = X and req = req and s = s and r = r])
  case (resting p es)
  then have "truthful ph saved es"
    by (intro truthful_silent) (auto simp: list_all_iff quiet_def)
  with resting show ?thesis
    by (simp add: tells_truth_def closed_phase_def status_saved_def)
next
  case (rotating p prov t)
  let ?es = "events (executeRotation X p prov (manual_requested p)) t"
  have "accepted (manual_requested p) Idle (result (executeRotation X p prov (manual_requested p)) t) ?es"
    by (rule emitsD(1) [OF refines_executeRotation])
  then have "\<exists>st. run_stages (manual_requested p) Idle ?es = Some st"
    by (auto simp: accepted_def split: option.splits)
  then have "truthful ph saved ?es" using run_stages_truthful by auto
  with rotating show ?thesis
    by (simp add: tells_truth_def closed_phase_def status_saved_def)
qed (simp add: tells_truth_def)

text \<open>
  Every notification that was started is either pending or delivered; the requests posted are those
  of the delivered ones, in order, wherever a request can be made of the URL; and the notifications
  are truthful.
\<close>

definition mail_in_order :: "'w Ext \<Rightarrow> ('w, 'p) system \<Rightarrow> bool" where
  "mail_in_order X S \<longleftrightarrow>
     mset (notified (trace (proc S))) = mset (pending S) + mset (delivered_to S) \<and>
     posts (trace (proc S)) = map notification_request (filter (sendable X) (delivered_to S)) \<and>
     truthful RecordPhaseUnset False (trace (proc S))"

lemma delivery_mail:
  "posts (events (deliver_notification X url payload) s) =
     (if sendable X (url, payload) then [notification_request (url, payload)] else [])"
  "notified (events (deliver_notification X url payload) s) = []"
  "truthful ph saved (events (deliver_notification X url payload) s)"
  using emitsD(1) [OF emits_deliver, of X url payload s]
  by (auto simp: notified_def tells_truth_def split: if_splits)

interpretation mail: inductive_invariant booted "system_step X r" "mail_in_order X"
  for X :: "'w Ext" and r :: "'p SecretRotationPolicyReconciler"
proof
  fix S T :: "('w, 'p) system"
  show "booted S \<Longrightarrow> mail_in_order X S" by (simp add: booted_def mail_in_order_def)
  assume inv: "mail_in_order X S" and "system_step X r S T"
  from this(2) show "mail_in_order X T"
  proof (cases rule: system_step.cases)
    case (reconcile req)
    with inv show ?thesis
      by (simp add: mail_in_order_def trace_run_on [OF emits_Reconcile] Reconcile_posts
          truthful_append Reconcile_truthful)
  next
    case (deliver before url payload after)
    with inv show ?thesis
      by (simp add: mail_in_order_def trace_run_on [OF emits_deliver] delivery_mail truthful_append)
  next
    case (outside w)
    with inv show ?thesis by (simp add: mail_in_order_def)
  qed
qed

end
