(* ===== verification/Server.thy ===== *)
theory Server
  imports Recurrence System
begin

text \<open>
  The policies that the API server stores.  The server is lawful when it stores what a successful
  update sends and nothing else; then the stored policies after any run of the controller are the
  replay of its trace, so that what the traces tell about one reconcile tells what the next one
  fetches.
\<close>

named_theorems tracks_intro \<open>which operations the trace accounts for\<close>

section \<open>What an update stores\<close>

type_synonym policies = "NamespacedName \<rightharpoonup> SecretRotationPolicy"

text \<open>
  An update keeps the stored status, since the status is a subresource; the update that leaves an
  object under deletion without finalizers removes it.  A status update keeps everything else.
\<close>

definition after_update :: "SecretRotationPolicy \<Rightarrow> policies \<Rightarrow> policies" where
  "after_update p m =
    (case m (policy_key p) of
       None \<Rightarrow> m
     | Some old \<Rightarrow>
         if being_deleted p \<and> Finalizers (srp_Meta p) = [] then m(policy_key p := None)
         else m(policy_key p \<mapsto> p\<lparr>srp_Status := srp_Status old\<rparr>))"

definition after_status_update :: "SecretRotationPolicy \<Rightarrow> policies \<Rightarrow> policies" where
  "after_status_update p m =
    (case m (policy_key p) of
       None \<Rightarrow> m
     | Some old \<Rightarrow> m(policy_key p \<mapsto> old\<lparr>srp_Status := srp_Status p\<rparr>))"

definition apply_event :: "event \<Rightarrow> policies \<Rightarrow> policies" where
  "apply_event e =
    (case e of
       EvUpdatePolicy p True \<Rightarrow> after_update p
     | EvUpdatePolicyStatus p True \<Rightarrow> after_status_update p
     | _ \<Rightarrow> id)"

definition replay :: "event list \<Rightarrow> policies \<Rightarrow> policies" where
  "replay es m = fold apply_event es m"

lemma apply_event_simps [simp]:
  "apply_event (EvUpdatePolicy p ok) m = (if ok then after_update p m else m)"
  "apply_event (EvUpdatePolicyStatus p ok) m = (if ok then after_status_update p m else m)"
  "apply_event (EvGetPolicy key ok) m = m"
  by (simp_all add: apply_event_def)

lemma replay_simps [simp]:
  "replay [] m = m" "replay (e # es) m = replay es (apply_event e m)"
  "replay (es @ es') m = replay es' (replay es m)"
  by (simp_all add: replay_def)

section \<open>Lawful servers\<close>

text \<open>
  \<open>stored\<close> reads the policies off the state of the outside.  An update stores what it sends exactly
  when it succeeds, and its answer has the name and the spec that were sent; every other call leaves
  the policies alone.
\<close>

definition unchanged_by :: "('w \<Rightarrow> policies) \<Rightarrow> ('w \<Rightarrow> 'a \<times> 'w) \<Rightarrow> bool" where
  "unchanged_by stored f \<longleftrightarrow> (\<forall>w. stored (snd (f w)) = stored w)"

definition lawful :: "'w Ext \<Rightarrow> ('w \<Rightarrow> policies) \<Rightarrow> bool" where
  "lawful X stored \<longleftrightarrow>
     (\<forall>key w p. fst (get_policy X key w) = Inr p \<longrightarrow> stored w key = Some p) \<and>
     (\<forall>key w p. stored w key = Some p \<longrightarrow> policy_key p = key) \<and>
     (\<forall>p w. stored (snd (update_policy X p w)) =
        (if snd (fst (update_policy X p w)) = None then after_update p (stored w) else stored w)) \<and>
     (\<forall>p w. stored (snd (update_policy_status X p w)) =
        (if snd (fst (update_policy_status X p w)) = None then after_status_update p (stored w)
         else stored w)) \<and>
     keeps_policy X \<and>
     (\<forall>key. unchanged_by stored (get_policy X key)) \<and>
     unchanged_by stored (clock X) \<and>
     (\<forall>rr. unchanged_by stored (create_record X rr)) \<and>
     (\<forall>rr. unchanged_by stored (update_record_status X rr)) \<and>
     (\<forall>ns labels. unchanged_by stored (list_records X ns labels)) \<and>
     (\<forall>rr. unchanged_by stored (delete_record X rr)) \<and>
     (\<forall>key. unchanged_by stored (get_secret X key)) \<and>
     (\<forall>obj mutate. unchanged_by stored (create_or_update_secret X obj mutate)) \<and>
     (\<forall>kind key. unchanged_by stored (get_workload X kind key)) \<and>
     (\<forall>kind obj. unchanged_by stored (update_workload X kind obj)) \<and>
     (\<forall>req. unchanged_by stored (http_Do X req))"

lemma lawful_keeps: "lawful X stored \<Longrightarrow> keeps_policy X"
  by (simp add: lawful_def)

lemma lawful_fetched:
  assumes "lawful X stored" and "fst (get_policy X key w) = Inr p"
  shows "stored w key = Some p" and "policy_key p = key"
proof -
  show *: "stored w key = Some p" using assms unfolding lawful_def by presburger
  have "\<forall>key w p. stored w key = Some p \<longrightarrow> policy_key p = key"
    using assms(1) unfolding lawful_def by (elim conjE)
  with * show "policy_key p = key" by blast
qed

lemma lawful_reads:
  assumes "lawful X stored"
  shows "stored (snd (get_policy X key w)) = stored w" and "stored (snd (clock X w)) = stored w"
  using assms by (simp_all add: lawful_def unchanged_by_def)

text \<open>
  \<open>C\<close> says which answers to an update a server may give, by the policies it stores.  Any answer is
  one choice, that updates of stored policies succeed is another.
\<close>

definition plausible ::
  "(policies \<Rightarrow> SecretRotationPolicy \<Rightarrow> bool \<Rightarrow> bool) \<Rightarrow> policies \<Rightarrow> event \<Rightarrow> bool" where
  "plausible C m e =
    (case e of
       EvUpdatePolicy p ok \<Rightarrow> C m p ok
     | EvUpdatePolicyStatus p ok \<Rightarrow> C m p ok
     | _ \<Rightarrow> True)"

fun explains ::
  "(policies \<Rightarrow> SecretRotationPolicy \<Rightarrow> bool \<Rightarrow> bool) \<Rightarrow> policies \<Rightarrow> event list \<Rightarrow> bool" where
  "explains C m [] \<longleftrightarrow> True"
| "explains C m (e # es) \<longleftrightarrow> plausible C m e \<and> explains C (apply_event e m) es"

lemma explains_append [simp]:
  "explains C m (es @ es') \<longleftrightarrow> explains C m es \<and> explains C (replay es m) es'"
  by (induction es arbitrary: m) auto

definition serves ::
  "'w Ext \<Rightarrow> ('w \<Rightarrow> policies) \<Rightarrow> (policies \<Rightarrow> SecretRotationPolicy \<Rightarrow> bool \<Rightarrow> bool) \<Rightarrow> bool" where
  "serves X stored C \<longleftrightarrow> lawful X stored \<and>
     (\<forall>p w. C (stored w) p (snd (fst (update_policy X p w)) = None)) \<and>
     (\<forall>p w. C (stored w) p (snd (fst (update_policy_status X p w)) = None))"

definition any_answer :: "policies \<Rightarrow> SecretRotationPolicy \<Rightarrow> bool \<Rightarrow> bool" where
  "any_answer m p ok \<longleftrightarrow> True"

definition stored_succeeds :: "policies \<Rightarrow> SecretRotationPolicy \<Rightarrow> bool \<Rightarrow> bool" where
  "stored_succeeds m p ok \<longleftrightarrow> (m (policy_key p) \<noteq> None \<longrightarrow> ok)"

lemma lawful_serves: "lawful X stored \<Longrightarrow> serves X stored any_answer"
  by (simp add: serves_def any_answer_def)

section \<open>The trace accounts for the stored policies\<close>

definition tracks ::
  "('w \<Rightarrow> policies) \<Rightarrow> (policies \<Rightarrow> SecretRotationPolicy \<Rightarrow> bool \<Rightarrow> bool) \<Rightarrow> ('w, 'p, 'a) prog \<Rightarrow> bool"
  where
  "tracks stored C m \<longleftrightarrow> (\<forall>s. \<exists>a t es. run_state m s = (a, t) \<and> trace t = trace s @ es \<and>
     stored (world t) = replay es (stored (world s)) \<and> explains C (stored (world s)) es)"

lemma tracksD:
  assumes "tracks stored C m"
  shows "stored (world (snd (run_state m s))) = replay (events m s) (stored (world s))"
    and "explains C (stored (world s)) (events m s)"
proof -
  from assms obtain a t es where "run_state m s = (a, t)" "trace t = trace s @ es"
      "stored (world t) = replay es (stored (world s))" "explains C (stored (world s)) es"
    unfolding tracks_def by blast
  then show "stored (world (snd (run_state m s))) = replay (events m s) (stored (world s))"
    and "explains C (stored (world s)) (events m s)"
    by (simp_all add: events_def)
qed

lemma tracks_return [tracks_intro]: "tracks stored C (State_Monad.return a)"
  by (auto simp: tracks_def State_Monad.return_def)

lemma tracks_bind [tracks_intro]:
  assumes "tracks stored C m" and "\<And>a. tracks stored C (f a)"
  shows "tracks stored C (State_Monad.bind m f)"
  unfolding tracks_def
proof
  fix s
  from assms(1) obtain a t es where 1: "run_state m s = (a, t)" "trace t = trace s @ es"
      "stored (world t) = replay es (stored (world s))" "explains C (stored (world s)) es"
    unfolding tracks_def by blast
  from assms(2) obtain b u es' where 2: "run_state (f a) t = (b, u)" "trace u = trace t @ es'"
      "stored (world u) = replay es' (stored (world t))" "explains C (stored (world t)) es'"
    unfolding tracks_def by blast
  show "\<exists>b u es. run_state (State_Monad.bind m f) s = (b, u) \<and> trace u = trace s @ es \<and>
      stored (world u) = replay es (stored (world s)) \<and> explains C (stored (world s)) es"
    using 1 2 by (intro exI [of _ b] exI [of _ u] exI [of _ "es @ es'"])
      (simp add: State_Monad.bind_def)
qed

lemma tracks_external:
  assumes "\<And>w. stored (snd (f w)) = apply_event (ev (fst (f w))) (stored w)"
    and "\<And>w. plausible C (stored w) (ev (fst (f w)))"
  shows "tracks stored C (external f ev)"
  unfolding tracks_def external_def using assms
  by (auto simp: case_prod_beta intro!: exI [of _ "[ev (fst (f (world s)))]" for s])

lemma tracks_silent: "unchanged_by stored f \<Longrightarrow> tracks stored C (silent f)"
  by (auto simp: tracks_def silent_def unchanged_by_def case_prod_beta intro!: exI [of _ "[]"])

lemma tracks_record_event:
  "apply_event e = id \<Longrightarrow> (\<And>m. plausible C m e) \<Longrightarrow> tracks stored C (record_event e)"
  by (auto simp: tracks_def record_event_def intro!: exI [of _ "[e]"])

lemma tracks_metrics [tracks_intro]:
  "tracks stored C (record_event (EvRotationsTotal a b c d))"
  "tracks stored C (record_event (EvRotationDuration a b c len))"
  "tracks stored C (record_event (EvNextRotationTimestamp a b t))"
  "tracks stored C (record_event EvActivePoliciesDec)"
  "tracks stored C (record_event (EvNotify url payload))"
  by (rule tracks_record_event; simp add: apply_event_def plausible_def)+

lemma tracks_CallRotate [tracks_intro]: "tracks stored C (CallRotate P ps)"
  by (auto simp: tracks_def CallRotate_def case_prod_beta apply_event_def plausible_def
      intro!: exI [of _ "[EvRotate (prov_Name P) ps (rotated_ok (fst (RotateSecret P ps (prov_state s))))]" for s])

lemma tracks_case_prod: "(\<And>a b. tracks stored C (l a b)) \<Longrightarrow> tracks stored C (case_prod l v)"
  by (cases v) simp

lemma tracks_calls [tracks_intro]:
  assumes "serves X stored C"
  shows "tracks stored C (Now X)" "tracks stored C (GetPolicy X key)" "tracks stored C (UpdatePolicy X p)"
    "tracks stored C (UpdatePolicyStatus X p)" "tracks stored C (CreateRecord X rr)"
    "tracks stored C (UpdateRecordStatus X rr)" "tracks stored C (ListRecords X ns labels)"
    "tracks stored C (DeleteRecord X rr)" "tracks stored C (GetSecret X key)"
    "tracks stored C (CreateOrUpdateSecret X obj mutate)" "tracks stored C (GetWorkload X kind key)"
    "tracks stored C (UpdateWorkload X kind w)" "tracks stored C (HTTPDo X req)"
  using assms
  by (auto simp: serves_def lawful_def unchanged_by_def plausible_def Now_def GetPolicy_def UpdatePolicy_def
      UpdatePolicyStatus_def CreateRecord_def UpdateRecordStatus_def ListRecords_def
      DeleteRecord_def GetSecret_def CreateOrUpdateSecret_def GetWorkload_def UpdateWorkload_def
      HTTPDo_def apply_event_def Let_def
      intro!: tracks_external tracks_silent tracks_bind tracks_case_prod tracks_return split: prod.splits)

lemma tracks_cases [tracks_intro]:
  "(c \<Longrightarrow> tracks stored C m) \<Longrightarrow> (\<not> c \<Longrightarrow> tracks stored C n) \<Longrightarrow> tracks stored C (if c then m else n)"
  "tracks stored C m \<Longrightarrow> (\<And>y. tracks stored C (f y)) \<Longrightarrow> tracks stored C (case_option m f x)"
  "(\<And>e. tracks stored C (f' e)) \<Longrightarrow> (\<And>y. tracks stored C (g y)) \<Longrightarrow> tracks stored C (case_sum f' g z)"
  "(\<And>y. tracks stored C (h y)) \<Longrightarrow> (\<And>m. tracks stored C (k m)) \<Longrightarrow> tracks stored C (case_outcome h k u)"
  "(\<And>a b. tracks stored C (l a b)) \<Longrightarrow> tracks stored C (case_prod l v)"
  "(\<And>y. tracks stored C (q y)) \<Longrightarrow> tracks stored C (Let t q)"
  by (auto split: option.split sum.split outcome.split prod.split simp: Let_def)

section \<open>The controller is tracked\<close>

lemma tracks_set_condition [tracks_intro]:
  "serves X stored C \<Longrightarrow> tracks stored C (set_condition X type status reason msg p)"
  unfolding set_condition_def by (intro tracks_intro)

lemma tracks_finalizeRecord [tracks_intro]:
  "serves X stored C \<Longrightarrow> tracks stored C (finalizeRecord X rr phase d name keys restarted err)"
  unfolding finalizeRecord_def by (intro tracks_intro)

lemma tracks_newRotationRecord [tracks_intro]:
  "serves X stored C \<Longrightarrow> tracks stored C (newRotationRecord X p trigger)"
  unfolding newRotationRecord_def by (intro tracks_intro)

lemma tracks_triggerRestarts [tracks_intro]:
  assumes "serves X stored C"
  shows "tracks stored C (triggerRestarts X p)"
proof -
  have "tracks stored C (restart_loop X ns t targets acc)" for ns t targets acc
    by (induction targets arbitrary: acc)
      (auto simp: restart_workload_def intro!: tracks_intro assms)
  then show ?thesis unfolding triggerRestarts_def by (intro tracks_intro assms)
qed

lemma tracks_pruneHistory [tracks_intro]:
  assumes "serves X stored C"
  shows "tracks stored C (pruneHistory X p)"
proof -
  have "tracks stored C (delete_loop X items n)" for items n
    using assms by (induction X items n rule: delete_loop.induct) (auto intro!: tracks_intro)
  then show ?thesis unfolding pruneHistory_def by (intro tracks_intro assms)
qed

lemma tracks_dispatchNotifications [tracks_intro]:
  assumes "serves X stored C"
  shows "tracks stored C (dispatchNotifications X p ev payload)"
proof -
  have "tracks stored C (dispatch_loop X ns ev payload subs)" for ns subs
    by (induction subs)
      (auto simp: dispatch_one_def notification_url_def intro!: tracks_intro assms)
  then show ?thesis unfolding dispatchNotifications_def .
qed

lemma tracks_rotation [tracks_intro]:
  assumes "serves X stored C"
  shows "tracks stored C (providerFailed X p prov rr d e)"
    and "tracks stored C (finishRotation X p prov manual rr d)"
    and "tracks stored C (providerSucceeded X p prov manual rr d secret)"
    and "tracks stored C (executeRotation X p prov manual)"
proof -
  show failed: "tracks stored C (providerFailed X p prov rr d e)" for p rr d e
    unfolding providerFailed_def by (intro tracks_intro assms)
  have finish: "tracks stored C (finishRotation X p prov manual rr d)" for p rr d
    unfolding finishRotation_def by (intro tracks_intro assms)
  then show "tracks stored C (finishRotation X p prov manual rr d)" .
  have succeeded: "tracks stored C (providerSucceeded X p prov manual rr d secret)" for p rr d secret
    unfolding providerSucceeded_def by (intro tracks_intro assms finish)
  then show "tracks stored C (providerSucceeded X p prov manual rr d secret)" .
  show "tracks stored C (executeRotation X p prov manual)"
    unfolding executeRotation_def by (intro tracks_intro assms failed succeeded)
qed

lemma tracks_status_handlers [tracks_intro]:
  assumes "serves X stored C"
  shows "tracks stored C (setSuspended X p)" "tracks stored C (setProviderUnhealthy X p e)"
    "tracks stored C (markDegraded X p reason msg)" "tracks stored C (handleDeletion X p)"
  unfolding setSuspended_def setProviderUnhealthy_def markDegraded_def handleDeletion_def Let_def
  by (intro tracks_intro assms)+

lemma tracks_Reconcile:
  assumes "serves X stored C"
  shows "tracks stored C (Reconcile X r req)"
  unfolding Reconcile_def reconcilePolicy_def reconcileActive_def requeueNotDue_def
  by (intro tracks_intro assms)

lemma stored_after:
  "lawful X stored \<Longrightarrow> stored (world (run_on (Reconcile X r req) s)) =
     replay (events (Reconcile X r req) s) (stored (world s))"
  unfolding run_on_def by (rule tracksD(1) [OF tracks_Reconcile [OF lawful_serves]])

lemma answers_explained:
  "serves X stored C \<Longrightarrow> explains C (stored (world s)) (events (Reconcile X r req) s)"
  by (rule tracksD(2) [OF tracks_Reconcile])

text \<open>The delivery of a notification leaves the policies alone.\<close>

lemma tracks_deliver [tracks_intro]:
  "serves X stored C \<Longrightarrow> tracks stored C (deliver_notification X url payload)"
  unfolding deliver_notification_def postNotification_def Let_def by (intro tracks_intro)

lemma stored_after_delivery:
  assumes "lawful X stored"
  shows "stored (world (run_on (deliver_notification X url payload) s)) = stored (world s)"
proof -
  have "replay (events (deliver_notification X url payload) s) m = m" for m
    using emitsD(1) [OF emits_deliver, of X url payload s]
    by (auto simp: apply_event_def split: if_splits)
  then show ?thesis
    using tracksD(1) [OF tracks_deliver [OF lawful_serves [OF assms]], of url payload s]
    by (simp add: run_on_def)
qed

end
