(* ===== verification/Confinement.thy ===== *)
theory Confinement
  imports Server
begin

text \<open>
  What belongs to a policy, and that a reconcile of the policy touches nothing else.  The server is
  orderly when its answers are about the objects that were asked for: an answer to a create or an
  update of a record has the namespace and labels that were sent, a listing obeys the namespace and
  the label selector, and a workload is the one that was named.
\<close>

section \<open>What belongs to a policy\<close>

definition ours :: "SecretRotationPolicy \<Rightarrow> RotationRecord \<Rightarrow> bool" where
  "ours p rr \<longleftrightarrow> Namespace (rr_Meta rr) = policy_namespace p \<and>
     entries (Labels (rr_Meta rr)) policy_label = Some (policy_name p)"

definition its_secret :: "SecretRotationPolicy \<Rightarrow> KubeSecret \<Rightarrow> bool" where
  "its_secret p sec \<longleftrightarrow> sec_Name sec = ref_Name (SecretRef (srp_Spec p)) \<and>
     sec_Namespace sec = (if ref_Namespace (SecretRef (srp_Spec p)) = '''' then policy_namespace p
       else ref_Namespace (SecretRef (srp_Spec p)))"

definition its_target :: "SecretRotationPolicy \<Rightarrow> WorkloadKind \<Rightarrow> NamespacedName \<Rightarrow> bool" where
  "its_target p kind key \<longleftrightarrow> (\<exists>t \<in> set (RestartTargets (srp_Spec p)).
     workload_kind (rt_Kind t) = Some kind \<and> nn_Name key = rt_Name t \<and>
     nn_Namespace key = (if rt_Namespace t = '''' then policy_namespace p else rt_Namespace t))"

definition its_webhook_secret :: "SecretRotationPolicy \<Rightarrow> NamespacedName \<Rightarrow> bool" where
  "its_webhook_secret p key \<longleftrightarrow> nn_Namespace key = policy_namespace p \<and>
     (\<exists>n \<in> set (Notifications (srp_Spec p)). \<exists>sel. ns_SecretRef n = Some sel \<and>
        nn_Name key = sks_Name sel)"

definition in_scope :: "SecretRotationPolicy \<Rightarrow> event \<Rightarrow> bool" where
  "in_scope p e =
    (case e of
       EvGetPolicy key _ \<Rightarrow> key = policy_key p
     | EvUpdatePolicy q _ \<Rightarrow> same_policy q p
     | EvUpdatePolicyStatus q _ \<Rightarrow> same_policy q p
     | EvCreateRecord rr _ \<Rightarrow> ours p rr
     | EvUpdateRecordStatus rr _ \<Rightarrow> ours p rr
     | EvListRecords ns labels _ \<Rightarrow>
         ns = policy_namespace p \<and> labels = [(policy_label, policy_name p)]
     | EvDeleteRecord rr _ \<Rightarrow> ours p rr
     | EvGetSecret key _ \<Rightarrow> its_webhook_secret p key
     | EvPutSecret _ sec _ \<Rightarrow> its_secret p sec
     | EvGetWorkload kind key _ \<Rightarrow> its_target p kind key
     | EvUpdateWorkload kind obj _ \<Rightarrow>
         its_target p kind \<lparr>nn_Name = wl_Name obj, nn_Namespace = wl_Namespace obj\<rparr>
     | EvRotate name ps _ \<Rightarrow> name = ps_Name (Provider (srp_Spec p)) \<and> ps = Params (Provider (srp_Spec p))
     | EvRotationsTotal name ns _ _ \<Rightarrow> name = policy_name p \<and> ns = policy_namespace p
     | EvRotationDuration name ns _ _ \<Rightarrow> name = policy_name p \<and> ns = policy_namespace p
     | EvNextRotationTimestamp name ns _ \<Rightarrow> name = policy_name p \<and> ns = policy_namespace p
     | EvActivePoliciesDec \<Rightarrow> True
     | EvNotify _ payload \<Rightarrow>
         np_Policy payload = policy_name p \<and> np_Namespace payload = policy_namespace p
     | EvPost _ _ \<Rightarrow> False)"

lemmas scope_defs = ours_def its_secret_def its_target_def its_webhook_secret_def in_scope_def

lemma same_scope: "same_policy q p \<Longrightarrow> in_scope q = in_scope p"
  by (auto simp: scope_defs same_policy_def policy_key_def fun_eq_iff split: event.splits)

section \<open>Orderly servers\<close>

abbreviation home :: "RotationRecord \<Rightarrow> string \<times> gomap" where
  "home rr \<equiv> (Namespace (rr_Meta rr), Labels (rr_Meta rr))"

definition orderly :: "'w Ext \<Rightarrow> bool" where
  "orderly X \<longleftrightarrow>
     keeps_policy X \<and> slice_sorter (slice_sort X) creation \<and>
     (\<forall>m f. Name (AddFinalizer X m f) = Name m \<and> Namespace (AddFinalizer X m f) = Namespace m) \<and>
     (\<forall>m f. Name (RemoveFinalizer X m f) = Name m \<and> Namespace (RemoveFinalizer X m f) = Namespace m) \<and>
     (\<forall>p rr. home (fst (SetControllerReference X p rr)) = home rr) \<and>
     (\<forall>rr w. home (fst (fst (create_record X rr w))) = home rr) \<and>
     (\<forall>rr w. home (fst (fst (update_record_status X rr w))) = home rr) \<and>
     (\<forall>ns labels w items. fst (list_records X ns labels w) = Inr items \<longrightarrow>
        (\<forall>rr \<in> set items. Namespace (rr_Meta rr) = ns \<and>
          (\<forall>(k, v) \<in> set labels. entries (Labels (rr_Meta rr)) k = Some v))) \<and>
     (\<forall>kind key w obj. fst (get_workload X kind key w) = Inr obj \<longrightarrow>
        wl_Name obj = nn_Name key \<and> wl_Namespace obj = nn_Namespace key)"

lemma ours_home: "home q = home rr \<Longrightarrow> ours p q \<longleftrightarrow> ours p rr"
  by (simp add: ours_def)

lemma emits_record_calls:
  assumes "orderly X"
  shows "(\<And>q err. home q = home rr \<Longrightarrow> R (q, err) [EvCreateRecord rr (err = None)]) \<Longrightarrow>
      emits (CreateRecord X rr) R"
    and "(\<And>q err. home q = home rr \<Longrightarrow> R (q, err) [EvUpdateRecordStatus rr (err = None)]) \<Longrightarrow>
      emits (UpdateRecordStatus X rr) R"
  unfolding CreateRecord_def UpdateRecordStatus_def using assms unfolding orderly_def
  by (auto intro!: emits_external_of simp: prod_eq_iff) (metis prod.collapse)+

lemma emits_finalizeRecord_home:
  assumes "orderly X"
    and "\<And>q rr1 ok. home q = home rr \<Longrightarrow> home rr1 = home rr \<Longrightarrow> R q [EvUpdateRecordStatus rr1 ok]"
  shows "emits (finalizeRecord X rr phase d name keys restarted err) R"
  unfolding finalizeRecord_def
  by (intro emits_bind emits_Now emits_Let emits_record_calls [OF assms(1)] emits_case_prod emits_return)
    (auto intro!: assms(2))

lemma emits_newRotationRecord_ours:
  assumes "\<And>rr. ours p rr \<Longrightarrow> R rr []"
  shows "emits (newRotationRecord X p trigger) R"
  unfolding newRotationRecord_def
  by (intro emits_bind emits_Now emits_return) (auto intro!: assms simp: ours_def entries_def)

section \<open>The parts of a rotation\<close>

abbreviation confined :: "SecretRotationPolicy \<Rightarrow> event list \<Rightarrow> bool" where
  "confined p es \<equiv> list_all (in_scope p) es"

lemma orderlyD:
  assumes "orderly X"
  shows "keeps_policy X" and "set (slice_sort X older items) = set items"
    and "fst (list_records X ns labels w) = Inr items \<Longrightarrow> rr \<in> set items \<Longrightarrow>
      Namespace (rr_Meta rr) = ns \<and>
      (\<forall>(k, v) \<in> set labels. entries (Labels (rr_Meta rr)) k = Some v)"
    and "fst (get_workload X kind key w) = Inr obj \<Longrightarrow>
      \<lparr>nn_Name = wl_Name obj, nn_Namespace = wl_Namespace obj\<rparr> = key"
    and "SetControllerReference X p rr = (rr', err) \<Longrightarrow> home rr' = home rr"
    and "same_policy (map_meta (\<lambda>m. AddFinalizer X m f) p) p"
    and "same_policy (map_meta (\<lambda>m. RemoveFinalizer X m f) p) p"
  using assms slice_sorter.set_sorted [of "slice_sort X" creation items]
  by (auto simp: orderly_def older_eq same_policy_def) (metis fst_conv prod.inject)+

lemma emits_restart_workload_confined:
  assumes "orderly X" and "its_target p kind key" and "\<And>r es. confined p es \<Longrightarrow> R r es"
  shows "emits (restart_workload X kind key stamp) R"
proof -
  have get: "emits (GetWorkload X kind key) Q" if
    "\<And>e. Q (Inl e) [EvGetWorkload kind key False]" and
    "\<And>obj. \<lparr>nn_Name = wl_Name obj, nn_Namespace = wl_Namespace obj\<rparr> = key \<Longrightarrow>
       Q (Inr obj) [EvGetWorkload kind key True]" for Q
    unfolding GetWorkload_def
  proof (rule emits_external_of)
    fix w
    show "Q (fst (get_workload X kind key w))
        [EvGetWorkload kind key (\<not> failed (fst (get_workload X kind key w)))]"
      using that orderlyD(4) [OF assms(1)]
      by (cases "fst (get_workload X kind key w)") auto
  qed
  show ?thesis
    unfolding restart_workload_def
    by (intro emits_bind get emits_case_sum emits_return emits_UpdateWorkload assms(3))
      (use assms(2) in \<open>auto simp: in_scope_def mark_restarted_def\<close>)
qed

lemma emits_triggerRestarts_confined:
  assumes "orderly X"
  shows "emits (triggerRestarts X p) (\<lambda>_ es. confined p es)"
proof -
  have loop: "emits (restart_loop X (policy_namespace p) stamp targets acc) (\<lambda>_ es. confined p es)"
    if "set targets \<subseteq> set (RestartTargets (srp_Spec p))" for stamp targets acc
    using that
  proof (induction targets arbitrary: acc)
    case (Cons t targets)
    have "its_target p kind (target_key (policy_namespace p) t)"
      if "workload_kind (rt_Kind t) = Some kind" for kind
      using that Cons.prems by (auto simp: its_target_def target_key_def Let_def)
    with Cons show ?case
      unfolding restart_loop.simps
      by (intro emits_case_option emits_bind emits_restart_workload_confined [OF assms]
          emits_weaken [OF Cons.IH]) auto
  qed (simp add: emits_return)
  show ?thesis
    unfolding triggerRestarts_def by (intro emits_bind emits_Now) (simp add: loop)
qed

lemma emits_dispatch_confined:
  assumes "np_Policy payload = policy_name p" and "np_Namespace payload = policy_namespace p"
  shows "emits (dispatchNotifications X p ev payload) (\<lambda>_ es. confined p es)"
proof -
  have loop: "emits (dispatch_loop X (policy_namespace p) ev payload subs) (\<lambda>_ es. confined p es)"
    if "set subs \<subseteq> set (Notifications (srp_Spec p))" for subs
    using that
  proof (induction subs)
    case (Cons n subs)
    then show ?case
      unfolding dispatch_loop.simps dispatch_one_def notification_url_def
      by (intro emits_intro emits_weaken [OF Cons.IH])
        (auto simp: in_scope_def its_webhook_secret_def assms)
  qed (simp add: emits_return)
  show ?thesis unfolding dispatchNotifications_def by (simp add: loop)
qed

lemma emits_pruneHistory_confined:
  assumes "orderly X"
  shows "emits (pruneHistory X p) (\<lambda>_ es. confined p es)"
proof -
  have listing: "emits (ListRecords X ns labels) R" if
    "\<And>e. R (Inl e) [EvListRecords ns labels False]" and
    "\<And>items. (\<And>rr. rr \<in> set items \<Longrightarrow> Namespace (rr_Meta rr) = ns \<and>
       (\<forall>(k, v) \<in> set labels. entries (Labels (rr_Meta rr)) k = Some v)) \<Longrightarrow>
       R (Inr items) [EvListRecords ns labels True]" for ns labels R
    unfolding ListRecords_def
  proof (rule emits_external_of)
    fix w
    show "R (fst (list_records X ns labels w))
        [EvListRecords ns labels (\<not> failed (fst (list_records X ns labels w)))]"
    proof (cases "fst (list_records X ns labels w)")
      case (Inl e)
      with that(1) show ?thesis by simp
    next
      case (Inr items)
      with that(2) [OF orderlyD(3) [OF assms Inr]] show ?thesis by simp
    qed
  qed
  have deletes: "emits (delete_loop X items n) (\<lambda>_ es. confined p es)"
    if "\<forall>rr \<in> set items. ours p rr" for items n
    using that
  proof (induction n arbitrary: items)
    case (Suc n)
    then show ?case
      by (cases items) (auto simp: in_scope_def intro!: emits_return emits_bind emits_DeleteRecord
          emits_weaken [OF Suc.IH])
  qed (simp add: emits_return)
  show ?thesis
    unfolding pruneHistory_def Let_def
    by (intro emits_bind listing emits_case_sum emits_if emits_return emits_weaken [OF deletes])
      (auto simp: in_scope_def ours_def orderlyD(2) [OF assms])
qed

section \<open>A rotation and a reconcile\<close>

text \<open>Policy updates within a handler, with answers that are the same policy.\<close>

lemma emits_updates_same:
  assumes "orderly X" and "same_policy q p"
  shows "(\<And>q' err. same_policy q' p \<Longrightarrow> R (q', err) [EvUpdatePolicyStatus q (err = None)]) \<Longrightarrow>
      emits (UpdatePolicyStatus X q) R"
    and "(\<And>q' err. same_policy q' p \<Longrightarrow> R (q', err) [EvUpdatePolicy q (err = None)]) \<Longrightarrow>
      emits (UpdatePolicy X q) R"
  using orderlyD(1) [OF assms(1)] assms(2) same_policy_trans
  by (auto intro!: emits_UpdatePolicyStatus_keeps emits_UpdatePolicy_keeps)

lemma ours_same: "same_policy q p \<Longrightarrow> ours q rr \<longleftrightarrow> ours p rr"
  by (simp add: ours_def same_policy_def)

lemma in_scope_updates [simp]:
  "in_scope p (EvUpdatePolicy q ok) \<longleftrightarrow> same_policy q p"
  "in_scope p (EvUpdatePolicyStatus q ok) \<longleftrightarrow> same_policy q p"
  "in_scope p (EvCreateRecord rr ok) \<longleftrightarrow> ours p rr"
  "in_scope p (EvUpdateRecordStatus rr ok) \<longleftrightarrow> ours p rr"
  "in_scope p (EvPutSecret old sec ok) \<longleftrightarrow> its_secret p sec"
  by (simp_all add: in_scope_def)

lemma emits_part_confined:
  assumes "orderly X" and "same_policy q p"
  shows "(\<And>r es. confined p es \<Longrightarrow> R r es) \<Longrightarrow> emits (triggerRestarts X q) R"
    and "(\<And>r es. confined p es \<Longrightarrow> R' r es) \<Longrightarrow> emits (pruneHistory X q) R'"
    and "(\<And>es. confined p es \<Longrightarrow> R'' () es) \<Longrightarrow>
      emits (dispatchNotifications X q ev (notification_payload ev q t rr err)) R''"
  using emits_weaken [OF emits_triggerRestarts_confined [OF assms(1), of q], of R]
    emits_weaken [OF emits_pruneHistory_confined [OF assms(1), of q], of R']
    emits_weaken [OF emits_dispatch_confined [of "notification_payload ev q t rr err" q X ev], of R'']
  by (simp_all add: same_scope [OF assms(2)] notification_payload_def)

lemma emits_finishRotation_confined:
  assumes "orderly X" and "same_policy q p" and "ours p rr"
  shows "emits (finishRotation X q prov manual rr d) (\<lambda>_ es. confined p es)"
  unfolding finishRotation_def
  by (intro emits_bind emits_if emits_updates_same [OF assms(1), where p = p] emits_Let
      emits_part_confined [OF assms(1), where p = p] emits_finalizeRecord_home [OF assms(1)] emits_Now
      emits_record_event emits_set_condition emits_case_prod emits_case_option emits_return
      emits_case_outcome)
    (use assms(2,3) in \<open>auto simp: in_scope_def ours_def same_policy_def\<close>)

lemma emits_providerFailed_confined:
  assumes "orderly X" and "same_policy q p" and "ours p rr"
  shows "emits (providerFailed X q prov rr d e) (\<lambda>_ es. confined p es)"
  unfolding providerFailed_def
  by (intro emits_bind emits_updates_same [OF assms(1), where p = p] emits_Let
      emits_part_confined [OF assms(1), where p = p] emits_finalizeRecord_home [OF assms(1)] emits_Now
      emits_set_condition emits_case_prod emits_return)
    (use assms(2,3) in \<open>auto simp: in_scope_def ours_def same_policy_def\<close>)

lemma its_secret_written [simp]:
  "same_policy q p \<Longrightarrow> sec_Name old = sec_Name (target_secret q) \<Longrightarrow>
   sec_Namespace old = sec_Namespace (target_secret q) \<Longrightarrow> its_secret p (write_secret q data old)"
  by (simp add: its_secret_def write_secret_def target_secret_def same_policy_def Let_def)

lemma emits_providerSucceeded_confined:
  assumes "orderly X" and "same_policy q p" and "ours p rr"
  shows "emits (providerSucceeded X q prov manual rr d secret) (\<lambda>_ es. confined p es)"
  unfolding providerSucceeded_def
  by (intro emits_case_sum emits_bind emits_finalizeRecord_home [OF assms(1)] emits_return
      emits_CreateOrUpdateSecret emits_case_option
      emits_weaken [OF emits_finishRotation_confined [OF assms]])
    (use assms(2,3) in \<open>auto simp: ours_def\<close>)

lemma in_scope_metrics [simp]:
  "in_scope p (EvRotationsTotal n ns v res) \<longleftrightarrow> n = policy_name p \<and> ns = policy_namespace p"
  "in_scope p (EvRotationDuration n ns v d) \<longleftrightarrow> n = policy_name p \<and> ns = policy_namespace p"
  "in_scope p (EvRotate name ps ok) \<longleftrightarrow>
     name = ps_Name (Provider (srp_Spec p)) \<and> ps = Params (Provider (srp_Spec p))"
  "in_scope p (EvGetPolicy key ok) \<longleftrightarrow> key = policy_key p"
  "in_scope p EvActivePoliciesDec"
  by (simp_all add: in_scope_def)

lemma emits_executeRotation_confined:
  assumes "orderly X" and "prov_Name prov = ps_Name (Provider (srp_Spec p))"
  shows "emits (executeRotation X p prov manual) (\<lambda>_ es. confined p es)"
  unfolding executeRotation_def
  by (intro emits_bind emits_Now emits_case_prod emits_Let
      emits_updates_same [OF assms(1), where p = p] emits_newRotationRecord_ours
      emits_case_option emits_return emits_record_calls [OF assms(1)] emits_CallRotate
      emits_case_outcome emits_record_event emits_case_sum
      emits_weaken [OF emits_providerFailed_confined [OF assms(1), where p = p]]
      emits_weaken [OF emits_providerSucceeded_confined [OF assms(1), where p = p]])
    (auto simp: assms(2) ours_def same_policy_def dest!: orderlyD(5) [OF assms(1)])

lemma quiet_confined:
  assumes "orderly X"
  shows "emits (setSuspended X p) (\<lambda>_ es. confined p es)"
    "emits (setProviderUnhealthy X p e) (\<lambda>_ es. confined p es)"
    "emits (markDegraded X p reason msg) (\<lambda>_ es. confined p es)"
    "emits (handleDeletion X p) (\<lambda>_ es. confined p es)"
    "emits (requeueNotDue X p) (\<lambda>_ es. confined p es)"
proof -
  show degraded: "emits (markDegraded X p reason msg) (\<lambda>_ es. confined p es)" for reason msg
    by (rule emits_weaken [OF emits_markDegraded]) auto
  show "emits (requeueNotDue X p) (\<lambda>_ es. confined p es)"
    unfolding requeueNotDue_def Let_def by (intro emits_intro emits_weaken [OF degraded]) auto
qed (rule emits_weaken [OF emits_setSuspended] emits_weaken [OF emits_setProviderUnhealthy]
      emits_weaken [OF emits_handleDeletion];
    auto simp: orderlyD(7) [OF assms] split: if_splits)+

lemma emits_reconcilePolicy_confined:
  assumes "orderly X" and "registry_ok reg"
  shows "emits (reconcilePolicy X reg p) (\<lambda>_ es. confined p es)"
  unfolding reconcilePolicy_def reconcileActive_def Let_def
  by (intro emits_intro emits_weaken [OF emits_executeRotation_confined [OF assms(1)]]
      emits_weaken [OF quiet_confined(1) [OF assms(1)]] emits_weaken [OF quiet_confined(2) [OF assms(1)]]
      emits_weaken [OF quiet_confined(3) [OF assms(1)]] emits_weaken [OF quiet_confined(4) [OF assms(1)]]
      emits_weaken [OF quiet_confined(5) [OF assms(1)]])
    (auto simp: orderlyD(6) [OF assms(1)] dest: reg.get_name [OF assms(2)])

section \<open>What a reconcile promises to everything else\<close>

lemma Reconcile_scope:
  assumes "orderly X" and "registry_ok (Registry r)"
    and "fst (get_policy X req (world s)) = Inr p" and "policy_key p = req"
  shows "confined p (events (Reconcile X r req) s)"
  using emitsD(1) [OF emits_reconcilePolicy_confined [OF assms(1,2)], of p "fetched X req s"] assms(3,4)
  by (simp add: Reconcile_steps)

text \<open>
  C5.  A reconcile stays with its own policy.  With a server whose answers are
  about what it was asked for, every call is about what belongs to the fetched policy: the policy
  itself, the records in its namespace under its label, the secret its reference names, the workloads
  its restart targets name, the webhook secrets of its notifications, and the provider its spec
  names, with the parameters of the spec; metrics and notifications carry its name and namespace;
  and nothing is posted by the reconcile itself.
\<close>

theorem reconcile_confined:
  assumes "orderly X" and "registry_ok (Registry r)"
    and "get_policy X req (world s) = (Inr p, w)" and "policy_key p = req"
  shows "list_all (in_scope p) (events (Reconcile X r req) s)"
  by (rule Reconcile_scope) (use assms in simp_all)

lemma cluster_orderly: "orderly cluster_ext"
  unfolding orderly_def
  using example_server(1) example_sorter
  by (auto simp: cluster_defs Let_def list_all_iff)

lemma example_registry: "registry_ok (Registry example_reconciler)"
  by (simp add: registry_ok_def example_reconciler_def provider_defs)

lemma reconcile_confined_witness:
  "list_all (in_scope example_policy)
     (events (Reconcile cluster_ext example_reconciler example_key) example_process)"
  by (rule reconcile_confined [OF cluster_orderly example_registry])
    (simp_all add: example_get)

lemma replay_elsewhere:
  assumes "list_all (in_scope p) es" and "key \<noteq> policy_key p"
  shows "replay es m key = m key"
  using assms(1)
proof (induction es arbitrary: m)
  case (Cons e es)
  have "apply_event e m key = m key"
  proof (cases "\<exists>q ok. e = EvUpdatePolicy q ok \<or> e = EvUpdatePolicyStatus q ok")
    case True
    then obtain q ok where "e = EvUpdatePolicy q ok \<or> e = EvUpdatePolicyStatus q ok" by blast
    moreover from this Cons.prems have "policy_key q = policy_key p"
      by (auto simp: same_policy_def policy_key_def)
    ultimately show ?thesis
      using assms(2) by (auto simp: after_update_def after_status_update_def split: option.splits)
  next
    case False
    then show ?thesis by (auto simp: apply_event_def split: event.splits)
  qed
  with Cons show ?case by simp
qed simp

lemma stored_elsewhere:
  assumes "lawful X stored" and "orderly X" and "registry_ok (Registry r)" and "key \<noteq> req"
  shows "stored (world (run_on (Reconcile X r req) s)) key = stored (world s) key"
proof (cases "fst (get_policy X req (world s))")
  case (Inl e)
  then show ?thesis by (simp add: stored_after [OF assms(1)] Reconcile_steps)
next
  case (Inr p)
  have "policy_key p = req" by (rule lawful_fetched [OF assms(1) Inr])
  moreover have "list_all (in_scope p) (events (reconcilePolicy X (Registry r) p) (fetched X req s))"
    using emitsD(1) [OF emits_reconcilePolicy_confined [OF assms(2,3)]] .
  ultimately show ?thesis
    using Inr assms(4)
    by (simp add: stored_after [OF assms(1)] Reconcile_steps replay_elsewhere)
qed

text \<open>
  C6.  A reconcile changes no stored policy but the one it is asked for:
  with a lawful and orderly server, whatever the provider answers and whichever calls fail, every
  other policy, its spec, metadata and status, is after the reconcile what it was before.
\<close>

theorem other_policies_untouched:
  assumes "lawful X stored" and "orderly X" and "registry_ok (Registry r)" and "key \<noteq> req"
  shows "stored (world (run_on (Reconcile X r req) s)) key = stored (world s) key"
  by (rule stored_elsewhere [OF assms])

lemma cluster_lawful: "lawful cluster_ext cluster_policies"
  unfolding lawful_def unchanged_by_def after_update_def after_status_update_def
  using example_server(1)
  by (auto simp: cluster_defs Let_def fun_eq_iff split: option.splits if_splits)

definition other_policy :: SecretRotationPolicy where
  "other_policy = map_meta (\<lambda>m. m\<lparr>Name := ''cache''\<rparr>) example_policy"

definition two_policies :: cluster where
  "two_policies = example_cluster\<lparr>cl_policies :=
     [example_key \<mapsto> example_policy, policy_key other_policy \<mapsto> other_policy]\<rparr>"

lemma other_policies_untouched_witness:
  "cluster_policies (world (run_on (Reconcile cluster_ext example_reconciler example_key)
     (start_process two_policies \<lparr>rotateCount = 0, entropy = ()\<rparr>))) (policy_key other_policy) =
   Some other_policy"
proof -
  have "policy_key other_policy \<noteq> example_key"
    by (simp add: other_policy_def policy_key_def example_key_def example_policy_def)
  from other_policies_untouched [OF cluster_lawful cluster_orderly example_registry this,
      of "start_process two_policies \<lparr>rotateCount = 0, entropy = ()\<rparr>"]
  show ?thesis by (simp add: start_process_def) (simp add: two_policies_def cluster_policies_def)
qed

end
