(* ===== verification/Settling.thy ===== *)
theory Settling
  imports Confinement
begin

text \<open>
  The life of a policy under a server that answers from its store and whose updates of stored
  policies succeed: a reconcile rotates it exactly when it has never been rotated, is due or is asked
  to be, and otherwise leaves it as it is.  So a new policy gets its finalizer, is rotated once, and
  then rests until its next activation.
\<close>

section \<open>Cooperative servers\<close>

definition cooperative :: "'w Ext \<Rightarrow> ('w \<Rightarrow> policies) \<Rightarrow> bool" where
  "cooperative X stored \<longleftrightarrow>
     serves X stored stored_succeeds \<and> orderly X \<and> no_owner_conflict X \<and> secrets_writable X \<and>
     (\<forall>key w p. stored w key = Some p \<longrightarrow> fst (get_policy X key w) = Inr p) \<and>
     (\<forall>p w st. stored w (policy_key p) = Some (p\<lparr>srp_Status := st\<rparr>) \<longrightarrow>
        fst (fst (update_policy_status X p w)) = p) \<and>
     (\<forall>m f a. ContainsFinalizer X (m\<lparr>Annotations := a\<rparr>) f = ContainsFinalizer X m f) \<and>
     (\<forall>m f. ContainsFinalizer X (AddFinalizer X m f) f \<and>
        DeletionTimestamp (AddFinalizer X m f) = DeletionTimestamp m \<and>
        Annotations (AddFinalizer X m f) = Annotations m)"

lemma cooperativeD:
  assumes "cooperative X stored"
  shows "serves X stored stored_succeeds" "lawful X stored" "orderly X" "no_owner_conflict X"
    "secrets_writable X" "keeps_policy X"
  using assms lawful_keeps by (auto simp: cooperative_def serves_def)

lemma cooperative_answers:
  assumes "cooperative X stored"
  shows "stored w key = Some p \<Longrightarrow> fst (get_policy X key w) = Inr p"
    and "stored w (policy_key q) = Some (q\<lparr>srp_Status := st\<rparr>) \<Longrightarrow>
      fst (fst (update_policy_status X q w)) = q"
  using assms unfolding cooperative_def by blast+

lemma cooperative_metadata:
  assumes "cooperative X stored"
  shows "ContainsFinalizer X (m\<lparr>Annotations := a\<rparr>) f = ContainsFinalizer X m f"
    and "ContainsFinalizer X (AddFinalizer X m f) f"
    and "DeletionTimestamp (AddFinalizer X m f) = DeletionTimestamp m"
    and "Annotations (AddFinalizer X m f) = Annotations m"
  using assms by (simp_all add: cooperative_def)

section \<open>The stored policy after a run of updates\<close>

text \<open>All updates of the policy itself, if there are any, send \<open>u\<close>.\<close>

definition updates_only :: "SecretRotationPolicy \<Rightarrow> event list \<Rightarrow> bool" where
  "updates_only u es \<longleftrightarrow>
     list_all (\<lambda>e. case e of EvUpdatePolicy q _ \<Rightarrow> q = u | _ \<Rightarrow> True) es"

definition has_update :: "event list \<Rightarrow> bool" where
  "has_update es \<longleftrightarrow> (\<exists>q ok. EvUpdatePolicy q ok \<in> set es)"

lemma updates_simps [simp]:
  "updates_only u []" "\<not> has_update []"
  "updates_only u (e # es) \<longleftrightarrow>
     (case e of EvUpdatePolicy q _ \<Rightarrow> q = u | _ \<Rightarrow> True) \<and> updates_only u es"
  "has_update (e # es) \<longleftrightarrow> (case e of EvUpdatePolicy _ _ \<Rightarrow> True | _ \<Rightarrow> False) \<or> has_update es"
  "updates_only u (es @ es') \<longleftrightarrow> updates_only u es \<and> updates_only u es'"
  "has_update (es @ es') \<longleftrightarrow> has_update es \<or> has_update es'"
  by (auto simp: updates_only_def has_update_def split: event.splits)

definition with_status :: "SecretRotationPolicy \<Rightarrow> SecretRotationPolicy list \<Rightarrow> SecretRotationPolicy"
  where
  "with_status p qs = (if qs = [] then p else p\<lparr>srp_Status := srp_Status (last qs)\<rparr>)"

lemma with_status_Cons: "with_status (p\<lparr>srp_Status := srp_Status q\<rparr>) qs = with_status p (q # qs)"
  by (simp add: with_status_def)

text \<open>
  The stored policy has the spec and metadata of the update, if there was one, and the status that
  was sent last.
\<close>

lemma replay_updates:
  assumes "confined p es" and "updates_only u es" and "explains stored_succeeds m es"
    and "m (policy_key p) = Some old" and "policy_key u = policy_key p" and "\<not> being_deleted u"
  shows "replay es m (policy_key p) =
    Some (with_status (if has_update es then u\<lparr>srp_Status := srp_Status old\<rparr> else old) (statuses es))"
  using assms(1-4)
proof (induction es arbitrary: m old)
  case Nil
  then show ?case by (simp add: with_status_def)
next
  case (Cons e es)
  note IH = Cons.IH [of "apply_event e m"]
  consider (status) q ok where "e = EvUpdatePolicyStatus q ok" | (update) ok where "e = EvUpdatePolicy u ok"
    | (other) "apply_event e m = m" "statuses (e # es) = statuses es" "has_update (e # es) = has_update es"
    using Cons.prems(2) by (cases e) (auto simp: apply_event_def)
  then show ?case
  proof cases
    case (status q ok)
    then have key: "policy_key q = policy_key p"
      using Cons.prems(1) by (simp add: same_policy_def policy_key_def)
    then have "ok" using Cons.prems(3,4) status by (simp add: plausible_def stored_succeeds_def)
    then have "apply_event e m (policy_key p) = Some (old\<lparr>srp_Status := srp_Status q\<rparr>)"
      using status key Cons.prems(4) by (simp add: after_status_update_def)
    then show ?thesis
      using IH Cons.prems status by (simp add: with_status_Cons) (simp add: with_status_def)
  next
    case (update ok)
    then have "ok" using Cons.prems(3,4) assms(5) by (simp add: plausible_def stored_succeeds_def)
    then have "apply_event e m (policy_key p) = Some (u\<lparr>srp_Status := srp_Status old\<rparr>)"
      using update assms(5,6) Cons.prems(4) by (simp add: after_update_def)
    then show ?thesis using IH Cons.prems update by simp
  next
    case other
    then show ?thesis using IH Cons.prems by simp
  qed
qed

section \<open>The updates of a rotation\<close>

text \<open>The policy without the annotation that asks for a rotation.\<close>

abbreviation without_request :: "SecretRotationPolicy \<Rightarrow> SecretRotationPolicy" where
  "without_request p \<equiv>
     map_meta (\<lambda>m. m\<lparr>Annotations := map_delete (Annotations m) AnnotationRotateNow\<rparr>) p"

lemma without_request_not_manual [simp]: "\<not> manual_requested (without_request p)"
  by (simp add: manual_requested_def map_delete_def entries_def index_def AnnotationRotateVal_def
      split: option.splits)

lemma tails_updates [simp]:
  "list_all workload_event es \<Longrightarrow> updates_only u es"
  "list_all epilogue_event es \<Longrightarrow> updates_only u es"
  "list_all (notify_event ev) es \<Longrightarrow> updates_only u es"
  by (induction es)
    (auto simp: workload_event_def epilogue_event_def notify_event_def split: event.splits)

lemma emits_finishRotation_updates:
  "emits (finishRotation X p prov manual rr d) (\<lambda>_ es. updates_only (without_request p) es)"
  unfolding finishRotation_def
  by (intro emits_intro refines_triggerRestarts refines_prune [of manual] refines_dispatch)
    (auto dest: pruned_epilogue)

lemma emits_provider_updates:
  "emits (providerFailed X p prov rr d e) (\<lambda>_ es. updates_only u es)"
  "emits (providerSucceeded X p prov manual rr d secret)
     (\<lambda>_ es. updates_only (without_request p) es)"
proof -
  show "emits (providerFailed X p prov rr d e) (\<lambda>_ es. updates_only u es)"
    unfolding providerFailed_def by (intro emits_intro refines_dispatch) auto
  show "emits (providerSucceeded X p prov manual rr d secret)
      (\<lambda>_ es. updates_only (without_request p) es)"
    unfolding providerSucceeded_def
    by (intro emits_intro emits_weaken [OF emits_finishRotation_updates]) auto
qed

text \<open>The rotation goes on with the answer to its first status update.\<close>

lemma executeRotation_updates:
  assumes "fst (fst (update_policy_status X
    (map_status (\<lambda>st. st\<lparr>srps_Phase := PhaseRotating\<rparr>) p) (snd (clock X (world s))))) = q"
  shows "updates_only (without_request q) (events (executeRotation X p prov manual) s)"
proof -
  let ?p = "map_status (\<lambda>st. st\<lparr>srps_Phase := PhaseRotating\<rparr>) p"
  obtain rest where rest: "executeRotation X p prov manual =
      State_Monad.bind (Now X) (\<lambda>start. State_Monad.bind (UpdatePolicyStatus X ?p)
        (\<lambda>(policy1, _). rest start policy1))"
      and emits: "\<And>start q. emits (rest start q) (\<lambda>_ es. updates_only (without_request q) es)"
    by (rule that [OF executeRotation_def])
      (intro emits_intro emits_weaken [OF emits_provider_updates(1)]
        emits_weaken [OF emits_provider_updates(2)]; simp)
  let ?start = "fst (clock X (world s))" and ?t = "ticked X s"
  let ?m = "UpdatePolicyStatus X ?p" and ?f = "\<lambda>(policy1, _). rest ?start policy1"
  have answer: "fst (result ?m ?t) = q" "\<exists>ok. events ?m ?t = [EvUpdatePolicyStatus ?p ok]"
    using assms by (simp_all add: UpdatePolicyStatus_def run_external)
  have "events (State_Monad.bind ?m ?f) ?t =
      events ?m ?t @ events (?f (result ?m ?t)) (snd (run_state ?m ?t))"
    by (rule events_bind [where Q = "\<lambda>_ _. True" and Q' = "\<lambda>_ _ _. True"])
      (auto intro!: emits_intro emits_weaken [OF emits])
  moreover have "?f (result ?m ?t) = rest ?start q"
    using answer(1) by (simp add: case_prod_beta)
  ultimately show ?thesis
    using answer(2) emitsD(1) [OF emits] by (auto simp: rest run_bind_Now)
qed

section \<open>One reconcile\<close>

abbreviation with_finalizer :: "'w Ext \<Rightarrow> SecretRotationPolicy \<Rightarrow> SecretRotationPolicy" where
  "with_finalizer X p \<equiv> map_meta (\<lambda>m. AddFinalizer X m FinalizerName) p"

text \<open>A policy that is active and whose provider is there and accepts its parameters.\<close>

definition usable :: "'p Registry \<Rightarrow> SecretRotationPolicy \<Rightarrow> 'p Provider \<Rightarrow> bool" where
  "usable reg p prov \<longleftrightarrow> \<not> being_deleted p \<and> \<not> Suspend (Policy (srp_Spec p)) \<and>
     Get reg (ps_Name (Provider (srp_Spec p))) = Inr prov \<and>
     Validate prov (Params (Provider (srp_Spec p))) = None"

text \<open>
  A policy in the controller's care: it has the finalizer, its provider answers, its schedule is
  valid, and the next rotation in its status is that after the last one.
\<close>

definition tended ::
  "'w Ext \<Rightarrow> 'p Registry \<Rightarrow> 'p Provider \<Rightarrow> (gotime \<Rightarrow> gotime) \<Rightarrow> SecretRotationPolicy \<Rightarrow> bool" where
  "tended X reg prov sched p \<longleftrightarrow>
     usable reg p prov \<and> ContainsFinalizer X (srp_Meta p) FinalizerName \<and> yields_keys prov p \<and>
     parse_cron X standard_parser (Schedule (srp_Spec p)) = Inr sched \<and>
     dval (rotation_window p) \<noteq> - (2 ^ 63) \<and>
     (\<forall>t. LastRotationTime (srp_Status p) = Some t \<longrightarrow>
        NextRotationTime (srp_Status p) = Some (sched t))"

definition wanted :: "(gotime \<Rightarrow> gotime) \<Rightarrow> SecretRotationPolicy \<Rightarrow> gotime \<Rightarrow> bool" where
  "wanted sched p now \<longleftrightarrow> manual_requested p \<or>
     (case LastRotationTime (srp_Status p) of
        None \<Rightarrow> True
      | Some t \<Rightarrow> sched t - dval (rotation_window p) \<le> now)"

lemma tended_granted:
  "tended X reg prov sched p \<Longrightarrow>
   rotation_granted X reg p now = (if wanted sched p now then Some prov else None)"
  by (auto simp: tended_def usable_def rotation_granted_def wanted_def IsDue_Some due_from_eq
      split: option.splits)

text \<open>The clock reading by which a reconcile decides.\<close>

abbreviation decides_at :: "'w Ext \<Rightarrow> NamespacedName \<Rightarrow> ('w, 'p) process \<Rightarrow> gotime" where
  "decides_at X req s \<equiv> fst (clock X (snd (get_policy X req (world s))))"

text \<open>The reconcile of a policy without finalizer stores the finalizer and nothing else.\<close>

lemma reconcile_adds_finalizer:
  assumes "cooperative X stored" and "stored (world s) req = Some p"
    and "\<not> being_deleted p" and "\<not> ContainsFinalizer X (srp_Meta p) FinalizerName"
  shows "events (Reconcile X r req) s =
      [EvGetPolicy req True, EvUpdatePolicy (with_finalizer X p) True]"
    and "stored (world (run_on (Reconcile X r req) s)) req = Some (with_finalizer X p)"
proof -
  note coop = cooperativeD [OF assms(1)]
  let ?q = "with_finalizer X p"
  have get: "fst (get_policy X req (world s)) = Inr p"
    by (rule cooperative_answers(1) [OF assms(1,2)])
  have key: "policy_key p = req" by (rule lawful_fetched(2) [OF coop(2) get])
  have keyq: "policy_key ?q = req"
    using orderlyD(6) [OF coop(3), of p FinalizerName] key by (simp add: same_policy_def policy_key_def)
  have alive: "\<not> being_deleted ?q"
    using assms(3) cooperative_metadata(3) [OF assms(1)] by (simp add: being_deleted_def)
  let ?add = "do {
       (_, err) \<leftarrow> UpdatePolicy X ?q;
       State_Monad.return (case err of
          Some e \<Rightarrow> Ret (no_result, Some (Wrapf ''adding finalizer: '' e))
        | None \<Rightarrow> Ret (no_result\<lparr>Requeue := True\<rparr>, None))
     }"
  have "emits ?add (\<lambda>_ es. \<exists>ok. es = [EvUpdatePolicy ?q ok])" by (intro emits_intro) auto
  from emitsD(1) [OF this, of "fetched X req s"]
  obtain ok where add: "events ?add (fetched X req s) = [EvUpdatePolicy ?q ok]" by blast
  then have es: "events (Reconcile X r req) s = [EvGetPolicy req True, EvUpdatePolicy ?q ok]"
    using get assms(3,4) by (simp add: Reconcile_steps reconcilePolicy_def)
  then have ok using answers_explained [OF coop(1), where s = s and r = r and req = req] keyq assms(2)
    by (simp add: plausible_def stored_succeeds_def)
  with es show "events (Reconcile X r req) s = [EvGetPolicy req True, EvUpdatePolicy ?q True]" by simp
  then show "stored (world (run_on (Reconcile X r req) s)) req = Some ?q"
    using keyq alive assms(2) by (simp add: stored_after [OF coop(2)] after_update_def)
qed

text \<open>A rotation that has written the secret updates the policy itself exactly if asked by it.\<close>

lemma accepted_has_update:
  assumes "accepted m Idle out es" and "True \<in> set (writes es)"
  shows "has_update es \<longleftrightarrow> m"
proof (cases m)
  case True
  show ?thesis
    using assms(1)
  proof (cases rule: accepted_Idle_cases)
    case (measured p ok rr okc n ps okr pol ns n' pol' ns' n'' d es')
    then have "okr" using assms(2) accepted_Rejected_trace [of m out es']
      by (cases okr) (auto simp: outcome_of_def)
    with measured have "accepted m (Measured True) out es'" by simp
    then show ?thesis
    proof (cases rule: accepted_Measured_True_cases)
      case (written old sec es1)
      then have "has_update es1" using True
        by (cases es1) (auto simp: accepted_Cons accepted_Nil advance_simps split: event.splits)
      with True written measured(1) show ?thesis by simp
    qed (use assms(2) measured(1) in simp_all)
  qed (use assms(2) in simp_all)
next
  case False
  have "\<not> has_update es" if "accepted False st out es" for st
    using that
  proof (induction es arbitrary: st)
    case (Cons e es)
    have "advance False st (EvUpdatePolicy p ok) = None" for p ok
      by (cases st) (simp_all add: advance_simps)
    with Cons show ?case by (auto simp: accepted_Cons split: event.splits)
  qed simp
  with False assms(1) show ?thesis by auto
qed

text \<open>
  The reconcile of a tended policy at which a rotation is wanted calls the provider, stores the new
  status, and takes the annotation back if there was one.
\<close>

lemma reconcile_rotates:
  assumes "cooperative X stored" and "registry_ok (Registry r)" and "stored (world s) req = Some p"
    and "tended X (Registry r) prov sched p" and "wanted sched p (decides_at X req s)"
  shows "provider_calls (events (Reconcile X r req) s) = [prov_Name prov]"
    and "writes (events (Reconcile X r req) s) = [True]"
    and "\<exists>st. stored (world (run_on (Reconcile X r req) s)) req =
        Some ((if manual_requested p then without_request p else p)\<lparr>srp_Status := st\<rparr>) \<and>
      completed_status X p (p\<lparr>srp_Status := st\<rparr>)"
proof -
  note coop = cooperativeD [OF assms(1)]
  have get: "fst (get_policy X req (world s)) = Inr p"
    by (rule cooperative_answers(1) [OF assms(1,3)])
  have key: "policy_key p = req" by (rule lawful_fetched(2) [OF coop(2) get])
  let ?t = "ticked X (fetched X req s)" and ?manual = "manual_requested p"
  let ?es = "events (executeRotation X p prov ?manual) ?t"
  have es: "events (Reconcile X r req) s = EvGetPolicy req True # ?es"
    using get assms(5) granted_run(2) [of X "Registry r" p "fetched X req s" prov]
    by (simp add: Reconcile_steps tended_granted [OF assms(4)])
  show "provider_calls (events (Reconcile X r req) s) = [prov_Name prov]"
    using emitsD(1) [OF emits_executeRotation_calls [OF coop(4)]] es by simp
  have "yields_keys prov p" using assms(4) by (simp add: tended_def)
  then have written: "writes ?es = [True]"
    by (rule emitsD(1) [OF emits_executeRotation_succeeds [OF coop(6,4,5)]])
  then show "writes (events (Reconcile X r req) s) = [True]" using es by simp
  let ?p = "map_status (\<lambda>st. st\<lparr>srps_Phase := PhaseRotating\<rparr>) p"
  let ?u = "without_request ?p"
  have "stored (snd (clock X (world ?t))) (policy_key ?p) = Some (?p\<lparr>srp_Status := srp_Status p\<rparr>)"
    using assms(3) key by (simp add: lawful_reads [OF coop(2)])
  then have "updates_only ?u ?es"
    using executeRotation_updates cooperative_answers(2) [OF assms(1)] by blast
  moreover have "prov_Name prov = ps_Name (Provider (srp_Spec p))"
    using assms(4) reg.get_name [OF assms(2)] by (auto simp: tended_def usable_def)
  then have "confined p ?es"
    by (rule emitsD(1) [OF emits_executeRotation_confined [OF coop(3)]])
  moreover have "explains stored_succeeds (stored (world s)) ?es"
    using answers_explained [OF coop(1), where s = s and r = r and req = req] es by simp
  moreover have "\<not> being_deleted ?u"
    using assms(4) by (simp add: tended_def usable_def being_deleted_def)
  moreover have "policy_key ?u = policy_key p" by (simp add: policy_key_def)
  moreover have "has_update ?es \<longleftrightarrow> ?manual"
    by (rule accepted_has_update [OF emitsD(1) [OF refines_executeRotation]]) (simp add: written)
  ultimately have after: "stored (world (run_on (Reconcile X r req) s)) req =
      Some (with_status (if ?manual then ?u\<lparr>srp_Status := srp_Status p\<rparr> else p) (statuses ?es))"
    using replay_updates [of p ?es ?u "stored (world s)" p] key assms(3)
    by (simp add: stored_after [OF coop(2)] es)
  have "statuses ?es \<noteq> [] \<and> completed_status X p (last (statuses ?es))"
    using emitsD(1) [OF emits_executeRotation_completes [OF coop(6)], of p prov ?manual ?t] written
    by (simp add: ends_completed_def)
  then show "\<exists>st. stored (world (run_on (Reconcile X r req) s)) req =
        Some ((if ?manual then without_request p else p)\<lparr>srp_Status := st\<rparr>) \<and>
      completed_status X p (p\<lparr>srp_Status := st\<rparr>)"
    using after
    by (auto simp: with_status_def completed_status_def Let_def same_policy_def
        intro!: exI [of _ "srp_Status (last (statuses ?es))"])
qed

text \<open>A reconcile at which none is wanted only stores again what is stored.\<close>

lemma emits_requeueNotDue_published:
  assumes "parse_cron X standard_parser (Schedule (srp_Spec p)) = Inr sched"
    and "LastRotationTime (srp_Status p) = Some t" and "NextRotationTime (srp_Status p) = Some (sched t)"
  shows "emits (requeueNotDue X p) (\<lambda>_ es. \<exists>ok. es = [EvUpdatePolicyStatus p ok])"
proof -
  have "map_status (\<lambda>st. st\<lparr>NextRotationTime := Some (sched t)\<rparr>) p = p"
    using assms(3) by simp
  then show ?thesis
    using assms unfolding requeueNotDue_def Let_def
    by (intro emits_intro) (auto simp: RequeueDelay_Some NextScheduled_def)
qed

lemma reconcile_rests:
  assumes "cooperative X stored" and "stored (world s) req = Some p"
    and "tended X (Registry r) prov sched p" and "\<not> wanted sched p (decides_at X req s)"
  shows "\<exists>ok. events (Reconcile X r req) s = [EvGetPolicy req True, EvUpdatePolicyStatus p ok]"
    and "stored (world (run_on (Reconcile X r req) s)) = stored (world s)"
proof -
  note coop = cooperativeD [OF assms(1)]
  have get: "fst (get_policy X req (world s)) = Inr p"
    by (rule cooperative_answers(1) [OF assms(1,2)])
  have key: "policy_key p = req" by (rule lawful_fetched(2) [OF coop(2) get])
  obtain t where t: "LastRotationTime (srp_Status p) = Some t"
      and early: "\<not> sched t - dval (rotation_window p) \<le> decides_at X req s"
      and no_request: "\<not> manual_requested p"
    using assms(4) by (auto simp: wanted_def split: option.splits)
  let ?u = "ticked X (fetched X req s)"
  have "events (Reconcile X r req) s = EvGetPolicy req True # events (requeueNotDue X p) ?u"
    using get assms(3) t early no_request
    by (simp add: Reconcile_steps reconcilePolicy_def reconcileActive_def Let_def run_bind_Now
        tended_def usable_def IsDue_Some due_from_eq)
  moreover have "emits (requeueNotDue X p) (\<lambda>_ es. \<exists>ok. es = [EvUpdatePolicyStatus p ok])"
    using assms(3) t by (intro emits_requeueNotDue_published [where sched = sched and t = t]) (auto simp: tended_def)
  from emitsD(1) [OF this, of ?u]
  obtain ok where "events (requeueNotDue X p) ?u = [EvUpdatePolicyStatus p ok]" by blast
  ultimately have es: "events (Reconcile X r req) s = [EvGetPolicy req True, EvUpdatePolicyStatus p ok]"
    by simp
  then show "\<exists>ok. events (Reconcile X r req) s = [EvGetPolicy req True, EvUpdatePolicyStatus p ok]"
    by blast
  show "stored (world (run_on (Reconcile X r req) s)) = stored (world s)"
    using assms(2) key
    by (cases ok) (auto simp: stored_after [OF coop(2)] es after_status_update_def fun_eq_iff)
qed

text \<open>A rotated policy is still tended, and no longer asked for.\<close>

lemma tended_rotated:
  assumes "cooperative X stored" and "tended X reg prov sched p"
    and "completed_status X p (p\<lparr>srp_Status := st\<rparr>)"
    and "q = (if manual_requested p then without_request p else p)\<lparr>srp_Status := st\<rparr>"
  shows "tended X reg prov sched q" and "same_policy q p" and "\<not> manual_requested q"
    and "srps_Phase (srp_Status q) = PhaseReady" and "LastRotationTime (srp_Status q) \<noteq> None"
proof -
  from assms(3) obtain t where t: "LastRotationTime st = Some t" "srps_Phase st = PhaseReady"
      "NextRotationTime st = Some (fst (NextScheduled (parse_cron X) (Schedule (srp_Spec p)) t))"
    by (auto simp: completed_status_def Let_def)
  have "\<not> manual_requested (without_request p \<lparr>srp_Status := st\<rparr>)"
    using without_request_not_manual [of p] by (simp add: manual_requested_def)
  then show "\<not> manual_requested q"
    by (auto simp: assms(4) manual_requested_def)
  show "same_policy q p" by (simp add: assms(4) same_policy_def)
  show "tended X reg prov sched q"
    using assms(2) t cooperative_metadata(1) [OF assms(1)]
    by (auto simp: assms(4) tended_def usable_def being_deleted_def yields_keys_def
        rotation_window_def NextScheduled_def)
  show "srps_Phase (srp_Status q) = PhaseReady" "LastRotationTime (srp_Status q) \<noteq> None"
    using t by (simp_all add: assms(4))
qed

section \<open>The life of a policy\<close>

lemma reconcile_tended:
  assumes "cooperative X stored" and "registry_ok (Registry r)"
    and "stored (world s) req = Some p" and "tended X (Registry r) prov sched p"
  shows "\<exists>q. stored (world (run_on (Reconcile X r req) s)) req = Some q \<and>
    tended X (Registry r) prov sched q \<and> same_policy q p \<and>
    (if wanted sched p (decides_at X req s)
     then provider_calls (events (Reconcile X r req) s) = [prov_Name prov] \<and>
       writes (events (Reconcile X r req) s) = [True] \<and>
       srps_Phase (srp_Status q) = PhaseReady \<and> \<not> manual_requested q
     else provider_calls (events (Reconcile X r req) s) = [] \<and>
       writes (events (Reconcile X r req) s) = [] \<and> q = p)"
proof (cases "wanted sched p (decides_at X req s)")
  case True
  note rotated = reconcile_rotates [OF assms True]
  obtain st where "stored (world (run_on (Reconcile X r req) s)) req =
        Some ((if manual_requested p then without_request p else p)\<lparr>srp_Status := st\<rparr>)"
      "completed_status X p (p\<lparr>srp_Status := st\<rparr>)"
    using rotated(3) by blast
  with tended_rotated [OF assms(1,4) this(2) refl] rotated(1,2) True show ?thesis by auto
next
  case False
  from reconcile_rests [OF assms(1,3,4) False] assms(3,4) False show ?thesis by auto
qed

text \<open>
  The operator with an outside that leaves the policy of one key alone: reconciles of any policies,
  deliveries of notifications, and changes of anything else, such as the passing of time.
\<close>

inductive undisturbed ::
  "('w \<Rightarrow> policies) \<Rightarrow> NamespacedName \<Rightarrow> 'w Ext \<Rightarrow> 'p SecretRotationPolicyReconciler \<Rightarrow>
   ('w, 'p) system \<Rightarrow> ('w, 'p) system \<Rightarrow> bool"
  for stored :: "'w \<Rightarrow> policies" and key :: NamespacedName and X :: "'w Ext"
    and r :: "'p SecretRotationPolicyReconciler" where
  handles: "undisturbed stored key X r S (S\<lparr>proc := run_on (Reconcile X r req) (proc S),
     pending := pending S @ notified (events (Reconcile X r req) (proc S))\<rparr>)"
| delivers: "pending S = before @ (url, payload) # after \<Longrightarrow>
   undisturbed stored key X r S (S\<lparr>proc := run_on (deliver_notification X url payload) (proc S),
     pending := before @ after, delivered_to := delivered_to S @ [(url, payload)]\<rparr>)"
| elsewhere: "stored w key = stored (world (proc S)) key \<Longrightarrow>
   undisturbed stored key X r S (S\<lparr>proc := (proc S)\<lparr>world := w\<rparr>\<rparr>)"

lemma undisturbed_system_step: "undisturbed stored key X r S T \<Longrightarrow> system_step X r S T"
  by (induction rule: undisturbed.induct) (auto intro: system_step.intros)

definition in_care ::
  "('w \<Rightarrow> policies) \<Rightarrow> NamespacedName \<Rightarrow> 'w Ext \<Rightarrow> 'p SecretRotationPolicyReconciler \<Rightarrow>
   'p Provider \<Rightarrow> (gotime \<Rightarrow> gotime) \<Rightarrow> SecretRotationPolicy \<Rightarrow> ('w, 'p) system \<Rightarrow> bool" where
  "in_care stored key X r prov sched p S \<longleftrightarrow> (\<exists>q. stored (world (proc S)) key = Some q \<and>
     tended X (Registry r) prov sched q \<and> same_policy q p)"

lemma in_care_invariant:
  assumes "cooperative X stored" and "registry_ok (Registry r)"
  shows "inductive_invariant (in_care stored key X r prov sched p) (undisturbed stored key X r)
    (in_care stored key X r prov sched p)"
proof
  fix S T
  assume care: "in_care stored key X r prov sched p S" and "undisturbed stored key X r S T"
  then obtain q where q: "stored (world (proc S)) key = Some q"
      "tended X (Registry r) prov sched q" "same_policy q p"
    unfolding in_care_def by blast
  note coop = cooperativeD [OF assms(1)]
  from \<open>undisturbed stored key X r S T\<close> show "in_care stored key X r prov sched p T"
  proof cases
    case (handles req)
    show ?thesis
    proof (cases "req = key")
      case True
      from reconcile_tended [OF assms q(1,2)] obtain q' where
          "stored (world (run_on (Reconcile X r key) (proc S))) key = Some q'"
          "tended X (Registry r) prov sched q'" "same_policy q' q"
        by blast
      with same_policy_trans [OF _ q(3)] show ?thesis
        unfolding in_care_def handles True by auto
    next
      case False
      then have "stored (world (run_on (Reconcile X r req) (proc S))) key = Some q"
        using stored_elsewhere [OF coop(2,3) assms(2), of key req "proc S"] q(1) by simp
      with q(2,3) show ?thesis unfolding in_care_def handles by auto
    qed
  next
    case (delivers before url payload after)
    then show ?thesis
      using q unfolding in_care_def by (auto simp: stored_after_delivery [OF coop(2)])
  next
    case (elsewhere w)
    then show ?thesis using q unfolding in_care_def by auto
  qed
qed

text \<open>
  C14.  With a cooperative server, a policy that the controller has in
  its care stays there: after any number of reconciles of this and other policies, deliveries and
  changes outside that leave it alone, in any order, it is stored with its spec.  And each reconcile
  of it calls its provider, once, and writes the secret exactly when the stored policy has never been
  rotated, its next activation less the window has come, or its annotation asks for it; then the
  policy is stored as ready and without the annotation.  Otherwise no provider is called and the
  policy is stored as it was.
\<close>

theorem rotates_exactly_when_wanted:
  assumes "cooperative X stored" and "registry_ok (Registry r)"
    and "in_care stored key X r prov sched p S0"
    and "reachable (\<lambda>S. S = S0) (undisturbed stored key X r) S"
  shows "\<exists>q q'. stored (world (proc S)) key = Some q \<and> same_policy q p \<and>
    stored (world (run_on (Reconcile X r key) (proc S))) key = Some q' \<and>
    (if wanted sched q (decides_at X key (proc S))
     then provider_calls (events (Reconcile X r key) (proc S)) = [prov_Name prov] \<and>
       writes (events (Reconcile X r key) (proc S)) = [True] \<and>
       srps_Phase (srp_Status q') = PhaseReady \<and> \<not> manual_requested q'
     else provider_calls (events (Reconcile X r key) (proc S)) = [] \<and>
       writes (events (Reconcile X r key) (proc S)) = [] \<and> q' = q)"
proof -
  have "reachable (in_care stored key X r prov sched p) (undisturbed stored key X r) S"
    using assms(4) by (induction rule: reachable.induct) (use assms(3) in \<open>auto intro: reachable.intros\<close>)
  then have "in_care stored key X r prov sched p S"
    by (rule inductive_invariant.holds [OF in_care_invariant [OF assms(1,2)]])
  then obtain q where q: "stored (world (proc S)) key = Some q"
      "tended X (Registry r) prov sched q" "same_policy q p"
    unfolding in_care_def by blast
  from reconcile_tended [OF assms(1,2) q(1,2)] q(1,3) show ?thesis by auto
qed

lemma cluster_cooperative: "cooperative cluster_ext cluster_policies"
  unfolding cooperative_def serves_def stored_succeeds_def
  using cluster_lawful cluster_orderly example_server(2) example_writes(1)
  by (auto simp: cluster_ext_def cluster_get_def cluster_update_def cluster_update_status_def Let_def
      split: option.splits)

text \<open>The example policy some time after a rotation: not due, but with the annotation.\<close>

definition asking_policy :: SecretRotationPolicy where
  "asking_policy = map_status (\<lambda>st. st\<lparr>LastRotationTime := Some 5, NextRotationTime := Some hour\<rparr>)
     (map_meta (\<lambda>m. m\<lparr>Annotations := Some [AnnotationRotateNow \<mapsto> AnnotationRotateVal]\<rparr>) example_policy)"

abbreviation run_example :: "SecretRotationPolicy \<Rightarrow> (cluster, unit provider_state) process" where
  "run_example p \<equiv> start_process (example_cluster\<lparr>cl_policies := [example_key \<mapsto> p]\<rparr>)
     \<lparr>rotateCount = 0, entropy = ()\<rparr>"

lemma run_example_stored:
  "policy_key p = example_key \<Longrightarrow> cluster_policies (world (run_example p)) example_key = Some p"
  by (simp add: start_process_def cluster_policies_def)

lemma example_tended:
  "tended cluster_ext (Registry example_reconciler) Mock (\<lambda>t. (t div hour + 1) * hour) asking_policy"
  using example_writes(2)
  by (simp add: tended_def usable_def asking_policy_def yields_keys_def rotation_window_def
      example_policy_def being_deleted_def empty_meta_def example_reconciler_def Get_def provider_defs
      cluster_ext_def hourly_def hour_def dval_dur in_int64_def)

definition asking_system :: "(cluster, unit provider_state) system" where
  "asking_system = \<lparr>proc = run_example asking_policy, pending = [], delivered_to = []\<rparr>"

lemma rotates_exactly_when_wanted_witness:
  "\<exists>q. cluster_policies (world (run_on (Reconcile cluster_ext example_reconciler example_key)
     (run_example asking_policy))) example_key = Some q \<and> \<not> manual_requested q"
proof -
  have key: "policy_key asking_policy = example_key"
    by (simp add: asking_policy_def policy_key_def example_policy_def example_key_def empty_meta_def)
  have proc: "proc asking_system = run_example asking_policy" by (simp add: asking_system_def)
  have asked: "wanted sched asking_policy now" for sched now
    by (simp add: wanted_def manual_requested_def asking_policy_def)
  have care: "in_care cluster_policies example_key cluster_ext example_reconciler Mock
      (\<lambda>t. (t div hour + 1) * hour) asking_policy asking_system"
    using run_example_stored [OF key] example_tended unfolding in_care_def proc by auto
  have "reachable (\<lambda>S. S = asking_system)
      (undisturbed cluster_policies example_key cluster_ext example_reconciler) asking_system"
    by (rule reachable.start) simp
  from rotates_exactly_when_wanted [OF cluster_cooperative example_registry care this]
    run_example_stored [OF key] show ?thesis
    unfolding proc by (auto simp: asked)
qed

text \<open>
  C15.  The controller comes to rest.  With a cooperative server, a new policy
  with a valid schedule and a usable provider gets its finalizer in the first reconcile and no
  rotation; the second reconcile calls the provider once, writes the secret once and stores the
  policy as ready, with a next rotation; and from then on every reconcile that finds this policy
  before the next rotation less the window calls no provider and leaves the store as it is.
\<close>

theorem fresh_policy_settles:
  assumes "cooperative X stored" and "registry_ok (Registry r)" and "yields_keys prov p"
    and "parse_cron X standard_parser (Schedule (srp_Spec p)) = Inr sched"
    and "dval (rotation_window p) \<noteq> - (2 ^ 63)"
    and "usable (Registry r) p prov" and "\<not> ContainsFinalizer X (srp_Meta p) FinalizerName"
    and "LastRotationTime (srp_Status p) = None" and "stored (world s0) req = Some p"
    and "s1 = run_on (Reconcile X r req) s0" and "s2 = run_on (Reconcile X r req) s1"
  shows "provider_calls (events (Reconcile X r req) s0) = [] \<and>
    provider_calls (events (Reconcile X r req) s1) = [prov_Name prov] \<and>
    writes (events (Reconcile X r req) s1) = [True] \<and>
    (\<exists>q due. stored (world s2) req = Some q \<and> srp_Spec q = srp_Spec p \<and>
      srps_Phase (srp_Status q) = PhaseReady \<and> NextRotationTime (srp_Status q) = Some due \<and>
      (\<forall>s. stored (world s) req = Some q \<and> decides_at X req s < due - dval (rotation_window p) \<longrightarrow>
         provider_calls (events (Reconcile X r req) s) = [] \<and>
         stored (world (run_on (Reconcile X r req) s)) = stored (world s)))"
proof -
  let ?p = "with_finalizer X p"
  have alive: "\<not> being_deleted p" using assms(6) by (simp add: usable_def)
  have first: "provider_calls (events (Reconcile X r req) s0) = []"
      "stored (world s1) req = Some ?p"
    using reconcile_adds_finalizer [OF assms(1,9) alive assms(7)] assms(10) by simp_all
  have p: "tended X (Registry r) prov sched ?p"
    using assms(3-6,8) cooperative_metadata [OF assms(1)]
    by (simp add: tended_def usable_def being_deleted_def yields_keys_def rotation_window_def)
  have wanted: "wanted sched ?p now" for now using assms(8) by (simp add: wanted_def)
  note second = reconcile_rotates [OF assms(1,2) first(2) p wanted]
  obtain q st where q: "stored (world s2) req = Some q"
      "q = (if manual_requested ?p then without_request ?p else ?p)\<lparr>srp_Status := st\<rparr>"
      "completed_status X ?p (?p\<lparr>srp_Status := st\<rparr>)"
    using second(3) assms(11) by blast
  note rotated = tended_rotated [OF assms(1) p q(3,2)]
  obtain t where t: "LastRotationTime (srp_Status q) = Some t" using rotated(5) by blast
  have spec: "srp_Spec q = srp_Spec p" using rotated(2) by (simp add: same_policy_def)
  have due: "NextRotationTime (srp_Status q) = Some (sched t)"
    using rotated(1) t by (simp add: tended_def)
  have rest: "provider_calls (events (Reconcile X r req) s) = [] \<and>
      stored (world (run_on (Reconcile X r req) s)) = stored (world s)"
    if "stored (world s) req = Some q" "decides_at X req s < sched t - dval (rotation_window p)" for s
  proof -
    have "\<not> wanted sched q (decides_at X req s)"
      using that(2) t rotated(3) spec by (simp add: wanted_def rotation_window_def)
    from reconcile_rests [OF assms(1) that(1) rotated(1) this] show ?thesis by auto
  qed
  show ?thesis
    using first(1) second(1,2) q(1) spec rotated(4) due rest
    by (intro conjI exI [of _ q] exI [of _ "sched t"]) auto
qed

definition new_policy :: SecretRotationPolicy where
  "new_policy = map_meta (\<lambda>m. m\<lparr>Finalizers := []\<rparr>) example_policy"

lemma fresh_policy_settles_witness:
  "let again = run_on (Reconcile cluster_ext example_reconciler example_key) in
   map_option (\<lambda>q. srps_Phase (srp_Status q))
     (cluster_policies (world (again (again (run_example new_policy)))) example_key) = Some PhaseReady"
proof -
  have key: "policy_key new_policy = example_key"
    by (simp add: new_policy_def policy_key_def example_policy_def example_key_def empty_meta_def)
  have new: "yields_keys Mock new_policy" "rotation_window new_policy = dur 0"
      "usable (Registry example_reconciler) new_policy Mock"
      "\<not> ContainsFinalizer cluster_ext (srp_Meta new_policy) FinalizerName"
      "LastRotationTime (srp_Status new_policy) = None"
      "parse_cron cluster_ext standard_parser (Schedule (srp_Spec new_policy)) =
        Inr (\<lambda>t. (t div hour + 1) * hour)"
    using example_writes(2)
    by (simp_all add: yields_keys_def new_policy_def rotation_window_def example_policy_def
        usable_def being_deleted_def empty_meta_def example_reconciler_def Get_def provider_defs
        cluster_ext_def hourly_def)
  have window: "dval (rotation_window new_policy) \<noteq> - (2 ^ 63)"
    by (simp add: new(2) dval_dur in_int64_def)
  note settled = fresh_policy_settles [OF cluster_cooperative example_registry new(1,6) window
      new(3-5) run_example_stored [OF key] refl refl]
  from settled [THEN conjunct2, THEN conjunct2, THEN conjunct2] show ?thesis
    by (elim exE conjE) (simp add: Let_def)
qed

end
