(* ===== verification/AuditTrail.thy ===== *)
theory AuditTrail
  imports Guarantees
begin

text \<open>
  What a rotation writes for others to read: the contents of the closed record, compared with the
  policy and with the restarts that the trace shows, and the phases of the statuses.
\<close>

section \<open>The closed record\<close>

definition closed_records :: "event list \<Rightarrow> RotationRecord list" where
  "closed_records es = concat (map (\<lambda>e. case e of EvUpdateRecordStatus rr _ \<Rightarrow> [rr] | _ \<Rightarrow> []) es)"

lemma closed_records_simps [simp]:
  "closed_records [] = []"
  "closed_records (e # es) =
     (case e of EvUpdateRecordStatus rr _ \<Rightarrow> [rr] | _ \<Rightarrow> []) @ closed_records es"
  "closed_records (es @ es') = closed_records es @ closed_records es'"
  by (simp_all add: closed_records_def)

definition tells_failure :: "'p Provider \<Rightarrow> RotationRecord \<Rightarrow> bool" where
  "tells_failure prov rr \<longleftrightarrow>
    (let st = rr_Status rr in
     rrs_Phase st = RecordPhaseFailed \<and> CompletionTime st \<noteq> None \<and>
     ProviderName st = prov_Name prov \<and> RotatedKeys st = [] \<and> RestartsTriggered st = [])"

text \<open>The restarts in the record are those of the trace.\<close>

definition tells_success ::
  "SecretRotationPolicy \<Rightarrow> 'p Provider \<Rightarrow> event list \<Rightarrow> RotationRecord \<Rightarrow> bool" where
  "tells_success p prov es rr \<longleftrightarrow>
    (let st = rr_Status rr in
     rrs_Phase st = RecordPhaseSucceeded \<and> CompletionTime st \<noteq> None \<and>
     ProviderName st = prov_Name prov \<and> RotatedKeys st = map SecretKey (Keys (srp_Spec p)) \<and>
     rrs_Error st = '''' \<and>
     (\<forall>key. updated_after key es = map (target_id (policy_namespace p)) (RestartsTriggered st)))"

definition tells :: "SecretRotationPolicy \<Rightarrow> 'p Provider \<Rightarrow> event list \<Rightarrow> RotationRecord \<Rightarrow> bool" where
  "tells p prov es rr \<longleftrightarrow> tells_failure prov rr \<or> tells_success p prov es rr"

lemma tells_same: "same_policy q p \<Longrightarrow> tells q = tells p"
  by (simp add: same_policy_def tells_def tells_success_def fun_eq_iff)

text \<open>Events that are none of the workloads' do not show among the updates.\<close>

definition no_workload :: "event list \<Rightarrow> bool" where
  "no_workload es \<longleftrightarrow> list_all (\<lambda>e. \<not> workload_event e) es"

lemma updated_after_no_workload [simp]:
  "no_workload es \<Longrightarrow> updated_after key (es @ es') = updated_after key es'"
  "no_workload es \<Longrightarrow> updated_after key (es' @ es) = updated_after key es'"
proof -
  have nil: "no_workload es \<Longrightarrow> updated_after key es = []" for es key
    by (induction es) (auto simp: no_workload_def workload_event_def split: event.splits)
  show "no_workload es \<Longrightarrow> updated_after key (es @ es') = updated_after key es'"
    by (induction es) (auto simp: no_workload_def workload_event_def split: event.splits)
  show "no_workload es \<Longrightarrow> updated_after key (es' @ es) = updated_after key es'"
    by (induction es' arbitrary: key) (auto simp: nil split: event.splits)
qed

lemma no_workload_simps [simp]:
  "no_workload []" "no_workload (es @ es') \<longleftrightarrow> no_workload es \<and> no_workload es'"
  "no_workload (e # es) \<longleftrightarrow> \<not> workload_event e \<and> no_workload es"
  by (simp_all add: no_workload_def)

lemma tells_around:
  "no_workload es \<Longrightarrow> tells p prov (es @ es') rr \<longleftrightarrow> tells p prov es' rr"
  "no_workload es \<Longrightarrow> tells p prov (es' @ es) rr \<longleftrightarrow> tells p prov es' rr"
  by (simp_all add: tells_def tells_success_def)

lemma tells_finalized_failure [simp]:
  "tells_failure prov (rr\<lparr>rr_Status := finalized_status RecordPhaseFailed now d (prov_Name prov) [] []
     msg st\<rparr>)"
  by (simp add: tells_failure_def finalized_status_def)

lemma workload_events_closed [simp]: "list_all workload_event es \<Longrightarrow> closed_records es = []"
  by (induction es) (auto simp: workload_event_def split: event.splits)

lemma epilogue_closed:
  "list_all epilogue_event es \<Longrightarrow> closed_records es = [] \<and> no_workload es"
  by (induction es)
    (auto simp: epilogue_event_def notify_event_def workload_event_def split: event.splits)

lemma notify_closed:
  "list_all (notify_event ev) es \<Longrightarrow> closed_records es = [] \<and> no_workload es"
  by (induction es) (auto simp: notify_event_def workload_event_def split: event.splits)

text \<open>The restarts of a rotation, with what they are to the trace.\<close>

lemma emits_triggerRestarts_record:
  assumes "\<And>rs es. list_all workload_event es \<Longrightarrow>
      (\<forall>key. updated_after key es = map (target_id (policy_namespace p)) rs) \<Longrightarrow> R rs es"
  shows "emits (triggerRestarts X p) R"
proof -
  have "emits (triggerRestarts X p) (\<lambda>rs es. list_all workload_event es \<and>
      (\<forall>key. updated_after key es = map (target_id (policy_namespace p)) rs))"
  proof (rule emits_all)
    fix s
    show "list_all workload_event (events (triggerRestarts X p) s) \<and>
      (\<forall>key. updated_after key (events (triggerRestarts X p) s) =
        map (target_id (policy_namespace p)) (result (triggerRestarts X p) s))"
      using emitsD(1) [OF emits_triggerRestarts, of X p s]
        emitsD(1) [OF emits_triggerRestarts_exact, of X p s] by blast
  qed (rule emits_triggerRestarts)
  then show ?thesis by (rule emits_weaken) (blast intro: assms)
qed

lemma refines_prune_closed:
  assumes "\<And>r es. closed_records es = [] \<Longrightarrow> no_workload es \<Longrightarrow> R r es"
  shows "emits (pruneHistory X p) R"
  by (rule refines_prune [of True]) (use assms epilogue_closed pruned_epilogue in blast)

lemma refines_dispatch_closed:
  assumes "np_Event payload = ev"
    and "\<And>es. closed_records es = [] \<Longrightarrow> no_workload es \<Longrightarrow> R () es"
  shows "emits (dispatchNotifications X p ev payload) R"
  using assms(1) by (rule refines_dispatch) (use assms(2) notify_closed in blast)

lemma emits_finishRotation_record:
  assumes "keeps_policy X"
  shows "emits (finishRotation X p prov manual rr d) (\<lambda>_ es.
    \<exists>rr'. closed_records es = [rr'] \<and> tells p prov es rr')"
  unfolding finishRotation_def
  by (intro emits_bind emits_if emits_UpdatePolicy_keeps [OF assms] emits_Let
      emits_triggerRestarts_record emits_finalizeRecord emits_Now emits_record_event
      emits_set_condition emits_case_prod emits_UpdatePolicyStatus_keeps [OF assms]
      emits_case_option emits_return refines_prune_closed emits_case_outcome refines_dispatch_closed)
    (auto simp: tells_def tells_success_def finalized_status_def workload_event_def Let_def
      same_policy_def)

lemma emits_providerFailed_record:
  "emits (providerFailed X p prov rr d e) (\<lambda>_ es.
     \<exists>rr'. closed_records es = [rr'] \<and> tells p prov es rr')"
  unfolding providerFailed_def
  by (intro emits_bind emits_finalizeRecord emits_Let emits_set_condition emits_case_prod
      emits_UpdatePolicyStatus emits_Now refines_dispatch_closed emits_return)
    (auto simp: tells_def)

lemma emits_providerSucceeded_record:
  assumes "keeps_policy X"
  shows "emits (providerSucceeded X p prov manual rr d secret) (\<lambda>_ es.
     \<exists>rr'. closed_records es = [rr'] \<and> tells p prov es rr')"
  unfolding providerSucceeded_def
  by (intro emits_case_sum emits_bind emits_finalizeRecord emits_return
      emits_CreateOrUpdateSecret emits_case_option
      emits_weaken [OF emits_finishRotation_record [OF assms]])
    (auto simp: tells_def tells_success_def workload_event_def)

lemma emits_executeRotation_record:
  assumes "keeps_policy X"
  shows "emits (executeRotation X p prov manual) (\<lambda>_ es.
     list_all (tells p prov es) (closed_records es))"
proof -
  have skip: "list_all (tells p prov (es @ es')) (closed_records es')"
    if "no_workload es" "closed_records es' = [rr]" "tells q prov es' rr" "same_policy q p"
    for es es' rr q
    using that by (simp add: tells_around tells_same [OF that(4)])
  show ?thesis
    unfolding executeRotation_def
    by (intro emits_bind emits_Now emits_case_prod emits_Let emits_UpdatePolicyStatus_keeps [OF assms]
        emits_newRotationRecord emits_case_option emits_return emits_CreateRecord
        emits_CallRotate emits_case_outcome emits_record_event emits_case_sum
        emits_weaken [OF emits_providerFailed_record]
        emits_weaken [OF emits_providerSucceeded_record [OF assms]])
      (auto simp: workload_event_def
        intro!: skip [of "[a, b, c, d, e]" for a b c d e, simplified])
qed

section \<open>The phases of the status\<close>

definition phases :: "event list \<Rightarrow> Phase list" where
  "phases es = concat (map (\<lambda>e. case e of
     EvUpdatePolicyStatus p _ \<Rightarrow> [srps_Phase (srp_Status p)] | _ \<Rightarrow> []) es)"

lemma phases_simps [simp]:
  "phases [] = []"
  "phases (e # es) = (case e of EvUpdatePolicyStatus p _ \<Rightarrow> [srps_Phase (srp_Status p)] | _ \<Rightarrow> []) @
     phases es"
  by (simp_all add: phases_def)

lemma advance_phase:
  "advance m st (EvUpdatePolicyStatus p ok) = Some st' \<Longrightarrow>
   srps_Phase (srp_Status p) \<in> {PhaseRotating, PhaseReady, PhaseFailed}"
  by (cases st) (auto simp: advance_simps split: if_splits)

lemma accepted_phases:
  "accepted m st out es \<Longrightarrow> set (phases es) \<subseteq> {PhaseRotating, PhaseReady, PhaseFailed}"
proof (induction es arbitrary: st)
  case (Cons e es)
  then show ?case by (cases e) (auto simp: accepted_Cons dest: advance_phase)
qed simp

lemma emits_requeueNotDue_phases:
  "emits (requeueNotDue X p) (\<lambda>_ es. set (phases es) \<subseteq> {srps_Phase (srp_Status p)})"
  unfolding requeueNotDue_def Let_def
  by (intro emits_intro emits_weaken [OF emits_markDegraded]) auto

lemma emits_reconcilePolicy_phases:
  "emits (reconcilePolicy X reg p) (\<lambda>_ es. set (phases es) \<subseteq>
     {PhaseRotating, PhaseReady, PhaseFailed, PhaseSuspended, srps_Phase (srp_Status p)})"
  unfolding reconcilePolicy_def reconcileActive_def Let_def
  by (intro emits_intro emits_weaken [OF emits_setSuspended]
      emits_weaken [OF emits_setProviderUnhealthy] emits_weaken [OF emits_markDegraded]
      emits_weaken [OF emits_requeueNotDue_phases] emits_weaken [OF emits_handleDeletion]
      emits_weaken [OF refines_executeRotation])
    (auto dest!: accepted_phases split: if_splits)

end
