(* ===== verification/CallBounds.thy ===== *)
theory CallBounds
  imports Examples
begin

text \<open>
  How many calls a reconcile makes: a bound on its trace in terms of the policy and of the number
  of records that the API server lists.
\<close>

definition listings_bounded :: "'w Ext \<Rightarrow> nat \<Rightarrow> bool" where
  "listings_bounded X n \<longleftrightarrow> (\<forall>ns labels w items.
     fst (list_records X ns labels w) = Inr items \<longrightarrow> length items \<le> n)"

lemma emits_restart_loop_bound:
  "emits (restart_loop X ns t targets acc) (\<lambda>_ es. length es \<le> 2 * length targets)"
proof (induction targets arbitrary: acc)
  case (Cons target targets)
  show ?case
    unfolding restart_loop.simps
    by (intro emits_case_option emits_bind emits_restart_workload_exact
        emits_weaken [OF Cons]) auto
qed (simp add: emits_return)

lemma emits_triggerRestarts_bound:
  "emits (triggerRestarts X p) (\<lambda>_ es. length es \<le> 2 * length (RestartTargets (srp_Spec p)))"
  unfolding triggerRestarts_def
  by (intro emits_bind emits_Now) (simp add: emits_restart_loop_bound)

lemma emits_dispatch_bound:
  "emits (dispatchNotifications X p ev payload)
     (\<lambda>_ es. length es \<le> 2 * length (Notifications (srp_Spec p)))"
proof -
  have "emits (dispatch_loop X ns ev payload subs) (\<lambda>_ es. length es \<le> 2 * length subs)" for ns subs
  proof (induction subs)
    case (Cons n subs)
    show ?case
      unfolding dispatch_loop.simps dispatch_one_def notification_url_def
      by (intro emits_intro emits_weaken [OF Cons]) auto
  qed (simp add: emits_return)
  then show ?thesis by (simp add: dispatchNotifications_def)
qed

lemma emits_ListRecords_bound:
  assumes "listings_bounded X n"
    and "\<And>e. R (Inl e) [EvListRecords ns labels False]"
    and "\<And>items. length items \<le> n \<Longrightarrow> R (Inr items) [EvListRecords ns labels True]"
  shows "emits (ListRecords X ns labels) R"
  unfolding ListRecords_def
proof (rule emits_external_of)
  fix w
  show "R (fst (list_records X ns labels w))
      [EvListRecords ns labels (\<not> failed (fst (list_records X ns labels w)))]"
    using assms by (cases "fst (list_records X ns labels w)") (auto simp: listings_bounded_def)
qed

lemma emits_pruneHistory_bound:
  assumes "listings_bounded X n" and "slice_sorter (slice_sort X) creation"
  shows "emits (pruneHistory X p) (\<lambda>_ es. length es \<le> Suc n)"
proof -
  have sorted: "length (slice_sort X older items) = length items" for items
    using slice_sorter.length_sorted [OF assms(2)] by (simp add: older_eq)
  have deletes: "emits (delete_loop X items k) (\<lambda>_ es. length es \<le> length items)" for items k
    by (rule emits_weaken [OF emits_delete_loop_exact]) auto
  show ?thesis
    unfolding pruneHistory_def Let_def
    by (intro emits_bind emits_ListRecords_bound [OF assms(1)] emits_case_sum emits_if emits_return
        emits_weaken [OF deletes]) (auto simp: sorted)
qed

text \<open>The bound for a policy: what follows the fetch.\<close>

definition call_bound :: "nat \<Rightarrow> SecretRotationPolicy \<Rightarrow> nat" where
  "call_bound n p = 11 + n + 2 * length (RestartTargets (srp_Spec p)) +
     2 * length (Notifications (srp_Spec p))"

lemma emits_finishRotation_bound:
  assumes "keeps_policy X" and "listings_bounded X n" and "slice_sorter (slice_sort X) creation"
  shows "emits (finishRotation X p prov manual rr d) (\<lambda>_ es. length es + 6 \<le> call_bound n p)"
  unfolding finishRotation_def
  by (intro emits_bind emits_if emits_UpdatePolicy_keeps [OF assms(1)] emits_Let
      emits_weaken [OF emits_triggerRestarts_bound] emits_finalizeRecord emits_Now
      emits_record_event emits_set_condition emits_case_prod
      emits_UpdatePolicyStatus_keeps [OF assms(1)] emits_case_option emits_return
      emits_weaken [OF emits_pruneHistory_bound [OF assms(2,3)]] emits_case_outcome
      emits_weaken [OF emits_dispatch_bound])
    (auto simp: call_bound_def dest!: same_policy_spec)

lemma emits_providerFailed_bound:
  assumes "keeps_policy X"
  shows "emits (providerFailed X p prov rr d e) (\<lambda>_ es. length es + 6 \<le> call_bound n p)"
  unfolding providerFailed_def
  by (intro emits_bind emits_finalizeRecord emits_Let emits_set_condition emits_case_prod
      emits_UpdatePolicyStatus_keeps [OF assms] emits_Now emits_weaken [OF emits_dispatch_bound]
      emits_return)
    (auto simp: call_bound_def dest!: same_policy_spec)

lemma emits_providerSucceeded_bound:
  assumes "keeps_policy X" and "listings_bounded X n" and "slice_sorter (slice_sort X) creation"
  shows "emits (providerSucceeded X p prov manual rr d secret)
    (\<lambda>_ es. length es + 5 \<le> call_bound n p)"
  unfolding providerSucceeded_def
  by (intro emits_case_sum emits_bind emits_finalizeRecord emits_return emits_CreateOrUpdateSecret
      emits_case_option emits_weaken [OF emits_finishRotation_bound [OF assms]])
    (auto simp: call_bound_def)

lemma call_bound_same: "same_policy q p \<Longrightarrow> call_bound n q = call_bound n p"
  by (simp add: call_bound_def same_policy_def)

lemma emits_executeRotation_bound:
  assumes "keeps_policy X" and "listings_bounded X n" and "slice_sorter (slice_sort X) creation"
  shows "emits (executeRotation X p prov manual) (\<lambda>_ es. length es \<le> call_bound n p)"
  unfolding executeRotation_def
  by (intro emits_bind emits_Now emits_case_prod emits_Let emits_UpdatePolicyStatus_keeps [OF assms(1)]
      emits_newRotationRecord emits_case_option emits_return emits_CreateRecord
      emits_CallRotate emits_case_outcome emits_record_event emits_case_sum
      emits_weaken [OF emits_providerFailed_bound [OF assms(1), where n = n]]
      emits_weaken [OF emits_providerSucceeded_bound [OF assms]])
    (auto dest!: call_bound_same [where n = n] simp: call_bound_def)

lemma emits_requeueNotDue_bound: "emits (requeueNotDue X p) (\<lambda>_ es. length es \<le> 1)"
  unfolding requeueNotDue_def Let_def
  by (intro emits_intro emits_weaken [OF emits_markDegraded]) auto

lemma emits_reconcilePolicy_bound:
  assumes "keeps_policy X" and "listings_bounded X n" and "slice_sorter (slice_sort X) creation"
  shows "emits (reconcilePolicy X reg p) (\<lambda>_ es. length es \<le> call_bound n p)"
  unfolding reconcilePolicy_def reconcileActive_def Let_def
  by (intro emits_if emits_case_sum emits_case_option emits_bind emits_Now emits_UpdatePolicy
      emits_case_prod emits_return emits_weaken [OF emits_handleDeletion]
      emits_weaken [OF emits_setSuspended] emits_weaken [OF emits_setProviderUnhealthy]
      emits_weaken [OF emits_markDegraded] emits_weaken [OF emits_requeueNotDue_bound]
      emits_weaken [OF emits_executeRotation_bound [OF assms]])
    (auto simp: call_bound_def split: if_splits)

text \<open>
  C19.  A reconcile
  ends after a bounded number of calls, whatever they answer: at most twelve, two for every restart
  target, two for every notification of the policy and one for every record that the API server
  lists.  No failure is retried within a reconcile.
\<close>

theorem reconcile_call_bound:
  assumes "get_policy X req (world s) = (Inr p, w)" and "keeps_policy X"
    and "listings_bounded X n" and "slice_sorter (slice_sort X) creation"
  shows "length (events (Reconcile X r req) s) \<le>
    12 + 2 * length (RestartTargets (srp_Spec p)) + 2 * length (Notifications (srp_Spec p)) + n"
  using emitsD(1) [OF emits_reconcilePolicy_bound [OF assms(2-4), of "Registry r" p],
      of "fetched X req s"] assms(1)
  by (simp add: Reconcile_steps call_bound_def add_ac)

text \<open>The cluster of the examples with a listing that is cut after two records.\<close>

lemma reconcile_call_bound_witness:
  "length (events (Reconcile (cluster_ext\<lparr>list_records := \<lambda>ns labels c. (Inr (take 2 (cl_records c)), c)\<rparr>)
     example_reconciler example_key) example_process) \<le> 20"
proof -
  let ?X = "cluster_ext\<lparr>list_records := \<lambda>ns labels c. (Inr (take 2 (cl_records c)), c)\<rparr>"
  have get: "get_policy ?X example_key (world example_process) = (Inr example_policy, example_cluster)"
    using example_get by simp
  have "keeps_policy ?X"
    using example_server(1) by (simp add: keeps_policy_def)
  moreover have "listings_bounded ?X 2"
    by (auto simp: listings_bounded_def)
  moreover have "slice_sorter (slice_sort ?X) creation"
    using insertion.slice_sorter_axioms by (simp add: cluster_ext_def)
  ultimately show ?thesis
    using reconcile_call_bound [OF get, of 2 example_reconciler]
    by (simp add: example_policy_def)
qed

end
