(* ===== verification/Conditions.thy ===== *)
theory Conditions
  imports Confinement
begin

text \<open>
  What the conditions of a policy tell.  Every condition in a status that a reconcile writes is the
  one the policy had, or has a reason in the same reconcile: what its trace shows, or what is wrong
  with the policy.
\<close>

section \<open>Conditions by type\<close>

lemmas condition_types =
  ConditionReady_def ConditionScheduled_def ConditionProviderHealthy_def ConditionDegraded_def

definition condition :: "string \<Rightarrow> SecretRotationPolicy \<Rightarrow> ConditionStatus option" where
  "condition type p =
     map_option cond_Status (find (\<lambda>c. Type c = type) (Conditions (srp_Status p)))"

text \<open>The contract of apimachinery's \<^verbatim>\<open>meta.SetStatusCondition\<close>.\<close>

definition condition_setter :: "(Condition list \<Rightarrow> Condition \<Rightarrow> Condition list) \<Rightarrow> bool" where
  "condition_setter set_in \<longleftrightarrow> (\<forall>cs c type.
     map_option cond_Status (find (\<lambda>d. Type d = type) (set_in cs c)) =
       (if type = Type c then Some (cond_Status c)
        else map_option cond_Status (find (\<lambda>d. Type d = type) cs)))"

lemma condition_put:
  assumes "condition_setter (SetStatusCondition X)"
  shows "condition type (put_condition X type' v reason msg now p) =
    (if type = type' then Some v else condition type p)"
  using assms by (simp add: condition_def condition_setter_def)

lemma condition_simps [simp]:
  "condition type (map_meta f p) = condition type p"
  "condition type (p\<lparr>srp_Meta := m\<rparr>) = condition type p"
  "condition type (map_status (\<lambda>st. st\<lparr>srps_Phase := ph\<rparr>) p) = condition type p"
  "condition type (map_status (\<lambda>st. st\<lparr>NextRotationTime := nx\<rparr>) p) = condition type p"
  "condition type (map_status (rotated_status X rr now next) p) = condition type p"
  by (simp_all add: condition_def)

text \<open>
  The answers to updates have the conditions that were sent: a status update stores them, and an
  update that is not based on the stored object is refused.
\<close>

definition keeps_conditions :: "'w Ext \<Rightarrow> bool" where
  "keeps_conditions X \<longleftrightarrow> condition_setter (SetStatusCondition X) \<and>
     (\<forall>p w. Conditions (srp_Status (fst (fst (update_policy X p w)))) = Conditions (srp_Status p)) \<and>
     (\<forall>p w. Conditions (srp_Status (fst (fst (update_policy_status X p w)))) =
        Conditions (srp_Status p))"

lemma keeps_setter: "keeps_conditions X \<Longrightarrow> condition_setter (SetStatusCondition X)"
  by (simp add: keeps_conditions_def)

lemma emits_updates_conditions:
  assumes "keeps_conditions X"
  shows "(\<And>q err. (\<And>type. condition type q = condition type p) \<Longrightarrow>
      R (q, err) [EvUpdatePolicy p (err = None)]) \<Longrightarrow> emits (UpdatePolicy X p) R"
    and "(\<And>q err. (\<And>type. condition type q = condition type p) \<Longrightarrow>
      R (q, err) [EvUpdatePolicyStatus p (err = None)]) \<Longrightarrow> emits (UpdatePolicyStatus X p) R"
  unfolding UpdatePolicy_def UpdatePolicyStatus_def using assms
  unfolding keeps_conditions_def condition_def
  by (auto intro!: emits_external_of simp: prod_eq_iff) (metis prod.collapse)+

section \<open>Reasons\<close>

text \<open>
  The reasons for a condition of a given status: the rotation that the trace shows, or what the spec
  asks for.
\<close>

definition reason_for ::
  "'w Ext \<Rightarrow> 'p Registry \<Rightarrow> SecretRotationPolicySpec \<Rightarrow> event list \<Rightarrow> string \<Rightarrow> ConditionStatus \<Rightarrow> bool"
  where
  "reason_for X reg sp es type v \<longleftrightarrow>
     type = ConditionReady \<and> v = ConditionTrue \<and> writes es = [True] \<or>
     type = ConditionReady \<and> v = ConditionFalse \<and> (attempts es = [False] \<or> Suspend (Policy sp)) \<or>
     type = ConditionScheduled \<and> v = ConditionTrue \<and> writes es = [True] \<or>
     type = ConditionProviderHealthy \<and> v = ConditionTrue \<and> attempts es = [True] \<or>
     type = ConditionProviderHealthy \<and> v = ConditionFalse \<and>
       (case Get reg (ps_Name (Provider sp)) of
          Inl _ \<Rightarrow> True | Inr prov \<Rightarrow> Validate prov (Params (Provider sp)) \<noteq> None) \<or>
     type = ConditionDegraded \<and> v = ConditionTrue \<and>
       (\<exists>e. parse_cron X standard_parser (Schedule sp) = Inl e)"

section \<open>The parts of a rotation\<close>

text \<open>Every status sent has the conditions of \<open>p\<close>, but for those in \<open>cs\<close>.\<close>

definition changes_to ::
  "SecretRotationPolicy \<Rightarrow> (string \<times> ConditionStatus) set \<Rightarrow> event list \<Rightarrow> bool" where
  "changes_to p cs es \<longleftrightarrow> list_all (\<lambda>q. \<forall>type. condition type q = condition type p \<or>
     (\<exists>v. condition type q = Some v \<and> (type, v) \<in> cs)) (statuses es)"

lemma changes_to_append [simp]:
  "changes_to p cs (es @ es') \<longleftrightarrow> changes_to p cs es \<and> changes_to p cs es'"
  by (simp add: changes_to_def)

lemma changes_to_simps [simp]:
  "changes_to p cs []"
  "changes_to p cs (e # es) \<longleftrightarrow>
     (case e of EvUpdatePolicyStatus q _ \<Rightarrow> (\<forall>type. condition type q = condition type p \<or>
        (\<exists>v. condition type q = Some v \<and> (type, v) \<in> cs)) | _ \<Rightarrow> True) \<and> changes_to p cs es"
  by (simp_all add: changes_to_def split: event.split)

lemma changes_to_same:
  "(\<And>type. condition type q = condition type p) \<Longrightarrow> changes_to q = changes_to p"
  by (simp add: changes_to_def fun_eq_iff)

lemma tails_change_nothing [simp]:
  "list_all workload_event es \<Longrightarrow> changes_to p cs es"
  "list_all epilogue_event es \<Longrightarrow> changes_to p cs es"
  "list_all (notify_event ev) es \<Longrightarrow> changes_to p cs es"
  by (simp_all add: changes_to_def)

lemma emits_status_changes:
  assumes "keeps_conditions X"
    and "\<And>q err. changes_to q = changes_to p \<Longrightarrow> R (q, err) [EvUpdatePolicyStatus p (err = None)]"
  shows "emits (UpdatePolicyStatus X p) R"
  by (rule emits_updates_conditions [OF assms(1)]) (blast intro: assms(2) changes_to_same)

lemma changes_to_phase [simp]:
  "changes_to (map_status (\<lambda>st. st\<lparr>srps_Phase := ph\<rparr>) p) = changes_to p"
  by (rule changes_to_same) simp

definition success_conditions :: "(string \<times> ConditionStatus) set" where
  "success_conditions = {(ConditionReady, ConditionTrue), (ConditionScheduled, ConditionTrue),
     (ConditionProviderHealthy, ConditionTrue)}"

text \<open>What one status update changes, whatever the updates before it answered.\<close>

lemma emits_finishRotation_conditions:
  assumes "keeps_conditions X"
  shows "emits (finishRotation X p prov manual rr d) (\<lambda>_ es. changes_to p success_conditions es \<and>
    attempts es = [] \<and> writes es = [])"
proof -
  have "emits (finishRotation X p prov manual rr d) (\<lambda>_ es. changes_to p success_conditions es)"
    unfolding finishRotation_def
    by (intro emits_bind emits_if emits_updates_conditions [OF assms] emits_Let
        refines_triggerRestarts emits_finalizeRecord emits_Now emits_record_event
        emits_set_condition emits_case_prod emits_case_option emits_return refines_prune [of manual]
        emits_case_outcome refines_dispatch)
      (auto simp: condition_put [OF keeps_setter [OF assms]] success_conditions_def
        dest: pruned_epilogue)
  from emits_conj [OF this refines_finishRotation] show ?thesis
    by (rule emits_weaken) (use accepted_Written_trace in blast)
qed

lemma emits_providerFailed_conditions:
  assumes "keeps_conditions X"
  shows "emits (providerFailed X p prov rr d e) (\<lambda>_ es.
    changes_to p {(ConditionReady, ConditionFalse)} es \<and> attempts es = [] \<and> writes es = [])"
proof -
  have "emits (providerFailed X p prov rr d e)
      (\<lambda>_ es. changes_to p {(ConditionReady, ConditionFalse)} es)"
    unfolding providerFailed_def
    by (intro emits_bind emits_updates_conditions [OF assms] emits_Let emits_finalizeRecord emits_Now
        emits_set_condition emits_case_prod emits_return refines_dispatch)
      (auto simp: condition_put [OF keeps_setter [OF assms]])
  from emits_conj [OF this refines_providerFailed] show ?thesis
    by (rule emits_weaken) (use accepted_Rejected_trace in \<open>auto simp: outcome_of_def\<close>)
qed

text \<open>A rotation as a whole.\<close>

definition rotation_conditions :: "event list \<Rightarrow> (string \<times> ConditionStatus) set" where
  "rotation_conditions es =
     (if writes es = [True] \<and> attempts es = [True] then success_conditions
      else if attempts es = [False] then {(ConditionReady, ConditionFalse)} else {})"

lemma emits_providerSucceeded_conditions:
  assumes "keeps_conditions X"
  shows "emits (providerSucceeded X p prov manual rr d secret) (\<lambda>_ es.
    changes_to p (if writes es = [True] then success_conditions else {}) es \<and> attempts es = [])"
  unfolding providerSucceeded_def
  by (intro emits_bind emits_case_sum emits_finalizeRecord emits_CreateOrUpdateSecret emits_return
      emits_case_option emits_weaken [OF emits_finishRotation_conditions [OF assms]]) auto

lemma emits_executeRotation_conditions:
  assumes "keeps_conditions X"
  shows "emits (executeRotation X p prov manual) (\<lambda>_ es. changes_to p (rotation_conditions es) es)"
  unfolding executeRotation_def
  by (intro emits_bind emits_Now emits_case_prod emits_Let emits_status_changes [OF assms]
      emits_newRotationRecord emits_case_option emits_return emits_CreateRecord
      emits_CallRotate emits_case_outcome emits_record_event emits_case_sum
      emits_weaken [OF emits_providerFailed_conditions [OF assms]]
      emits_weaken [OF emits_providerSucceeded_conditions [OF assms]])
    (auto simp: rotation_conditions_def rotated_ok_def)

section \<open>A reconcile\<close>

definition reasoned ::
  "'w Ext \<Rightarrow> 'p Registry \<Rightarrow> SecretRotationPolicy \<Rightarrow> event list \<Rightarrow> bool" where
  "reasoned X reg p es \<longleftrightarrow>
     changes_to p {(type, v). reason_for X reg (srp_Spec p) es type v} es"

lemma reasoned_changes:
  "changes_to p cs es \<Longrightarrow> (\<And>type v. (type, v) \<in> cs \<Longrightarrow> reason_for X reg (srp_Spec p) es type v) \<Longrightarrow>
   reasoned X reg p es"
  unfolding reasoned_def changes_to_def by (rule list.pred_mono_strong) (assumption, blast)

lemma emits_executeRotation_reasoned:
  assumes "keeps_conditions X"
  shows "emits (executeRotation X p prov manual) (\<lambda>_ es. reasoned X reg p es)"
  by (rule emits_weaken [OF emits_executeRotation_conditions [OF assms]], rule reasoned_changes, assumption)
    (auto simp: rotation_conditions_def success_conditions_def reason_for_def split: if_splits)

lemma reasoned_nil [simp]: "reasoned X reg p []"
  by (simp add: reasoned_def)

lemma RequeueDelay_error:
  "RequeueDelay cron schedule prev window now wall m = Inl e \<Longrightarrow>
   \<exists>e'. cron standard_parser schedule = Inl e'"
  by (auto simp: RequeueDelay_def NextScheduled_def Let_def split: sum.splits option.splits)

lemma emits_handlers_reasoned:
  assumes "keeps_conditions X"
  shows "Suspend (Policy (srp_Spec p)) \<Longrightarrow> emits (setSuspended X p) (\<lambda>_ es. reasoned X reg p es)"
    and "(case Get reg (ps_Name (Provider (srp_Spec p))) of
        Inl _ \<Rightarrow> True | Inr prov \<Rightarrow> Validate prov (Params (Provider (srp_Spec p))) \<noteq> None) \<Longrightarrow>
      emits (setProviderUnhealthy X p e) (\<lambda>_ es. reasoned X reg p es)"
    and "parse_cron X standard_parser (Schedule (srp_Spec p)) = Inl e' \<Longrightarrow>
      emits (markDegraded X p reason msg) (\<lambda>_ es. reasoned X reg p es)"
  by (rule emits_weaken [OF emits_setSuspended] emits_weaken [OF emits_setProviderUnhealthy]
      emits_weaken [OF emits_markDegraded];
    auto simp: reasoned_def reason_for_def condition_put [OF keeps_setter [OF assms]])+

lemma emits_requeueNotDue_reasoned:
  assumes "keeps_conditions X"
  shows "emits (requeueNotDue X p) (\<lambda>_ es. reasoned X reg p es)"
  unfolding requeueNotDue_def Let_def
  by (intro emits_intro) (auto dest!: RequeueDelay_error
      intro!: emits_weaken [OF emits_handlers_reasoned(3) [OF assms]] simp: reasoned_def)

lemma IsDue_error:
  "IsDue cron schedule prev window now = Inl e \<Longrightarrow> \<exists>e'. cron standard_parser schedule = Inl e'"
  by (cases prev) (auto simp: IsDue_def NextScheduled_def Let_def split: sum.splits)

lemma emits_reconcileActive_reasoned:
  assumes "keeps_conditions X"
  shows "emits (reconcileActive X reg p) (\<lambda>_ es. reasoned X reg p es)"
  unfolding reconcileActive_def Let_def
  by (intro emits_case_sum emits_case_option emits_bind emits_Now emits_if)
    (auto dest!: IsDue_error intro!: emits_weaken [OF emits_handlers_reasoned(3) [OF assms]]
      emits_weaken [OF emits_handlers_reasoned(2) [OF assms]]
      emits_weaken [OF emits_requeueNotDue_reasoned [OF assms]]
      emits_weaken [OF emits_executeRotation_reasoned [OF assms]])

lemma emits_reconcilePolicy_reasoned:
  assumes "keeps_conditions X"
  shows "emits (reconcilePolicy X reg p) (\<lambda>_ es. reasoned X reg p es)"
  unfolding reconcilePolicy_def
  by (intro emits_if emits_bind emits_case_prod emits_UpdatePolicy emits_return
      emits_reconcileActive_reasoned [OF assms] emits_handlers_reasoned(1) [OF assms]
      emits_weaken [OF emits_handleDeletion])
    (auto simp: reasoned_def split: if_splits)

lemma Reconcile_reasoned:
  assumes "keeps_conditions X" and "fst (get_policy X req (world s)) = Inr p"
  shows "reasoned X (Registry r) p (events (Reconcile X r req) s)"
  using emitsD(1) [OF emits_reconcilePolicy_reasoned [OF assms(1)], of "Registry r" p "fetched X req s"]
  by (simp add: Reconcile_steps assms(2) reasoned_def reason_for_def)

text \<open>
  C12.  Each condition in a status that a reconcile writes is the one that
  the policy had, or tells what happened: a policy is marked ready and scheduled only when the secret
  has been written, not ready only when the provider has failed or the policy is suspended; its
  provider is called healthy only after it has answered, unhealthy only when it is not registered or
  refuses the parameters; and degraded only when its schedule does not parse.  No reason ever takes
  the degraded condition back.
\<close>

theorem conditions_tell_the_truth:
  assumes "keeps_conditions X" and "get_policy X req (world s) = (Inr p, w)"
    and "es = events (Reconcile X r req) s" and "q \<in> set (statuses es)"
  shows "(condition type q = condition type p \<or>
      (\<exists>v. condition type q = Some v \<and> reason_for X (Registry r) (srp_Spec p) es type v)) \<and>
    condition ConditionDegraded q \<in> {condition ConditionDegraded p, Some ConditionTrue}"
proof -
  have *: "condition type q = condition type p \<or>
    (\<exists>v. condition type q = Some v \<and> reason_for X (Registry r) (srp_Spec p) es type v)" for type
    using Reconcile_reasoned [OF assms(1), of req s p r] assms(2-4)
    by (auto simp: reasoned_def changes_to_def list_all_iff)
  from this [of ConditionDegraded] * [of type] show ?thesis
    by (auto simp: reason_for_def condition_types)
qed

section \<open>A careful server\<close>

text \<open>
  The cluster with a server that refuses an update of a policy which is not based on the stored
  status, as a conflict of versions.
\<close>

definition conflict :: error where
  "conflict = External ''Conflict'' ''the object has been modified''"

definition careful_update ::
  "SecretRotationPolicy \<Rightarrow> cluster \<Rightarrow> (SecretRotationPolicy \<times> error option) \<times> cluster" where
  "careful_update p c =
    (case cluster_policies c (policy_key p) of
       None \<Rightarrow> cluster_update p c
     | Some q \<Rightarrow> if srp_Status q = srp_Status p then cluster_update p c else ((p, Some conflict), c))"

definition careful_ext :: "cluster Ext" where
  "careful_ext = cluster_ext\<lparr>update_policy := careful_update\<rparr>"

lemma cluster_setter: "condition_setter set_condition_in"
proof -
  have "map_option cond_Status (find (\<lambda>d. Type d = type) (set_condition_in cs c)) =
       (if type = Type c then Some (cond_Status c)
        else map_option cond_Status (find (\<lambda>d. Type d = type) cs))" for cs c type
    by (induction cs) auto
  then show ?thesis by (simp add: condition_setter_def)
qed

lemma careful_keeps: "keeps_conditions careful_ext"
  unfolding keeps_conditions_def using cluster_setter
  by (auto simp: careful_ext_def careful_update_def cluster_defs split: option.splits)

lemma careful_answers:
  "get_policy careful_ext = cluster_get" "parse_cron careful_ext = hourly"
  by (simp_all add: careful_ext_def cluster_ext_def)

text \<open>A suspended policy.\<close>

definition suspended_policy :: SecretRotationPolicy where
  "suspended_policy = example_policy\<lparr>srp_Spec := (srp_Spec example_policy)
     \<lparr>Policy := (Policy (srp_Spec example_policy))\<lparr>Suspend := True\<rparr>\<rparr>\<rparr>"

definition suspended_process :: "(cluster, unit provider_state) process" where
  "suspended_process =
     start_process (example_cluster\<lparr>cl_policies := [example_key \<mapsto> suspended_policy]\<rparr>)
       \<lparr>rotateCount = 0, entropy = ()\<rparr>"

lemma suspended_get:
  "get_policy careful_ext example_key (world suspended_process) =
     (Inr suspended_policy, world suspended_process)"
  by (simp add: suspended_process_def start_process_def cluster_get_def cluster_policies_def careful_answers)
    (simp add: suspended_policy_def policy_key_def example_key_def example_policy_def)

lemma suspended_status:
  "\<exists>q. statuses (events (Reconcile careful_ext example_reconciler example_key) suspended_process) = [q]"
proof -
  have "reconcilePolicy careful_ext reg suspended_policy = setSuspended careful_ext suspended_policy"
    for reg :: "unit provider_state Registry"
    by (simp add: reconcilePolicy_def suspended_policy_def being_deleted_def careful_ext_def
        cluster_ext_def example_policy_def empty_meta_def)
  with emitsD(1) [OF emits_setSuspended,
      of careful_ext suspended_policy "fetched careful_ext example_key suspended_process"]
  show ?thesis by (auto simp: Reconcile_steps suspended_get)
qed

lemma conditions_tell_the_truth_witness:
  "\<exists>q. statuses (events (Reconcile careful_ext example_reconciler example_key) suspended_process) =
       [q] \<and> condition ConditionDegraded q \<in> {None, Some ConditionTrue}"
proof -
  obtain q where q: "statuses (events (Reconcile careful_ext example_reconciler example_key)
      suspended_process) = [q]"
    using suspended_status by blast
  with conditions_tell_the_truth [OF careful_keeps suspended_get refl, of q example_reconciler]
  show ?thesis by (simp add: condition_def suspended_policy_def example_policy_def)
qed

end
