(* ===== verification/CommandLine.thy ===== *)
theory CommandLine
  imports Setup
begin

text \<open>
  The command line of \<^verbatim>\<open>cmd/main.go\<close>: the flags that \<^verbatim>\<open>main\<close> declares and Go's package
  \<^verbatim>\<open>flag\<close>, which parses the arguments.  The flags that imported packages declare on the same
  command line (the logger's, and those of controller-runtime's initialisation) are a parameter.
\<close>

section \<open>Flag sets\<close>

text \<open>
  A flag assigns a variable of \<^verbatim>\<open>main\<close>, or belongs to a library: then only whether it is
  boolean and what setting it does to the library's own variables is known.
\<close>

datatype 'z flag_value =
    StringValue "string \<Rightarrow> Flags \<Rightarrow> Flags"
  | BoolValue "bool \<Rightarrow> Flags \<Rightarrow> Flags"
  | LibraryValue bool "string \<Rightarrow> 'z \<Rightarrow> error + 'z"

record 'z FlagSet =
  formal :: "(string \<times> 'z flag_value) list"
  variables :: Flags
  library :: 'z

definition flag_Var :: "'z flag_value \<Rightarrow> string \<Rightarrow> 'z FlagSet \<Rightarrow> 'z FlagSet outcome" where
  "flag_Var value name fs =
    (if name \<noteq> [] \<and> hd name = CHR ''-'' then Panic (''flag '' @ Quote name @ '' begins with -'')
     else if CHR ''='' \<in> set name then Panic (''flag '' @ Quote name @ '' contains ='')
     else if map_of (formal fs) name \<noteq> None then Panic (''flag redefined: '' @ name)
     else Ret (fs\<lparr>formal := (name, value) # formal fs\<rparr>))"

text \<open>The default is assigned when the flag is declared.\<close>

definition StringVar ::
  "(string \<Rightarrow> Flags \<Rightarrow> Flags) \<Rightarrow> string \<Rightarrow> string \<Rightarrow> 'z FlagSet \<Rightarrow> 'z FlagSet outcome" where
  "StringVar assign name value fs =
     flag_Var (StringValue assign) name (fs\<lparr>variables := assign value (variables fs)\<rparr>)"

definition BoolVar ::
  "(bool \<Rightarrow> Flags \<Rightarrow> Flags) \<Rightarrow> string \<Rightarrow> bool \<Rightarrow> 'z FlagSet \<Rightarrow> 'z FlagSet outcome" where
  "BoolVar assign name value fs =
     flag_Var (BoolValue assign) name (fs\<lparr>variables := assign value (variables fs)\<rparr>)"

fun bind_flags :: "(string \<times> 'z flag_value) list \<Rightarrow> 'z FlagSet \<Rightarrow> 'z FlagSet outcome" where
  "bind_flags [] fs = Ret fs"
| "bind_flags ((name, value) # flags) fs =
     bind_outcome (flag_Var value name fs) (bind_flags flags)"

section \<open>The flags of the operator\<close>

text \<open>The flags of the libraries: declared when their packages start, and by \<^verbatim>\<open>BindFlags\<close>.\<close>

record 'z library_flags =
  package_flags :: "(string \<times> 'z flag_value) list"
  zap_flags :: "(string \<times> 'z flag_value) list"
  library_variables :: 'z

text \<open>Go's zero values, before any flag is declared.\<close>

definition zero_flags :: Flags where
  "zero_flags = \<lparr>metricsAddr = '''', metricsCertPath = '''', metricsCertName = '''',
     metricsCertKey = '''', webhookCertPath = '''', webhookCertName = '''', webhookCertKey = '''',
     enableLeaderElection = False, probeAddr = '''', secureMetrics = False, enableHTTP2 = False\<rparr>"

text \<open>The declarations of \<^verbatim>\<open>main\<close>, and the initialisation of the packages before them.\<close>

definition main_flags :: "'z library_flags \<Rightarrow> 'z FlagSet \<Rightarrow> 'z FlagSet outcome" where
  "main_flags L fs =
     bind_outcome (StringVar (\<lambda>v fl. fl\<lparr>metricsAddr := v\<rparr>) ''metrics-bind-address'' ''0'' fs) (\<lambda>fs.
     bind_outcome (StringVar (\<lambda>v fl. fl\<lparr>probeAddr := v\<rparr>) ''health-probe-bind-address'' '':8081'' fs) (\<lambda>fs.
     bind_outcome (BoolVar (\<lambda>v fl. fl\<lparr>enableLeaderElection := v\<rparr>) ''leader-elect'' False fs) (\<lambda>fs.
     bind_outcome (BoolVar (\<lambda>v fl. fl\<lparr>secureMetrics := v\<rparr>) ''metrics-secure'' True fs) (\<lambda>fs.
     bind_outcome (StringVar (\<lambda>v fl. fl\<lparr>webhookCertPath := v\<rparr>) ''webhook-cert-path'' '''' fs) (\<lambda>fs.
     bind_outcome (StringVar (\<lambda>v fl. fl\<lparr>webhookCertName := v\<rparr>) ''webhook-cert-name'' ''tls.crt'' fs) (\<lambda>fs.
     bind_outcome (StringVar (\<lambda>v fl. fl\<lparr>webhookCertKey := v\<rparr>) ''webhook-cert-key'' ''tls.key'' fs) (\<lambda>fs.
     bind_outcome (StringVar (\<lambda>v fl. fl\<lparr>metricsCertPath := v\<rparr>) ''metrics-cert-path'' '''' fs) (\<lambda>fs.
     bind_outcome (StringVar (\<lambda>v fl. fl\<lparr>metricsCertName := v\<rparr>) ''metrics-cert-name'' ''tls.crt'' fs) (\<lambda>fs.
     bind_outcome (StringVar (\<lambda>v fl. fl\<lparr>metricsCertKey := v\<rparr>) ''metrics-cert-key'' ''tls.key'' fs) (\<lambda>fs.
     bind_outcome (BoolVar (\<lambda>v fl. fl\<lparr>enableHTTP2 := v\<rparr>) ''enable-http2'' False fs) (\<lambda>fs.
     bind_flags (zap_flags L) fs)))))))))))"

definition declare_flags :: "'z library_flags \<Rightarrow> 'z FlagSet outcome" where
  "declare_flags L =
     bind_outcome (bind_flags (package_flags L)
       \<lparr>formal = [], variables = zero_flags, library = library_variables L\<rparr>) (main_flags L)"

section \<open>Parsing\<close>

definition ParseBool :: "string \<Rightarrow> bool option" where
  "ParseBool s =
    (if s \<in> set [''1'', ''t'', ''T'', ''true'', ''TRUE'', ''True''] then Some True
     else if s \<in> set [''0'', ''f'', ''F'', ''false'', ''FALSE'', ''False''] then Some False
     else None)"

text \<open>A boolean flag does not take the next argument as its value.\<close>

fun IsBoolFlag :: "'z flag_value \<Rightarrow> bool" where
  "IsBoolFlag (StringValue assign) = False"
| "IsBoolFlag (BoolValue assign) = True"
| "IsBoolFlag (LibraryValue b setter) = b"

fun flag_Set :: "'z flag_value \<Rightarrow> string \<Rightarrow> 'z FlagSet \<Rightarrow> error + 'z FlagSet" where
  "flag_Set (StringValue assign) s fs = Inr (fs\<lparr>variables := assign s (variables fs)\<rparr>)"
| "flag_Set (BoolValue assign) s fs =
    (case ParseBool s of
       None \<Rightarrow> Inl (Errorf ''parse error'')
     | Some b \<Rightarrow> Inr (fs\<lparr>variables := assign b (variables fs)\<rparr>))"
| "flag_Set (LibraryValue b setter) s fs =
    (case setter s (library fs) of
       Inl e \<Rightarrow> Inl e
     | Inr z \<Rightarrow> Inr (fs\<lparr>library := z\<rparr>))"

text \<open>The name and the value behind the first equals sign that is not the first character.\<close>

definition split_flag :: "string \<Rightarrow> string \<times> string option" where
  "split_flag s =
    (let rest = tl s; (name, value) = (takeWhile (\<lambda>c. c \<noteq> CHR ''='') rest,
                                       dropWhile (\<lambda>c. c \<noteq> CHR ''='') rest) in
     (hd s # name, case value of [] \<Rightarrow> None | _ # v \<Rightarrow> Some v))"

datatype flag_error = ErrHelp | Failf string

text \<open>One step: a flag was seen, the flags are over, or the arguments are refused.\<close>

datatype 'z seen =
    Seen "'z FlagSet" "string list"
  | Over "string list"
  | Refuse flag_error

definition set_flag :: "string \<Rightarrow> 'z flag_value \<Rightarrow> string \<Rightarrow> string list \<Rightarrow> 'z FlagSet \<Rightarrow> 'z seen" where
  "set_flag what flag value args fs =
    (case flag_Set flag value fs of
       Inl err \<Rightarrow> Refuse (Failf (''invalid '' @ what @ '': '' @ Error err))
     | Inr fs' \<Rightarrow> Seen fs' args)"

fun parseOne :: "'z FlagSet \<Rightarrow> string list \<Rightarrow> 'z seen" where
  "parseOne fs [] = Over []"
| "parseOne fs (s # args) =
    (if length s < 2 \<or> s ! 0 \<noteq> CHR ''-'' then Over (s # args)
     else if s = ''--'' then Over args
     else
       (let text = (if s ! 1 = CHR ''-'' then drop 2 s else drop 1 s) in
        if text = [] \<or> hd text = CHR ''-'' \<or> hd text = CHR ''='' then
          Refuse (Failf (''bad flag syntax: '' @ s))
        else
          (case split_flag text of
             (name, value) \<Rightarrow>
               (case map_of (formal fs) name of
                  None \<Rightarrow>
                    if name = ''help'' \<or> name = ''h'' then Refuse ErrHelp
                    else Refuse (Failf (''flag provided but not defined: -'' @ name))
                | Some flag \<Rightarrow>
                    if IsBoolFlag flag then
                      (case value of
                         Some v \<Rightarrow> set_flag (''boolean value '' @ Quote v @ '' for -'' @ name)
                           flag v args fs
                       | None \<Rightarrow> set_flag (''boolean flag '' @ name) flag ''true'' args fs)
                    else
                      (case (value, args) of
                         (Some v, _) \<Rightarrow> set_flag (''value '' @ Quote v @ '' for flag -'' @ name)
                           flag v args fs
                       | (None, v # args') \<Rightarrow> set_flag (''value '' @ Quote v @ '' for flag -'' @ name)
                           flag v args' fs
                       | (None, []) \<Rightarrow> Refuse (Failf (''flag needs an argument: -'' @ name)))))))"

lemma set_flag_Seen: "set_flag what flag value args fs = Seen fs' args' \<Longrightarrow> args' = args"
  by (auto simp: set_flag_def split: sum.splits)

lemma parseOne_shortens: "parseOne fs args = Seen fs' rest \<Longrightarrow> length rest < length args"
  by (cases args)
    (auto simp: Let_def split: if_splits prod.splits option.splits list.splits dest!: set_flag_Seen)

function Parse :: "'z FlagSet \<Rightarrow> string list \<Rightarrow> flag_error + 'z FlagSet" where
  "Parse fs args =
    (case parseOne fs args of
       Seen fs' rest \<Rightarrow> Parse fs' rest
     | Over rest \<Rightarrow> Inr fs
     | Refuse e \<Rightarrow> Inl e)"
  by pat_completeness auto
termination
  by (relation "measure (\<lambda>(fs, args). length args)") (simp_all add: parseOne_shortens)

text \<open>The command line ends the process on an error: with status 0 when help was asked for, else 2.\<close>

definition command_line :: "'z library_flags \<Rightarrow> string list \<Rightarrow> (int + Flags) outcome" where
  "command_line L args = bind_outcome (declare_flags L) (\<lambda>fs. Ret
     (case Parse fs args of
        Inl ErrHelp \<Rightarrow> Inl 0
      | Inl (Failf _) \<Rightarrow> Inl 2
      | Inr fs' \<Rightarrow> Inr (variables fs')))"

lemmas [simp del] = Parse.simps

section \<open>What the declarations leave\<close>

text \<open>The documented flags and the variables they are for.\<close>

definition string_flags :: "(string \<times> (string \<Rightarrow> Flags \<Rightarrow> Flags)) list" where
  "string_flags =
    [(''metrics-bind-address'', \<lambda>v fl. fl\<lparr>metricsAddr := v\<rparr>),
     (''health-probe-bind-address'', \<lambda>v fl. fl\<lparr>probeAddr := v\<rparr>),
     (''webhook-cert-path'', \<lambda>v fl. fl\<lparr>webhookCertPath := v\<rparr>),
     (''webhook-cert-name'', \<lambda>v fl. fl\<lparr>webhookCertName := v\<rparr>),
     (''webhook-cert-key'', \<lambda>v fl. fl\<lparr>webhookCertKey := v\<rparr>),
     (''metrics-cert-path'', \<lambda>v fl. fl\<lparr>metricsCertPath := v\<rparr>),
     (''metrics-cert-name'', \<lambda>v fl. fl\<lparr>metricsCertName := v\<rparr>),
     (''metrics-cert-key'', \<lambda>v fl. fl\<lparr>metricsCertKey := v\<rparr>)]"

definition bool_flags :: "(string \<times> (bool \<Rightarrow> Flags \<Rightarrow> Flags)) list" where
  "bool_flags =
    [(''leader-elect'', \<lambda>b fl. fl\<lparr>enableLeaderElection := b\<rparr>),
     (''metrics-secure'', \<lambda>b fl. fl\<lparr>secureMetrics := b\<rparr>),
     (''enable-http2'', \<lambda>b fl. fl\<lparr>enableHTTP2 := b\<rparr>)]"

text \<open>
  Declarations as one operation: what it does to the variables, which flags it adds, and that the
  flags from before stay.
\<close>

definition adds ::
  "('z FlagSet \<Rightarrow> 'z FlagSet outcome) \<Rightarrow> (Flags \<Rightarrow> Flags) \<Rightarrow> (string \<times> 'z flag_value) list \<Rightarrow> bool"
  where
  "adds m a F \<longleftrightarrow> (\<forall>fs fs'. m fs = Ret fs' \<longrightarrow> variables fs' = a (variables fs) \<and>
     (\<forall>(n, v) \<in> set F. map_of (formal fs') n = Some v) \<and> map_of (formal fs) \<subseteq>\<^sub>m map_of (formal fs'))"

lemma bind_outcome_Ret:
  "bind_outcome m f = Ret y \<longleftrightarrow> (\<exists>x. m = Ret x \<and> f x = Ret y)"
  by (cases m) simp_all

lemma adds_Var:
  "adds (StringVar f n v) (f v) [(n, StringValue f)]" "adds (BoolVar g n b) (g b) [(n, BoolValue g)]"
  "adds (flag_Var w n) id [(n, w)]"
  by (auto simp: adds_def StringVar_def BoolVar_def flag_Var_def map_le_def dom_def split: if_splits)

lemma adds_bind:
  assumes "adds m a F" and "adds k b G"
  shows "adds (\<lambda>fs. bind_outcome (m fs) k) (b \<circ> a) (F @ G)"
  unfolding adds_def bind_outcome_Ret
proof (intro allI impI)
  fix fs fs2
  assume "\<exists>fs1. m fs = Ret fs1 \<and> k fs1 = Ret fs2"
  then obtain fs1 where "m fs = Ret fs1" "k fs1 = Ret fs2" by blast
  then have "variables fs1 = a (variables fs)" "variables fs2 = b (variables fs1)"
      "\<forall>(n, v) \<in> set F. map_of (formal fs1) n = Some v"
      "\<forall>(n, v) \<in> set G. map_of (formal fs2) n = Some v"
      "map_of (formal fs) \<subseteq>\<^sub>m map_of (formal fs1)" "map_of (formal fs1) \<subseteq>\<^sub>m map_of (formal fs2)"
    using assms unfolding adds_def by blast+
  then show "variables fs2 = (b \<circ> a) (variables fs) \<and>
      (\<forall>(n, v) \<in> set (F @ G). map_of (formal fs2) n = Some v) \<and>
      map_of (formal fs) \<subseteq>\<^sub>m map_of (formal fs2)"
    by (auto intro: map_le_trans simp: map_le_def dom_def)
qed

lemma adds_bind_flags: "\<exists>F. adds (bind_flags flags) id F"
proof (induction flags)
  case Nil
  have "adds (bind_flags []) id []" by (simp add: adds_def)
  then show ?case by blast
next
  case (Cons a flags)
  obtain name flag where a: "a = (name, flag)" by fastforce
  from Cons obtain F where "adds (bind_flags flags) id F" by blast
  from adds_bind [OF adds_Var(3) this, of flag name]
  have "adds (bind_flags (a # flags)) id ([(name, flag)] @ F)"
    by (simp add: adds_def a)
  then show ?case by blast
qed

text \<open>The variables hold the defaults, and every flag is there under its name.\<close>

lemma main_flags_adds:
  "\<exists>a F. adds (main_flags L) a F \<and> a zero_flags = default_flags \<and>
     (\<forall>(n, f) \<in> set string_flags. (n, StringValue f) \<in> set F) \<and>
     (\<forall>(n, g) \<in> set bool_flags. (n, BoolValue g) \<in> set F)"
proof -
  obtain F where zap: "adds (bind_flags (zap_flags L)) id F" using adds_bind_flags by blast
  show ?thesis
    unfolding main_flags_def [abs_def]
    by (rule exI, rule exI, rule conjI, (rule adds_bind adds_Var)+, rule zap)
      (simp add: zero_flags_def default_flags_def string_flags_def bool_flags_def)
qed

lemma declared:
  assumes "declare_flags L = Ret fs"
  shows "variables fs = default_flags"
    and "(n, f) \<in> set string_flags \<Longrightarrow> map_of (formal fs) n = Some (StringValue f)"
    and "(n, g) \<in> set bool_flags \<Longrightarrow> map_of (formal fs) n = Some (BoolValue g)"
proof -
  from assms obtain fs0 where fs0: "bind_flags (package_flags L)
      \<lparr>formal = [], variables = zero_flags, library = library_variables L\<rparr> = Ret fs0"
      "main_flags L fs0 = Ret fs"
    by (auto simp: declare_flags_def bind_outcome_Ret)
  then have "variables fs0 = zero_flags"
    using adds_bind_flags [of "package_flags L"] unfolding adds_def by fastforce
  then show "variables fs = default_flags"
    and "(n, f) \<in> set string_flags \<Longrightarrow> map_of (formal fs) n = Some (StringValue f)"
    and "(n, g) \<in> set bool_flags \<Longrightarrow> map_of (formal fs) n = Some (BoolValue g)"
    using main_flags_adds [of L] fs0(2) unfolding adds_def by fastforce+
qed


lemma refused_status:
  assumes "command_line L args = Ret (Inl status)"
  shows "status = 0 \<or> status = 2"
proof -
  from assms obtain fs where fs: "declare_flags L = Ret fs"
    by (auto simp: command_line_def bind_outcome_Ret)
  show ?thesis
  proof (cases "Parse fs args")
    case (Inl e)
    with assms fs show ?thesis by (cases e) (simp_all add: command_line_def)
  qed (use assms fs in \<open>simp add: command_line_def\<close>)
qed

section \<open>Writing command lines\<close>

text \<open>
  A setting of a flag, in one of the ways to write it: with one dash or two, and with the value
  behind an equals sign or not (a string in the next argument, a true boolean as the flag alone).
\<close>

datatype setting = StringSetting string string | BoolSetting string bool

fun documented :: "setting \<Rightarrow> bool" where
  "documented (StringSetting n v) \<longleftrightarrow> n \<in> fst ` set string_flags"
| "documented (BoolSetting n b) \<longleftrightarrow> n \<in> fst ` set bool_flags"

fun assign :: "setting \<Rightarrow> Flags \<Rightarrow> Flags" where
  "assign (StringSetting n v) = (case map_of string_flags n of Some f \<Rightarrow> f v | None \<Rightarrow> id)"
| "assign (BoolSetting n b) = (case map_of bool_flags n of Some f \<Rightarrow> f b | None \<Rightarrow> id)"

definition dashed :: "bool \<Rightarrow> string \<Rightarrow> string" where
  "dashed two n = (if two then ''--'' else ''-'') @ n"

fun written :: "bool \<Rightarrow> bool \<Rightarrow> setting \<Rightarrow> string list" where
  "written two joined (StringSetting n v) =
     (if joined then [dashed two n @ ''='' @ v] else [dashed two n, v])"
| "written two joined (BoolSetting n b) =
     (if joined \<or> \<not> b then [dashed two n @ ''='' @ (if b then ''true'' else ''false'')]
      else [dashed two n])"

text \<open>What ends the flags: no more arguments, an argument that is no flag, or two dashes.\<close>

definition ends_flags :: "string list \<Rightarrow> bool" where
  "ends_flags rest \<longleftrightarrow>
     (case rest of [] \<Rightarrow> True | s # _ \<Rightarrow> length s < 2 \<or> s ! 0 \<noteq> CHR ''-'' \<or> s = ''--'')"

definition plain_name :: "string \<Rightarrow> bool" where
  "plain_name n \<longleftrightarrow> n \<noteq> [] \<and> hd n \<noteq> CHR ''-'' \<and> CHR ''='' \<notin> set n"

lemma split_flag_plain:
  assumes "plain_name n"
  shows "split_flag n = (n, None)" and "split_flag (n @ CHR ''='' # v) = (n, Some v)"
proof -
  obtain c cs where n: "n = c # cs" using assms by (cases n) (auto simp: plain_name_def)
  with assms have no: "\<forall>d \<in> set cs. d \<noteq> CHR ''=''" by (auto simp: plain_name_def)
  have "takeWhile (\<lambda>c. c \<noteq> CHR ''='') (cs @ CHR ''='' # v) = cs"
      "dropWhile (\<lambda>c. c \<noteq> CHR ''='') (cs @ CHR ''='' # v) = CHR ''='' # v"
      "takeWhile (\<lambda>c. c \<noteq> CHR ''='') cs = cs" "dropWhile (\<lambda>c. c \<noteq> CHR ''='') cs = []"
    using no by (simp_all add: takeWhile_append2 dropWhile_append2 dropWhile_eq_Nil_conv)
  then show "split_flag n = (n, None)" "split_flag (n @ CHR ''='' # v) = (n, Some v)"
    unfolding split_flag_def n by (simp_all only: Let_def list.sel append_Cons prod.case list.case)
qed

text \<open>An argument that starts with a dashed name is read as that flag.\<close>

lemma parseOne_dashed:
  assumes "plain_name n" and "map_of (formal fs) n = Some flag"
  shows "parseOne fs ((dashed two n @ CHR ''='' # v) # args) =
      set_flag (if IsBoolFlag flag then ''boolean value '' @ Quote v @ '' for -'' @ n
        else ''value '' @ Quote v @ '' for flag -'' @ n) flag v args fs"
    and "IsBoolFlag flag \<Longrightarrow> parseOne fs (dashed two n # args) =
      set_flag (''boolean flag '' @ n) flag ''true'' args fs"
    and "\<not> IsBoolFlag flag \<Longrightarrow> parseOne fs (dashed two n # v # args) =
      set_flag (''value '' @ Quote v @ '' for flag -'' @ n) flag v args fs"
proof -
  obtain c cs where n: "n = c # cs" "c \<noteq> CHR ''-''" "c \<noteq> CHR ''=''"
    using assms(1) by (cases n) (auto simp: plain_name_def)
  note split = split_flag_plain [OF assms(1)]
  show "parseOne fs ((dashed two n @ CHR ''='' # v) # args) =
      set_flag (if IsBoolFlag flag then ''boolean value '' @ Quote v @ '' for -'' @ n
        else ''value '' @ Quote v @ '' for flag -'' @ n) flag v args fs"
    and "IsBoolFlag flag \<Longrightarrow> parseOne fs (dashed two n # args) =
      set_flag (''boolean flag '' @ n) flag ''true'' args fs"
    and "\<not> IsBoolFlag flag \<Longrightarrow> parseOne fs (dashed two n # v # args) =
      set_flag (''value '' @ Quote v @ '' for flag -'' @ n) flag v args fs"
    using n split assms(2) by (cases two; simp add: dashed_def Let_def)+
qed

lemma flag_names_plain:
  "n \<in> fst ` set string_flags \<Longrightarrow> plain_name n" "n \<in> fst ` set bool_flags \<Longrightarrow> plain_name n"
  by (auto simp: string_flags_def bool_flags_def plain_name_def)

lemma flag_names_distinct: "distinct (map fst string_flags)" "distinct (map fst bool_flags)"
  by (simp_all add: string_flags_def bool_flags_def)

definition all_defined :: "'z FlagSet \<Rightarrow> bool" where
  "all_defined fs \<longleftrightarrow>
     (\<forall>(n, f) \<in> set string_flags. map_of (formal fs) n = Some (StringValue f)) \<and>
     (\<forall>(n, g) \<in> set bool_flags. map_of (formal fs) n = Some (BoolValue g))"

lemma parseOne_written:
  assumes "all_defined fs" and "documented st"
  shows "parseOne fs (written two joined st @ args) =
    Seen (fs\<lparr>variables := assign st (variables fs)\<rparr>) args"
proof (cases st)
  case (StringSetting n v)
  then obtain f where f: "(n, f) \<in> set string_flags" "plain_name n"
    using assms(2) flag_names_plain by fastforce
  then have "map_of string_flags n = Some f" using flag_names_distinct by simp
  moreover have "map_of (formal fs) n = Some (StringValue f)"
    using assms(1) f(1) by (auto simp: all_defined_def)
  from parseOne_dashed [OF f(2) this]
  show ?thesis using StringSetting calculation by (simp add: set_flag_def)
next
  case (BoolSetting n b)
  then obtain g where g: "(n, g) \<in> set bool_flags" "plain_name n"
    using assms(2) flag_names_plain by fastforce
  then have "map_of bool_flags n = Some g" using flag_names_distinct by simp
  moreover have "map_of (formal fs) n = Some (BoolValue g)"
    using assms(1) g(1) by (auto simp: all_defined_def)
  from parseOne_dashed [OF g(2) this]
  show ?thesis using BoolSetting calculation by (simp add: set_flag_def ParseBool_def)
qed

lemma Parse_written:
  assumes "all_defined fs" and "\<forall>(two, joined, st) \<in> set sts. documented st" and "ends_flags rest"
  shows "Parse fs (concat (map (\<lambda>(two, joined, st). written two joined st) sts) @ rest) =
    Inr (fs\<lparr>variables := fold (\<lambda>(two, joined, st). assign st) sts (variables fs)\<rparr>)"
  using assms(1,2)
proof (induction sts arbitrary: fs)
  case Nil
  have "\<exists>r. parseOne fs rest = Over r"
    using assms(3) by (cases rest) (auto simp: ends_flags_def)
  then show ?case by (auto simp: Parse.simps)
next
  case (Cons a sts)
  obtain two joined st where a: "a = (two, joined, st)" by (metis prod_cases3)
  let ?fs = "fs\<lparr>variables := assign st (variables fs)\<rparr>"
  have "all_defined ?fs" using Cons.prems(1) by (simp add: all_defined_def)
  then show ?case
    using Cons a by (subst Parse.simps) (simp add: parseOne_written)
qed

text \<open>
  C26.  The command line means what it says: when the flags of the libraries do not
  clash with the program's, any sequence of the documented flags, each written in any of its forms
  and with any value, is parsed without an error, and the variables of \<^verbatim>\<open>main\<close> are the
  defaults changed by the settings in their order, whatever follows the end of the flags.
\<close>

theorem flags_round_trip:
  assumes "returns (declare_flags L)" and "\<forall>(two, joined, st) \<in> set sts. documented st"
    and "ends_flags rest"
  shows "command_line L (concat (map (\<lambda>(two, joined, st). written two joined st) sts) @ rest) =
    Ret (Inr (fold (\<lambda>(two, joined, st). assign st) sts default_flags))"
proof -
  from assms(1) obtain fs where fs: "declare_flags L = Ret fs" by (auto simp: returns_iff)
  then have "all_defined fs" using declared(2,3) by (auto simp: all_defined_def)
  from Parse_written [OF this assms(2,3)] show ?thesis
    unfolding command_line_def fs bind_outcome.simps by (simp only: declared(1) [OF fs]) simp
qed

text \<open>Libraries whose flags are those of the logger and of the client configuration.\<close>

definition known_libraries :: "string library_flags" where
  "known_libraries =
    \<lparr>package_flags = [(''kubeconfig'', LibraryValue False (\<lambda>s z. Inr s))],
     zap_flags = [(''zap-devel'', LibraryValue True (\<lambda>s z. Inr z)),
       (''zap-log-level'', LibraryValue False (\<lambda>s z. Inr z))],
     library_variables = ''''\<rparr>"

lemma known_declared: "returns (declare_flags known_libraries)"
  by (simp add: known_libraries_def declare_flags_def main_flags_def StringVar_def BoolVar_def
      flag_Var_def)

text \<open>The arguments of \<^verbatim>\<open>config/manager/manager.yaml\<close> with the patch for the metrics.\<close>

lemma flags_round_trip_witness:
  "command_line known_libraries
     [''--metrics-bind-address=:8443'', ''--leader-elect'', ''--health-probe-bind-address=:8081''] =
   Ret (Inr (default_flags\<lparr>enableLeaderElection := True, metricsAddr := '':8443''\<rparr>))"
  using flags_round_trip [OF known_declared, of
      "[(True, True, StringSetting ''metrics-bind-address'' '':8443''),
        (True, False, BoolSetting ''leader-elect'' True),
        (True, True, StringSetting ''health-probe-bind-address'' '':8081'')]" "[]"]
  by (simp add: dashed_def string_flags_def bool_flags_def ends_flags_def default_flags_def)

end
