(* ===== verification/Startup.thy ===== *)
theory Startup
  imports CommandLine Metrics Webhook
begin

text \<open>
  The start of the process in order: the package initialisations that can fail, and the body of
  \<^verbatim>\<open>main\<close> from the command line to the running manager.  Each call of a library is a step of a log
  with its success; what the libraries answer is a parameter.
\<close>

section \<open>The steps\<close>

datatype api_kind =
    KindSecretRotationPolicy | KindSecretRotationPolicyList | KindRotationRecord
  | KindRotationRecordList

text \<open>What the builders of controller-runtime are told before \<^verbatim>\<open>Complete\<close>.\<close>

record 'p controller_build =
  For :: api_kind
  Owns :: "api_kind list"
  Reconciler :: "'p SecretRotationPolicyReconciler"

record webhook_build =
  ManagedBy :: api_kind
  Defaulter :: "SecretRotationPolicy \<Rightarrow> SecretRotationPolicy"
  CreateValidator :: "cron \<Rightarrow> SecretRotationPolicy \<Rightarrow> error option"
  UpdateValidator :: "cron \<Rightarrow> SecretRotationPolicy \<Rightarrow> SecretRotationPolicy \<Rightarrow> error option"
  DeleteValidator :: "SecretRotationPolicy \<Rightarrow> error option"

datatype 'p startup_step =
    RegisterCollectors "Collector list"
  | AddClientGoToScheme
  | AddToScheme "string \<times> string" "api_kind list"
  | GetConfig
  | NewManager ManagerOptions
  | AddController "'p controller_build"
  | AddWebhook webhook_build
  | AddHealthzCheck string
  | AddReadyzCheck string
  | Start

type_synonym ('w, 'p) libraries = "'p startup_step \<Rightarrow> 'w \<Rightarrow> error option \<times> 'w"

type_synonym 'p startup_log = "('p startup_step \<times> bool) list"

type_synonym ('w, 'p, 'a) startup = "('w \<times> 'p startup_log, 'a) state"

definition attempt :: "('w, 'p) libraries \<Rightarrow> 'p startup_step \<Rightarrow> ('w, 'p, error option) startup" where
  "attempt L st = State (\<lambda>(w, log). case L st w of
     (err, w') \<Rightarrow> (err, (w', log @ [(st, err = None)])))"

text \<open>The process is over with a status, or \<^verbatim>\<open>main\<close> has returned.\<close>

datatype exit = Exited int | Returned

text \<open>\<^verbatim>\<open>utilruntime.Must\<close> and \<^verbatim>\<open>MustRegister\<close>, and the test that ends with \<^verbatim>\<open>os.Exit(1)\<close>.\<close>

definition must ::
  "('w, 'p, error option) startup \<Rightarrow> ('w, 'p, exit outcome) startup \<Rightarrow>
   ('w, 'p, exit outcome) startup" where
  "must m k = do {
     err \<leftarrow> m;
     (case err of Some e \<Rightarrow> State_Monad.return (Panic (Error e)) | None \<Rightarrow> k)
   }"

definition or_exit ::
  "('w, 'p, error option) startup \<Rightarrow> ('w, 'p, exit outcome) startup \<Rightarrow>
   ('w, 'p, exit outcome) startup" where
  "or_exit m k = do {
     err \<leftarrow> m;
     (case err of Some e \<Rightarrow> State_Monad.return (Ret (Exited 1)) | None \<Rightarrow> k)
   }"

section \<open>The program\<close>

text \<open>
  The scheme builder of the API package: each type file registers its kinds when the package starts,
  in the order of the files, and \<^verbatim>\<open>AddToScheme\<close> adds them under the group and version of the
  builder.
\<close>

record scheme_builder =
  sb_GroupVersion :: "string \<times> string"
  sb_Kinds :: "api_kind list"

definition scheme_Register :: "api_kind list \<Rightarrow> scheme_builder \<Rightarrow> scheme_builder" where
  "scheme_Register kinds b = b\<lparr>sb_Kinds := sb_Kinds b @ kinds\<rparr>"

definition SchemeBuilder :: scheme_builder where
  "SchemeBuilder = \<lparr>sb_GroupVersion = GroupVersion, sb_Kinds = []\<rparr>"

definition register_records :: "scheme_builder \<Rightarrow> scheme_builder" where
  "register_records = scheme_Register [KindRotationRecord, KindRotationRecordList]"

definition register_policies :: "scheme_builder \<Rightarrow> scheme_builder" where
  "register_policies = scheme_Register [KindSecretRotationPolicy, KindSecretRotationPolicyList]"

definition api_package :: scheme_builder where
  "api_package = register_policies (register_records SchemeBuilder)"

definition add_to_scheme :: "('w, 'p) libraries \<Rightarrow> scheme_builder \<Rightarrow> ('w, 'p, error option) startup"
  where "add_to_scheme L b = attempt L (AddToScheme (sb_GroupVersion b) (sb_Kinds b))"

definition scheme_kinds :: "api_kind list" where
  "scheme_kinds = [KindRotationRecord, KindRotationRecordList,
     KindSecretRotationPolicy, KindSecretRotationPolicyList]"

lemma api_package_registers [simp]:
  "add_to_scheme L api_package = attempt L (AddToScheme GroupVersion scheme_kinds)"
  by (simp add: add_to_scheme_def api_package_def register_policies_def register_records_def
      scheme_Register_def SchemeBuilder_def scheme_kinds_def)

definition SetupWithManager ::
  "('w, 'p) libraries \<Rightarrow> 'p SecretRotationPolicyReconciler \<Rightarrow> ('w, 'p, error option) startup" where
  "SetupWithManager L r = attempt L (AddController
     \<lparr>For = KindSecretRotationPolicy, Owns = [KindRotationRecord], Reconciler = r\<rparr>)"

definition policy_webhook :: webhook_build where
  "policy_webhook =
     \<lparr>ManagedBy = KindSecretRotationPolicy, Defaulter = Default,
      CreateValidator = ValidateCreate, UpdateValidator = ValidateUpdate,
      DeleteValidator = ValidateDelete\<rparr>"

definition SetupWebhookWithManager :: "('w, 'p) libraries \<Rightarrow> ('w, 'p, error option) startup" where
  "SetupWebhookWithManager L = attempt L (AddWebhook policy_webhook)"

definition main_body ::
  "('w, 'r provider_state) libraries \<Rightarrow> 'r rand \<Rightarrow> Flags \<Rightarrow>
   ('w, 'r provider_state, exit outcome) startup" where
  "main_body L rand fl =
     or_exit (attempt L GetConfig)
    (or_exit (attempt L (NewManager (manager_options fl)))
    (case operator rand of
       Panic msg \<Rightarrow> State_Monad.return (Panic msg)
     | Ret r \<Rightarrow>
         or_exit (SetupWithManager L r)
        (or_exit (SetupWebhookWithManager L)
        (or_exit (attempt L (AddHealthzCheck ''healthz''))
        (or_exit (attempt L (AddReadyzCheck ''readyz''))
        (or_exit (attempt L Start)
        (State_Monad.return (Ret Returned))))))))"

definition main ::
  "('w, 'r provider_state) libraries \<Rightarrow> 'r rand \<Rightarrow> 'z library_flags \<Rightarrow> string list \<Rightarrow>
   ('w, 'r provider_state, exit outcome) startup" where
  "main L rand C args =
    (case command_line C args of
       Panic msg \<Rightarrow> State_Monad.return (Panic msg)
     | Ret (Inl status) \<Rightarrow> State_Monad.return (Ret (Exited status))
     | Ret (Inr fl) \<Rightarrow> main_body L rand fl)"

text \<open>The collectors and the scheme are registered when the packages start.\<close>

definition program ::
  "('w, 'r provider_state) libraries \<Rightarrow> 'r rand \<Rightarrow> 'z library_flags \<Rightarrow> string list \<Rightarrow>
   ('w, 'r provider_state, exit outcome) startup" where
  "program L rand C args =
     must (attempt L (RegisterCollectors collectors))
    (must (attempt L AddClientGoToScheme)
    (must (add_to_scheme L api_package)
    (main L rand C args)))"

section \<open>All or nothing\<close>

text \<open>A chain of steps, each with what its failure makes of the process, and how it ends.\<close>

fun chain ::
  "('w, 'p) libraries \<Rightarrow> ('p startup_step \<times> (error \<Rightarrow> exit outcome)) list \<Rightarrow> exit \<Rightarrow>
   ('w, 'p, exit outcome) startup" where
  "chain L [] out = State_Monad.return (Ret out)"
| "chain L ((st, fails) # sts) out = do {
     err \<leftarrow> attempt L st;
     (case err of Some e \<Rightarrow> State_Monad.return (fails e) | None \<Rightarrow> chain L sts out)
   }"

text \<open>The steps of the packages, and those of \<^verbatim>\<open>main\<close> when the command line is accepted.\<close>

definition startup_plan ::
  "'r provider_state SecretRotationPolicyReconciler \<Rightarrow> int + Flags \<Rightarrow>
   ('r provider_state startup_step \<times> (error \<Rightarrow> exit outcome)) list" where
  "startup_plan r parsed =
    [(RegisterCollectors collectors, Panic \<circ> Error), (AddClientGoToScheme, Panic \<circ> Error),
     (AddToScheme GroupVersion scheme_kinds, Panic \<circ> Error)] @
    (case parsed of
       Inl status \<Rightarrow> []
     | Inr fl \<Rightarrow>
         [(GetConfig, \<lambda>_. Ret (Exited 1)), (NewManager (manager_options fl), \<lambda>_. Ret (Exited 1)),
          (AddController \<lparr>For = KindSecretRotationPolicy, Owns = [KindRotationRecord],
             Reconciler = r\<rparr>, \<lambda>_. Ret (Exited 1)),
          (AddWebhook policy_webhook, \<lambda>_. Ret (Exited 1)),
          (AddHealthzCheck ''healthz'', \<lambda>_. Ret (Exited 1)),
          (AddReadyzCheck ''readyz'', \<lambda>_. Ret (Exited 1)), (Start, \<lambda>_. Ret (Exited 1))])"

definition final_exit :: "int + Flags \<Rightarrow> exit" where
  "final_exit parsed = (case parsed of Inl status \<Rightarrow> Exited status | Inr fl \<Rightarrow> Returned)"

lemma program_chain:
  assumes "operator rand = Ret r" and "command_line C args = Ret parsed"
  shows "program L rand C args = chain L (startup_plan r parsed) (final_exit parsed)"
  by (cases parsed) (simp_all add: program_def main_def main_body_def startup_plan_def must_def
      or_exit_def final_exit_def assms SetupWithManager_def SetupWebhookWithManager_def comp_def)

text \<open>What a log of a chain looks like when \<open>n\<close> steps have succeeded.\<close>

definition log_after :: "('p startup_step \<times> 'f) list \<Rightarrow> nat \<Rightarrow> 'p startup_log" where
  "log_after sts n = map (\<lambda>(st, _). (st, True)) (take n sts) @
     (case drop n sts of [] \<Rightarrow> [] | (st, _) # _ \<Rightarrow> [(st, False)])"

lemma chain_log:
  "\<exists>n out w'. run_state (chain L sts fin) (w, log) = (out, (w', log @ log_after sts n)) \<and>
     n \<le> length sts \<and>
     (if n = length sts then out = Ret fin else \<exists>e. out = snd (sts ! n) e)"
proof (induction sts arbitrary: w log)
  case Nil
  then show ?case
    by (auto simp: log_after_def State_Monad.return_def)
next
  case (Cons a sts)
  obtain st fails where a: "a = (st, fails)" by fastforce
  obtain err w1 where L: "L st w = (err, w1)" by fastforce
  show ?case
  proof (cases err)
    case (Some e)
    then have "run_state (chain L (a # sts) fin) (w, log) =
        (fails e, (w1, log @ log_after (a # sts) 0))"
      by (simp add: a attempt_def State_Monad.bind_def State_Monad.return_def L log_after_def)
    then show ?thesis by (intro exI [of _ 0]) (auto simp: a)
  next
    case None
    obtain n out w' where IH: "run_state (chain L sts fin) (w1, log @ [(st, True)]) =
          (out, (w', (log @ [(st, True)]) @ log_after sts n))"
        "n \<le> length sts"
        "if n = length sts then out = Ret fin else \<exists>e. out = snd (sts ! n) e"
      using Cons.IH by blast
    then have "run_state (chain L (a # sts) fin) (w, log) =
        (out, (w', log @ log_after (a # sts) (Suc n)))"
      using None by (simp add: a attempt_def State_Monad.bind_def L log_after_def)
    then show ?thesis using IH(2,3) by (intro exI [of _ "Suc n"]) auto
  qed
qed

lemma log_steps: "map fst (log_after sts n) = take (Suc n) (map fst sts)"
  using take_add [of n 1 sts]
  by (auto simp: log_after_def take_map case_prod_beta split: list.splits)

definition plan_length :: "int + Flags \<Rightarrow> nat" where
  "plan_length parsed = (case parsed of Inl status \<Rightarrow> 3 | Inr fl \<Rightarrow> 10)"

lemma startup_plan_parts:
  "map snd (startup_plan r parsed) =
     replicate 3 (Panic \<circ> Error) @ replicate (plan_length parsed - 3) (\<lambda>_. Ret (Exited 1))"
  "length (startup_plan r parsed) = plan_length parsed"
  "Start \<in> set (take (Suc n) (map fst (startup_plan r (Inr fl)))) \<longleftrightarrow> 9 \<le> n"
  "Start \<notin> set (map fst (startup_plan r (Inl status)))"
proof -
  let ?steps = "map fst (startup_plan r (Inr fl))"
  have steps: "?steps = butlast ?steps @ [Start]" "length ?steps = 10"
      "Start \<notin> set (butlast ?steps)"
    by (simp_all add: startup_plan_def)
  have "take (Suc n) ?steps = take (Suc n) (butlast ?steps) @ take (n - 8) [Start]"
    using arg_cong [OF steps(1), where f = "take (Suc n)"] steps(2) by simp
  moreover have "Start \<notin> set (take (Suc n) (butlast ?steps))"
    using steps(3) by (meson in_set_takeD)
  ultimately show "Start \<in> set (take (Suc n) ?steps) \<longleftrightarrow> 9 \<le> n" by (cases "n - 8") auto
qed (simp_all add: startup_plan_def plan_length_def numeral_eq_Suc split: sum.split)

lemma startup_failure:
  assumes "n < plan_length parsed"
  shows "snd (startup_plan r parsed ! n) =
    (if n < 3 then Panic \<circ> Error else (\<lambda>_. Ret (Exited 1)))"
proof -
  have "snd (startup_plan r parsed ! n) = map snd (startup_plan r parsed) ! n"
    using assms by (simp add: startup_plan_parts(2))
  then show ?thesis using assms by (simp add: startup_plan_parts(1) nth_append)
qed

text \<open>
  C27.  The operator
  starts in a fixed order and each step is attempted only when all before it have succeeded; the
  manager, which runs the reconcilers, is started last, with the controller for policies and the
  records they own, the webhook, both probes and all four providers in place.  The first failure ends
  the process: by a panic during the initialisation of the packages, by exit status 1 afterwards.  A
  command line that is refused ends it after the packages, with status 0 for help and 2 otherwise,
  before the cluster is contacted.
\<close>

theorem startup_all_or_nothing:
  assumes "command_line C args = Ret parsed"
  shows "\<exists>r n out w'. operator rand = Ret r \<and>
     run_state (program L rand C args) (w, []) = (out, (w', log_after (startup_plan r parsed) n)) \<and>
     n \<le> plan_length parsed \<and>
     (if n < 3 then \<exists>msg. out = Panic msg
      else out = Ret (if n = plan_length parsed then final_exit parsed else Exited 1)) \<and>
     (Start \<in> fst ` set (log_after (startup_plan r parsed) n) \<longleftrightarrow> 9 \<le> n) \<and>
     (\<forall>status. parsed = Inl status \<longrightarrow> status \<in> {0, 2})"
proof -
  obtain r where r: "operator rand = Ret r"
    using operator_registry_contract [of rand] by (auto simp: operator_def)
  let ?plan = "startup_plan r parsed"
  obtain n out w' where run: "run_state (chain L ?plan (final_exit parsed)) (w, []) =
        (out, (w', [] @ log_after ?plan n))"
      "n \<le> length ?plan"
      "if n = length ?plan then out = Ret (final_exit parsed) else \<exists>e. out = snd (?plan ! n) e"
    using chain_log [of L ?plan "final_exit parsed" w "[]"] by blast
  note len = startup_plan_parts(2) [of r parsed]
  have "3 \<le> plan_length parsed" by (simp add: plan_length_def split: sum.split)
  then have "if n < 3 then \<exists>msg. out = Panic msg
      else out = Ret (if n = plan_length parsed then final_exit parsed else Exited 1)"
    using run(2,3) by (cases "n < plan_length parsed") (auto simp: len startup_failure split: if_splits)
  moreover have n: "n \<le> plan_length parsed" using run(2) by (simp add: len)
  moreover have "Start \<in> fst ` set (log_after ?plan n) \<longleftrightarrow> 9 \<le> n"
  proof (cases parsed)
    case (Inl status)
    then show ?thesis
      using n startup_plan_parts(4) [of r status]
      by (auto simp: log_steps plan_length_def simp flip: set_map dest: in_set_takeD)
  next
    case (Inr fl)
    then show ?thesis
      using startup_plan_parts(3) [of n r fl] by (simp add: log_steps flip: set_map)
  qed
  moreover have "run_state (program L rand C args) (w, []) = (out, (w', log_after ?plan n))"
    using run(1) by (simp add: program_chain [OF r assms])
  moreover have "\<forall>status. parsed = Inl status \<longrightarrow> status \<in> {0, 2}"
    using assms refused_status by auto
  ultimately show ?thesis using r by blast
qed

text \<open>A command line with an unknown flag, on libraries that never fail.\<close>

lemma unknown_flag: "command_line known_libraries [''--leader-elect'', ''--dry-run''] = Ret (Inl 2)"
  by (simp add: command_line_def known_libraries_def declare_flags_def main_flags_def StringVar_def
      BoolVar_def flag_Var_def Parse.simps split_flag_def Let_def set_flag_def ParseBool_def)

definition working_libraries :: "(unit, unit provider_state) libraries" where
  "working_libraries st w = (None, w)"

definition zero_source :: "unit rand" where
  "zero_source n s = (Inr (\<lambda>_. 0), s)"

lemma startup_all_or_nothing_witness:
  "Start \<notin> fst ` set (snd (snd (run_state (program working_libraries zero_source known_libraries
     [''--leader-elect'', ''--dry-run'']) ((), []))))"
proof -
  from startup_all_or_nothing [OF unknown_flag, of zero_source working_libraries "()"]
  obtain r n out w' where "run_state (program working_libraries zero_source known_libraries
        [''--leader-elect'', ''--dry-run'']) ((), []) =
        (out, (w', log_after (startup_plan r (Inl 2)) n))"
      "n \<le> 3" "Start \<in> fst ` set (log_after (startup_plan r (Inl 2)) n) \<longleftrightarrow> 9 \<le> n"
    unfolding plan_length_def by auto
  then show ?thesis by simp
qed

end
