(* ===== verification/Admission.thy ===== *)
theory Admission
  imports Conditions Startup
begin

text \<open>
  Admission in front of the store: the two webhooks as the markers of
  \<^verbatim>\<open>internal/webhook\<close> register them, what the API server makes of a request by them, and the
  operator over time in a cluster whose policies all came through admission.
\<close>

section \<open>The markers\<close>

datatype verb = VerbCreate | VerbUpdate | VerbDelete

record webhook_marker =
  wm_Path :: string
  wm_Mutating :: bool
  wm_FailurePolicy :: string
  wm_SideEffects :: string
  wm_Groups :: "string list"
  wm_Resources :: "string list"
  wm_Verbs :: "verb list"
  wm_Versions :: "string list"
  wm_Name :: string
  wm_AdmissionReviewVersions :: "string list"

definition mutating_marker :: webhook_marker where
  "mutating_marker =
    \<lparr>wm_Path = ''/mutate-secrets-keysmith-io-v1alpha1-secretrotationpolicy'', wm_Mutating = True,
     wm_FailurePolicy = ''fail'', wm_SideEffects = ''None'', wm_Groups = [''secrets.keysmith.io''],
     wm_Resources = [''secretrotationpolicies''], wm_Verbs = [VerbCreate, VerbUpdate],
     wm_Versions = [''v1alpha1''], wm_Name = ''msecretrotationpolicy.kb.io'',
     wm_AdmissionReviewVersions = [''v1'']\<rparr>"

definition validating_marker :: webhook_marker where
  "validating_marker =
    \<lparr>wm_Path = ''/validate-secrets-keysmith-io-v1alpha1-secretrotationpolicy'', wm_Mutating = False,
     wm_FailurePolicy = ''fail'', wm_SideEffects = ''None'', wm_Groups = [''secrets.keysmith.io''],
     wm_Resources = [''secretrotationpolicies''], wm_Verbs = [VerbCreate, VerbUpdate],
     wm_Versions = [''v1alpha1''], wm_Name = ''vsecretrotationpolicy.kb.io'',
     wm_AdmissionReviewVersions = [''v1'']\<rparr>"

text \<open>
  The paths that the builder of controller-runtime serves are made of the group, the version and the
  kind; the markers send the requests there.
\<close>

definition served_path :: "string \<Rightarrow> string \<times> string \<Rightarrow> string \<Rightarrow> string" where
  "served_path route gv kind =
     route @ map (\<lambda>c. if c = CHR ''.'' then CHR ''-'' else c) (fst gv) @ ''-'' @ snd gv @ ''-'' @ kind"

lemma markers_reach_the_builder:
  "wm_Path mutating_marker = served_path ''/mutate-'' GroupVersion ''secretrotationpolicy''"
  "wm_Path validating_marker = served_path ''/validate-'' GroupVersion ''secretrotationpolicy''"
  by (simp_all add: mutating_marker_def validating_marker_def served_path_def GroupVersion_def)

section \<open>Requests\<close>

text \<open>
  A request to the API server about a policy: the object sent, and for an update the stored one.
\<close>

datatype request =
    CreateRequest SecretRotationPolicy
  | UpdateRequest SecretRotationPolicy SecretRotationPolicy
  | DeleteRequest SecretRotationPolicy

fun request_verb :: "request \<Rightarrow> verb" where
  "request_verb (CreateRequest p) = VerbCreate"
| "request_verb (UpdateRequest old p) = VerbUpdate"
| "request_verb (DeleteRequest old) = VerbDelete"

fun subject :: "request \<Rightarrow> SecretRotationPolicy" where
  "subject (CreateRequest p) = p"
| "subject (UpdateRequest old p) = p"
| "subject (DeleteRequest old) = old"

definition policy_resource :: string where
  "policy_resource = ''secretrotationpolicies''"

text \<open>A webhook is consulted when its marker names the group, version, resource and verb.\<close>

definition consulted :: "webhook_marker \<Rightarrow> request \<Rightarrow> bool" where
  "consulted wm rq \<longleftrightarrow> fst GroupVersion \<in> set (wm_Groups wm) \<and> snd GroupVersion \<in> set (wm_Versions wm) \<and>
     policy_resource \<in> set (wm_Resources wm) \<and> request_verb rq \<in> set (wm_Verbs wm)"

fun validator :: "webhook_build \<Rightarrow> cron \<Rightarrow> request \<Rightarrow> SecretRotationPolicy \<Rightarrow> error option" where
  "validator wb cron (CreateRequest _) q = CreateValidator wb cron q"
| "validator wb cron (UpdateRequest old _) q = UpdateValidator wb cron old q"
| "validator wb cron (DeleteRequest old) q = DeleteValidator wb old"

definition schema_error :: error where
  "schema_error = External ''Invalid'' ''the object does not match the schema''"

text \<open>
  The API server: the mutating webhook, then the schema (of objects that are stored), then the
  validating webhook, each called by its marker; the handlers are those of the registered builder.
\<close>

definition admit :: "cron \<Rightarrow> request \<Rightarrow> error + SecretRotationPolicy" where
  "admit cron rq =
    (let q = (if consulted mutating_marker rq then Defaulter policy_webhook (subject rq)
              else subject rq) in
     if request_verb rq \<noteq> VerbDelete \<and> \<not> crd_valid (srp_Spec q) then Inl schema_error
     else case (if consulted validating_marker rq then validator policy_webhook cron rq q else None) of
            Some e \<Rightarrow> Inl e
          | None \<Rightarrow> Inr q)"

lemma consulted_iff [simp]:
  "consulted mutating_marker rq \<longleftrightarrow> request_verb rq \<noteq> VerbDelete"
  "consulted validating_marker rq \<longleftrightarrow> request_verb rq \<noteq> VerbDelete"
  by (cases rq; simp add: consulted_def mutating_marker_def validating_marker_def GroupVersion_def
      policy_resource_def)+

section \<open>Admitted policies\<close>

definition admitted :: "cron \<Rightarrow> SecretRotationPolicy \<Rightarrow> bool" where
  "admitted cron p \<longleftrightarrow> Default p = p \<and> crd_valid (srp_Spec p) \<and> validate cron p = None"

lemma Default_fixed_iff:
  "Default p = p \<longleftrightarrow> HistoryLimit (Policy (srp_Spec p)) \<noteq> None \<and>
     rp_FailurePolicy (Policy (srp_Spec p)) \<noteq> FailurePolicyUnset"
proof
  assume "Default p = p"
  with Default_fields(1,2) [of p] show "HistoryLimit (Policy (srp_Spec p)) \<noteq> None \<and>
      rp_FailurePolicy (Policy (srp_Spec p)) \<noteq> FailurePolicyUnset"
    by (auto split: option.splits if_splits)
qed (simp add: Default_def Let_def)

lemma admitted_spec: "srp_Spec q = srp_Spec p \<Longrightarrow> admitted cron q = admitted cron p"
  by (simp add: admitted_def Default_fixed_iff validate_def)

lemma admit_admitted:
  "admit cron (CreateRequest p) = Inr q \<longleftrightarrow> Default p = q \<and> admitted cron q"
  "admit cron (UpdateRequest old p) = Inr q \<longleftrightarrow> Default p = q \<and> admitted cron q"
  "admit cron (DeleteRequest old) = Inr old"
  by (auto simp: admit_def Let_def policy_webhook_def ValidateCreate_def ValidateUpdate_def
      ValidateDelete_def admitted_def Default_admits split: option.splits)

lemma admitted_parses:
  "admitted cron p \<Longrightarrow> \<exists>sched. cron standard_parser (Schedule (srp_Spec p)) = Inr sched"
  by (simp add: admitted_def validate_None_iff)

section \<open>The controller's own updates\<close>

text \<open>Every update of the policy that a reconcile sends has the spec that was fetched.\<close>

lemma updates_keep_spec:
  assumes "orderly X" and "registry_ok (Registry r)"
    and "fst (get_policy X req (world s)) = Inr p"
    and "EvUpdatePolicy q ok \<in> set (events (Reconcile X r req) s)"
  shows "srp_Spec q = srp_Spec p"
proof -
  have "list_all (in_scope p) (events (reconcilePolicy X (Registry r) p) (fetched X req s))"
    using emitsD(1) [OF emits_reconcilePolicy_confined [OF assms(1,2)]] .
  with assms(3,4) show ?thesis
    by (auto simp: Reconcile_steps list_all_iff same_policy_def)
qed

text \<open>
  So the webhooks never stand in the way of the controller: the updates of an admitted policy that a
  reconcile sends, the finalizer added or removed and the annotation taken off, pass through both
  webhooks and the schema, and come out as they were sent.
\<close>

definition passes :: "cron \<Rightarrow> SecretRotationPolicy \<Rightarrow> event \<Rightarrow> bool" where
  "passes cron p e =
    (case e of EvUpdatePolicy q _ \<Rightarrow> admit cron (UpdateRequest p q) = Inr q | _ \<Rightarrow> True)"

lemma own_updates_pass:
  assumes "orderly X" and "registry_ok (Registry r)"
    and "fst (get_policy X req (world s)) = Inr p" and "admitted cron p"
  shows "list_all (passes cron p) (events (Reconcile X r req) s)"
  unfolding list_all_iff
proof
  fix e assume e: "e \<in> set (events (Reconcile X r req) s)"
  show "passes cron p e"
  proof (cases e)
    case (EvUpdatePolicy q ok)
    then have "srp_Spec q = srp_Spec p" using updates_keep_spec [OF assms(1-3)] e by simp
    then have "admitted cron q" using assms(4) admitted_spec by blast
    then show ?thesis by (simp add: EvUpdatePolicy passes_def admit_admitted) (simp add: admitted_def)
  qed (simp_all add: passes_def)
qed

section \<open>Updates that are not admitted\<close>

text \<open>A server that stores an update only when admission lets it through.\<close>

definition guarded :: "'w Ext \<Rightarrow> bool" where
  "guarded X \<longleftrightarrow> (\<forall>p w. snd (fst (update_policy X p w)) = None \<longrightarrow>
     (\<exists>old q. admit (parse_cron X) (UpdateRequest old p) = Inr q))"

lemma guardedD:
  assumes "guarded X" and "validate (parse_cron X) p \<noteq> None"
  shows "snd (fst (update_policy X p w)) \<noteq> None"
proof
  assume "snd (fst (update_policy X p w)) = None"
  then have "admitted (parse_cron X) (Default p)"
    using assms(1) unfolding guarded_def by (metis admit_admitted(2))
  with assms(2) show False by (simp add: admitted_def Default_admits)
qed

lemma emits_UpdatePolicy_refused:
  assumes "guarded X" and "validate (parse_cron X) p \<noteq> None"
    and "\<And>q e. R (q, Some e) [EvUpdatePolicy p False]"
  shows "emits (UpdatePolicy X p) R"
  unfolding UpdatePolicy_def
proof (rule emits_external_of)
  fix w
  obtain q e where "fst (update_policy X p w) = (q, Some e)"
    using guardedD [OF assms(1,2)] by (metis prod.collapse not_None_eq)
  then show "R (fst (update_policy X p w)) [EvUpdatePolicy p (snd (fst (update_policy X p w)) = None)]"
    using assms(3) by simp
qed

lemma validate_meta [simp]: "validate cron (p\<lparr>srp_Meta := m\<rparr>) = validate cron p"
  by (simp add: validate_def)

text \<open>
  C37.  The webhook does validate the update that removes the finalizer.  A
  policy that it would not admit, one that was stored before the webhook was there, can therefore
  neither be taken into care nor be released: the reconcile returns the refusal as its error, nothing
  stored changes, no secret is written, and an object under deletion stays.
\<close>

theorem unadmitted_policy_stuck:
  assumes "lawful X stored" and "guarded X" and "get_policy X req (world s) = (Inr p, w)"
    and "validate (parse_cron X) p \<noteq> None"
    and "being_deleted p \<longleftrightarrow> ContainsFinalizer X (srp_Meta p) FinalizerName"
  shows "(\<exists>e. result (Reconcile X r req) s = Ret (no_result, Some e)) \<and>
    (\<exists>q. events (Reconcile X r req) s = [EvGetPolicy req True, EvUpdatePolicy q False]) \<and>
    stored (world (run_on (Reconcile X r req) s)) = stored (world s)"
proof -
  have "emits (reconcilePolicy X (Registry r) p) (\<lambda>out es. (\<exists>e. out = Ret (no_result, Some e)) \<and>
      (\<exists>q. es = [EvUpdatePolicy q False]))"
    unfolding reconcilePolicy_def handleDeletion_def Let_def using assms(4,5)
    by (intro emits_if emits_bind emits_UpdatePolicy_refused [OF assms(2)] emits_case_prod
        emits_case_option emits_record_event emits_return) auto
  from emitsD(1) [OF this, of "fetched X req s"] show ?thesis
    using assms(3) by (auto simp: stored_after [OF assms(1)] Reconcile_steps)
qed

section \<open>The store behind admission\<close>

definition no_status :: SecretRotationPolicyStatus where
  "no_status = \<lparr>LastRotationTime = None, NextRotationTime = None, srps_Phase = PhaseUnset,
     CurrentRetryCount = 0, LastRotationRecord = None, Conditions = []\<rparr>"

text \<open>
  What the server stores of an admitted request: a new object has no status, an update keeps the
  stored one, and an object with finalizers is only marked for deletion.
\<close>

fun after_request :: "gotime \<Rightarrow> request \<Rightarrow> SecretRotationPolicy \<Rightarrow> policies \<Rightarrow> policies" where
  "after_request t (CreateRequest _) q m =
     (if m (policy_key q) = None then m(policy_key q \<mapsto> q\<lparr>srp_Status := no_status\<rparr>) else m)"
| "after_request t (UpdateRequest _ _) q m = after_update q m"
| "after_request t (DeleteRequest _) q m =
     (case m (policy_key q) of
        None \<Rightarrow> m
      | Some old \<Rightarrow>
          if Finalizers (srp_Meta old) = [] then m(policy_key q := None)
          else m(policy_key q \<mapsto> map_meta (\<lambda>mt. mt\<lparr>DeletionTimestamp := Some t\<rparr>) old))"

text \<open>
  The operator with users that change policies through admission only: reconciles, deliveries,
  requests, and changes of anything but the policies.
\<close>

inductive governed ::
  "('w \<Rightarrow> policies) \<Rightarrow> 'w Ext \<Rightarrow> 'p SecretRotationPolicyReconciler \<Rightarrow>
   ('w, 'p) system \<Rightarrow> ('w, 'p) system \<Rightarrow> bool"
  for stored :: "'w \<Rightarrow> policies" and X :: "'w Ext" and r :: "'p SecretRotationPolicyReconciler" where
  reconciled: "governed stored X r S (S\<lparr>proc := run_on (Reconcile X r req) (proc S),
     pending := pending S @ notified (events (Reconcile X r req) (proc S))\<rparr>)"
| posted: "pending S = before @ (url, payload) # after \<Longrightarrow>
   governed stored X r S (S\<lparr>proc := run_on (deliver_notification X url payload) (proc S),
     pending := before @ after, delivered_to := delivered_to S @ [(url, payload)]\<rparr>)"
| requested: "admit (parse_cron X) rq = Inr q \<Longrightarrow>
   stored w = after_request t rq q (stored (world (proc S))) \<Longrightarrow>
   governed stored X r S (S\<lparr>proc := (proc S)\<lparr>world := w\<rparr>\<rparr>)"
| passed: "stored w = stored (world (proc S)) \<Longrightarrow>
   governed stored X r S (S\<lparr>proc := (proc S)\<lparr>world := w\<rparr>\<rparr>)"

lemma governed_system_step: "governed stored X r S T \<Longrightarrow> system_step X r S T"
  by (induction rule: governed.induct) (auto intro: system_step.intros)

definition sound_policy :: "cron \<Rightarrow> SecretRotationPolicy \<Rightarrow> bool" where
  "sound_policy cron p \<longleftrightarrow> admitted cron p \<and> condition ConditionDegraded p = None"

definition sound :: "cron \<Rightarrow> policies \<Rightarrow> bool" where
  "sound cron m \<longleftrightarrow> (\<forall>key p. m key = Some p \<longrightarrow> sound_policy cron p)"

lemma sound_policy_simps [simp]:
  "sound_policy cron (p\<lparr>srp_Meta := m\<rparr>) = sound_policy cron p"
  "sound_policy cron (p\<lparr>srp_Status := no_status\<rparr>) = admitted cron p"
  by (auto simp: sound_policy_def admitted_def Default_fixed_iff validate_def condition_def no_status_def)

lemma sound_policy_update:
  "srp_Spec q = srp_Spec p \<Longrightarrow> sound_policy cron p \<Longrightarrow>
   sound_policy cron (q\<lparr>srp_Status := srp_Status p\<rparr>)"
  "condition ConditionDegraded q = None \<Longrightarrow> sound_policy cron p \<Longrightarrow>
   sound_policy cron (p\<lparr>srp_Status := srp_Status q\<rparr>)"
  by (auto simp: sound_policy_def admitted_def Default_fixed_iff validate_def condition_def)

lemma sound_request:
  assumes "sound cron m" and "admit cron rq = Inr q"
  shows "sound cron (after_request t rq q m)"
proof (cases rq)
  case (UpdateRequest old p)
  then have "sound_policy cron (q\<lparr>srp_Status := srp_Status p'\<rparr>)" if "m (policy_key q) = Some p'" for p'
    using assms that
    by (auto simp: admit_admitted sound_def sound_policy_def admitted_def Default_fixed_iff
        validate_def condition_def)
  with UpdateRequest assms(1) show ?thesis
    by (auto simp: sound_def after_update_def split: option.splits)
qed (use assms in \<open>auto simp: sound_def admit_admitted split: option.splits\<close>)

text \<open>What the updates and statuses of a trace have to send for the store to stay sound.\<close>

definition harmless :: "SecretRotationPolicySpec \<Rightarrow> event \<Rightarrow> bool" where
  "harmless sp e =
    (case e of
       EvUpdatePolicy q _ \<Rightarrow> srp_Spec q = sp
     | EvUpdatePolicyStatus q _ \<Rightarrow> condition ConditionDegraded q = None
     | _ \<Rightarrow> True)"

lemma replay_sound:
  assumes "list_all (in_scope p) es" and "list_all (harmless (srp_Spec p)) es"
    and "\<And>q. m (policy_key p) = Some q \<Longrightarrow> sound_policy cron q \<and> srp_Spec q = srp_Spec p"
    and "replay es m (policy_key p) = Some q"
  shows "sound_policy cron q"
  using assms
proof (induction es arbitrary: m)
  case Nil
  then show ?case by simp
next
  case (Cons e es)
  have "sound_policy cron q' \<and> srp_Spec q' = srp_Spec p"
    if q': "apply_event e m (policy_key p) = Some q'" for q'
  proof (cases "\<exists>u ok. e = EvUpdatePolicy u ok \<or> e = EvUpdatePolicyStatus u ok")
    case True
    then obtain u ok where u: "e = EvUpdatePolicy u ok \<or> e = EvUpdatePolicyStatus u ok" by blast
    moreover from this Cons.prems(1) have "policy_key u = policy_key p"
      by (auto simp: same_policy_def policy_key_def)
    ultimately show ?thesis
      using q' Cons.prems(2,3) sound_policy_update [where cron = cron and q = u]
      by (auto simp: after_update_def after_status_update_def harmless_def
          split: option.splits if_splits)
  next
    case False
    then have "apply_event e m = m" by (auto simp: apply_event_def split: event.splits)
    with q' Cons.prems(3) show ?thesis by simp
  qed
  with Cons.IH [of "apply_event e m"] Cons.prems show ?case by simp
qed

text \<open>A reconcile of an admitted policy does not degrade it.\<close>

lemma Reconcile_not_degraded:
  assumes "keeps_conditions X" and "fst (get_policy X req (world s)) = Inr p"
    and "admitted (parse_cron X) p" and "q \<in> set (statuses (events (Reconcile X r req) s))"
  shows "condition ConditionDegraded q = condition ConditionDegraded p"
proof -
  have "condition ConditionDegraded q = condition ConditionDegraded p \<or>
      (\<exists>v. reason_for X (Registry r) (srp_Spec p) (events (Reconcile X r req) s) ConditionDegraded v)"
    using Reconcile_reasoned [OF assms(1,2)] assms(4)
    by (auto simp: reasoned_def changes_to_def list_all_iff)
  with admitted_parses [OF assms(3)] show ?thesis
    by (auto simp: reason_for_def condition_types)
qed

lemma Reconcile_sound:
  assumes "lawful X stored" and "orderly X" and "keeps_conditions X" and "registry_ok (Registry r)"
    and "sound (parse_cron X) (stored (world s))"
  shows "sound (parse_cron X) (stored (world (run_on (Reconcile X r req) s)))"
  unfolding sound_def
proof (intro allI impI)
  fix key q
  let ?es = "events (Reconcile X r req) s"
  assume q: "stored (world (run_on (Reconcile X r req) s)) key = Some q"
  show "sound_policy (parse_cron X) q"
  proof (cases "key = req \<and> (\<exists>p. fst (get_policy X req (world s)) = Inr p)")
    case False
    then have "stored (world s) key = Some q"
      using q stored_elsewhere [OF assms(1,2,4), of key req s]
      by (cases "fst (get_policy X req (world s))")
        (auto simp: stored_after [OF assms(1)] Reconcile_steps)
    with assms(5) show ?thesis by (auto simp: sound_def)
  next
    case True
    then obtain p where p: "fst (get_policy X req (world s)) = Inr p" and key: "key = req" by blast
    note stored_p = lawful_fetched [OF assms(1) p]
    have ok: "sound_policy (parse_cron X) p" using assms(5) stored_p(1) by (simp add: sound_def)
    have scope: "list_all (in_scope p) ?es"
      by (rule Reconcile_scope [OF assms(2,4) p stored_p(2)])
    have "list_all (harmless (srp_Spec p)) ?es"
      unfolding list_all_iff
    proof
      fix e assume e: "e \<in> set ?es"
      show "harmless (srp_Spec p) e"
      proof (cases e)
        case (EvUpdatePolicy u k)
        with e scope show ?thesis by (auto simp: list_all_iff harmless_def same_policy_def)
      next
        case (EvUpdatePolicyStatus u k)
        then have "u \<in> set (statuses ?es)" using e by (auto simp: statuses_def)
        then show ?thesis
          using ok EvUpdatePolicyStatus Reconcile_not_degraded [OF assms(3) p]
          by (simp add: harmless_def sound_policy_def)
      qed (simp_all add: harmless_def)
    qed
    from replay_sound [OF scope this, of "stored (world s)" "parse_cron X" q]
    show ?thesis using ok stored_p q key by (simp add: stored_after [OF assms(1)])
  qed
qed

lemma governed_sound:
  assumes "lawful X stored" and "orderly X" and "keeps_conditions X" and "registry_ok (Registry r)"
  shows "inductive_invariant (\<lambda>S. stored (world (proc S)) = Map.empty) (governed stored X r)
    (\<lambda>S. sound (parse_cron X) (stored (world (proc S))))"
proof
  fix S
  show "stored (world (proc S)) = Map.empty \<Longrightarrow> sound (parse_cron X) (stored (world (proc S)))"
    by (simp add: sound_def)
next
  fix S T
  assume inv: "sound (parse_cron X) (stored (world (proc S)))" and "governed stored X r S T"
  from this(2) show "sound (parse_cron X) (stored (world (proc T)))"
  proof cases
    case (reconciled req)
    then show ?thesis using Reconcile_sound [OF assms inv] by simp
  next
    case (posted before url payload after)
    then show ?thesis using inv by (simp add: stored_after_delivery [OF assms(1)])
  next
    case (requested rq q w t)
    then show ?thesis using sound_request [OF inv] by simp
  next
    case (passed w)
    then show ?thesis using inv by simp
  qed
qed

lemma operator_registered: "operator rand = Ret r \<Longrightarrow> registry_ok (Registry r)"
  using operator_registry_contract [of rand]
  by (cases "operator_registry rand") (auto simp: operator_def)

text \<open>
  C10.  Where policies come in through admission only, from an empty
  store on, every policy that is ever stored, also after any reconciles, failures and requests in
  any order, has its defaults, matches the schema and passes the webhook's validation, and none is ever
  degraded; a reconcile of any key returns without a panic, and every update that it sends passes
  admission unchanged.
\<close>

theorem admitted_policies_run_safely:
  assumes "lawful X stored" and "orderly X" and "keeps_conditions X" and "operator rand = Ret r"
    and "reachable (\<lambda>S. stored (world (proc S)) = Map.empty) (governed stored X r) S"
  shows "(\<exists>res err. result (Reconcile X r req) (proc S) = Ret (res, err)) \<and>
    (case stored (world (proc S)) req of
       None \<Rightarrow> True
     | Some p \<Rightarrow> admitted (parse_cron X) p \<and> condition ConditionDegraded p = None \<and>
         list_all (passes (parse_cron X) p) (events (Reconcile X r req) (proc S)))"
proof -
  have sound: "sound (parse_cron X) (stored (world (proc S)))"
    using inductive_invariant.holds [OF governed_sound [OF assms(1-3) operator_registered [OF assms(4)]]
        assms(5)] .
  have "crd_valid (srp_Spec p)" if "fst (get_policy X req (world (proc S))) = Inr p" for p
    using lawful_fetched(1) [OF assms(1) that] sound
    by (simp add: sound_def sound_policy_def admitted_def)
  with operator_reconcile_returns [OF assms(4) lawful_keeps [OF assms(1)]] assms(2)
  have "\<exists>res err. result (Reconcile X r req) (proc S) = Ret (res, err)"
    by (simp add: orderly_def)
  moreover have "list_all (passes (parse_cron X) p) (events (Reconcile X r req) (proc S))"
    if p: "stored (world (proc S)) req = Some p" for p
  proof (cases "fst (get_policy X req (world (proc S)))")
    case (Inl e)
    then show ?thesis by (simp add: Reconcile_steps passes_def)
  next
    case (Inr q)
    then have "q = p" using lawful_fetched(1) [OF assms(1)] p by fastforce
    with Inr own_updates_pass [OF assms(2) operator_registered [OF assms(4)], of req "proc S" p] sound p
    show ?thesis by (simp add: sound_def sound_policy_def)
  qed
  ultimately show ?thesis
    using sound by (simp add: sound_def sound_policy_def split: option.split)
qed

section \<open>Examples\<close>

text \<open>A server may refuse updates.\<close>

lemma refusing_lawful:
  assumes "lawful X stored"
    and "\<And>p w. f p w = update_policy X p w \<or> (\<exists>e. f p w = ((p, Some e), w))"
  shows "lawful (X\<lparr>update_policy := f\<rparr>) stored"
proof -
  have update: "\<forall>p w. stored (snd (update_policy X p w)) =
      (if snd (fst (update_policy X p w)) = None then after_update p (stored w) else stored w)"
    using assms(1) unfolding lawful_def by (elim conjE)
  have "stored (snd (f p w)) =
      (if snd (fst (f p w)) = None then after_update p (stored w) else stored w)" for p w
    using assms(2) [of p w] update by auto
  moreover have "same_policy (fst (fst (f p w))) p" for p w
    using assms(2) [of p w] lawful_keeps [OF assms(1)] by (auto simp: keeps_policy_def)
  ultimately show ?thesis
    using assms(1) by (simp add: lawful_def keeps_policy_def)
qed

lemma refusing_orderly:
  assumes "orderly X" and "\<And>p w. f p w = update_policy X p w \<or> (\<exists>e. f p w = ((p, Some e), w))"
  shows "orderly (X\<lparr>update_policy := f\<rparr>)"
proof -
  have "same_policy (fst (fst (f p w))) p" for p w
    using assms(2) [of p w] assms(1) by (auto simp: orderly_def keeps_policy_def)
  then show ?thesis using assms(1) by (simp add: orderly_def keeps_policy_def)
qed

lemma careful_refuses:
  "careful_update p c = update_policy cluster_ext p c \<or> (\<exists>e. careful_update p c = ((p, Some e), c))"
  by (auto simp: careful_update_def cluster_ext_def split: option.split)

lemma careful_server: "lawful careful_ext cluster_policies" "orderly careful_ext"
  unfolding careful_ext_def
  by (rule refusing_lawful [OF cluster_lawful careful_refuses]
      refusing_orderly [OF cluster_orderly careful_refuses])+

lemma example_admitted: "admitted hourly example_policy"
  using example_crd by (simp add: admitted_def Default_fixed_iff validate_None_iff)
    (simp add: example_policy_def hourly_def)

text \<open>A server with the webhook in front, and a policy under deletion whose schedule does not parse.\<close>

definition guarded_update ::
  "SecretRotationPolicy \<Rightarrow> cluster \<Rightarrow> (SecretRotationPolicy \<times> error option) \<times> cluster" where
  "guarded_update p c =
    (case admit hourly (UpdateRequest p p) of
       Inl e \<Rightarrow> ((p, Some e), c)
     | Inr _ \<Rightarrow> cluster_update p c)"

definition guarded_ext :: "cluster Ext" where
  "guarded_ext = cluster_ext\<lparr>update_policy := guarded_update\<rparr>"

lemma guarded_server: "lawful guarded_ext cluster_policies" "guarded guarded_ext"
proof -
  have "guarded_update p c = update_policy cluster_ext p c \<or> (\<exists>e. guarded_update p c = ((p, Some e), c))"
    for p c
    by (simp add: guarded_update_def cluster_ext_def split: sum.split)
  then show "lawful guarded_ext cluster_policies"
    unfolding guarded_ext_def by (rule refusing_lawful [OF cluster_lawful])
  show "guarded guarded_ext"
    unfolding guarded_def
  proof (intro allI impI)
    fix p w assume "snd (fst (update_policy guarded_ext p w)) = None"
    then have "\<exists>q. admit hourly (UpdateRequest p p) = Inr q"
      by (cases "admit hourly (UpdateRequest p p)") (simp_all add: guarded_ext_def guarded_update_def)
    then show "\<exists>old q. admit (parse_cron guarded_ext) (UpdateRequest old p) = Inr q"
      by (auto simp: guarded_ext_def cluster_ext_def)
  qed
qed

definition deleted_policy :: SecretRotationPolicy where
  "deleted_policy = map_meta (\<lambda>m. m\<lparr>DeletionTimestamp := Some 1\<rparr>)
     (example_policy\<lparr>srp_Spec := (srp_Spec example_policy)\<lparr>Schedule := ''0 0 31 2 *''\<rparr>\<rparr>)"

definition deleted_process :: "(cluster, unit provider_state) process" where
  "deleted_process =
     start_process (example_cluster\<lparr>cl_policies := [example_key \<mapsto> deleted_policy]\<rparr>)
       \<lparr>rotateCount = 0, entropy = ()\<rparr>"

lemma unadmitted_policy_stuck_witness:
  "cluster_policies (world (run_on (Reconcile guarded_ext example_reconciler example_key)
     deleted_process)) example_key = Some deleted_policy"
proof -
  have key: "policy_key deleted_policy = example_key"
    by (simp add: deleted_policy_def policy_key_def example_key_def example_policy_def)
  then have "get_policy guarded_ext example_key (world deleted_process) =
      (Inr deleted_policy, world deleted_process)"
    by (simp add: guarded_ext_def deleted_process_def start_process_def cluster_defs)
  moreover have "validate (parse_cron guarded_ext) deleted_policy \<noteq> None"
    by (simp add: guarded_ext_def cluster_ext_def deleted_policy_def validate_def hourly_def)
  moreover have "being_deleted deleted_policy \<longleftrightarrow>
      ContainsFinalizer guarded_ext (srp_Meta deleted_policy) FinalizerName"
    by (simp add: guarded_ext_def cluster_ext_def deleted_policy_def being_deleted_def
        example_policy_def zero_time_def)
  ultimately have "cluster_policies (world (run_on (Reconcile guarded_ext example_reconciler example_key)
      deleted_process)) = cluster_policies (world deleted_process)"
    using unadmitted_policy_stuck [OF guarded_server] by blast
  with key show ?thesis
    by (simp add: deleted_process_def start_process_def cluster_policies_def)
qed

text \<open>An empty cluster, into which the example policy is created.\<close>

definition empty_system :: "(cluster, unit provider_state) system" where
  "empty_system = \<lparr>proc = start_process (example_cluster\<lparr>cl_policies := Map.empty\<rparr>)
     \<lparr>rotateCount = 0, entropy = ()\<rparr>, pending = [], delivered_to = []\<rparr>"

lemma example_requested:
  "reachable (\<lambda>S. cluster_policies (world (proc S)) = Map.empty) (governed cluster_policies careful_ext r)
     (empty_system\<lparr>proc := (proc empty_system)\<lparr>world := example_cluster\<rparr>\<rparr>)"
proof (rule reachable.further [OF reachable.start])
  show empty: "cluster_policies (world (proc empty_system)) = Map.empty"
    by (simp add: empty_system_def start_process_def cluster_policies_def fun_eq_iff)
  have "admit hourly (CreateRequest example_policy) = Inr example_policy"
    using example_admitted by (simp add: admit_admitted) (simp add: admitted_def)
  moreover have "cluster_policies example_cluster = [example_key \<mapsto> example_policy]"
    by (auto simp: cluster_policies_def example_cluster_def)
  moreover have "example_policy\<lparr>srp_Status := no_status\<rparr> = example_policy"
    by (simp add: example_policy_def no_status_def)
  ultimately show "governed cluster_policies careful_ext r empty_system
      (empty_system\<lparr>proc := (proc empty_system)\<lparr>world := example_cluster\<rparr>\<rparr>)"
    using empty
    by (intro governed.requested [where rq = "CreateRequest example_policy" and q = example_policy])
      (simp_all add: careful_answers)
qed

lemma admitted_policies_run_safely_witness:
  "\<exists>r res err. operator zero_source = Ret r \<and>
     result (Reconcile careful_ext r example_key)
       ((proc empty_system)\<lparr>world := example_cluster\<rparr>) = Ret (res, err)"
proof -
  obtain r where r: "operator zero_source = Ret r"
    using operator_registry_contract [of zero_source] by (auto simp: operator_def)
  from admitted_policies_run_safely [OF careful_server careful_keeps this example_requested,
      of example_key] r
  show ?thesis by (auto simp: careful_answers)
qed

end
