(* ===== verification/Permissions.thy ===== *)
theory Permissions
  imports System
begin

text \<open>
  The permission markers of the reconciler, from which the manager's role is generated, and that they
  grant every call of the Kubernetes API that a reconcile makes.
\<close>

section \<open>The markers\<close>

record rbac_rule =
  rbac_Groups :: "string list"
  rbac_Resources :: "string list"
  rbac_Verbs :: "string list"

definition policies_rule :: rbac_rule where
  "policies_rule =
    \<lparr>rbac_Groups = [''secrets.keysmith.io''], rbac_Resources = [''secretrotationpolicies''],
     rbac_Verbs = [''get'', ''list'', ''watch'', ''create'', ''update'', ''patch'', ''delete'']\<rparr>"

definition policies_status_rule :: rbac_rule where
  "policies_status_rule =
    \<lparr>rbac_Groups = [''secrets.keysmith.io''], rbac_Resources = [''secretrotationpolicies/status''],
     rbac_Verbs = [''get'', ''update'', ''patch'']\<rparr>"

definition policies_finalizers_rule :: rbac_rule where
  "policies_finalizers_rule =
    \<lparr>rbac_Groups = [''secrets.keysmith.io''], rbac_Resources = [''secretrotationpolicies/finalizers''],
     rbac_Verbs = [''update'']\<rparr>"

definition records_rule :: rbac_rule where
  "records_rule =
    \<lparr>rbac_Groups = [''secrets.keysmith.io''], rbac_Resources = [''rotationrecords''],
     rbac_Verbs = [''get'', ''list'', ''watch'', ''create'', ''update'', ''patch'', ''delete'']\<rparr>"

definition records_status_rule :: rbac_rule where
  "records_status_rule =
    \<lparr>rbac_Groups = [''secrets.keysmith.io''], rbac_Resources = [''rotationrecords/status''],
     rbac_Verbs = [''get'', ''update'', ''patch'']\<rparr>"

definition secrets_rule :: rbac_rule where
  "secrets_rule =
    \<lparr>rbac_Groups = [''''], rbac_Resources = [''secrets''],
     rbac_Verbs = [''get'', ''list'', ''watch'', ''create'', ''update'', ''patch'']\<rparr>"

definition workloads_rule :: rbac_rule where
  "workloads_rule =
    \<lparr>rbac_Groups = [''apps''], rbac_Resources = [''deployments'', ''statefulsets'', ''daemonsets''],
     rbac_Verbs = [''get'', ''list'', ''watch'', ''update'', ''patch'']\<rparr>"

definition events_rule :: rbac_rule where
  "events_rule =
    \<lparr>rbac_Groups = [''''], rbac_Resources = [''events''], rbac_Verbs = [''create'', ''patch'']\<rparr>"

definition manager_rules :: "rbac_rule list" where
  "manager_rules =
    [policies_rule, policies_status_rule, policies_finalizers_rule, records_rule,
     records_status_rule, secrets_rule, workloads_rule, events_rule]"

text \<open>The role that is checked in under \<^verbatim>\<open>config/rbac/role.yaml\<close>.\<close>

definition checked_in_rules :: "rbac_rule list" where
  "checked_in_rules =
    [\<lparr>rbac_Groups = [''''], rbac_Resources = [''pods''],
      rbac_Verbs = [''get'', ''list'', ''watch'']\<rparr>]"

section \<open>What the calls need\<close>

type_synonym permission = "string \<times> string \<times> string"

definition granted :: "rbac_rule list \<Rightarrow> permission \<Rightarrow> bool" where
  "granted rules = (\<lambda>(grp, res, verb).
     list_ex (\<lambda>r. grp \<in> set (rbac_Groups r) \<and> res \<in> set (rbac_Resources r) \<and>
       verb \<in> set (rbac_Verbs r)) rules)"

text \<open>
  Reads go through the cache of the manager, which lists and watches; a secret is created or updated
  after a read; and an owner reference that blocks the deletion of the owner needs the permission to
  update the owner's finalizers.
\<close>

definition cached_read :: "string \<Rightarrow> string \<Rightarrow> permission list" where
  "cached_read grp res =
     [(grp, res, ''get''), (grp, res, ''list''), (grp, res, ''watch'')]"

fun workload_resource :: "WorkloadKind \<Rightarrow> string" where
  "workload_resource Deployment = ''deployments''"
| "workload_resource StatefulSet = ''statefulsets''"
| "workload_resource DaemonSet = ''daemonsets''"

abbreviation own_group :: string where
  "own_group \<equiv> fst GroupVersion"

definition needs :: "event \<Rightarrow> permission list" where
  "needs e =
    (case e of
       EvGetPolicy _ _ \<Rightarrow> cached_read own_group ''secretrotationpolicies''
     | EvUpdatePolicy _ _ \<Rightarrow> [(own_group, ''secretrotationpolicies'', ''update'')]
     | EvUpdatePolicyStatus _ _ \<Rightarrow> [(own_group, ''secretrotationpolicies/status'', ''update'')]
     | EvCreateRecord _ _ \<Rightarrow>
         [(own_group, ''rotationrecords'', ''create''), (own_group, ''secretrotationpolicies/finalizers'', ''update'')]
     | EvUpdateRecordStatus _ _ \<Rightarrow> [(own_group, ''rotationrecords/status'', ''update'')]
     | EvListRecords _ _ _ \<Rightarrow> cached_read own_group ''rotationrecords''
     | EvDeleteRecord _ _ \<Rightarrow> [(own_group, ''rotationrecords'', ''delete'')]
     | EvGetSecret _ _ \<Rightarrow> cached_read '''' ''secrets''
     | EvPutSecret _ _ _ \<Rightarrow>
         cached_read '''' ''secrets'' @ [('''', ''secrets'', ''create''), ('''', ''secrets'', ''update'')]
     | EvGetWorkload kind _ _ \<Rightarrow> cached_read ''apps'' (workload_resource kind)
     | EvUpdateWorkload kind _ _ \<Rightarrow> [(''apps'', workload_resource kind, ''update'')]
     | _ \<Rightarrow> [])"

lemmas rule_defs =
  policies_rule_def policies_status_rule_def policies_finalizers_rule_def records_rule_def
  records_status_rule_def secrets_rule_def workloads_rule_def events_rule_def

definition authorised :: "rbac_rule list \<Rightarrow> event \<Rightarrow> bool" where
  "authorised rules e \<longleftrightarrow> list_all (granted rules) (needs e)"

lemma every_call_authorised: "authorised manager_rules e"
proof (cases e)
  case (EvGetWorkload kind key ok)
  then show ?thesis
    by (cases kind)
      (simp_all add: authorised_def needs_def cached_read_def granted_def manager_rules_def rule_defs)
next
  case (EvUpdateWorkload kind w ok)
  then show ?thesis
    by (cases kind) (simp_all add: authorised_def needs_def granted_def manager_rules_def rule_defs)
qed (simp_all add: authorised_def needs_def cached_read_def granted_def manager_rules_def rule_defs
    GroupVersion_def)

text \<open>Permissions that are asked for and that no call needs.\<close>

definition superfluous :: "permission list" where
  "superfluous =
    [(''secrets.keysmith.io'', ''secretrotationpolicies'', ''create''),
     (''secrets.keysmith.io'', ''secretrotationpolicies'', ''delete''),
     ('''', ''events'', ''create'')]"

lemma superfluous_permissions:
  "list_all (granted manager_rules) superfluous"
  "list_all (\<lambda>perm. perm \<notin> set superfluous) (needs e)"
proof -
  show "list_all (granted manager_rules) superfluous"
    by (simp add: superfluous_def granted_def manager_rules_def rule_defs)
  show "list_all (\<lambda>perm. perm \<notin> set superfluous) (needs e)"
    by (cases e)
      (simp_all add: superfluous_def needs_def cached_read_def GroupVersion_def)
qed

text \<open>
  A server that enforces a role refuses to read a policy when the role does not grant it.
\<close>

definition enforces :: "rbac_rule list \<Rightarrow> 'w Ext \<Rightarrow> bool" where
  "enforces rules X \<longleftrightarrow> (\<forall>key. \<not> authorised rules (EvGetPolicy key True) \<longrightarrow>
     (\<forall>w. \<exists>e. fst (get_policy X key w) = Inl e \<and> \<not> IsNotFound X e))"

text \<open>Under the role that is checked in, every reconcile ends with the refusal of its first call.\<close>

lemma checked_in_role_refuses:
  assumes "enforces checked_in_rules X"
  shows "events (Reconcile X r req) s = [EvGetPolicy req False] \<and>
    (\<exists>e. result (Reconcile X r req) s = Ret (no_result, Some e))"
proof -
  have "\<not> authorised checked_in_rules (EvGetPolicy req True)"
    by (simp add: authorised_def needs_def cached_read_def granted_def checked_in_rules_def
        GroupVersion_def)
  with assms obtain e where "fst (get_policy X req (world s)) = Inl e" "\<not> IsNotFound X e"
    unfolding enforces_def by blast
  then show ?thesis by (simp add: Reconcile_steps)
qed

end
