(* ===== verification/Store.thy ===== *)
theory Store
  imports Main "HOL-Library.State_Monad"
begin

text \<open>
  Go's memory as far as the generated deep-copy functions use it.  A store is the list of its
  blocks, a block is an array of values of one Go type (a single variable is an array of one), and
  allocation appends a block.  A pointer names an element of a block, a slice a stretch of it.
  The locale \<open>deep_copier\<close> says what it means to copy a value that contains references: the copy
  looks the same, lies in new blocks only, and no old block has changed.  The lemmas below build
  deep copiers of structs, pointers and slices from those of their parts.
\<close>

named_theorems store_run \<open>how the operations on the store run\<close>

section \<open>Blocks, pointers and slices\<close>

type_synonym block = nat
type_synonym 'c store = "'c list"

datatype ptr = Ptr (block_of: block) (index_of: nat)

datatype slice = Slice (base: block) (offset: nat) (slice_len: nat)

text \<open>A Go type: how an array of it is stored in a block, and its zero value.\<close>

record ('c, 'a) go_type =
  array_of :: "'a list \<Rightarrow> 'c"
  elements :: "'c \<Rightarrow> 'a list"
  zero :: 'a

definition element :: "slice \<Rightarrow> nat \<Rightarrow> ptr" where
  "element sl i = Ptr (base sl) (offset sl + i)"

definition load :: "('c, 'a) go_type \<Rightarrow> 'c store \<Rightarrow> ptr \<Rightarrow> 'a" where
  "load T s p = elements T (s ! block_of p) ! index_of p"

definition store_at :: "('c, 'a) go_type \<Rightarrow> ptr \<Rightarrow> 'a \<Rightarrow> 'c store \<Rightarrow> 'c store" where
  "store_at T p v s = s[block_of p := array_of T ((elements T (s ! block_of p))[index_of p := v])]"

definition allocated :: "'c store \<Rightarrow> block set" where
  "allocated s = {..<length s}"

definition extends :: "'c store \<Rightarrow> 'c store \<Rightarrow> bool" where
  "extends s s' \<longleftrightarrow> length s \<le> length s' \<and> (\<forall>b < length s. s' ! b = s ! b)"

lemma extends_refl [simp, intro]: "extends s s"
  by (simp add: extends_def)

lemma extends_trans: "extends s s' \<Longrightarrow> extends s' s'' \<Longrightarrow> extends s s''"
  by (auto simp: extends_def)

lemma extends_length: "extends s s' \<Longrightarrow> length s \<le> length s'"
  by (simp add: extends_def)

lemma extends_nth: "extends s s' \<Longrightarrow> b < length s \<Longrightarrow> s' ! b = s ! b"
  by (simp add: extends_def)

lemma extends_append [simp]: "extends s (s @ u)"
  by (simp add: extends_def nth_append)

lemma fresh_extend:
  "B \<subseteq> {n..<length s} \<Longrightarrow> extends s s' \<Longrightarrow> B \<subseteq> {n..<length s'}"
  by (rule subset_trans) (auto dest: extends_length)

lemma fresh_after:
  "B \<subseteq> {length s'..<m} \<Longrightarrow> extends s s' \<Longrightarrow> B \<subseteq> {length s..<m}"
  by (rule subset_trans) (auto dest: extends_length)

lemma extends_store_at:
  "extends s s' \<Longrightarrow> length s \<le> block_of p \<Longrightarrow> extends s (store_at T p v s')"
  by (auto simp: extends_def store_at_def)

lemma length_store_at [simp]: "length (store_at T p v s) = length s"
  by (simp add: store_at_def)

lemma store_at_other [simp]: "b \<noteq> block_of p \<Longrightarrow> store_at T p v s ! b = s ! b"
  by (simp add: store_at_def)

lemma element_simps [simp]:
  "block_of (element sl i) = base sl" "index_of (element sl i) = offset sl + i"
  by (simp_all add: element_def)

lemma load_cong: "s' ! block_of p = s ! block_of p \<Longrightarrow> load T s' p = load T s p"
  by (simp add: load_def)

section \<open>The operations\<close>

type_synonym ('c, 'a) alloc = "('c store, 'a) state"

definition new :: "('c, 'a) go_type \<Rightarrow> ('c, ptr) alloc" where
  "new T = State (\<lambda>s. (Ptr (length s) 0, s @ [array_of T [zero T]]))"

definition make :: "('c, 'a) go_type \<Rightarrow> nat \<Rightarrow> ('c, slice) alloc" where
  "make T n = State (\<lambda>s. (Slice (length s) 0 n, s @ [array_of T (replicate n (zero T))]))"

definition deref :: "('c, 'a) go_type \<Rightarrow> ptr \<Rightarrow> ('c, 'a) alloc" where
  "deref T p = State (\<lambda>s. (load T s p, s))"

definition assign :: "('c, 'a) go_type \<Rightarrow> ptr \<Rightarrow> 'a \<Rightarrow> ('c, unit) alloc" where
  "assign T p v = State (\<lambda>s. ((), store_at T p v s))"

fun for_each :: "('i \<Rightarrow> ('c, unit) alloc) \<Rightarrow> 'i list \<Rightarrow> ('c, unit) alloc" where
  "for_each body [] = State_Monad.return ()"
| "for_each body (i # is) = do { _ \<leftarrow> body i; for_each body is }"

lemma run_basic [store_run]:
  "run_state (State_Monad.return a) s = (a, s)"
  "run_state (State_Monad.bind m f) s = (case run_state m s of (a, t) \<Rightarrow> run_state (f a) t)"
  "run_state (new T) s = (Ptr (length s) 0, s @ [array_of T [zero T]])"
  "run_state (make T n) s = (Slice (length s) 0 n, s @ [array_of T (replicate n (zero T))])"
  "run_state (deref T p) s = (load T s p, s)"
  "run_state (assign T p v) s = ((), store_at T p v s)"
  by (simp_all add: State_Monad.return_def State_Monad.bind_def new_def make_def deref_def
      assign_def)

text \<open>
  \<^verbatim>\<open>if in.F != nil { ... }\<close> after \<^verbatim>\<open>*out = *in\<close>: a nil reference stays nil.
\<close>

definition unless_nil :: "('a \<Rightarrow> ('c, 'b) alloc) \<Rightarrow> 'a option \<Rightarrow> ('c, 'b option) alloc" where
  "unless_nil k x = (case x of
     None \<Rightarrow> State_Monad.return None
   | Some r \<Rightarrow> do { r' \<leftarrow> k r; State_Monad.return (Some r') })"

text \<open>\<^verbatim>\<open>src.DeepCopyInto(dst)\<close>, and \<^verbatim>\<open>*dst = *src\<close> for a type that is copied by assignment.\<close>

definition assign_copy ::
  "('c, 'a) go_type \<Rightarrow> ('a \<Rightarrow> ('c, 'a) alloc) \<Rightarrow> ptr \<Rightarrow> ptr \<Rightarrow> ('c, unit) alloc" where
  "assign_copy T copy src dst = do {
     v \<leftarrow> deref T src;
     v' \<leftarrow> copy v;
     assign T dst v'
   }"

text \<open>
  \<^verbatim>\<open>out = new(T); in.DeepCopyInto(out)\<close>, and \<^verbatim>\<open>*out = new(T); **out = **in\<close> for a type that is
  copied by assignment.
\<close>

definition new_copy :: "('c, 'a) go_type \<Rightarrow> ('a \<Rightarrow> ('c, 'a) alloc) \<Rightarrow> ptr \<Rightarrow> ('c, ptr) alloc" where
  "new_copy T copy p = do {
     q \<leftarrow> new T;
     _ \<leftarrow> assign_copy T copy p q;
     State_Monad.return q
   }"

text \<open>
  \<^verbatim>\<open>*out = make([]T, len(*in))\<close> and the loop that copies the elements; the built-in \<^verbatim>\<open>copy\<close> is
  the loop that assigns them.
\<close>

definition make_copy :: "('c, 'a) go_type \<Rightarrow> ('a \<Rightarrow> ('c, 'a) alloc) \<Rightarrow> slice \<Rightarrow> ('c, slice) alloc" where
  "make_copy T copy sl = do {
     out \<leftarrow> make T (slice_len sl);
     _ \<leftarrow> for_each (\<lambda>i. assign_copy T copy (element sl i) (element out i)) [0..<slice_len sl];
     State_Monad.return out
   }"

section \<open>Deep copies\<close>

text \<open>
  \<open>cells\<close> are the blocks that a value reaches, \<open>view\<close> is what can be read from it: the first two
  determine what a change of the store can do to the value.
\<close>

locale reading =
  fixes cells :: "'c store \<Rightarrow> 'a \<Rightarrow> block set"
    and view :: "'c store \<Rightarrow> 'a \<Rightarrow> 'v"
  assumes local_to_cells:
    "(\<And>b. b \<in> cells s x \<Longrightarrow> s' ! b = s ! b) \<Longrightarrow> cells s' x = cells s x \<and> view s' x = view s x"
begin

lemma unchanged:
  assumes "extends s s'" and "cells s x \<subseteq> allocated s"
  shows "cells s' x = cells s x" and "view s' x = view s x"
proof -
  have "b \<in> cells s x \<Longrightarrow> s' ! b = s ! b" for b
    using assms by (auto simp: extends_nth allocated_def)
  from local_to_cells [OF this] show "cells s' x = cells s x" and "view s' x = view s x" by auto
qed

lemma outside:
  assumes "b \<notin> cells s x" and "\<And>c. c \<noteq> b \<Longrightarrow> s' ! c = s ! c"
  shows "cells s' x = cells s x" and "view s' x = view s x"
proof -
  have "c \<in> cells s x \<Longrightarrow> s' ! c = s ! c" for c
    using assms(1) assms(2) [of c] by metis
  from local_to_cells [OF this] show "cells s' x = cells s x" and "view s' x = view s x" by auto
qed

end

locale deep_copier = reading cells view
  for cells :: "'c store \<Rightarrow> 'a \<Rightarrow> block set" and view :: "'c store \<Rightarrow> 'a \<Rightarrow> 'v" +
  fixes copy :: "'a \<Rightarrow> ('c, 'a) alloc"
  assumes copies:
    "cells s x \<subseteq> allocated s \<Longrightarrow> run_state (copy x) s = (y, s') \<Longrightarrow>
     extends s s' \<and> view s' y = view s x \<and> cells s' y \<subseteq> {length s..<length s'}"
begin

lemma separate:
  assumes "cells s x \<subseteq> allocated s" and "run_state (copy x) s = (y, s')"
  shows "cells s' x \<inter> cells s' y = {}"
  using copies [OF assms] unchanged(1) [of s s' x] assms(1) by (fastforce simp: allocated_def)

lemma original_unaffected:
  assumes "cells s x \<subseteq> allocated s" and "run_state (copy x) s = (y, s')"
    and "\<And>b. b \<notin> cells s' y \<Longrightarrow> t ! b = s' ! b"
  shows "view t x = view s x"
proof -
  have ext: "extends s s'" using copies [OF assms(1,2)] by blast
  have "view t x = view s' x"
    using local_to_cells [of s' x t] separate [OF assms(1,2)] assms(3) by blast
  then show ?thesis using unchanged(2) [OF ext assms(1)] by simp
qed

lemma copy_unaffected:
  assumes "cells s x \<subseteq> allocated s" and "run_state (copy x) s = (y, s')"
    and "\<And>b. b \<notin> cells s' x \<Longrightarrow> t ! b = s' ! b"
  shows "view t y = view s x"
proof -
  have "view t y = view s' y"
    using local_to_cells [of s' y t] separate [OF assms(1,2)] assms(3) by blast
  then show ?thesis using copies [OF assms(1,2)] by simp
qed

end

section \<open>Deep copiers from deep copiers\<close>

lemmas deep_copierI = deep_copier.intro [OF reading.intro deep_copier_axioms.intro]

lemma flat_copier: "deep_copier (\<lambda>_ _. {}) (\<lambda>_ x. x) State_Monad.return"
  by (rule deep_copierI) (auto simp: store_run)

text \<open>Two values one after the other.\<close>

definition pair_cells ::
  "('c store \<Rightarrow> 'a \<Rightarrow> block set) \<Rightarrow> ('c store \<Rightarrow> 'b \<Rightarrow> block set) \<Rightarrow> 'c store \<Rightarrow> 'a \<times> 'b \<Rightarrow> block set"
  where
  "pair_cells c1 c2 s x = c1 s (fst x) \<union> c2 s (snd x)"

definition pair_view ::
  "('c store \<Rightarrow> 'a \<Rightarrow> 'u) \<Rightarrow> ('c store \<Rightarrow> 'b \<Rightarrow> 'v) \<Rightarrow> 'c store \<Rightarrow> 'a \<times> 'b \<Rightarrow> 'u \<times> 'v" where
  "pair_view v1 v2 s x = (v1 s (fst x), v2 s (snd x))"

definition pair_copy ::
  "('a \<Rightarrow> ('c, 'a) alloc) \<Rightarrow> ('b \<Rightarrow> ('c, 'b) alloc) \<Rightarrow> 'a \<times> 'b \<Rightarrow> ('c, 'a \<times> 'b) alloc" where
  "pair_copy k1 k2 x = do {
     y1 \<leftarrow> k1 (fst x);
     y2 \<leftarrow> k2 (snd x);
     State_Monad.return (y1, y2)
   }"

lemma pair_copier:
  assumes "deep_copier c1 v1 k1" and "deep_copier c2 v2 k2"
  shows "deep_copier (pair_cells c1 c2) (pair_view v1 v2) (pair_copy k1 k2)"
proof (rule deep_copierI)
  fix s s' :: "'a list" and x :: "'b \<times> 'd"
  assume same: "b \<in> pair_cells c1 c2 s x \<Longrightarrow> s' ! b = s ! b" for b
  have "c1 s' (fst x) = c1 s (fst x) \<and> v1 s' (fst x) = v1 s (fst x)"
    and "c2 s' (snd x) = c2 s (snd x) \<and> v2 s' (snd x) = v2 s (snd x)"
    by (rule reading.local_to_cells [OF deep_copier.axioms(1) [OF assms(1)]]
             reading.local_to_cells [OF deep_copier.axioms(1) [OF assms(2)]],
        rule same, simp add: pair_cells_def)+
  then show "pair_cells c1 c2 s' x = pair_cells c1 c2 s x \<and>
      pair_view v1 v2 s' x = pair_view v1 v2 s x"
    by (simp add: pair_cells_def pair_view_def)
next
  fix s s'' :: "'a list" and x y :: "'b \<times> 'd"
  assume closed: "pair_cells c1 c2 s x \<subseteq> allocated s"
    and run: "run_state (pair_copy k1 k2 x) s = (y, s'')"
  obtain y1 s' where run1: "run_state (k1 (fst x)) s = (y1, s')" by fastforce
  obtain y2 where run2: "run_state (k2 (snd x)) s' = (y2, s'')" and y: "y = (y1, y2)"
    using run run1 by (auto simp: pair_copy_def store_run split: prod.splits)
  from closed have in1: "c1 s (fst x) \<subseteq> allocated s" and in2: "c2 s (snd x) \<subseteq> allocated s"
    by (auto simp: pair_cells_def)
  have copy1: "extends s s'" "v1 s' y1 = v1 s (fst x)" "c1 s' y1 \<subseteq> {length s..<length s'}"
    using deep_copier.copies [OF assms(1) in1 run1] by auto
  have old2: "c2 s' (snd x) = c2 s (snd x)" "v2 s' (snd x) = v2 s (snd x)"
    using reading.unchanged [OF deep_copier.axioms(1) [OF assms(2)] copy1(1) in2] .
  have in2': "c2 s' (snd x) \<subseteq> allocated s'"
    using old2 in2 extends_length [OF copy1(1)] by (auto simp: allocated_def)
  have copy2: "extends s' s''" "v2 s'' y2 = v2 s' (snd x)" "c2 s'' y2 \<subseteq> {length s'..<length s''}"
    using deep_copier.copies [OF assms(2) in2' run2] by auto
  have in1': "c1 s' y1 \<subseteq> allocated s'" using copy1(3) by (auto simp: allocated_def)
  have new1: "c1 s'' y1 = c1 s' y1" "v1 s'' y1 = v1 s' y1"
    using reading.unchanged [OF deep_copier.axioms(1) [OF assms(1)] copy2(1) in1'] .
  show "extends s s'' \<and> pair_view v1 v2 s'' y = pair_view v1 v2 s x \<and>
      pair_cells c1 c2 s'' y \<subseteq> {length s..<length s''}"
  proof (intro conjI)
    show "extends s s''" using copy1(1) copy2(1) by (rule extends_trans)
    show "pair_view v1 v2 s'' y = pair_view v1 v2 s x"
      by (simp add: pair_view_def y new1 copy1 copy2 old2)
    have "c1 s'' y1 \<subseteq> {length s..<length s''}"
      using fresh_extend [OF copy1(3) copy2(1)] new1(1) by simp
    moreover have "c2 s'' y2 \<subseteq> {length s..<length s''}"
      using fresh_after [OF copy2(3) copy1(1)] .
    ultimately show "pair_cells c1 c2 s'' y \<subseteq> {length s..<length s''}"
      by (simp add: pair_cells_def y)
  qed
qed

text \<open>
  A struct whose references are the component \<open>get\<close>: \<open>rest\<close> is what it holds by value.
\<close>

definition part_cells ::
  "('r \<Rightarrow> 'a) \<Rightarrow> ('c store \<Rightarrow> 'a \<Rightarrow> block set) \<Rightarrow> 'c store \<Rightarrow> 'r \<Rightarrow> block set" where
  "part_cells get c s r = c s (get r)"

definition part_view ::
  "('r \<Rightarrow> 'w) \<Rightarrow> ('r \<Rightarrow> 'a) \<Rightarrow> ('c store \<Rightarrow> 'a \<Rightarrow> 'v) \<Rightarrow> 'c store \<Rightarrow> 'r \<Rightarrow> 'w \<times> 'v" where
  "part_view rest get v s r = (rest r, v s (get r))"

lemma struct_copier:
  assumes "deep_copier c v k"
    and "\<And>r y. get (put r y) = y" and "\<And>r y. rest (put r y) = rest r"
    and "\<And>r. copy r = do { y \<leftarrow> k (get r); State_Monad.return (put r y) }"
  shows "deep_copier (part_cells get c) (part_view rest get v) copy"
proof (rule deep_copierI)
  fix s s' :: "'a list" and r :: 'd
  assume same: "b \<in> part_cells get c s r \<Longrightarrow> s' ! b = s ! b" for b
  have "c s' (get r) = c s (get r) \<and> v s' (get r) = v s (get r)"
    by (rule reading.local_to_cells [OF deep_copier.axioms(1) [OF assms(1)]],
        rule same, simp add: part_cells_def)
  then show "part_cells get c s' r = part_cells get c s r \<and>
      part_view rest get v s' r = part_view rest get v s r"
    by (simp add: part_cells_def part_view_def)
next
  fix s s' :: "'a list" and r q :: 'd
  assume closed: "part_cells get c s r \<subseteq> allocated s" and run: "run_state (copy r) s = (q, s')"
  obtain y where y: "run_state (k (get r)) s = (y, s')" "q = put r y"
    using run by (auto simp: assms(4) store_run split: prod.splits)
  show "extends s s' \<and> part_view rest get v s' q = part_view rest get v s r \<and>
      part_cells get c s' q \<subseteq> {length s..<length s'}"
    using deep_copier.copies [OF assms(1) _ y(1)] closed
    by (simp add: part_cells_def part_view_def y(2) assms(2,3))
qed

text \<open>A reference that may be nil.\<close>

definition option_cells :: "('c store \<Rightarrow> 'a \<Rightarrow> block set) \<Rightarrow> 'c store \<Rightarrow> 'a option \<Rightarrow> block set" where
  "option_cells c s x = (case x of None \<Rightarrow> {} | Some r \<Rightarrow> c s r)"

definition option_view :: "('c store \<Rightarrow> 'a \<Rightarrow> 'v) \<Rightarrow> 'c store \<Rightarrow> 'a option \<Rightarrow> 'v option" where
  "option_view v s x = (case x of None \<Rightarrow> None | Some r \<Rightarrow> Some (v s r))"

lemma option_copier:
  assumes "deep_copier c v k"
  shows "deep_copier (option_cells c) (option_view v) (unless_nil k)"
proof (rule deep_copierI)
  fix s s' :: "'a list" and x :: "'b option"
  assume same: "b \<in> option_cells c s x \<Longrightarrow> s' ! b = s ! b" for b
  show "option_cells c s' x = option_cells c s x \<and> option_view v s' x = option_view v s x"
  proof (cases x)
    case (Some r)
    have "c s' r = c s r \<and> v s' r = v s r"
      by (rule reading.local_to_cells [OF deep_copier.axioms(1) [OF assms]],
          rule same, simp add: option_cells_def Some)
    then show ?thesis by (simp add: option_cells_def option_view_def Some)
  qed (simp add: option_cells_def option_view_def)
next
  fix s s' :: "'a list" and x y :: "'b option"
  assume closed: "option_cells c s x \<subseteq> allocated s" and run: "run_state (unless_nil k x) s = (y, s')"
  show "extends s s' \<and> option_view v s' y = option_view v s x \<and>
      option_cells c s' y \<subseteq> {length s..<length s'}"
  proof (cases x)
    case None
    with run show ?thesis
      by (simp add: unless_nil_def store_run option_cells_def option_view_def)
  next
    case (Some r)
    with run obtain r' where r': "run_state (k r) s = (r', s')" "y = Some r'"
      by (auto simp: unless_nil_def store_run split: prod.splits)
    show ?thesis
      using deep_copier.copies [OF assms _ r'(1)] closed
      by (simp add: option_cells_def option_view_def Some r'(2))
  qed
qed

text \<open>A pointer to a value.\<close>

definition pointer_cells ::
  "('c, 'a) go_type \<Rightarrow> ('c store \<Rightarrow> 'a \<Rightarrow> block set) \<Rightarrow> 'c store \<Rightarrow> ptr \<Rightarrow> block set" where
  "pointer_cells T c s p = insert (block_of p) (c s (load T s p))"

definition pointer_view ::
  "('c, 'a) go_type \<Rightarrow> ('c store \<Rightarrow> 'a \<Rightarrow> 'v) \<Rightarrow> 'c store \<Rightarrow> ptr \<Rightarrow> 'v" where
  "pointer_view T v s p = v s (load T s p)"

text \<open>Arrays of a Go type can be read back from their block.\<close>

definition stored :: "('c, 'a) go_type \<Rightarrow> bool" where
  "stored T \<longleftrightarrow> (\<forall>xs. elements T (array_of T xs) = xs)"

lemma storedD [simp]: "stored T \<Longrightarrow> elements T (array_of T xs) = xs"
  by (simp add: stored_def)

text \<open>
  One assignment of a copy: the value at \<open>src\<close>, which lies in the old part \<open>s\<close> of the store, is
  copied into a place of a newer block.
\<close>

lemma copy_into:
  assumes dc: "deep_copier c v k" and T: "stored T"
    and ext: "extends s t" and src: "block_of src \<in> allocated s" "c s (load T s src) \<subseteq> allocated s"
    and dst: "length s \<le> block_of dst" "block_of dst < length t"
      "t ! block_of dst = array_of T xs" "index_of dst < length xs"
    and run: "run_state (assign_copy T k src dst) t = (u, t'')"
  shows "\<exists>y. extends s t'' \<and> length t \<le> length t'' \<and>
    (\<forall>b < length t. b \<noteq> block_of dst \<longrightarrow> t'' ! b = t ! b) \<and>
    t'' ! block_of dst = array_of T (xs[index_of dst := y]) \<and>
    v t'' y = v s (load T s src) \<and> c t'' y \<subseteq> {length t..<length t''}"
proof -
  let ?x = "load T s src"
  have x: "load T t src = ?x"
    using ext src(1) by (intro load_cong) (simp add: extends_nth allocated_def)
  obtain y t' where run_k: "run_state (k ?x) t = (y, t')" and t'': "t'' = store_at T dst y t'"
    using run by (auto simp: assign_copy_def store_run x split: prod.splits)
  note R = deep_copier.axioms(1) [OF dc]
  have old: "c t ?x = c s ?x" "v t ?x = v s ?x" using reading.unchanged [OF R ext src(2)] .
  have "c t ?x \<subseteq> allocated t"
    using old src(2) extends_length [OF ext] by (auto simp: allocated_def)
  note K = deep_copier.copies [OF dc this run_k]
  then have ext': "extends t t'" and cells: "c t' y \<subseteq> {length t..<length t'}" by auto
  have apart: "block_of dst \<notin> c t' y" using cells dst(2) by auto
  have y: "c t'' y = c t' y" "v t'' y = v t' y"
    using reading.outside [OF R apart, of t''] by (simp_all add: t'')
  have same: "t' ! block_of dst = array_of T xs" using ext' dst(2,3) by (simp add: extends_nth)
  have "extends s t''"
    using extends_store_at [OF extends_trans [OF ext ext'] dst(1)] by (simp add: t'')
  moreover have "t'' ! b = t ! b" if "b < length t" "b \<noteq> block_of dst" for b
    using that ext' by (simp add: t'' extends_nth)
  moreover have "t'' ! block_of dst = array_of T (xs[index_of dst := y])"
    using dst(2) extends_length [OF ext'] by (simp add: t'' store_at_def same T)
  ultimately show ?thesis
    using K old y cells extends_length [OF ext'] by (intro exI [of _ y]) (simp add: t'')
qed

lemma pointer_copier:
  assumes dc: "deep_copier c v k" and T: "stored T"
  shows "deep_copier (pointer_cells T c) (pointer_view T v) (new_copy T k)"
proof (rule deep_copierI)
  fix s s' :: "'a list" and p :: ptr
  assume same: "b \<in> pointer_cells T c s p \<Longrightarrow> s' ! b = s ! b" for b
  have x: "load T s' p = load T s p"
    by (rule load_cong, rule same) (simp add: pointer_cells_def)
  have "c s' (load T s p) = c s (load T s p) \<and> v s' (load T s p) = v s (load T s p)"
    by (rule reading.local_to_cells [OF deep_copier.axioms(1) [OF dc]],
        rule same, simp add: pointer_cells_def)
  then show "pointer_cells T c s' p = pointer_cells T c s p \<and>
      pointer_view T v s' p = pointer_view T v s p"
    by (simp add: pointer_cells_def pointer_view_def x)
next
  fix s s' :: "'a list" and p q :: ptr
  assume closed: "pointer_cells T c s p \<subseteq> allocated s" and run: "run_state (new_copy T k p) s = (q, s')"
  let ?t = "s @ [array_of T [zero T]]"
  have q: "q = Ptr (length s) 0"
    and run': "run_state (assign_copy T k p (Ptr (length s) 0)) ?t = ((), s')"
    using run by (auto simp: new_copy_def store_run split: prod.splits)
  have "\<exists>y. extends s s' \<and> length ?t \<le> length s' \<and>
    (\<forall>b < length ?t. b \<noteq> block_of (Ptr (length s) 0) \<longrightarrow> s' ! b = ?t ! b) \<and>
    s' ! block_of (Ptr (length s) 0) = array_of T ([zero T][index_of (Ptr (length s) 0) := y]) \<and>
    v s' y = v s (load T s p) \<and> c s' y \<subseteq> {length ?t..<length s'}"
    using closed by (intro copy_into [OF dc T _ _ _ _ _ _ _ run']) (auto simp: pointer_cells_def)
  then show "extends s s' \<and> pointer_view T v s' q = pointer_view T v s p \<and>
      pointer_cells T c s' q \<subseteq> {length s..<length s'}"
    by (auto simp: pointer_cells_def pointer_view_def q load_def T)
qed

text \<open>A slice of values.\<close>

definition slice_cells ::
  "('c, 'a) go_type \<Rightarrow> ('c store \<Rightarrow> 'a \<Rightarrow> block set) \<Rightarrow> 'c store \<Rightarrow> slice \<Rightarrow> block set" where
  "slice_cells T c s sl =
     insert (base sl) (\<Union>i \<in> {..<slice_len sl}. c s (load T s (element sl i)))"

definition slice_view ::
  "('c, 'a) go_type \<Rightarrow> ('c store \<Rightarrow> 'a \<Rightarrow> 'v) \<Rightarrow> 'c store \<Rightarrow> slice \<Rightarrow> 'v list" where
  "slice_view T v s sl = map (\<lambda>i. v s (load T s (element sl i))) [0..<slice_len sl]"

lemma for_each_upt:
  assumes "\<And>i t t'. i < n \<Longrightarrow> J i t \<Longrightarrow> run_state (body i) t = ((), t') \<Longrightarrow> J (Suc i) t'"
    and "m \<le> n" and "J m t" and "run_state (for_each body [m..<n]) t = ((), t')"
  shows "J n t'"
  using assms(2-4)
proof (induction "n - m" arbitrary: m t)
  case 0
  then show ?case by (simp add: store_run)
next
  case (Suc d)
  then have "m < n" by simp
  obtain t1 where run: "run_state (body m) t = ((), t1)"
    by (metis surj_pair unit.exhaust)
  with Suc.prems \<open>m < n\<close> have "run_state (for_each body [Suc m..<n]) t1 = ((), t')"
    by (simp add: upt_conv_Cons store_run)
  then show ?case
    using Suc.hyps(1) [of "Suc m" t1] Suc.hyps(2) \<open>m < n\<close>
      assms(1) [OF \<open>m < n\<close> Suc.prems(2) run] by simp
qed

text \<open>What the loop has done after \<open>n\<close> elements: they have been copied to the new array.\<close>

definition copied ::
  "('c, 'a) go_type \<Rightarrow> ('c store \<Rightarrow> 'a \<Rightarrow> block set) \<Rightarrow> ('c store \<Rightarrow> 'a \<Rightarrow> 'v) \<Rightarrow> 'c store \<Rightarrow> slice \<Rightarrow>
   nat \<Rightarrow> 'c store \<Rightarrow> bool" where
  "copied T c v s sl n t \<longleftrightarrow> extends s t \<and> length s < length t \<and>
     (\<exists>xs. t ! length s = array_of T xs \<and> length xs = slice_len sl \<and>
       (\<forall>i < n. v t (xs ! i) = v s (load T s (element sl i)) \<and>
         c t (xs ! i) \<subseteq> {Suc (length s)..<length t}))"

text \<open>An assignment to the new array leaves the elements copied before as they are.\<close>

lemma copied_kept:
  assumes "reading c v" and "c t x \<subseteq> {Suc a..<length t}" and "length t \<le> length t'"
    and "\<And>b. b < length t \<Longrightarrow> b \<noteq> a \<Longrightarrow> t' ! b = t ! b"
  shows "v t' x = v t x \<and> c t' x \<subseteq> {Suc a..<length t'}"
proof -
  have "t' ! b = t ! b" if "b \<in> c t x" for b
    using that assms(2) assms(4) [of b] by auto
  from reading.local_to_cells [OF assms(1) this] show ?thesis
    using assms(2,3) by fastforce
qed

lemma copied_step:
  assumes dc: "deep_copier c v k" and T: "stored T"
    and closed: "slice_cells T c s sl \<subseteq> allocated s"
    and i: "i < slice_len sl" and before: "copied T c v s sl i t"
    and run: "run_state (assign_copy T k (element sl i) (Ptr (length s) i)) t = ((), t')"
  shows "copied T c v s sl (Suc i) t'"
proof -
  from before obtain xs where t: "extends s t" "length s < length t"
      "t ! length s = array_of T xs" "length xs = slice_len sl"
    and sofar: "j < i \<Longrightarrow> v t (xs ! j) = v s (load T s (element sl j)) \<and>
      c t (xs ! j) \<subseteq> {Suc (length s)..<length t}" for j
    unfolding copied_def by blast
  have "\<exists>y. extends s t' \<and> length t \<le> length t' \<and>
    (\<forall>b < length t. b \<noteq> block_of (Ptr (length s) i) \<longrightarrow> t' ! b = t ! b) \<and>
    t' ! block_of (Ptr (length s) i) = array_of T (xs[index_of (Ptr (length s) i) := y]) \<and>
    v t' y = v s (load T s (element sl i)) \<and> c t' y \<subseteq> {length t..<length t'}"
    using closed i t
    by (intro copy_into [OF dc T _ _ _ _ _ _ _ run]) (auto simp: slice_cells_def)
  then obtain y where y: "extends s t'" "length t \<le> length t'"
      "\<And>b. b < length t \<Longrightarrow> b \<noteq> length s \<Longrightarrow> t' ! b = t ! b"
      "t' ! length s = array_of T (xs[i := y])" "v t' y = v s (load T s (element sl i))"
      "c t' y \<subseteq> {length t..<length t'}"
    by auto
  have kept: "v t' (xs ! j) = v s (load T s (element sl j)) \<and>
      c t' (xs ! j) \<subseteq> {Suc (length s)..<length t'}" if "j < i" for j
    using copied_kept [OF deep_copier.axioms(1) [OF dc], of t "xs ! j" "length s" t']
      sofar [OF that] y(2,3) by simp
  have "c t' y \<subseteq> {Suc (length s)..<length t'}"
    using y(6) t(2) by fastforce
  then have "\<forall>j < Suc i. v t' (xs[i := y] ! j) = v s (load T s (element sl j)) \<and>
      c t' (xs[i := y] ! j) \<subseteq> {Suc (length s)..<length t'}"
    using kept y(5) i t(4) by (auto simp: less_Suc_eq)
  then show ?thesis
    using y t by (auto simp: copied_def)
qed

lemma slice_copier:
  assumes dc: "deep_copier c v k" and T: "stored T"
  shows "deep_copier (slice_cells T c) (slice_view T v) (make_copy T k)"
proof (rule deep_copierI)
  fix s s' :: "'a list" and sl :: slice
  assume same: "b \<in> slice_cells T c s sl \<Longrightarrow> s' ! b = s ! b" for b
  have x: "load T s' (element sl i) = load T s (element sl i)" for i
    by (rule load_cong, rule same) (simp add: slice_cells_def)
  have "c s' (load T s (element sl i)) = c s (load T s (element sl i)) \<and>
      v s' (load T s (element sl i)) = v s (load T s (element sl i))" if "i < slice_len sl" for i
    using that by (intro reading.local_to_cells [OF deep_copier.axioms(1) [OF dc]] same)
      (auto simp: slice_cells_def)
  then show "slice_cells T c s' sl = slice_cells T c s sl \<and>
      slice_view T v s' sl = slice_view T v s sl"
    by (simp add: slice_cells_def slice_view_def x)
next
  fix s s' :: "'a list" and sl out :: slice
  assume closed: "slice_cells T c s sl \<subseteq> allocated s"
    and run: "run_state (make_copy T k sl) s = (out, s')"
  let ?t = "s @ [array_of T (replicate (slice_len sl) (zero T))]"
  have out: "out = Slice (length s) 0 (slice_len sl)"
    and run': "run_state (for_each (\<lambda>i. assign_copy T k (element sl i) (Ptr (length s) i))
      [0..<slice_len sl]) ?t = ((), s')"
    using run by (auto simp: make_copy_def store_run element_def split: prod.splits)
  have "copied T c v s sl 0 ?t"
    by (auto simp: copied_def intro!: exI [of _ "replicate (slice_len sl) (zero T)"])
  then have "copied T c v s sl (slice_len sl) s'"
    using run' by (rule for_each_upt [where J = "copied T c v s sl", rotated 2])
      (auto intro: copied_step [OF dc T closed])
  then show "extends s s' \<and> slice_view T v s' out = slice_view T v s sl \<and>
      slice_cells T c s' out \<subseteq> {length s..<length s'}"
    by (fastforce simp: copied_def slice_view_def slice_cells_def out load_def element_def T)
qed

end
