(* ===== verification/Memory.thy ===== *)
theory Memory
  imports ApiTypes Store
begin

text \<open>
  The API types as Go lays them out in memory: a struct holds its strings, numbers and nested
  structs by value, and a pointer, slice or map of it is a reference into the store (\<open>None\<close> is
  nil).  The suffix \<open>_mem\<close> marks a struct that holds references; the structs of \<open>ApiTypes\<close>
  without any are used as they are.  The empty string, the zero value of a
  \<^verbatim>\<open>NotificationEvent\<close>, is \<open>None\<close> here.
\<close>

section \<open>Structs that hold references\<close>

record TypeMeta =
  tm_Kind :: string
  tm_APIVersion :: string

record ObjectMeta_mem =
  m_Name :: string
  m_GenerateName :: string
  m_Namespace :: string
  m_Labels :: "ptr option"
  m_Annotations :: "ptr option"
  m_Finalizers :: "slice option"
  m_OwnerReferences :: "slice option"
  m_CreationTimestamp :: gotime
  m_DeletionTimestamp :: "ptr option"

record ListMeta_mem =
  m_ResourceVersion :: string
  m_Continue :: string
  m_RemainingItemCount :: "ptr option"

record NotificationSpec_mem =
  m_URL :: string
  m_Events :: "slice option"
  m_ns_SecretRef :: "ptr option"

record ProviderSpec_mem =
  m_ps_Name :: string
  m_ConfigRef :: "ptr option"
  m_Params :: "ptr option"

record RotationPolicy_mem =
  m_HistoryLimit :: "ptr option"
  m_Suspend :: bool
  m_FailurePolicy :: FailurePolicy
  m_RetryLimit :: "ptr option"
  m_RetryBackoff :: "ptr option"

record SecretRotationPolicySpec_mem =
  m_SecretRef :: SecretReference
  m_Schedule :: string
  m_RotationWindow :: "ptr option"
  m_Provider :: ProviderSpec_mem
  m_Keys :: "slice option"
  m_RestartTargets :: "slice option"
  m_Policy :: RotationPolicy_mem
  m_Notifications :: "slice option"

record SecretRotationPolicyStatus_mem =
  m_LastRotationTime :: "ptr option"
  m_NextRotationTime :: "ptr option"
  m_srps_Phase :: Phase
  m_CurrentRetryCount :: "32 word"
  m_LastRotationRecord :: "ptr option"
  m_Conditions :: "slice option"

record SecretRotationPolicy_mem =
  m_srp_Type :: TypeMeta
  m_srp_Meta :: ObjectMeta_mem
  m_srp_Spec :: SecretRotationPolicySpec_mem
  m_srp_Status :: SecretRotationPolicyStatus_mem

record SecretRotationPolicyList_mem =
  m_srpl_Type :: TypeMeta
  m_srpl_Meta :: ListMeta_mem
  m_srpl_Items :: "slice option"

record RotationRecordStatus_mem =
  m_rrs_Phase :: RecordPhase
  m_StartTime :: "ptr option"
  m_CompletionTime :: "ptr option"
  m_rrs_Duration :: string
  m_ProviderName :: string
  m_RotatedKeys :: "slice option"
  m_RestartsTriggered :: "slice option"
  m_rrs_Error :: string
  m_RetryCount :: "32 word"

record RotationRecord_mem =
  m_rr_Type :: TypeMeta
  m_rr_Meta :: ObjectMeta_mem
  m_rr_Spec :: RotationRecordSpec
  m_rr_Status :: RotationRecordStatus_mem

record RotationRecordList_mem =
  m_rrl_Type :: TypeMeta
  m_rrl_Meta :: ListMeta_mem
  m_rrl_Items :: "slice option"

section \<open>Zero values\<close>

definition zero_type_meta :: TypeMeta where
  "zero_type_meta = \<lparr>tm_Kind = '''', tm_APIVersion = ''''\<rparr>"

definition zero_object_meta :: ObjectMeta_mem where
  "zero_object_meta = \<lparr>m_Name = '''', m_GenerateName = '''', m_Namespace = '''', m_Labels = None,
     m_Annotations = None, m_Finalizers = None, m_OwnerReferences = None,
     m_CreationTimestamp = zero_time, m_DeletionTimestamp = None\<rparr>"

definition zero_list_meta :: ListMeta_mem where
  "zero_list_meta = \<lparr>m_ResourceVersion = '''', m_Continue = '''', m_RemainingItemCount = None\<rparr>"

definition zero_notification :: NotificationSpec_mem where
  "zero_notification = \<lparr>m_URL = '''', m_Events = None, m_ns_SecretRef = None\<rparr>"

definition zero_provider_spec :: ProviderSpec_mem where
  "zero_provider_spec = \<lparr>m_ps_Name = '''', m_ConfigRef = None, m_Params = None\<rparr>"

definition zero_rotation_policy :: RotationPolicy_mem where
  "zero_rotation_policy = \<lparr>m_HistoryLimit = None, m_Suspend = False,
     m_FailurePolicy = FailurePolicyUnset, m_RetryLimit = None, m_RetryBackoff = None\<rparr>"

definition zero_policy_spec :: SecretRotationPolicySpec_mem where
  "zero_policy_spec = \<lparr>m_SecretRef = \<lparr>ref_Name = '''', ref_Namespace = ''''\<rparr>, m_Schedule = '''',
     m_RotationWindow = None, m_Provider = zero_provider_spec, m_Keys = None,
     m_RestartTargets = None, m_Policy = zero_rotation_policy, m_Notifications = None\<rparr>"

definition zero_policy_status :: SecretRotationPolicyStatus_mem where
  "zero_policy_status = \<lparr>m_LastRotationTime = None, m_NextRotationTime = None,
     m_srps_Phase = PhaseUnset, m_CurrentRetryCount = 0, m_LastRotationRecord = None,
     m_Conditions = None\<rparr>"

definition zero_policy :: SecretRotationPolicy_mem where
  "zero_policy = \<lparr>m_srp_Type = zero_type_meta, m_srp_Meta = zero_object_meta,
     m_srp_Spec = zero_policy_spec, m_srp_Status = zero_policy_status\<rparr>"

definition zero_policy_list :: SecretRotationPolicyList_mem where
  "zero_policy_list = \<lparr>m_srpl_Type = zero_type_meta, m_srpl_Meta = zero_list_meta,
     m_srpl_Items = None\<rparr>"

definition zero_record_spec :: RotationRecordSpec where
  "zero_record_spec = \<lparr>PolicyRef = \<lparr>ref_Name = '''', ref_Namespace = ''''\<rparr>,
     TriggeredBy = TriggerUnset, RequestedAt = zero_time\<rparr>"

definition zero_record_status :: RotationRecordStatus_mem where
  "zero_record_status = \<lparr>m_rrs_Phase = RecordPhaseUnset, m_StartTime = None,
     m_CompletionTime = None, m_rrs_Duration = '''', m_ProviderName = '''', m_RotatedKeys = None,
     m_RestartsTriggered = None, m_rrs_Error = '''', m_RetryCount = 0\<rparr>"

definition zero_record :: RotationRecord_mem where
  "zero_record = \<lparr>m_rr_Type = zero_type_meta, m_rr_Meta = zero_object_meta,
     m_rr_Spec = zero_record_spec, m_rr_Status = zero_record_status\<rparr>"

definition zero_record_list :: RotationRecordList_mem where
  "zero_record_list = \<lparr>m_rrl_Type = zero_type_meta, m_rrl_Meta = zero_list_meta,
     m_rrl_Items = None\<rparr>"

section \<open>The blocks of the store\<close>

text \<open>One constructor for each Go type of which the program allocates variables or arrays.\<close>

datatype mem =
    Strings (strings: "string list")
  | Int32s (int32s: "(32 word) list")
  | Int64s (int64s: "(64 word) list")
  | Durations (durations: "duration list")
  | Times (times: "gotime list")
  | EventNames (event_names: "(NotificationEvent option) list")
  | StringMaps (string_maps: "(string \<rightharpoonup> string) list")
  | LocalObjectReferences (local_object_references: "string list")
  | ObjectReferences (object_references: "ObjectReference list")
  | ConditionList (condition_list: "Condition list")
  | KeyMappings (key_mappings: "KeyMapping list")
  | RestartTargetList (restart_target_list: "RestartTarget list")
  | SecretKeySelectors (secret_key_selectors: "SecretKeySelector list")
  | SecretReferences (secret_references: "SecretReference list")
  | NotificationSpecs (notification_specs: "NotificationSpec_mem list")
  | ProviderSpecs (provider_specs: "ProviderSpec_mem list")
  | RotationPolicies (rotation_policies: "RotationPolicy_mem list")
  | PolicySpecs (policy_specs: "SecretRotationPolicySpec_mem list")
  | PolicyStatuses (policy_statuses: "SecretRotationPolicyStatus_mem list")
  | Policies (policies: "SecretRotationPolicy_mem list")
  | PolicyLists (policy_lists: "SecretRotationPolicyList_mem list")
  | RecordSpecs (record_specs: "RotationRecordSpec list")
  | RecordStatuses (record_statuses: "RotationRecordStatus_mem list")
  | Records (records: "RotationRecord_mem list")
  | RecordLists (record_lists: "RotationRecordList_mem list")

definition string_type :: "(mem, string) go_type" where
  "string_type = \<lparr>array_of = Strings, elements = strings,
     zero = ''''\<rparr>"

definition int32_type :: "(mem, 32 word) go_type" where
  "int32_type = \<lparr>array_of = Int32s, elements = int32s,
     zero = 0\<rparr>"

definition int64_type :: "(mem, 64 word) go_type" where
  "int64_type = \<lparr>array_of = Int64s, elements = int64s,
     zero = 0\<rparr>"

definition duration_type :: "(mem, duration) go_type" where
  "duration_type = \<lparr>array_of = Durations, elements = durations,
     zero = dur 0\<rparr>"

definition time_type :: "(mem, gotime) go_type" where
  "time_type = \<lparr>array_of = Times, elements = times,
     zero = zero_time\<rparr>"

definition event_type :: "(mem, NotificationEvent option) go_type" where
  "event_type = \<lparr>array_of = EventNames, elements = event_names,
     zero = None\<rparr>"

definition map_type :: "(mem, (string \<rightharpoonup> string)) go_type" where
  "map_type = \<lparr>array_of = StringMaps, elements = string_maps,
     zero = Map.empty\<rparr>"

definition local_ref_type :: "(mem, string) go_type" where
  "local_ref_type = \<lparr>array_of = LocalObjectReferences, elements = local_object_references,
     zero = ''''\<rparr>"

definition object_ref_type :: "(mem, ObjectReference) go_type" where
  "object_ref_type = \<lparr>array_of = ObjectReferences, elements = object_references,
     zero = \<lparr>or_APIVersion = '''', or_Kind = '''', or_Name = '''', or_Namespace = ''''\<rparr>\<rparr>"

definition condition_type :: "(mem, Condition) go_type" where
  "condition_type = \<lparr>array_of = ConditionList, elements = condition_list,
     zero = \<lparr>Type = '''', cond_Status = ConditionUnset, Reason = '''', Message = '''',
       LastTransitionTime = zero_time\<rparr>\<rparr>"

definition key_mapping_type :: "(mem, KeyMapping) go_type" where
  "key_mapping_type = \<lparr>array_of = KeyMappings, elements = key_mappings,
     zero = \<lparr>ProviderKey = '''', SecretKey = ''''\<rparr>\<rparr>"

definition restart_target_type :: "(mem, RestartTarget) go_type" where
  "restart_target_type = \<lparr>array_of = RestartTargetList, elements = restart_target_list,
     zero = \<lparr>rt_Kind = '''', rt_Name = '''', rt_Namespace = ''''\<rparr>\<rparr>"

definition selector_type :: "(mem, SecretKeySelector) go_type" where
  "selector_type = \<lparr>array_of = SecretKeySelectors, elements = secret_key_selectors,
     zero = \<lparr>sks_Name = '''', sks_Key = ''''\<rparr>\<rparr>"

definition secret_ref_type :: "(mem, SecretReference) go_type" where
  "secret_ref_type = \<lparr>array_of = SecretReferences, elements = secret_references,
     zero = \<lparr>ref_Name = '''', ref_Namespace = ''''\<rparr>\<rparr>"

definition notification_type :: "(mem, NotificationSpec_mem) go_type" where
  "notification_type = \<lparr>array_of = NotificationSpecs, elements = notification_specs,
     zero = zero_notification\<rparr>"

definition provider_spec_type :: "(mem, ProviderSpec_mem) go_type" where
  "provider_spec_type = \<lparr>array_of = ProviderSpecs, elements = provider_specs,
     zero = zero_provider_spec\<rparr>"

definition rotation_policy_type :: "(mem, RotationPolicy_mem) go_type" where
  "rotation_policy_type = \<lparr>array_of = RotationPolicies, elements = rotation_policies,
     zero = zero_rotation_policy\<rparr>"

definition policy_spec_type :: "(mem, SecretRotationPolicySpec_mem) go_type" where
  "policy_spec_type = \<lparr>array_of = PolicySpecs, elements = policy_specs,
     zero = zero_policy_spec\<rparr>"

definition policy_status_type :: "(mem, SecretRotationPolicyStatus_mem) go_type" where
  "policy_status_type = \<lparr>array_of = PolicyStatuses, elements = policy_statuses,
     zero = zero_policy_status\<rparr>"

definition policy_type :: "(mem, SecretRotationPolicy_mem) go_type" where
  "policy_type = \<lparr>array_of = Policies, elements = policies,
     zero = zero_policy\<rparr>"

definition policy_list_type :: "(mem, SecretRotationPolicyList_mem) go_type" where
  "policy_list_type = \<lparr>array_of = PolicyLists, elements = policy_lists,
     zero = zero_policy_list\<rparr>"

definition record_spec_type :: "(mem, RotationRecordSpec) go_type" where
  "record_spec_type = \<lparr>array_of = RecordSpecs, elements = record_specs,
     zero = zero_record_spec\<rparr>"

definition record_status_type :: "(mem, RotationRecordStatus_mem) go_type" where
  "record_status_type = \<lparr>array_of = RecordStatuses, elements = record_statuses,
     zero = zero_record_status\<rparr>"

definition record_type :: "(mem, RotationRecord_mem) go_type" where
  "record_type = \<lparr>array_of = Records, elements = records,
     zero = zero_record\<rparr>"

definition record_list_type :: "(mem, RotationRecordList_mem) go_type" where
  "record_list_type = \<lparr>array_of = RecordLists, elements = record_lists,
     zero = zero_record_list\<rparr>"

lemmas mem_types =
  string_type_def int32_type_def int64_type_def duration_type_def time_type_def event_type_def
  map_type_def local_ref_type_def object_ref_type_def condition_type_def key_mapping_type_def
  restart_target_type_def selector_type_def secret_ref_type_def notification_type_def
  provider_spec_type_def rotation_policy_type_def policy_spec_type_def policy_status_type_def
  policy_type_def policy_list_type_def record_spec_type_def record_status_type_def
  record_type_def record_list_type_def

lemma stored_types [simp]:
  "stored string_type"
  "stored int32_type"
  "stored int64_type"
  "stored duration_type"
  "stored time_type"
  "stored event_type"
  "stored map_type"
  "stored local_ref_type"
  "stored object_ref_type"
  "stored condition_type"
  "stored key_mapping_type"
  "stored restart_target_type"
  "stored selector_type"
  "stored secret_ref_type"
  "stored notification_type"
  "stored provider_spec_type"
  "stored rotation_policy_type"
  "stored policy_spec_type"
  "stored policy_status_type"
  "stored policy_type"
  "stored policy_list_type"
  "stored record_spec_type"
  "stored record_status_type"
  "stored record_type"
  "stored record_list_type"
  by (simp_all add: stored_def mem_types)

end
