(* ===== verification/DeepCopy.thy ===== *)
theory DeepCopy
  imports Memory
begin

text \<open>
  \<^verbatim>\<open>api/v1alpha1/zz_generated.deepcopy.go\<close>: how the API objects are copied.  Each
  \<^verbatim>\<open>DeepCopyInto\<close> is given the value of \<^verbatim>\<open>*in\<close> and returns the value that \<^verbatim>\<open>*out\<close> has at the
  end; the two are different variables, as in every call.  That the result is a deep copy is the
  locale \<open>deep_copier\<close>, interpreted here on the functions of the types that need no other package;
  the functions of the others use the \<^verbatim>\<open>DeepCopyInto\<close> of apimachinery's types, which are the
  fields of \<open>machinery\<close>.
\<close>

section \<open>Readings of the basic types\<close>

definition flat_cells :: "mem store \<Rightarrow> 'a \<Rightarrow> block set" where
  "flat_cells s x = {}"

definition flat_view :: "mem store \<Rightarrow> 'a \<Rightarrow> 'a" where
  "flat_view s x = x"

interpretation flat: deep_copier flat_cells flat_view State_Monad.return
  unfolding flat_cells_def flat_view_def by (rule flat_copier)

text \<open>A pointer that may be nil, and a slice that may be nil, of values without references.\<close>

definition ptr_cells :: "(mem, 'a) go_type \<Rightarrow> mem store \<Rightarrow> ptr option \<Rightarrow> block set" where
  "ptr_cells T = option_cells (pointer_cells T flat_cells)"

definition ptr_view :: "(mem, 'a) go_type \<Rightarrow> mem store \<Rightarrow> ptr option \<Rightarrow> 'a option" where
  "ptr_view T = option_view (pointer_view T flat_view)"

definition copy_ptr :: "(mem, 'a) go_type \<Rightarrow> ptr option \<Rightarrow> (mem, ptr option) alloc" where
  "copy_ptr T = unless_nil (new_copy T State_Monad.return)"

definition list_cells :: "(mem, 'a) go_type \<Rightarrow> mem store \<Rightarrow> slice option \<Rightarrow> block set" where
  "list_cells T = option_cells (slice_cells T flat_cells)"

definition list_view :: "(mem, 'a) go_type \<Rightarrow> mem store \<Rightarrow> slice option \<Rightarrow> 'a list option" where
  "list_view T = option_view (slice_view T flat_view)"

definition copy_list :: "(mem, 'a) go_type \<Rightarrow> slice option \<Rightarrow> (mem, slice option) alloc" where
  "copy_list T = unless_nil (make_copy T State_Monad.return)"

lemma ptr_copier: "stored T \<Longrightarrow> deep_copier (ptr_cells T) (ptr_view T) (copy_ptr T)"
  unfolding ptr_cells_def ptr_view_def copy_ptr_def
  by (intro option_copier pointer_copier flat.deep_copier_axioms)

lemma list_copier: "stored T \<Longrightarrow> deep_copier (list_cells T) (list_view T) (copy_list T)"
  unfolding list_cells_def list_view_def copy_list_def
  by (intro option_copier slice_copier flat.deep_copier_axioms)

text \<open>
  A map is referred to by a pointer.  \<^verbatim>\<open>make\<close> gives an empty one, and the \<^verbatim>\<open>range\<close> loop assigns
  the entries to it, in whatever order.
\<close>

definition range_assign :: "(string \<rightharpoonup> string) \<Rightarrow> (string \<rightharpoonup> string) \<Rightarrow> string \<rightharpoonup> string" where
  "range_assign out inp = out ++ inp"

lemma range_assign_any_order:
  assumes "set keys = dom inp"
  shows "fold (\<lambda>k acc. acc(k := inp k)) keys out = range_assign out inp"
proof -
  have "fold (\<lambda>k acc. acc(k := inp k)) keys out = (\<lambda>k. if k \<in> set keys then inp k else out k)"
    by (induction keys arbitrary: out) auto
  then show ?thesis
    by (auto simp: assms range_assign_def map_add_def fun_eq_iff split: option.splits)
qed

definition copy_entries :: "(string \<rightharpoonup> string) \<Rightarrow> (mem, string \<rightharpoonup> string) alloc" where
  "copy_entries inp = State_Monad.return (range_assign Map.empty inp)"

definition copy_map :: "ptr option \<Rightarrow> (mem, ptr option) alloc" where
  "copy_map = unless_nil (new_copy map_type copy_entries)"

lemma copy_map_ptr [simp]: "copy_map = copy_ptr map_type"
proof -
  have "copy_entries = State_Monad.return"
    by (rule ext) (simp add: copy_entries_def range_assign_def)
  then show ?thesis by (simp add: copy_map_def copy_ptr_def)
qed

section \<open>What is taken from apimachinery\<close>

record machinery =
  ObjectMeta_DeepCopyInto :: "ObjectMeta_mem \<Rightarrow> (mem, ObjectMeta_mem) alloc"
  ListMeta_DeepCopyInto :: "ListMeta_mem \<Rightarrow> (mem, ListMeta_mem) alloc"
  Condition_DeepCopyInto :: "Condition \<Rightarrow> (mem, Condition) alloc"
  Time_DeepCopyInto :: "gotime \<Rightarrow> (mem, gotime) alloc"
  Time_DeepCopy :: "ptr option \<Rightarrow> (mem, ptr option) alloc"

definition meta_refs where
  "meta_refs r = (m_Labels r, m_Annotations r, m_Finalizers r, m_OwnerReferences r,
     m_DeletionTimestamp r)"

definition meta_values where
  "meta_values r = (m_Name r, m_GenerateName r, m_Namespace r, m_CreationTimestamp r)"

definition meta_cells :: "mem store \<Rightarrow> ObjectMeta_mem \<Rightarrow> block set" where
  "meta_cells = part_cells meta_refs (pair_cells (ptr_cells map_type)
     (pair_cells (ptr_cells map_type) (pair_cells (list_cells string_type)
     (pair_cells (list_cells string_type) (ptr_cells time_type)))))"

definition meta_view where
  "meta_view = part_view meta_values meta_refs (pair_view (ptr_view map_type)
     (pair_view (ptr_view map_type) (pair_view (list_view string_type)
     (pair_view (list_view string_type) (ptr_view time_type)))))"

definition list_meta_cells :: "mem store \<Rightarrow> ListMeta_mem \<Rightarrow> block set" where
  "list_meta_cells = part_cells m_RemainingItemCount (ptr_cells int64_type)"

definition list_meta_view where
  "list_meta_view =
     part_view (\<lambda>r. (m_ResourceVersion r, m_Continue r)) m_RemainingItemCount (ptr_view int64_type)"

text \<open>The documented behaviour: each of them makes a deep copy.\<close>

definition machinery_copies :: "machinery \<Rightarrow> bool" where
  "machinery_copies M \<longleftrightarrow>
     deep_copier meta_cells meta_view (ObjectMeta_DeepCopyInto M) \<and>
     deep_copier list_meta_cells list_meta_view (ListMeta_DeepCopyInto M) \<and>
     deep_copier flat_cells flat_view (Condition_DeepCopyInto M) \<and>
     deep_copier flat_cells flat_view (Time_DeepCopyInto M) \<and>
     deep_copier (ptr_cells time_type) (ptr_view time_type) (Time_DeepCopy M)"

text \<open>\<^verbatim>\<open>if in.T != nil { *out = (*in).DeepCopy() }\<close>.\<close>

definition copy_time :: "machinery \<Rightarrow> ptr option \<Rightarrow> (mem, ptr option) alloc" where
  "copy_time M x =
     (case x of None \<Rightarrow> State_Monad.return None | Some p \<Rightarrow> Time_DeepCopy M (Some p))"

lemma time_copier:
  assumes "machinery_copies M"
  shows "deep_copier (ptr_cells time_type) (ptr_view time_type) (copy_time M)"
proof -
  have dc: "deep_copier (ptr_cells time_type) (ptr_view time_type) (Time_DeepCopy M)"
    using assms by (simp add: machinery_copies_def)
  show ?thesis
  proof (rule deep_copierI)
    fix s s' :: "mem list" and x :: "ptr option"
    assume "b \<in> ptr_cells time_type s x \<Longrightarrow> s' ! b = s ! b" for b
    then show "ptr_cells time_type s' x = ptr_cells time_type s x \<and>
        ptr_view time_type s' x = ptr_view time_type s x"
      by (rule reading.local_to_cells [OF deep_copier.axioms(1) [OF dc]])
  next
    fix s s' :: "mem list" and x y :: "ptr option"
    assume "ptr_cells time_type s x \<subseteq> allocated s" and "run_state (copy_time M x) s = (y, s')"
    then show "extends s s' \<and> ptr_view time_type s' y = ptr_view time_type s x \<and>
        ptr_cells time_type s' y \<subseteq> {length s..<length s'}"
    proof (cases x)
      case None
      then show ?thesis
        using \<open>run_state (copy_time M x) s = (y, s')\<close>
        by (simp add: copy_time_def store_run ptr_cells_def ptr_view_def option_cells_def
            option_view_def)
    next
      case (Some p)
      then show ?thesis
        using \<open>run_state (copy_time M x) s = (y, s')\<close> \<open>ptr_cells time_type s x \<subseteq> allocated s\<close>
        by (intro deep_copier.copies [OF dc]) (simp_all add: copy_time_def)
    qed
  qed
qed

section \<open>Specs\<close>

text \<open>The types that are copied by assignment.\<close>

definition KeyMapping_DeepCopyInto :: "KeyMapping \<Rightarrow> (mem, KeyMapping) alloc" where
  "KeyMapping_DeepCopyInto inp = State_Monad.return inp"

definition RestartTarget_DeepCopyInto :: "RestartTarget \<Rightarrow> (mem, RestartTarget) alloc" where
  "RestartTarget_DeepCopyInto inp = State_Monad.return inp"

definition SecretKeySelector_DeepCopyInto ::
  "SecretKeySelector \<Rightarrow> (mem, SecretKeySelector) alloc" where
  "SecretKeySelector_DeepCopyInto inp = State_Monad.return inp"

definition SecretReference_DeepCopyInto :: "SecretReference \<Rightarrow> (mem, SecretReference) alloc" where
  "SecretReference_DeepCopyInto inp = State_Monad.return inp"

definition NotificationSpec_DeepCopyInto ::
  "NotificationSpec_mem \<Rightarrow> (mem, NotificationSpec_mem) alloc" where
  "NotificationSpec_DeepCopyInto inp = do {
     let out = inp;
     events \<leftarrow> copy_list event_type (m_Events inp);
     let out = out\<lparr>m_Events := events\<rparr>;
     secretRef \<leftarrow> copy_ptr selector_type (m_ns_SecretRef inp);
     State_Monad.return (out\<lparr>m_ns_SecretRef := secretRef\<rparr>)
   }"

definition ProviderSpec_DeepCopyInto :: "ProviderSpec_mem \<Rightarrow> (mem, ProviderSpec_mem) alloc" where
  "ProviderSpec_DeepCopyInto inp = do {
     let out = inp;
     configRef \<leftarrow> copy_ptr local_ref_type (m_ConfigRef inp);
     let out = out\<lparr>m_ConfigRef := configRef\<rparr>;
     params \<leftarrow> copy_map (m_Params inp);
     State_Monad.return (out\<lparr>m_Params := params\<rparr>)
   }"

definition RotationPolicy_DeepCopyInto ::
  "RotationPolicy_mem \<Rightarrow> (mem, RotationPolicy_mem) alloc" where
  "RotationPolicy_DeepCopyInto inp = do {
     let out = inp;
     historyLimit \<leftarrow> copy_ptr int32_type (m_HistoryLimit inp);
     let out = out\<lparr>m_HistoryLimit := historyLimit\<rparr>;
     retryLimit \<leftarrow> copy_ptr int32_type (m_RetryLimit inp);
     let out = out\<lparr>m_RetryLimit := retryLimit\<rparr>;
     retryBackoff \<leftarrow> copy_ptr duration_type (m_RetryBackoff inp);
     State_Monad.return (out\<lparr>m_RetryBackoff := retryBackoff\<rparr>)
   }"

definition SecretRotationPolicySpec_DeepCopyInto ::
  "SecretRotationPolicySpec_mem \<Rightarrow> (mem, SecretRotationPolicySpec_mem) alloc" where
  "SecretRotationPolicySpec_DeepCopyInto inp = do {
     let out = inp;
     let out = out\<lparr>m_SecretRef := m_SecretRef inp\<rparr>;
     rotationWindow \<leftarrow> copy_ptr duration_type (m_RotationWindow inp);
     let out = out\<lparr>m_RotationWindow := rotationWindow\<rparr>;
     provider \<leftarrow> ProviderSpec_DeepCopyInto (m_Provider inp);
     let out = out\<lparr>m_Provider := provider\<rparr>;
     keys \<leftarrow> copy_list key_mapping_type (m_Keys inp);
     let out = out\<lparr>m_Keys := keys\<rparr>;
     restartTargets \<leftarrow> copy_list restart_target_type (m_RestartTargets inp);
     let out = out\<lparr>m_RestartTargets := restartTargets\<rparr>;
     policy \<leftarrow> RotationPolicy_DeepCopyInto (m_Policy inp);
     let out = out\<lparr>m_Policy := policy\<rparr>;
     notifications \<leftarrow>
       unless_nil (make_copy notification_type NotificationSpec_DeepCopyInto) (m_Notifications inp);
     State_Monad.return (out\<lparr>m_Notifications := notifications\<rparr>)
   }"

text \<open>What they reach and what can be read of them.\<close>

definition notification_cells :: "mem store \<Rightarrow> NotificationSpec_mem \<Rightarrow> block set" where
  "notification_cells = part_cells (\<lambda>r. (m_Events r, m_ns_SecretRef r))
     (pair_cells (list_cells event_type) (ptr_cells selector_type))"

definition notification_view where
  "notification_view = part_view m_URL (\<lambda>r. (m_Events r, m_ns_SecretRef r))
     (pair_view (list_view event_type) (ptr_view selector_type))"

definition provider_spec_cells :: "mem store \<Rightarrow> ProviderSpec_mem \<Rightarrow> block set" where
  "provider_spec_cells = part_cells (\<lambda>r. (m_ConfigRef r, m_Params r))
     (pair_cells (ptr_cells local_ref_type) (ptr_cells map_type))"

definition provider_spec_view where
  "provider_spec_view = part_view m_ps_Name (\<lambda>r. (m_ConfigRef r, m_Params r))
     (pair_view (ptr_view local_ref_type) (ptr_view map_type))"

definition rotation_policy_cells :: "mem store \<Rightarrow> RotationPolicy_mem \<Rightarrow> block set" where
  "rotation_policy_cells = part_cells (\<lambda>r. (m_HistoryLimit r, m_RetryLimit r, m_RetryBackoff r))
     (pair_cells (ptr_cells int32_type) (pair_cells (ptr_cells int32_type)
     (ptr_cells duration_type)))"

definition rotation_policy_view where
  "rotation_policy_view = part_view (\<lambda>r. (m_Suspend r, m_FailurePolicy r))
     (\<lambda>r. (m_HistoryLimit r, m_RetryLimit r, m_RetryBackoff r))
     (pair_view (ptr_view int32_type) (pair_view (ptr_view int32_type) (ptr_view duration_type)))"

definition spec_refs where
  "spec_refs r = (m_RotationWindow r, m_Provider r, m_Keys r, m_RestartTargets r, m_Policy r,
     m_Notifications r)"

definition policy_spec_cells :: "mem store \<Rightarrow> SecretRotationPolicySpec_mem \<Rightarrow> block set" where
  "policy_spec_cells = part_cells spec_refs (pair_cells (ptr_cells duration_type)
     (pair_cells provider_spec_cells (pair_cells (list_cells key_mapping_type)
     (pair_cells (list_cells restart_target_type) (pair_cells rotation_policy_cells
     (option_cells (slice_cells notification_type notification_cells)))))))"

definition policy_spec_view where
  "policy_spec_view = part_view (\<lambda>r. (m_SecretRef r, m_Schedule r)) spec_refs
     (pair_view (ptr_view duration_type)
     (pair_view provider_spec_view (pair_view (list_view key_mapping_type)
     (pair_view (list_view restart_target_type) (pair_view rotation_policy_view
     (option_view (slice_view notification_type notification_view)))))))"

lemmas copier_intros = pair_copier option_copier slice_copier ptr_copier list_copier stored_types
  flat.deep_copier_axioms

interpretation notification: deep_copier notification_cells notification_view
    NotificationSpec_DeepCopyInto
  unfolding notification_cells_def notification_view_def
  by (rule struct_copier [where put = "\<lambda>r (a, b). r\<lparr>m_Events := a, m_ns_SecretRef := b\<rparr>"],
      (rule copier_intros)+)
    (auto simp: NotificationSpec_DeepCopyInto_def pair_copy_def Let_def)

interpretation provider_spec: deep_copier provider_spec_cells provider_spec_view
    ProviderSpec_DeepCopyInto
  unfolding provider_spec_cells_def provider_spec_view_def
  by (rule struct_copier [where put = "\<lambda>r (a, b). r\<lparr>m_ConfigRef := a, m_Params := b\<rparr>"],
      (rule copier_intros)+)
    (auto simp: ProviderSpec_DeepCopyInto_def pair_copy_def Let_def)

interpretation rotation_policy: deep_copier rotation_policy_cells rotation_policy_view
    RotationPolicy_DeepCopyInto
  unfolding rotation_policy_cells_def rotation_policy_view_def
  by (rule struct_copier [where put =
        "\<lambda>r (a, b, c). r\<lparr>m_HistoryLimit := a, m_RetryLimit := b, m_RetryBackoff := c\<rparr>"],
      (rule copier_intros)+)
    (auto simp: RotationPolicy_DeepCopyInto_def pair_copy_def Let_def)

interpretation policy_spec: deep_copier policy_spec_cells policy_spec_view
    SecretRotationPolicySpec_DeepCopyInto
  unfolding policy_spec_cells_def policy_spec_view_def
  by (rule struct_copier [where put = "\<lambda>r (a, b, c, d, e, f). r\<lparr>m_RotationWindow := a,
        m_Provider := b, m_Keys := c, m_RestartTargets := d, m_Policy := e, m_Notifications := f\<rparr>"],
      (rule copier_intros provider_spec.deep_copier_axioms rotation_policy.deep_copier_axioms
        notification.deep_copier_axioms)+)
    (auto simp: SecretRotationPolicySpec_DeepCopyInto_def pair_copy_def spec_refs_def Let_def)

section \<open>Statuses, objects and lists\<close>

definition RotationRecordSpec_DeepCopyInto ::
  "machinery \<Rightarrow> RotationRecordSpec \<Rightarrow> (mem, RotationRecordSpec) alloc" where
  "RotationRecordSpec_DeepCopyInto M inp = do {
     let out = inp;
     let out = out\<lparr>PolicyRef := PolicyRef inp\<rparr>;
     requestedAt \<leftarrow> Time_DeepCopyInto M (RequestedAt inp);
     State_Monad.return (out\<lparr>RequestedAt := requestedAt\<rparr>)
   }"

definition RotationRecordStatus_DeepCopyInto ::
  "machinery \<Rightarrow> RotationRecordStatus_mem \<Rightarrow> (mem, RotationRecordStatus_mem) alloc" where
  "RotationRecordStatus_DeepCopyInto M inp = do {
     let out = inp;
     startTime \<leftarrow> copy_time M (m_StartTime inp);
     let out = out\<lparr>m_StartTime := startTime\<rparr>;
     completionTime \<leftarrow> copy_time M (m_CompletionTime inp);
     let out = out\<lparr>m_CompletionTime := completionTime\<rparr>;
     rotatedKeys \<leftarrow> copy_list string_type (m_RotatedKeys inp);
     let out = out\<lparr>m_RotatedKeys := rotatedKeys\<rparr>;
     restartsTriggered \<leftarrow> copy_list restart_target_type (m_RestartsTriggered inp);
     State_Monad.return (out\<lparr>m_RestartsTriggered := restartsTriggered\<rparr>)
   }"

definition SecretRotationPolicyStatus_DeepCopyInto ::
  "machinery \<Rightarrow> SecretRotationPolicyStatus_mem \<Rightarrow> (mem, SecretRotationPolicyStatus_mem) alloc" where
  "SecretRotationPolicyStatus_DeepCopyInto M inp = do {
     let out = inp;
     lastRotationTime \<leftarrow> copy_time M (m_LastRotationTime inp);
     let out = out\<lparr>m_LastRotationTime := lastRotationTime\<rparr>;
     nextRotationTime \<leftarrow> copy_time M (m_NextRotationTime inp);
     let out = out\<lparr>m_NextRotationTime := nextRotationTime\<rparr>;
     lastRotationRecord \<leftarrow> copy_ptr object_ref_type (m_LastRotationRecord inp);
     let out = out\<lparr>m_LastRotationRecord := lastRotationRecord\<rparr>;
     conditions \<leftarrow>
       unless_nil (make_copy condition_type (Condition_DeepCopyInto M)) (m_Conditions inp);
     State_Monad.return (out\<lparr>m_Conditions := conditions\<rparr>)
   }"

definition SecretRotationPolicy_DeepCopyInto ::
  "machinery \<Rightarrow> SecretRotationPolicy_mem \<Rightarrow> (mem, SecretRotationPolicy_mem) alloc" where
  "SecretRotationPolicy_DeepCopyInto M inp = do {
     let out = inp;
     let out = out\<lparr>m_srp_Type := m_srp_Type inp\<rparr>;
     meta \<leftarrow> ObjectMeta_DeepCopyInto M (m_srp_Meta inp);
     let out = out\<lparr>m_srp_Meta := meta\<rparr>;
     spec \<leftarrow> SecretRotationPolicySpec_DeepCopyInto (m_srp_Spec inp);
     let out = out\<lparr>m_srp_Spec := spec\<rparr>;
     status \<leftarrow> SecretRotationPolicyStatus_DeepCopyInto M (m_srp_Status inp);
     State_Monad.return (out\<lparr>m_srp_Status := status\<rparr>)
   }"

definition RotationRecord_DeepCopyInto ::
  "machinery \<Rightarrow> RotationRecord_mem \<Rightarrow> (mem, RotationRecord_mem) alloc" where
  "RotationRecord_DeepCopyInto M inp = do {
     let out = inp;
     let out = out\<lparr>m_rr_Type := m_rr_Type inp\<rparr>;
     meta \<leftarrow> ObjectMeta_DeepCopyInto M (m_rr_Meta inp);
     let out = out\<lparr>m_rr_Meta := meta\<rparr>;
     spec \<leftarrow> RotationRecordSpec_DeepCopyInto M (m_rr_Spec inp);
     let out = out\<lparr>m_rr_Spec := spec\<rparr>;
     status \<leftarrow> RotationRecordStatus_DeepCopyInto M (m_rr_Status inp);
     State_Monad.return (out\<lparr>m_rr_Status := status\<rparr>)
   }"

definition SecretRotationPolicyList_DeepCopyInto ::
  "machinery \<Rightarrow> SecretRotationPolicyList_mem \<Rightarrow> (mem, SecretRotationPolicyList_mem) alloc" where
  "SecretRotationPolicyList_DeepCopyInto M inp = do {
     let out = inp;
     let out = out\<lparr>m_srpl_Type := m_srpl_Type inp\<rparr>;
     meta \<leftarrow> ListMeta_DeepCopyInto M (m_srpl_Meta inp);
     let out = out\<lparr>m_srpl_Meta := meta\<rparr>;
     items \<leftarrow> unless_nil (make_copy policy_type (SecretRotationPolicy_DeepCopyInto M))
       (m_srpl_Items inp);
     State_Monad.return (out\<lparr>m_srpl_Items := items\<rparr>)
   }"

definition RotationRecordList_DeepCopyInto ::
  "machinery \<Rightarrow> RotationRecordList_mem \<Rightarrow> (mem, RotationRecordList_mem) alloc" where
  "RotationRecordList_DeepCopyInto M inp = do {
     let out = inp;
     let out = out\<lparr>m_rrl_Type := m_rrl_Type inp\<rparr>;
     meta \<leftarrow> ListMeta_DeepCopyInto M (m_rrl_Meta inp);
     let out = out\<lparr>m_rrl_Meta := meta\<rparr>;
     items \<leftarrow> unless_nil (make_copy record_type (RotationRecord_DeepCopyInto M)) (m_rrl_Items inp);
     State_Monad.return (out\<lparr>m_rrl_Items := items\<rparr>)
   }"

text \<open>What they reach and what can be read of them.\<close>

definition record_spec_cells :: "mem store \<Rightarrow> RotationRecordSpec \<Rightarrow> block set" where
  "record_spec_cells = part_cells RequestedAt flat_cells"

definition record_spec_view where
  "record_spec_view = part_view (\<lambda>r. (PolicyRef r, TriggeredBy r)) RequestedAt flat_view"

definition record_status_refs where
  "record_status_refs r = (m_StartTime r, m_CompletionTime r, m_RotatedKeys r,
     m_RestartsTriggered r)"

definition record_status_values where
  "record_status_values r = (m_rrs_Phase r, m_rrs_Duration r, m_ProviderName r, m_rrs_Error r,
     m_RetryCount r)"

definition record_status_cells :: "mem store \<Rightarrow> RotationRecordStatus_mem \<Rightarrow> block set" where
  "record_status_cells = part_cells record_status_refs (pair_cells (ptr_cells time_type)
     (pair_cells (ptr_cells time_type) (pair_cells (list_cells string_type)
     (list_cells restart_target_type))))"

definition record_status_view where
  "record_status_view = part_view record_status_values record_status_refs
     (pair_view (ptr_view time_type) (pair_view (ptr_view time_type)
     (pair_view (list_view string_type) (list_view restart_target_type))))"

definition policy_status_refs where
  "policy_status_refs r = (m_LastRotationTime r, m_NextRotationTime r, m_LastRotationRecord r,
     m_Conditions r)"

definition policy_status_cells :: "mem store \<Rightarrow> SecretRotationPolicyStatus_mem \<Rightarrow> block set" where
  "policy_status_cells = part_cells policy_status_refs (pair_cells (ptr_cells time_type)
     (pair_cells (ptr_cells time_type) (pair_cells (ptr_cells object_ref_type)
     (list_cells condition_type))))"

definition policy_status_view where
  "policy_status_view = part_view (\<lambda>r. (m_srps_Phase r, m_CurrentRetryCount r)) policy_status_refs
     (pair_view (ptr_view time_type) (pair_view (ptr_view time_type)
     (pair_view (ptr_view object_ref_type) (list_view condition_type))))"

definition policy_refs where
  "policy_refs r = (m_srp_Meta r, m_srp_Spec r, m_srp_Status r)"

definition policy_cells :: "mem store \<Rightarrow> SecretRotationPolicy_mem \<Rightarrow> block set" where
  "policy_cells = part_cells policy_refs
     (pair_cells meta_cells (pair_cells policy_spec_cells policy_status_cells))"

definition policy_view where
  "policy_view = part_view m_srp_Type policy_refs
     (pair_view meta_view (pair_view policy_spec_view policy_status_view))"

definition record_refs where
  "record_refs r = (m_rr_Meta r, m_rr_Spec r, m_rr_Status r)"

definition record_cells :: "mem store \<Rightarrow> RotationRecord_mem \<Rightarrow> block set" where
  "record_cells = part_cells record_refs
     (pair_cells meta_cells (pair_cells record_spec_cells record_status_cells))"

definition record_view where
  "record_view = part_view m_rr_Type record_refs
     (pair_view meta_view (pair_view record_spec_view record_status_view))"

definition policy_list_cells :: "mem store \<Rightarrow> SecretRotationPolicyList_mem \<Rightarrow> block set" where
  "policy_list_cells = part_cells (\<lambda>r. (m_srpl_Meta r, m_srpl_Items r))
     (pair_cells list_meta_cells (option_cells (slice_cells policy_type policy_cells)))"

definition policy_list_view where
  "policy_list_view = part_view m_srpl_Type (\<lambda>r. (m_srpl_Meta r, m_srpl_Items r))
     (pair_view list_meta_view (option_view (slice_view policy_type policy_view)))"

definition record_list_cells :: "mem store \<Rightarrow> RotationRecordList_mem \<Rightarrow> block set" where
  "record_list_cells = part_cells (\<lambda>r. (m_rrl_Meta r, m_rrl_Items r))
     (pair_cells list_meta_cells (option_cells (slice_cells record_type record_cells)))"

definition record_list_view where
  "record_list_view = part_view m_rrl_Type (\<lambda>r. (m_rrl_Meta r, m_rrl_Items r))
     (pair_view list_meta_view (option_view (slice_view record_type record_view)))"

lemma machinery_copiers:
  assumes "machinery_copies M"
  shows "deep_copier meta_cells meta_view (ObjectMeta_DeepCopyInto M)"
    and "deep_copier list_meta_cells list_meta_view (ListMeta_DeepCopyInto M)"
    and "deep_copier flat_cells flat_view (Condition_DeepCopyInto M)"
    and "deep_copier flat_cells flat_view (Time_DeepCopyInto M)"
  using assms by (simp_all add: machinery_copies_def)

lemma record_spec_copier:
  assumes "machinery_copies M"
  shows "deep_copier record_spec_cells record_spec_view (RotationRecordSpec_DeepCopyInto M)"
  unfolding record_spec_cells_def record_spec_view_def
  by (rule struct_copier [where put = "\<lambda>r a. r\<lparr>RequestedAt := a\<rparr>"],
      rule machinery_copiers(4) [OF assms])
    (auto simp: RotationRecordSpec_DeepCopyInto_def Let_def)

lemma record_status_copier:
  assumes "machinery_copies M"
  shows "deep_copier record_status_cells record_status_view (RotationRecordStatus_DeepCopyInto M)"
  unfolding record_status_cells_def record_status_view_def
  by (rule struct_copier [where put = "\<lambda>r (a, b, c, d). r\<lparr>m_StartTime := a,
        m_CompletionTime := b, m_RotatedKeys := c, m_RestartsTriggered := d\<rparr>"],
      (rule copier_intros time_copier [OF assms])+)
    (auto simp: RotationRecordStatus_DeepCopyInto_def pair_copy_def record_status_refs_def
      record_status_values_def Let_def)

lemma policy_status_copier:
  assumes "machinery_copies M"
  shows "deep_copier policy_status_cells policy_status_view
    (SecretRotationPolicyStatus_DeepCopyInto M)"
  unfolding policy_status_cells_def policy_status_view_def list_cells_def list_view_def
  by (rule struct_copier [where put = "\<lambda>r (a, b, c, d). r\<lparr>m_LastRotationTime := a,
        m_NextRotationTime := b, m_LastRotationRecord := c, m_Conditions := d\<rparr>"],
      (rule machinery_copiers [OF assms] copier_intros time_copier [OF assms])+)
    (auto simp: SecretRotationPolicyStatus_DeepCopyInto_def pair_copy_def policy_status_refs_def
      Let_def)

lemma policy_copier:
  assumes "machinery_copies M"
  shows "deep_copier policy_cells policy_view (SecretRotationPolicy_DeepCopyInto M)"
  unfolding policy_cells_def policy_view_def
  by (rule struct_copier [where put =
        "\<lambda>r (a, b, c). r\<lparr>m_srp_Meta := a, m_srp_Spec := b, m_srp_Status := c\<rparr>"],
      (rule copier_intros machinery_copiers(1) [OF assms] policy_spec.deep_copier_axioms
        policy_status_copier [OF assms])+)
    (auto simp: SecretRotationPolicy_DeepCopyInto_def pair_copy_def policy_refs_def Let_def)

lemma record_copier:
  assumes "machinery_copies M"
  shows "deep_copier record_cells record_view (RotationRecord_DeepCopyInto M)"
  unfolding record_cells_def record_view_def
  by (rule struct_copier [where put =
        "\<lambda>r (a, b, c). r\<lparr>m_rr_Meta := a, m_rr_Spec := b, m_rr_Status := c\<rparr>"],
      (rule copier_intros machinery_copiers(1) [OF assms] record_spec_copier [OF assms]
        record_status_copier [OF assms])+)
    (auto simp: RotationRecord_DeepCopyInto_def pair_copy_def record_refs_def Let_def)

lemma policy_list_copier:
  assumes "machinery_copies M"
  shows "deep_copier policy_list_cells policy_list_view (SecretRotationPolicyList_DeepCopyInto M)"
  unfolding policy_list_cells_def policy_list_view_def
  by (rule struct_copier [where put = "\<lambda>r (a, b). r\<lparr>m_srpl_Meta := a, m_srpl_Items := b\<rparr>"],
      (rule copier_intros machinery_copiers(2) [OF assms] policy_copier [OF assms])+)
    (auto simp: SecretRotationPolicyList_DeepCopyInto_def pair_copy_def Let_def)

lemma record_list_copier:
  assumes "machinery_copies M"
  shows "deep_copier record_list_cells record_list_view (RotationRecordList_DeepCopyInto M)"
  unfolding record_list_cells_def record_list_view_def
  by (rule struct_copier [where put = "\<lambda>r (a, b). r\<lparr>m_rrl_Meta := a, m_rrl_Items := b\<rparr>"],
      (rule copier_intros machinery_copiers(2) [OF assms] record_copier [OF assms])+)
    (auto simp: RotationRecordList_DeepCopyInto_def pair_copy_def Let_def)

section \<open>DeepCopy and DeepCopyObject\<close>

text \<open>A nil pointer is copied to nil, another to a pointer to a new variable.\<close>

definition KeyMapping_DeepCopy :: "ptr option \<Rightarrow> (mem, ptr option) alloc" where
  "KeyMapping_DeepCopy =
     unless_nil (new_copy key_mapping_type KeyMapping_DeepCopyInto)"

definition NotificationSpec_DeepCopy :: "ptr option \<Rightarrow> (mem, ptr option) alloc" where
  "NotificationSpec_DeepCopy =
     unless_nil (new_copy notification_type NotificationSpec_DeepCopyInto)"

definition ProviderSpec_DeepCopy :: "ptr option \<Rightarrow> (mem, ptr option) alloc" where
  "ProviderSpec_DeepCopy =
     unless_nil (new_copy provider_spec_type ProviderSpec_DeepCopyInto)"

definition RestartTarget_DeepCopy :: "ptr option \<Rightarrow> (mem, ptr option) alloc" where
  "RestartTarget_DeepCopy =
     unless_nil (new_copy restart_target_type RestartTarget_DeepCopyInto)"

definition RotationPolicy_DeepCopy :: "ptr option \<Rightarrow> (mem, ptr option) alloc" where
  "RotationPolicy_DeepCopy =
     unless_nil (new_copy rotation_policy_type RotationPolicy_DeepCopyInto)"

definition RotationRecord_DeepCopy :: "machinery \<Rightarrow> ptr option \<Rightarrow> (mem, ptr option) alloc" where
  "RotationRecord_DeepCopy M =
     unless_nil (new_copy record_type (RotationRecord_DeepCopyInto M))"

definition RotationRecordList_DeepCopy :: "machinery \<Rightarrow> ptr option \<Rightarrow> (mem, ptr option) alloc" where
  "RotationRecordList_DeepCopy M =
     unless_nil (new_copy record_list_type (RotationRecordList_DeepCopyInto M))"

definition RotationRecordSpec_DeepCopy :: "machinery \<Rightarrow> ptr option \<Rightarrow> (mem, ptr option) alloc" where
  "RotationRecordSpec_DeepCopy M =
     unless_nil (new_copy record_spec_type (RotationRecordSpec_DeepCopyInto M))"

definition RotationRecordStatus_DeepCopy ::
  "machinery \<Rightarrow> ptr option \<Rightarrow> (mem, ptr option) alloc" where
  "RotationRecordStatus_DeepCopy M =
     unless_nil (new_copy record_status_type (RotationRecordStatus_DeepCopyInto M))"

definition SecretKeySelector_DeepCopy :: "ptr option \<Rightarrow> (mem, ptr option) alloc" where
  "SecretKeySelector_DeepCopy =
     unless_nil (new_copy selector_type SecretKeySelector_DeepCopyInto)"

definition SecretReference_DeepCopy :: "ptr option \<Rightarrow> (mem, ptr option) alloc" where
  "SecretReference_DeepCopy =
     unless_nil (new_copy secret_ref_type SecretReference_DeepCopyInto)"

definition SecretRotationPolicy_DeepCopy ::
  "machinery \<Rightarrow> ptr option \<Rightarrow> (mem, ptr option) alloc" where
  "SecretRotationPolicy_DeepCopy M =
     unless_nil (new_copy policy_type (SecretRotationPolicy_DeepCopyInto M))"

definition SecretRotationPolicyList_DeepCopy ::
  "machinery \<Rightarrow> ptr option \<Rightarrow> (mem, ptr option) alloc" where
  "SecretRotationPolicyList_DeepCopy M =
     unless_nil (new_copy policy_list_type (SecretRotationPolicyList_DeepCopyInto M))"

definition SecretRotationPolicySpec_DeepCopy ::
  "ptr option \<Rightarrow> (mem, ptr option) alloc" where
  "SecretRotationPolicySpec_DeepCopy =
     unless_nil (new_copy policy_spec_type SecretRotationPolicySpec_DeepCopyInto)"

definition SecretRotationPolicyStatus_DeepCopy ::
  "machinery \<Rightarrow> ptr option \<Rightarrow> (mem, ptr option) alloc" where
  "SecretRotationPolicyStatus_DeepCopy M =
     unless_nil (new_copy policy_status_type (SecretRotationPolicyStatus_DeepCopyInto M))"

text \<open>An object of the API machinery: an interface value, which is nil or holds a pointer.\<close>

datatype runtime_object =
    RotationRecordObject ptr
  | RotationRecordListObject ptr
  | SecretRotationPolicyObject ptr
  | SecretRotationPolicyListObject ptr

definition RotationRecord_DeepCopyObject ::
  "machinery \<Rightarrow> ptr option \<Rightarrow> (mem, runtime_object option) alloc" where
  "RotationRecord_DeepCopyObject M inp = do {
     c \<leftarrow> RotationRecord_DeepCopy M inp;
     State_Monad.return (case c of None \<Rightarrow> None | Some p \<Rightarrow> Some (RotationRecordObject p))
   }"

definition RotationRecordList_DeepCopyObject ::
  "machinery \<Rightarrow> ptr option \<Rightarrow> (mem, runtime_object option) alloc" where
  "RotationRecordList_DeepCopyObject M inp = do {
     c \<leftarrow> RotationRecordList_DeepCopy M inp;
     State_Monad.return (case c of None \<Rightarrow> None | Some p \<Rightarrow> Some (RotationRecordListObject p))
   }"

definition SecretRotationPolicy_DeepCopyObject ::
  "machinery \<Rightarrow> ptr option \<Rightarrow> (mem, runtime_object option) alloc" where
  "SecretRotationPolicy_DeepCopyObject M inp = do {
     c \<leftarrow> SecretRotationPolicy_DeepCopy M inp;
     State_Monad.return (case c of None \<Rightarrow> None | Some p \<Rightarrow> Some (SecretRotationPolicyObject p))
   }"

definition SecretRotationPolicyList_DeepCopyObject ::
  "machinery \<Rightarrow> ptr option \<Rightarrow> (mem, runtime_object option) alloc" where
  "SecretRotationPolicyList_DeepCopyObject M inp = do {
     c \<leftarrow> SecretRotationPolicyList_DeepCopy M inp;
     State_Monad.return (case c of None \<Rightarrow> None | Some p \<Rightarrow> Some (SecretRotationPolicyListObject p))
   }"

lemmas DeepCopyObject_defs =
  RotationRecord_DeepCopyObject_def RotationRecordList_DeepCopyObject_def
  SecretRotationPolicy_DeepCopyObject_def SecretRotationPolicyList_DeepCopyObject_def

lemma DeepCopyObject_nil:
  "run_state (RotationRecord_DeepCopyObject M None) s = (None, s)"
  "run_state (RotationRecordList_DeepCopyObject M None) s = (None, s)"
  "run_state (SecretRotationPolicy_DeepCopyObject M None) s = (None, s)"
  "run_state (SecretRotationPolicyList_DeepCopyObject M None) s = (None, s)"
  by (simp_all add: DeepCopyObject_defs RotationRecord_DeepCopy_def RotationRecordList_DeepCopy_def
      SecretRotationPolicy_DeepCopy_def SecretRotationPolicyList_DeepCopy_def unless_nil_def
      store_run)

section \<open>Reading a policy\<close>

text \<open>
  What can be read of a policy in memory, as the record of \<open>ApiTypes\<close> that the controller's model
  works on.
\<close>

definition items_of :: "'a list option \<Rightarrow> 'a list" where
  "items_of xs = (case xs of None \<Rightarrow> [] | Some ys \<Rightarrow> ys)"

fun notification_of where
  "notification_of (url, events, selector) =
     \<lparr>URL = url, Events = List.map_filter id (items_of events), ns_SecretRef = selector\<rparr>"

fun provider_spec_of where
  "provider_spec_of (name, ref, params) =
     \<lparr>ps_Name = name, ConfigRef = ref, Params = entries params\<rparr>"

fun rotation_policy_of where
  "rotation_policy_of ((suspend, failure), history, retries, backoff) =
     \<lparr>HistoryLimit = history, Suspend = suspend, rp_FailurePolicy = failure,
       RetryLimit = retries, RetryBackoff = backoff\<rparr>"

fun spec_of where
  "spec_of ((ref, schedule), window, prov, keys, targets, policy, notifications) =
     \<lparr>SecretRef = ref, Schedule = schedule, RotationWindow = window,
       Provider = provider_spec_of prov, Keys = items_of keys, RestartTargets = items_of targets,
       Policy = rotation_policy_of policy,
       Notifications = map notification_of (items_of notifications)\<rparr>"

fun status_of where
  "status_of ((phase, retries), latest, due, record, conditions) =
     \<lparr>LastRotationTime = latest, NextRotationTime = due, srps_Phase = phase,
       CurrentRetryCount = retries, LastRotationRecord = record,
       Conditions = items_of conditions\<rparr>"

fun meta_of where
  "meta_of ((name, generate, ns, created), labels, annotations, finalizers, owners, deleted) =
     \<lparr>Name = name, GenerateName = generate, Namespace = ns, Labels = labels,
       Annotations = annotations, Finalizers = items_of finalizers,
       OwnerReferences = items_of owners, CreationTimestamp = created,
       DeletionTimestamp = deleted\<rparr>"

fun policy_of where
  "policy_of (kind, meta, spec, status) =
     \<lparr>srp_Meta = meta_of meta, srp_Spec = spec_of spec, srp_Status = status_of status\<rparr>"

definition read_policy :: "mem store \<Rightarrow> ptr \<Rightarrow> SecretRotationPolicy" where
  "read_policy s p = policy_of (pointer_view policy_type policy_view s p)"

text \<open>The blocks that a policy occupies, and those that a list of policies does.\<close>

abbreviation policy_blocks :: "mem store \<Rightarrow> ptr \<Rightarrow> block set" where
  "policy_blocks \<equiv> pointer_cells policy_type policy_cells"

abbreviation policy_list_blocks :: "mem store \<Rightarrow> ptr \<Rightarrow> block set" where
  "policy_list_blocks \<equiv> pointer_cells policy_list_type policy_list_cells"

section \<open>What the copies guarantee\<close>

lemma run_unless_nil:
  "run_state (unless_nil k (Some p)) s =
     (Some (fst (run_state (k p) s)), snd (run_state (k p) s))"
  by (simp add: unless_nil_def store_run split: prod.splits)

text \<open>A machinery that copies as documented, and a list of one policy in a store of six blocks.\<close>

definition plain_machinery :: machinery where
  "plain_machinery = \<lparr>
     ObjectMeta_DeepCopyInto = (\<lambda>inp. do {
        labels \<leftarrow> copy_map (m_Labels inp);
        annotations \<leftarrow> copy_map (m_Annotations inp);
        finalizers \<leftarrow> copy_list string_type (m_Finalizers inp);
        owners \<leftarrow> copy_list string_type (m_OwnerReferences inp);
        deleted \<leftarrow> copy_ptr time_type (m_DeletionTimestamp inp);
        State_Monad.return (inp\<lparr>m_Labels := labels, m_Annotations := annotations,
          m_Finalizers := finalizers, m_OwnerReferences := owners,
          m_DeletionTimestamp := deleted\<rparr>)
     }),
     ListMeta_DeepCopyInto = (\<lambda>inp. do {
        remaining \<leftarrow> copy_ptr int64_type (m_RemainingItemCount inp);
        State_Monad.return (inp\<lparr>m_RemainingItemCount := remaining\<rparr>)
     }),
     Condition_DeepCopyInto = State_Monad.return,
     Time_DeepCopyInto = State_Monad.return,
     Time_DeepCopy = copy_ptr time_type\<rparr>"

lemma plain_machinery_copies: "machinery_copies plain_machinery"
proof -
  have "deep_copier meta_cells meta_view (ObjectMeta_DeepCopyInto plain_machinery)"
    unfolding meta_cells_def meta_view_def
    by (rule struct_copier [where put = "\<lambda>r (a, b, c, d, e). r\<lparr>m_Labels := a, m_Annotations := b,
          m_Finalizers := c, m_OwnerReferences := d, m_DeletionTimestamp := e\<rparr>"],
        (rule copier_intros)+)
      (auto simp: plain_machinery_def pair_copy_def meta_refs_def meta_values_def)
  moreover have "deep_copier list_meta_cells list_meta_view (ListMeta_DeepCopyInto plain_machinery)"
    unfolding list_meta_cells_def list_meta_view_def
    by (rule struct_copier [where put = "\<lambda>r a. r\<lparr>m_RemainingItemCount := a\<rparr>"],
        (rule copier_intros)+) (auto simp: plain_machinery_def)
  ultimately show ?thesis
    by (simp add: machinery_copies_def flat.deep_copier_axioms ptr_copier plain_machinery_def)
qed

definition example_store :: "mem store" where
  "example_store =
    [StringMaps [Map.empty(''length'' \<mapsto> ''32'')],
     EventNames [Some EventRotationFailed],
     NotificationSpecs [\<lparr>m_URL = ''http://hook'', m_Events = Some (Slice 1 0 1),
       m_ns_SecretRef = None\<rparr>],
     KeyMappings [\<lparr>ProviderKey = ''password'', SecretKey = ''DB_PASSWORD''\<rparr>],
     Policies [zero_policy\<lparr>m_srp_Spec := zero_policy_spec\<lparr>
       m_Provider := \<lparr>m_ps_Name = ''static'', m_ConfigRef = None, m_Params = Some (Ptr 0 0)\<rparr>,
       m_Keys := Some (Slice 3 0 1), m_Notifications := Some (Slice 2 0 1)\<rparr>\<rparr>],
     PolicyLists [zero_policy_list\<lparr>m_srpl_Items := Some (Slice 4 0 1)\<rparr>]]"

lemmas reading_defs =
  flat_cells_def ptr_cells_def list_cells_def meta_cells_def meta_refs_def list_meta_cells_def
  notification_cells_def provider_spec_cells_def rotation_policy_cells_def policy_spec_cells_def
  spec_refs_def policy_status_cells_def policy_status_refs_def policy_cells_def policy_refs_def
  policy_list_cells_def part_cells_def pair_cells_def option_cells_def pointer_cells_def
  slice_cells_def

lemmas zero_defs =
  zero_type_meta_def zero_object_meta_def zero_list_meta_def zero_provider_spec_def
  zero_rotation_policy_def zero_policy_spec_def zero_policy_status_def zero_policy_def
  zero_policy_list_def

lemma example_allocated: "allocated example_store = {..<6}"
  by (simp add: allocated_def example_store_def)

lemma example_memory_closed:
  "policy_blocks example_store (Ptr 4 0) \<subseteq> allocated example_store"
  "policy_list_blocks example_store (Ptr 5 0) \<subseteq> allocated example_store"
  by (auto simp: reading_defs zero_defs mem_types example_store_def allocated_def load_def
      lessThan_Suc)

text \<open>
  C29.  \<^verbatim>\<open>DeepCopy\<close>
  of a policy returns a pointer to a policy that reads the same in every field,
  occupies only blocks that did not exist before, and the call changes no block that did.
\<close>

theorem deep_copy_policy:
  assumes "machinery_copies M" and "policy_blocks s p \<subseteq> allocated s"
  shows "\<exists>q s'. run_state (SecretRotationPolicy_DeepCopy M (Some p)) s = (Some q, s') \<and>
    extends s s' \<and> read_policy s' q = read_policy s p \<and>
    pointer_view policy_type policy_view s' q = pointer_view policy_type policy_view s p \<and>
    policy_blocks s' q \<inter> allocated s = {}"
proof -
  have "stored policy_type" by simp
  note copier = pointer_copier [OF policy_copier [OF assms(1)] this]
  let ?run = "run_state (new_copy policy_type (SecretRotationPolicy_DeepCopyInto M) p) s"
  have "extends s (snd ?run) \<and>
      pointer_view policy_type policy_view (snd ?run) (fst ?run) =
        pointer_view policy_type policy_view s p \<and>
      policy_blocks (snd ?run) (fst ?run) \<subseteq> {length s..<length (snd ?run)}"
    using deep_copier.copies [OF copier assms(2)] by (metis prod.collapse)
  then show ?thesis
    by (auto simp: SecretRotationPolicy_DeepCopy_def run_unless_nil read_policy_def allocated_def)
qed

lemma deep_copy_policy_witness:
  "\<exists>q s'. run_state (SecretRotationPolicy_DeepCopy plain_machinery (Some (Ptr 4 0))) example_store =
      (Some q, s') \<and> Params (Provider (srp_Spec (read_policy s' q))) = [''length'' \<mapsto> ''32''] \<and>
    policy_blocks s' q \<inter> {..<6} = {}"
proof -
  have "Params (Provider (srp_Spec (read_policy example_store (Ptr 4 0)))) = [''length'' \<mapsto> ''32'']"
    by (simp add: read_policy_def pointer_view_def policy_view_def part_view_def policy_refs_def
        pair_view_def policy_spec_view_def spec_refs_def provider_spec_view_def ptr_view_def
        option_view_def flat_view_def load_def example_store_def mem_types entries_def
        meta_view_def rotation_policy_view_def policy_status_view_def meta_refs_def
        meta_values_def policy_status_refs_def)
  then show ?thesis
    using deep_copy_policy [OF plain_machinery_copies example_memory_closed(1)]
    unfolding example_allocated by metis
qed

text \<open>
  C30.  After
  \<^verbatim>\<open>DeepCopy\<close> of a list of policies, no write through the copy changes what can be read of the
  original, and no write through the original changes what can be read of the copy, however many
  slices, maps, policies and notifications lie between the list and the written block.
\<close>

theorem deep_copies_are_isolated:
  assumes "machinery_copies M" and "policy_list_blocks s p \<subseteq> allocated s"
    and "run_state (SecretRotationPolicyList_DeepCopy M (Some p)) s = (Some q, s')"
  shows "(\<forall>t. (\<forall>b. b \<notin> policy_list_blocks s' q \<longrightarrow> t ! b = s' ! b) \<longrightarrow>
      pointer_view policy_list_type policy_list_view t p =
      pointer_view policy_list_type policy_list_view s p) \<and>
    (\<forall>t. (\<forall>b. b \<notin> policy_list_blocks s' p \<longrightarrow> t ! b = s' ! b) \<longrightarrow>
      pointer_view policy_list_type policy_list_view t q =
      pointer_view policy_list_type policy_list_view s p)"
proof -
  have "stored policy_list_type" by simp
  note copier = pointer_copier [OF policy_list_copier [OF assms(1)] this]
  have run: "run_state (new_copy policy_list_type (SecretRotationPolicyList_DeepCopyInto M) p) s =
      (q, s')"
    using assms(3)
    by (simp add: SecretRotationPolicyList_DeepCopy_def run_unless_nil prod_eq_iff)
  show ?thesis
    using deep_copier.original_unaffected [OF copier assms(2) run]
      deep_copier.copy_unaffected [OF copier assms(2) run] by blast
qed

lemma deep_copies_are_isolated_witness:
  "\<exists>q s'. run_state (SecretRotationPolicyList_DeepCopy plain_machinery (Some (Ptr 5 0)))
      example_store = (Some q, s') \<and>
    pointer_view policy_list_type policy_list_view
      (store_at map_type (Ptr 0 0) Map.empty s') q =
    pointer_view policy_list_type policy_list_view example_store (Ptr 5 0)"
proof -
  define q where "q = fst (run_state (new_copy policy_list_type
    (SecretRotationPolicyList_DeepCopyInto plain_machinery) (Ptr 5 0)) example_store)"
  define s' where "s' = snd (run_state (new_copy policy_list_type
    (SecretRotationPolicyList_DeepCopyInto plain_machinery) (Ptr 5 0)) example_store)"
  have run: "run_state (SecretRotationPolicyList_DeepCopy plain_machinery (Some (Ptr 5 0)))
      example_store = (Some q, s')"
    by (simp add: SecretRotationPolicyList_DeepCopy_def run_unless_nil q_def s'_def)
  note copier = pointer_copier [OF policy_list_copier [OF plain_machinery_copies] stored_types(21)]
  have "extends example_store s'"
    using deep_copier.copies [OF copier example_memory_closed(2)] unfolding s'_def
    by (metis prod.collapse)
  then have "policy_list_blocks s' (Ptr 5 0) = policy_list_blocks example_store (Ptr 5 0)"
    using reading.unchanged(1) [OF deep_copier.axioms(1) [OF copier] _ example_memory_closed(2)] by blast
  then have "0 \<in> policy_list_blocks s' (Ptr 5 0)"
    by (simp add: reading_defs zero_defs mem_types example_store_def load_def lessThan_Suc)
  then have "\<forall>b. b \<notin> policy_list_blocks s' (Ptr 5 0) \<longrightarrow>
      store_at map_type (Ptr 0 0) Map.empty s' ! b = s' ! b"
    by (metis ptr.sel(1) store_at_other)
  then show ?thesis
    using deep_copies_are_isolated [OF plain_machinery_copies example_memory_closed(2) run] run by blast
qed

end
