(* ===== verification/Spec2Isabelle.thy ===== *)
theory Spec2Isabelle
  imports Settling AuditTrail CallBounds Admission Permissions DeepCopy
begin

text \<open>
  Keysmith is a Kubernetes operator that rotates secrets.  A custom resource
  \<^verbatim>\<open>SecretRotationPolicy\<close> names a secret, a cron schedule and a provider; the controller
  decides at each reconcile whether a rotation is due, opens a \<^verbatim>\<open>RotationRecord\<close>, asks the
  provider for new values, writes the secret, restarts the dependent workloads, closes the record,
  stores the policy's status, prunes old records and notifies webhooks.  An admission webhook
  defaults and validates policies; metrics count what happens; \<^verbatim>\<open>cmd/main.go\<close> puts the parts
  together.

  \<^bold>\<open>The theories and the code.\<close>

  \<^item> \<open>GoLib\<close>: the Go language and standard library as the program uses them (panics, errors,
    strings, \<^verbatim>\<open>strconv\<close>, \<^verbatim>\<open>time\<close>, maps that may be nil, \<^verbatim>\<open>sort.Slice\<close> by contract).

  \<^item> \<open>ApiTypes\<close>: \<^verbatim>\<open>api/v1alpha1/*_types.go\<close>, the resources as records, the enumerations as
    datatypes whose first constructor is the empty string, and \<open>crd_valid\<close>, the \<^verbatim>\<open>kubebuilder\<close>
    validation markers.

  \<^item> \<open>Store\<close>, \<open>Memory\<close>, \<open>DeepCopy\<close>: \<^verbatim>\<open>api/v1alpha1/zz_generated.deepcopy.go\<close>.  \<open>Store\<close> is Go's memory
    as blocks that are arrays of values, with the locale \<open>deep_copier\<close> and the lemmas that build deep
    copiers of structs, pointers and slices; \<open>Memory\<close> lays the API types out in it; \<open>DeepCopy\<close> has
    one definition per generated function, an interpretation or a copier lemma per type, and what
    the copies of policies and of lists guarantee.

  \<^item> \<open>Providers\<close>, \<open>MockProvider\<close>, \<open>StaticProvider\<close>, \<open>StubProviders\<close>: \<^verbatim>\<open>internal/provider\<close>.  The
    interface is the record \<open>Provider\<close> of its methods; what a caller relies on is the locale
    \<open>provider\<close>, interpreted on all four providers; the registry's contract is the locale
    \<open>name_registry\<close>.

  \<^item> \<open>Scheduler\<close>, \<open>Webhook\<close>, \<open>Metrics\<close>: \<^verbatim>\<open>internal/rotation\<close>, \<^verbatim>\<open>internal/webhook\<close>,
    \<^verbatim>\<open>internal/metrics\<close>.

  \<^item> \<open>Effects\<close>: the outside (\<open>Ext\<close>), the operator's process and its trace of events, and the
    rules (\<open>emits\<close>) by which the events of a handler are computed from those of its parts.

  \<^item> \<open>Notifications\<close>, \<open>Restarts\<close>, \<open>History\<close>, \<open>Reconciler\<close>: \<^verbatim>\<open>internal/controller\<close>, one definition
    per Go function; long functions are split at their early returns (\<^verbatim>\<open>Reconcile\<close> into
    \<open>Reconcile\<close>, \<open>reconcilePolicy\<close>, \<open>reconcileActive\<close>, \<open>requeueNotDue\<close>; \<^verbatim>\<open>executeRotation\<close> into
    \<open>executeRotation\<close>, \<open>providerFailed\<close>, \<open>providerSucceeded\<close>, \<open>finishRotation\<close>).

  \<^item> \<open>Setup\<close>, \<open>CommandLine\<close>, \<open>Startup\<close>: \<^verbatim>\<open>cmd/main.go\<close>.  \<open>Setup\<close> goes from the values of the
    flags to the options of the servers and the registry; \<open>CommandLine\<close> has the declarations of the
    flags and Go's package \<^verbatim>\<open>flag\<close>, and shows that a written command line is read as it is
    meant; \<open>Startup\<close> has the order in which the process starts, with the two registration functions
    \<^verbatim>\<open>SetupWithManager\<close> and \<^verbatim>\<open>SetupWebhookWithManager\<close> and the package initialisations.

  \<^item> \<open>Lifecycle\<close>: the abstract machine of one rotation and the refinement of \<open>executeRotation\<close> to
    it, by one lemma per part; then what an accepted run looks like.

  \<^item> \<open>Cluster\<close>, \<open>Examples\<close>: an API server in memory, on which the witnesses run, and the operator of
    the examples; they model no code.

  \<^item> \<open>Handlers\<close>, \<open>Reconciliation\<close>, \<open>Guarantees\<close>: what pruning, restarts and notifications do
    exactly; when a reconcile rotates and what its trace tells; panics, failures, errors, gauges.

  \<^item> \<open>AuditTrail\<close>: what the closed record and the written statuses contain.

  \<^item> \<open>Recurrence\<close>: what a reconcile finds of an earlier rotation.  \<open>CallBounds\<close>: how many calls a
    reconcile can make.

  \<^item> \<open>Server\<close>: the policies that the API server stores, and that after a run of the controller they
    are the replay of its trace (\<open>tracks\<close>, one rule per operation).  \<open>Confinement\<close>: what belongs to a
    policy (\<open>in_scope\<close>), that a reconcile touches nothing else, and so no other stored policy.
    \<open>Settling\<close>: when a stored policy is rotated, reconcile after reconcile (\<open>tended\<close>, \<open>wanted\<close>), also
    between reconciles of other policies (the step relation \<open>undisturbed\<close>), and the way of a new
    policy to rest.

  \<^item> \<open>Conditions\<close>: the conditions of a written status, each with its reason in the trace.
    \<open>Admission\<close>: the webhook markers of \<^verbatim>\<open>internal/webhook\<close>, what the API server admits by
    them (\<open>admit\<close>: defaulting, schema, validation, with the handlers that \<open>Startup\<close> registers), and
    the operator over time in a cluster whose policies all came through admission (the step relation
    \<open>governed\<close>); also what becomes of a policy that did not.

  \<^item> \<open>Permissions\<close>: the permission markers of the controller, that they grant every call that an
    event stands for, which of them no call needs, and what becomes of a reconcile under the role that
    is checked in.

  \<^item> \<open>System\<close>: the operator over time, as a step relation of reconciles, deliveries of
    notifications and changes of the outside, with its reachable states.

  \<^bold>\<open>State and effects.\<close>  A handler is a program of the state monad over \<open>process\<close>: the state of
  the world (of an arbitrary type, touched by the calls of \<open>Ext\<close> only), the state of the provider
  objects and the trace.  Every call of the Kubernetes client, of a provider, of a metric and of
  HTTP is an event with its arguments and its success.  Go code that mutates the policy through a
  pointer is written with successive values \<open>policy0\<close>, \<open>policy1\<close>, and so on; a client call that
  overwrites its argument with the server's answer returns it.  Errors are values of type \<open>error\<close>,
  panics the constructor \<open>Panic\<close>.

  \<^bold>\<open>What the properties assume of the outside.\<close>  Most assume nothing: they hold for every \<open>Ext\<close>,
  so for every behaviour of the API server, the clock, the network and the cron library, including
  failures at any call.  Where an assumption is needed it is named: \<open>keeps_policy\<close> (the server
  answers an update with the spec it was given), \<open>no_owner_conflict\<close>, \<open>secrets_writable\<close>, the sorter's
  contract \<open>slice_sorter\<close>, \<open>listings_bounded\<close>, \<open>orderly\<close> (answers are about the objects that were
  asked for), \<open>lawful\<close> (an update stores what it sends exactly when it succeeds, a fetch reads the
  store, nothing else changes a policy), \<open>cooperative\<close> (lawful, and updates of stored policies
  succeed), \<open>keeps_conditions\<close> (an answer has the conditions that were sent, and apimachinery's
  setter sets one condition by type), \<open>guarded\<close> (an update is stored only if admission lets it
  through), and \<open>machinery_copies\<close> for the deep copies of apimachinery's own types; \<open>Cluster\<close> and
  \<open>plain_machinery\<close> show that they can hold. \<open>lawful\<close> and \<open>cooperative\<close> idealise: the manager's
  client reads from a cache that may lag behind the store, and the server keeps instants to the
  second; a conflict that a stale read leads to is a refused update here. A record is called
  closed and a status stored when the controller has sent the update; where the server's
  acceptance matters it is said.

  \<^bold>\<open>Bounds.\<close>  Durations are 64-bit words and instants exact integers in nanoseconds, with the
  saturation of \<^verbatim>\<open>time.Sub\<close> and the wrap-around of negation written out; the history limit is a
  32-bit word, and the number of records is compared with it after truncation as the code does.  All
  loops are structural recursion; the reader of JSON members takes the length of its input as fuel,
  which is enough since every member has at least one character.

  \<^bold>\<open>Not modelled.\<close>  Log output; the buckets and the exposition of the metrics;
  which runes beyond ASCII are printable (\<^verbatim>\<open>%q\<close> copies them all); the flags of the logger and of the client configuration (a parameter of
  \<open>CommandLine\<close>), the logger and what the manager does once it runs; what
  the builders of controller-runtime make of their arguments; \<^verbatim>\<open>DeepCopyInto\<close> called with one
  variable as both arguments, which the program never does; and the tests.
\<close>

section \<open>The rotation\<close>

text \<open>
  C1.  Whatever the API server, the provider, the clock and the
  network answer, the events of a rotation are a run of the life-cycle machine from its initial
  stage, and what is returned is what the machine says of the stage in which the run ends: no step
  is skipped, repeated or taken out of order, the record is created before the provider is called
  and closed after the secret has been written, and a rotation whose status could not be stored
  neither prunes nor notifies.
\<close>

theorem rotation_refines_lifecycle:
  "accepted manual Idle (result (executeRotation X p prov manual) s)
     (events (executeRotation X p prov manual) s)"
  using emitsD(1) [OF refines_executeRotation] .

text \<open>
  C2.  A reconcile calls a provider exactly when the rotation is
  granted, and then it calls the provider that the policy names, once: the fetched policy is not
  being deleted, carries the finalizer and is not suspended, its provider is registered and accepts
  the parameters, its schedule can be evaluated, and at the reading of the clock the rotation is due
  or asked for by the annotation.  (A record whose owner reference cannot be set is the one
  exception, excluded here.)
\<close>

theorem provider_called_iff_granted:
  assumes "get_policy X req (world s) = (Inr p, w)" and "no_owner_conflict X"
  shows "provider_calls (events (Reconcile X r req) s) =
    (case rotation_granted X (Registry r) p (fst (clock X w)) of
       None \<Rightarrow> []
     | Some prov \<Rightarrow> [prov_Name prov])"
proof (cases rule: Reconcile_cases [where X = X and req = req and s = s and r = r])
  case (missing e)
  with assms(1) show ?thesis by simp
next
  case (resting p' es)
  with assms(1) show ?thesis using quiet_trace [of es] by simp
next
  case (rotating p' prov t)
  with assms show ?thesis
    using emitsD(1) [OF emits_executeRotation_calls [OF assms(2)]] by simp
qed

lemma provider_called_iff_granted_witness:
  "provider_calls (events (Reconcile cluster_ext example_reconciler example_key) example_process) =
     [''mock'']"
  using provider_called_iff_granted [OF _ example_server(2), of example_key example_process
      example_policy example_cluster example_reconciler]
  by (simp add: example_get example_granted provider_defs)

text \<open>
  C3.  The audit trail tells the truth.  In every reconcile the provider's
  answers, what the counter counts, the writes of the secret and the closing of the record are one
  of six combinations: the record is closed as succeeded exactly when the secret has been written,
  as failed when the provider fails, a key is missing or the write fails, and stays open only when
  the provider panics; every call has its record, and every call that returns is counted once.
\<close>

theorem reconcile_outcomes:
  "outcome_of (events (Reconcile X r req) s) \<in> rotation_outcomes \<and>
   length (openings (events (Reconcile X r req) s)) =
     length (attempts (events (Reconcile X r req) s))"
  using Reconcile_outcome by blast

text \<open>
  C7.  A secret that a rotation writes is the one that the policy names, in the
  policy's namespace unless it names another.  Whatever the object held before (\<open>old\<close>), its data are
  afterwards the values of a successful call of the provider with the policy's parameters under
  exactly the secret keys of the policy's mapping, so that no earlier key survives; it carries the two
  labels of the operator, and every other label is kept.
\<close>

theorem written_secret:
  assumes "keeps_policy X"
    and "(old, sec) \<in> set (put_secrets (events (executeRotation X p prov manual) s))"
  shows "\<exists>q secret data.
    fst (RotateSecret prov (Params (Provider (srp_Spec p))) q) = Ret (Inr secret) \<and>
    MapKeys secret (Keys (srp_Spec p)) = Inr data \<and>
    dom data = SecretKey ` set (Keys (srp_Spec p)) \<and>
    sec_Name sec = ref_Name (SecretRef (srp_Spec p)) \<and>
    sec_Namespace sec = (if ref_Namespace (SecretRef (srp_Spec p)) = '''' then policy_namespace p
      else ref_Namespace (SecretRef (srp_Spec p))) \<and>
    (sec_Name old, sec_Namespace old) = (sec_Name sec, sec_Namespace sec) \<and>
    Data sec = Some data \<and>
    entries (sec_Labels sec) = (entries (sec_Labels old))
      (''secrets.keysmith.io/managed-by'' \<mapsto> ''keysmith'', ''secrets.keysmith.io/policy'' \<mapsto> policy_name p)"
proof -
  have "delivered p prov (old, sec)"
    using emitsD(1) [OF emits_executeRotation_secret [OF assms(1)]] assms(2)
    by (metis list_all_iff)
  then obtain q secret data where
      "fst (RotateSecret prov (Params (Provider (srp_Spec p))) q) = Ret (Inr secret)"
      "MapKeys secret (Keys (srp_Spec p)) = Inr data"
      "sec_Name old = sec_Name (target_secret p)" "sec_Namespace old = sec_Namespace (target_secret p)"
      "sec = write_secret p data old"
    unfolding delivered_def by blast
  then show ?thesis
    using MapKeys_dom [of secret "Keys (srp_Spec p)" data]
    by (auto simp: write_secret_def target_secret_def managed_by_label_def policy_label_def
        map_store_def entries_def Let_def split: option.splits)
qed

lemma example_secret:
  "\<exists>old sec. (old, sec) \<in> set (put_secrets
     (events (executeRotation cluster_ext example_policy Mock m) example_process))"
proof -
  let ?es = "events (executeRotation cluster_ext example_policy Mock m) example_process"
  have "writes ?es = [True]"
    by (rule emitsD(1) [OF emits_executeRotation_succeeds])
      (simp_all add: example_server example_writes)
  then have "put_secrets ?es \<noteq> []" using put_secrets_writes [of ?es] by simp
  then show ?thesis by (cases "put_secrets ?es") auto
qed

lemma written_secret_witness:
  "\<exists>old sec. (old, sec) \<in> set (put_secrets
     (events (executeRotation cluster_ext example_policy Mock True) example_process)) \<and>
     sec_Name sec = ''db-credentials'' \<and> sec_Namespace sec = ''prod'' \<and>
     dom (entries (Data sec)) = {''DB_PASSWORD''}"
proof -
  obtain old sec where sec: "(old, sec) \<in> set (put_secrets
      (events (executeRotation cluster_ext example_policy Mock True) example_process))"
    using example_secret by blast
  from written_secret [OF example_server(1) sec] obtain data where
      "dom data = SecretKey ` set (Keys (srp_Spec example_policy))"
      "sec_Name sec = ref_Name (SecretRef (srp_Spec example_policy))"
      "sec_Namespace sec = (if ref_Namespace (SecretRef (srp_Spec example_policy)) = ''''
        then policy_namespace example_policy else ref_Namespace (SecretRef (srp_Spec example_policy)))"
      "Data sec = Some data"
    by blast
  with sec show ?thesis
    by (intro exI [of _ old] exI [of _ sec]) (simp add: example_policy_def empty_meta_def)
qed

text \<open>
  When the rotation is granted and nothing outside refuses (the
  provider returns a secret with the mapped keys, the owner reference can be set and secrets can be
  written), the reconcile writes the secret and closes the record as succeeded.
\<close>

lemma cooperating_rotation_succeeds:
  assumes "get_policy X req (world s) = (Inr p, w)"
    and "rotation_granted X (Registry r) p (fst (clock X w)) = Some prov"
    and "keeps_policy X" and "no_owner_conflict X" and "secrets_writable X"
    and "yields_keys prov p"
  shows "outcome_of (events (Reconcile X r req) s) =
    ([True], [''success''], [True], [RecordPhaseSucceeded])"
proof (cases rule: Reconcile_cases [where X = X and req = req and s = s and r = r])
  case (rotating p' prov' t)
  with assms(1,2) have "writes (events (Reconcile X r req) s) = [True]"
    using emitsD(1) [OF emits_executeRotation_succeeds [OF assms(3-6)]] by simp
  moreover have "outcome_of (events (Reconcile X r req) s) \<in> rotation_outcomes"
    using rotating(3) by (simp add: executeRotation_trace)
  ultimately show ?thesis by (auto simp: outcome_of_def rotation_outcomes_def)
qed (use assms(1,2) in simp_all)

text \<open>
  C11.  After the secret has been written the status is stored once: the
  policy is ready, its retry count is zero, its last rotation is the reading of the clock, and its
  next rotation is the schedule's next activation after it; and the gauge of the next rotation is
  set once, to the same instant in seconds.
\<close>

theorem completed_rotation_status:
  assumes "keeps_policy X"
  shows "\<exists>q now next. statuses (events (finishRotation X p prov manual rr d) s) = [q] \<and>
    next = fst (NextScheduled (parse_cron X) (Schedule (srp_Spec p)) now) \<and>
    srp_Spec q = srp_Spec p \<and> srps_Phase (srp_Status q) = PhaseReady \<and>
    CurrentRetryCount (srp_Status q) = 0 \<and>
    LastRotationTime (srp_Status q) = Some now \<and> NextRotationTime (srp_Status q) = Some next \<and>
    published (events (finishRotation X p prov manual rr d) s) =
      [(policy_name p, policy_namespace p, time_Unix next)]"
proof -
  obtain q where q: "statuses (events (finishRotation X p prov manual rr d) s) = [q]"
      "completed_status X p q"
      "list_all (announces q) (published (events (finishRotation X p prov manual rr d) s))"
      "length (published (events (finishRotation X p prov manual rr d) s)) = 1"
    using emitsD(1) [OF emits_finishRotation_status [OF assms]] by blast
  then show ?thesis
    by (auto simp: completed_status_def announces_def Let_def same_policy_def length_Suc_conv)
qed

lemma completed_rotation_status_witness:
  "\<exists>q now. statuses (events (finishRotation cluster_ext example_policy Mock False (old_record 1)
      (dur 0)) example_process) = [q] \<and>
     NextRotationTime (srp_Status q) = Some ((now div hour + 1) * hour)"
proof -
  have "fst (NextScheduled hourly ''0 * * * *'' now) = (now div hour + 1) * hour" for now
    by (simp add: NextScheduled_def hourly_def)
  moreover have "parse_cron cluster_ext = hourly" "Schedule (srp_Spec example_policy) = ''0 * * * *''"
    by (simp_all add: cluster_ext_def example_policy_def)
  ultimately show ?thesis
    using completed_rotation_status [OF example_server(1),
        of example_policy Mock False "old_record 1" "dur 0" example_process] by auto
qed

section \<open>Failures\<close>

text \<open>
  C9.  A reconcile of the operator (with the registry that its start builds)
  does not panic on a policy that the schema admits: whatever the provider, the random source and
  the API server answer, it returns a result and perhaps an error.
\<close>

theorem reconcile_never_panics:
  assumes "get_policy X req (world s) = (Inr p, w)" and "crd_valid (srp_Spec p)"
    and "operator rand = Ret r"
    and "keeps_policy X" and "slice_sorter (slice_sort X) creation"
  shows "\<exists>res err. result (Reconcile X r req) s = Ret (res, err)"
  by (rule operator_reconcile_returns [OF assms(3-5)]) (use assms(1,2) in simp)

definition counting_process :: "(cluster, nat provider_state) process" where
  "counting_process = start_process example_cluster \<lparr>rotateCount = 0, entropy = 0\<rparr>"

lemma reconcile_never_panics_witness:
  "\<exists>r res err. operator counting_rand = Ret r \<and>
     result (Reconcile cluster_ext r example_key) counting_process = Ret (res, err)"
proof -
  obtain reg where reg: "operator counting_rand = Ret \<lparr>Registry = reg\<rparr>"
    using operator_registry_contract [of counting_rand] by (auto simp: operator_def)
  have "get_policy cluster_ext example_key (world counting_process) =
      (Inr example_policy, example_cluster)"
    by (simp add: example_get counting_process_def start_process_def)
  from reconcile_never_panics [OF this example_crd reg example_server(1) example_sorter] reg
  show ?thesis by blast
qed

text \<open>
  C16.  When the provider does not return a secret, nothing else in the
  cluster changes: no secret is written, no workload looked at or restarted, the policy's metadata
  (with the annotation that asks for a rotation) are left alone, no record is deleted, the gauge of
  the next rotation is not set, and only notifications of the failure are sent.
\<close>

theorem failed_rotation_contained:
  assumes "attempts (events (executeRotation X p prov manual) s) = [False]"
  shows "list_all contained (events (executeRotation X p prov manual) s)"
  by (rule accepted_failed_contained [OF emitsD(1) [OF refines_executeRotation] assms])

lemma failed_rotation_contained_witness:
  "list_all contained (events (executeRotation cluster_ext example_policy AWS True) example_process)"
proof (rule failed_rotation_contained)
  show "attempts (events (executeRotation cluster_ext example_policy AWS True) example_process) =
      [False]"
    using emitsD(1) [OF emits_executeRotation_fails [OF example_server stubs_always_fail(1)]]
    by blast
qed

text \<open>
  C35.  The AWS and Vault providers refuse every rotation: each
  reconcile that calls them leaves the policy in the phase that its failure policy asks for and
  comes back after the policy's back-off, 30 seconds if it has none, without an error.
\<close>

theorem unimplemented_providers_back_off:
  assumes "keeps_policy X" and "no_owner_conflict X" and "prov = AWS \<or> prov = Vault"
  shows "result (executeRotation X p prov manual) s =
      Ret (requeue_after (case RetryBackoff (Policy (srp_Spec p)) of None \<Rightarrow> seconds 30 | Some d \<Rightarrow> d),
           None) \<and>
    attempts (events (executeRotation X p prov manual) s) = [False] \<and>
    srps_Phase (srp_Status (last (statuses (events (executeRotation X p prov manual) s)))) =
      (if rp_FailurePolicy (Policy (srp_Spec p)) = FailurePolicyIgnore then PhaseReady
       else PhaseFailed)"
proof -
  have "always_fails prov" using assms(3) stubs_always_fail by blast
  from emitsD(1) [OF emits_executeRotation_fails [OF assms(1,2) this]]
  show ?thesis by (simp add: backoff_def failure_phase_def)
qed

lemma unimplemented_providers_back_off_witness:
  "result (executeRotation cluster_ext example_policy Vault True) example_process =
     Ret (requeue_after (seconds 30), None)"
  using unimplemented_providers_back_off
    [OF example_server, of Vault example_policy True example_process]
  by (simp add: example_policy_def)

text \<open>
  C28.  The errors of a reconcile.  Unless the policy is being deleted or suspended
  (then the error of its update is passed on as it is), an error comes with the empty result, and it
  is the error of the fetch, of adding the finalizer, of the owner reference, of a missing key, of
  the write of the secret or of the last status update, wrapped in a message that says so.
\<close>

theorem reconcile_errors:
  assumes "result (Reconcile X r req) s = Ret (res, Some e)"
  shows "(\<exists>p. fst (get_policy X req (world s)) = Inr p \<and>
      (being_deleted p \<or> Suspend (Policy (srp_Spec p)))) \<or>
    res = no_result \<and>
    wrapped_in ([''fetching SecretRotationPolicy: '', ''adding finalizer: ''] @ rotation_errors) e"
proof (cases "fst (get_policy X req (world s))")
  case (Inl err)
  with assms show ?thesis by (auto simp: Reconcile_steps split: if_splits)
next
  case (Inr p)
  have res: "result (reconcilePolicy X (Registry r) p) (fetched X req s) = Ret (res, Some e)"
    using assms Inr by (simp add: Reconcile_steps)
  have "emits (reconcilePolicy X reg p) (\<lambda>out es. \<forall>res e. out = Ret (res, Some e) \<longrightarrow>
      res = no_result \<and> wrapped_in (''adding finalizer: '' # rotation_errors) e)"
    if "\<not> being_deleted p" "\<not> Suspend (Policy (srp_Spec p))" for reg :: "'b Registry"
    unfolding reconcilePolicy_def using that
    by (intro emits_intro emits_weaken [OF emits_active_errors])
      (auto split: option.splits intro: wrapped_in_mono [of rotation_errors])
  from emitsD(1) [OF this, of "Registry r" "fetched X req s"] res Inr show ?thesis
    by (auto intro: wrapped_in_mono)
qed

definition broken_ext :: "cluster Ext" where
  "broken_ext = cluster_ext\<lparr>get_policy := (\<lambda>_ c. (Inl (External ''Timeout'' ''timed out''), c))\<rparr>"

lemma reconcile_errors_witness:
  "\<exists>e. result (Reconcile broken_ext example_reconciler example_key) example_process =
     Ret (no_result, Some e) \<and>
   wrapped_in ([''fetching SecretRotationPolicy: '', ''adding finalizer: ''] @ rotation_errors) e"
proof -
  have "result (Reconcile broken_ext example_reconciler example_key) example_process =
      Ret (no_result, Some (Wrapf ''fetching SecretRotationPolicy: ''
        (External ''Timeout'' ''timed out'')))"
    by (simp add: Reconcile_steps broken_ext_def cluster_ext_def not_found_def)
  from reconcile_errors [OF this] this show ?thesis by (auto simp: broken_ext_def)
qed

section \<open>Reconciles that do not rotate\<close>

text \<open>
  C17.  A healthy policy that is not due, and for which no rotation is asked, waits:
  the reconcile calls no provider and touches only the policy's status, and it comes back at the
  next activation less the window, measured at its third reading of the clock, but not before 30
  seconds.  The error that the code reports for the requeue delay cannot occur here.
\<close>

theorem not_due_waits:
  assumes "get_policy X req (world s) = (Inr p, w)"
    and "\<not> being_deleted p" and "ContainsFinalizer X (srp_Meta p) FinalizerName"
    and "\<not> Suspend (Policy (srp_Spec p))"
    and "Get (Registry r) (ps_Name (Provider (srp_Spec p))) = Inr prov"
    and "Validate prov (Params (Provider (srp_Spec p))) = None"
    and "IsDue (parse_cron X) (Schedule (srp_Spec p)) (LastRotationTime (srp_Status p))
      (rotation_window p) (fst (clock X w)) = Inr False"
    and "\<not> manual_requested p"
  shows "\<exists>sched prev. parse_cron X standard_parser (Schedule (srp_Spec p)) = Inr sched \<and>
    LastRotationTime (srp_Status p) = Some prev \<and>
    result (Reconcile X r req) s = Ret (requeue_after
      (max (time_Sub (time_Add (sched prev) (neg_duration (rotation_window p)))
              (fst (clock X (snd (clock X (snd (clock X w)))))))
        (seconds 30)), None) \<and>
    list_all quiet (events (Reconcile X r req) s)"
proof -
  obtain prev sched where parsed: "LastRotationTime (srp_Status p) = Some prev"
      "parse_cron X standard_parser (Schedule (srp_Spec p)) = Inr sched"
      and delay: "\<And>n w m. RequeueDelay (parse_cron X) (Schedule (srp_Spec p)) (Some prev)
        (rotation_window p) n w m = Inr (max (time_Sub (due_from sched (rotation_window p) prev) w) m)"
    using RequeueDelay_ok_if_not_due [OF assms(7)] by metis
  have fetch: "world (fetched X req s) = w" using assms(1) by simp
  have "reconcilePolicy X (Registry r) p = reconcileActive X (Registry r) p"
    using assms(2,3,4) by (simp add: reconcilePolicy_def)
  then have "result (Reconcile X r req) s =
      result (requeueNotDue X p) (ticked X (fetched X req s))"
    using assms by (simp add: Reconcile_steps reconcileActive_def Let_def run_bind_Now)
  also have "\<dots> = Ret (requeue_after
      (max (time_Sub (due_from sched (rotation_window p) prev)
              (fst (clock X (snd (clock X (snd (clock X w)))))))
        (seconds 30)), None)"
    using assms(1) by (simp add: requeueNotDue_def Let_def run_bind_Now parsed delay
        minRequeueDelay_def) (simp add: result_bind)
  finally have "result (Reconcile X r req) s = \<dots>" .
  moreover have "rotation_granted X (Registry r) p (fst (clock X w)) = None"
    using assms by (simp add: rotation_granted_def)
  then have "list_all quiet (events (Reconcile X r req) s)"
    using assms(1) not_granted_run [of X "Registry r" p "fetched X req s"]
    by (simp add: Reconcile_steps quiet_def)
  ultimately show ?thesis using parsed by (auto simp: due_from_def)
qed

definition rotated_policy :: SecretRotationPolicy where
  "rotated_policy = map_status (\<lambda>st. st\<lparr>LastRotationTime := Some (hour + 5)\<rparr>) example_policy"

definition rotated_process :: "(cluster, unit provider_state) process" where
  "rotated_process = start_process (example_cluster\<lparr>cl_now := hour + 10, cl_policies := [example_key \<mapsto> rotated_policy]\<rparr>)
     \<lparr>rotateCount = 0, entropy = ()\<rparr>"

lemma not_due_waits_witness:
  "result (Reconcile cluster_ext example_reconciler example_key) rotated_process =
     Ret (requeue_after (dur (hour - 12)), None)"
proof -
  let ?c = "example_cluster\<lparr>cl_now := hour + 10, cl_policies := [example_key \<mapsto> rotated_policy]\<rparr>"
  have v: "dval (dur 0) = 0" "dval (seconds 30) = 30 * 1000000000" "dval (dur (hour - 12)) = hour - 12"
    by (simp_all add: dval_dur in_int64_def hour_def)
  have window: "rotation_window rotated_policy = dur 0" and neg: "neg_duration (dur 0) = dur 0"
    by (simp_all add: rotated_policy_def example_policy_def rotation_window_def neg_duration_def
        dur_def)
  have nxt: "(\<lambda>t. (t div hour + 1) * hour) (hour + 5) = 2 * hour" by (simp add: hour_def)
  have wait: "max (time_Sub (time_Add (2 * hour) (neg_duration (dur 0))) (hour + 12)) (seconds 30) =
      dur (hour - 12)"
    using v by (simp add: neg time_Sub_def time_Add_def saturate64_def max_def less_eq_duration_def
        hour_def)
  have get: "get_policy cluster_ext example_key (world rotated_process) = (Inr rotated_policy, ?c)"
    unfolding rotated_process_def start_process_def
    by (simp add: cluster_gets rotated_policy_def)
  have healthy: "\<not> being_deleted rotated_policy"
      "ContainsFinalizer cluster_ext (srp_Meta rotated_policy) FinalizerName"
      "\<not> Suspend (Policy (srp_Spec rotated_policy))"
      "Get (Registry example_reconciler) (ps_Name (Provider (srp_Spec rotated_policy))) = Inr Mock"
      "Validate Mock (Params (Provider (srp_Spec rotated_policy))) = None"
    by (simp_all add: rotated_policy_def example_policy_def empty_meta_def being_deleted_def
        cluster_ext_def example_reconciler_def Get_def provider_defs)
  have clock: "clock cluster_ext = (\<lambda>c. (cl_now c, c\<lparr>cl_now := cl_now c + 1\<rparr>))"
      "parse_cron cluster_ext = hourly"
      "hourly standard_parser (Schedule (srp_Spec rotated_policy)) = Inr (\<lambda>t. (t div hour + 1) * hour)"
      "LastRotationTime (srp_Status rotated_policy) = Some (hour + 5)"
    by (simp_all add: cluster_ext_def hourly_def rotated_policy_def example_policy_def)
  have "IsDue (parse_cron cluster_ext) (Schedule (srp_Spec rotated_policy))
      (LastRotationTime (srp_Status rotated_policy)) (rotation_window rotated_policy)
      (fst (clock cluster_ext ?c)) = Inr False"
    using nxt by (simp add: clock IsDue_Some due_from_def window neg time_Add_def v hour_def)
  moreover have "\<not> manual_requested rotated_policy"
    by (simp add: manual_requested_def rotated_policy_def example_policy_def empty_meta_def
        AnnotationRotateVal_def)
  ultimately show ?thesis
    using not_due_waits [OF get healthy] nxt wait by (auto simp: clock window add.commute)
qed

text \<open>
  C36.  A policy that is being deleted is released: its finalizer is removed by
  one update if it is there, no rotation, secret or status is touched, the error of the update is
  returned as it is and then the gauge is left alone, and otherwise the gauge of active policies is
  decremented and nothing is requeued.
\<close>

theorem deletion_releases:
  assumes "get_policy X req (world s) = (Inr p, w)" and "being_deleted p"
  shows "\<exists>err. result (Reconcile X r req) s = Ret (no_result, err) \<and>
    events (Reconcile X r req) s = EvGetPolicy req True #
      (if ContainsFinalizer X (srp_Meta p) FinalizerName
       then [EvUpdatePolicy (map_meta (\<lambda>m. RemoveFinalizer X m FinalizerName) p) (err = None)]
       else []) @
      (if err = None then [EvActivePoliciesDec] else [])"
  using emitsD(1) [OF emits_handleDeletion, of X p "fetched X req s"] assms
  by (auto simp: Reconcile_steps reconcilePolicy_def split: if_splits)

definition deleted_policy :: SecretRotationPolicy where
  "deleted_policy = map_meta (\<lambda>m. m\<lparr>DeletionTimestamp := Some hour\<rparr>) example_policy"

definition deleted_process :: "(cluster, unit provider_state) process" where
  "deleted_process = start_process (example_cluster\<lparr>cl_policies := [example_key \<mapsto> deleted_policy]\<rparr>)
     \<lparr>rotateCount = 0, entropy = ()\<rparr>"

lemma deleted_get:
  "get_policy cluster_ext example_key (world deleted_process) =
     (Inr deleted_policy, world deleted_process)"
  unfolding deleted_process_def start_process_def
  by (simp add: cluster_gets deleted_policy_def example_key_def policy_key_def example_policy_def
      empty_meta_def)

lemma deletion_releases_witness:
  "\<exists>err. result (Reconcile cluster_ext example_reconciler example_key) deleted_process =
     Ret (no_result, err)"
proof -
  have "being_deleted deleted_policy"
    by (simp add: being_deleted_def deleted_policy_def hour_def zero_time_def)
  with deletion_releases [OF deleted_get] show ?thesis by blast
qed

text \<open>
  C38.  The gauge of active policies never rises.  A reconcile lowers it
  by one exactly when it has released a policy that is being deleted, and otherwise leaves it alone;
  so after the first deletion the gauge that starts at zero is negative.
\<close>

theorem active_policies_only_fall:
  "active_policies (collected (events (Reconcile X r req) s) m) = active_policies m -
    (case fst (get_policy X req (world s)) of
       Inl _ \<Rightarrow> 0
     | Inr p \<Rightarrow> if being_deleted p \<and> result (Reconcile X r req) s = Ret (no_result, None) then 1
               else 0)"
proof (cases "fst (get_policy X req (world s))")
  case (Inl e)
  then show ?thesis by (simp add: Reconcile_steps collect_def)
next
  case (Inr p)
  let ?s = "fetched X req s"
  have steps: "events (Reconcile X r req) s =
      EvGetPolicy req True # events (reconcilePolicy X (Registry r) p) ?s"
      "result (Reconcile X r req) s = result (reconcilePolicy X (Registry r) p) ?s"
    using Inr by (simp_all add: Reconcile_steps)
  show ?thesis
  proof (cases "being_deleted p")
    case True
    then show ?thesis
      using emitsD(1) [OF emits_handleDeletion, of X p ?s] Inr steps
      by (auto simp: reconcilePolicy_def collect_def split: if_splits)
  next
    case False
    then have "filter (\<lambda>e. e = EvActivePoliciesDec) (events (reconcilePolicy X (Registry r) p) ?s) = []"
      using emitsD(1) [OF emits_no_decrement [OF False], of X "Registry r" ?s]
      by (auto simp: filter_empty_conv)
    with False Inr steps show ?thesis by (simp add: active_policies_collected collect_def)
  qed
qed

text \<open>
  A provider that is not registered, or that does not accept the
  parameters, is reported and not called: the one event is the update of the policy's status to the
  failed phase with the condition of the provider false and the reason as its message, and the
  reconcile comes back after a minute without an error.
\<close>

lemma unusable_provider_reported:
  assumes "get_policy X req (world s) = (Inr p, w)" and "\<not> being_deleted p"
    and "ContainsFinalizer X (srp_Meta p) FinalizerName" and "\<not> Suspend (Policy (srp_Spec p))"
    and "case Get (Registry r) (ps_Name (Provider (srp_Spec p))) of
        Inl e \<Rightarrow> msg = Error e
      | Inr prov \<Rightarrow> (\<exists>e. Validate prov (Params (Provider (srp_Spec p))) = Some e \<and>
          msg = ''provider validation: '' @ Error e)"
  shows "result (Reconcile X r req) s = Ret (requeue_after (minutes 1), None) \<and>
    (\<exists>q ok now. events (Reconcile X r req) s = [EvGetPolicy req True, EvUpdatePolicyStatus q ok] \<and>
      srp_Spec q = srp_Spec p \<and> srps_Phase (srp_Status q) = PhaseFailed \<and>
      LastRotationTime (srp_Status q) = LastRotationTime (srp_Status p) \<and>
      Conditions (srp_Status q) = SetStatusCondition X (Conditions (srp_Status p))
        \<lparr>Type = ''ProviderHealthy'', cond_Status = ConditionFalse, Reason = ''ProviderError'',
         Message = msg, LastTransitionTime = now\<rparr>)"
proof -
  obtain e where "reconcilePolicy X (Registry r) p = setProviderUnhealthy X p e" and "Error e = msg"
    using assms(2-5)
    by (auto simp: reconcilePolicy_def reconcileActive_def split: sum.splits)
  with assms(1) show ?thesis
    using emitsD(1) [OF emits_setProviderUnhealthy, of X p e "fetched X req s"]
    by (auto simp: Reconcile_steps ConditionProviderHealthy_def)
qed

text \<open>
  C8.  The record that a rotation closes says what happened: it carries a
  completion time and the provider's name; a failed one lists no keys and no restarts; a succeeded
  one has no error, lists the secret keys of the policy's mapping in order, and lists as restarted
  exactly the targets whose workload the trace shows as updated.
\<close>

theorem closed_record_contents:
  assumes "keeps_policy X"
    and "rr \<in> set (closed_records (events (executeRotation X p prov manual) s))"
  shows "CompletionTime (rr_Status rr) \<noteq> None \<and> ProviderName (rr_Status rr) = prov_Name prov \<and>
    (if rrs_Phase (rr_Status rr) = RecordPhaseSucceeded
     then RotatedKeys (rr_Status rr) = map SecretKey (Keys (srp_Spec p)) \<and>
       rrs_Error (rr_Status rr) = '''' \<and>
       map (target_id (policy_namespace p)) (RestartsTriggered (rr_Status rr)) =
         updated_after key (events (executeRotation X p prov manual) s)
     else rrs_Phase (rr_Status rr) = RecordPhaseFailed \<and> RotatedKeys (rr_Status rr) = [] \<and>
       RestartsTriggered (rr_Status rr) = [])"
proof -
  have "tells p prov (events (executeRotation X p prov manual) s) rr"
    using emitsD(1) [OF emits_executeRotation_record [OF assms(1)]] assms(2) by (metis list_all_iff)
  then show ?thesis by (auto simp: tells_def tells_failure_def tells_success_def Let_def)
qed

lemma example_closed:
  "\<exists>rr. rr \<in> set (closed_records
     (events (executeRotation cluster_ext example_policy Mock m) example_process)) \<and>
     rrs_Phase (rr_Status rr) = RecordPhaseSucceeded"
proof -
  let ?es = "events (executeRotation cluster_ext example_policy Mock m) example_process"
  have "writes ?es = [True]"
    by (rule emitsD(1) [OF emits_executeRotation_succeeds])
      (simp_all add: example_server example_writes)
  then have "closings ?es = [RecordPhaseSucceeded]"
    using executeRotation_trace [of cluster_ext example_policy Mock m example_process]
    by (auto simp: outcome_of_def rotation_outcomes_def)
  moreover have "closings es = map (\<lambda>rr. rrs_Phase (rr_Status rr)) (closed_records es)" for es
    by (induction es) (auto split: event.splits)
  ultimately show ?thesis by (auto simp: Cons_eq_map_conv)
qed

lemma closed_record_contents_witness:
  "\<exists>rr. rr \<in> set (closed_records
     (events (executeRotation cluster_ext example_policy Mock True) example_process)) \<and>
     RotatedKeys (rr_Status rr) = [''DB_PASSWORD'']"
proof -
  obtain rr where rr: "rr \<in> set (closed_records
      (events (executeRotation cluster_ext example_policy Mock True) example_process))"
      "rrs_Phase (rr_Status rr) = RecordPhaseSucceeded"
    using example_closed by blast
  from closed_record_contents [OF example_server(1) rr(1)] rr show ?thesis
    by (intro exI [of _ rr]) (simp add: example_policy_def)
qed

section \<open>The operator over time\<close>

text \<open>
  C4.  The books are right at every moment, also if the process dies there: in every
  reachable state of the operator, after any number of reconciles (panicking ones included), deliveries
  and changes outside, every initial part \<open>xs\<close> of what it has done so far claims nothing that has not
  happened.  Status updates that make a record succeeded, those that the server has accepted among
  them, are no more than the secrets already written; each write of a secret and each counted success
  has its own earlier call in which the provider returned a secret; and each call comes after the
  creation of its own record, which the server has accepted or refused.  Between the steps nothing is
  owed: the numbers of secrets written and of records closed as succeeded agree, so do counted
  successes and successful calls, every counted call has its closing, and no creation lacks its call.
\<close>

theorem books_balance:
  assumes "reachable booted (system_step X r) S" and "trace (proc S) = xs @ ys"
  shows "accepted_as RecordPhaseSucceeded xs \<le> count_list (closings xs) RecordPhaseSucceeded \<and>
    count_list (closings xs) RecordPhaseSucceeded \<le> count_list (writes xs) True \<and>
    length (writes xs) \<le> count_list (attempts xs) True \<and>
    count_list (counts xs) ''success'' \<le> count_list (attempts xs) True \<and>
    length (attempts xs) \<le> count_list (created xs) True + count_list (created xs) False \<and>
    count_list (closings (xs @ ys)) RecordPhaseSucceeded = count_list (writes (xs @ ys)) True \<and>
    count_list (counts (xs @ ys)) ''success'' = count_list (attempts (xs @ ys)) True \<and>
    length (closings (xs @ ys)) = length (counts (xs @ ys)) \<and>
    length (created (xs @ ys)) = length (attempts (xs @ ys))"
proof -
  have "balanced (xs @ ys)" "in_order xs"
    using ledger.holds [OF assms(1)] assms(2) by (auto simp: ledger_def always_in_order_def)
  moreover have "count_list bs True + count_list bs False = length bs" for bs
    by (induction bs) auto
  ultimately show ?thesis
    unfolding balanced_def in_order_def by (simp add: length_created)
qed

definition example_system :: "(cluster, unit provider_state) system" where
  "example_system = \<lparr>proc = example_process, pending = [], delivered_to = []\<rparr>"

definition next_system :: "(cluster, unit provider_state) system" where
  "next_system = example_system\<lparr>
     proc := run_on (Reconcile cluster_ext example_reconciler example_key) example_process,
     pending := notified (events (Reconcile cluster_ext example_reconciler example_key)
       example_process)\<rparr>"

lemma example_reachable:
  "reachable booted (system_step cluster_ext example_reconciler) next_system"
proof (rule reachable.further)
  show "reachable booted (system_step cluster_ext example_reconciler) example_system"
    by (rule reachable.start) (simp add: booted_def example_system_def example_process_def
        start_process_def)
  show "system_step cluster_ext example_reconciler example_system next_system"
    using system_step.reconcile [of cluster_ext example_reconciler example_system example_key]
    by (simp add: example_system_def next_system_def)
qed

lemma next_system_writes: "writes (trace (proc next_system)) = [True]"
proof -
  let ?es = "events (Reconcile cluster_ext example_reconciler example_key) example_process"
  have get: "fst (get_policy cluster_ext example_key (world example_process)) = Inr example_policy"
    by (simp add: example_get)
  have "writes ?es = [True]"
  proof (cases rule: Reconcile_cases [where X = cluster_ext and req = example_key
        and s = example_process and r = example_reconciler])
    case (rotating p prov t)
    then have "p = example_policy" "prov = Mock" using get example_granted by auto
    with rotating(3) emitsD(1) [OF emits_executeRotation_succeeds [OF example_server example_writes]]
    show ?thesis by simp
  qed (use get example_granted in auto)
  moreover have "trace (proc next_system) = trace example_process @ ?es"
    by (simp add: next_system_def trace_run_on [OF emits_Reconcile])
  ultimately show ?thesis by (simp add: example_process_def start_process_def)
qed

lemma books_balance_witness:
  "count_list (closings (trace (proc next_system))) RecordPhaseSucceeded = 1"
  using books_balance [OF example_reachable append_Nil2 [symmetric]] next_system_writes by simp

text \<open>
  C18.  In every reachable state what has been posted over HTTP are the
  requests of the notifications whose goroutines have run, in their order, to their URLs, with their
  payloads as JSON and the timeout, one for each for which a request can be made; the notifications
  that the reconciles have started are those that have been posted and those that still wait, none
  twice, none lost and none invented; and each of them told the truth when it was started: a success
  after the record was closed as succeeded and the policy's status stored, a failure after the record
  was closed as failed.
\<close>

theorem notifications_sent_once:
  assumes "reachable booted (system_step X r) S"
  shows "posts (trace (proc S)) = map notification_request (filter (sendable X) (delivered_to S)) \<and>
    mset (posts (trace (proc S))) +
      mset (map notification_request (filter (sendable X) (pending S))) =
      mset (map notification_request (filter (sendable X) (notified (trace (proc S))))) \<and>
    truthful RecordPhaseUnset False (trace (proc S))"
proof -
  have mail: "mset (notified (trace (proc S))) = mset (pending S) + mset (delivered_to S)"
      "posts (trace (proc S)) = map notification_request (filter (sendable X) (delivered_to S))"
      "truthful RecordPhaseUnset False (trace (proc S))"
    using mail.holds [OF assms] by (simp_all add: mail_in_order_def)
  have "mset (map notification_request (filter (sendable X) (notified (trace (proc S))))) =
      image_mset notification_request (filter_mset (sendable X)
        (mset (pending S) + mset (delivered_to S)))"
    by (simp only: mset_map mset_filter mail(1))
  with mail(2,3) show ?thesis by simp
qed

text \<open>A provider that fails: its failure is posted.\<close>

definition failing_provider :: "unit provider_state Provider" where
  "failing_provider = Mock\<lparr>RotateSecret := \<lambda>ps q. (Ret (Inl (Errorf ''no secret'')), q)\<rparr>"

definition failing_reconciler :: "unit provider_state SecretRotationPolicyReconciler" where
  "failing_reconciler = \<lparr>Registry = \<lparr>providers = [(''mock'', failing_provider)]\<rparr>\<rparr>"

abbreviation failing_events :: "event list" where
  "failing_events \<equiv> events (Reconcile cluster_ext failing_reconciler example_key) example_process"

lemma failing_rotation_notifies:
  "emits (executeRotation cluster_ext example_policy failing_provider manual)
     (\<lambda>_ es. \<exists>payload. notified es = [(''https://hooks.example.com/x'', payload)])"
proof -
  have dispatch: "emits (dispatchNotifications cluster_ext q EventRotationFailed payload)
      (\<lambda>_ es. es = [EvNotify ''https://hooks.example.com/x'' payload])"
    if "same_policy q example_policy" for q payload
    using same_policy_spec [OF that]
    unfolding dispatchNotifications_def
    by (simp add: example_policy_def dispatch_one_def notification_url_def)
      (intro emits_bind emits_record_event emits_return; simp)
  have failed: "emits (providerFailed cluster_ext q prov rr d e)
      (\<lambda>_ es. \<exists>payload. notified es = [(''https://hooks.example.com/x'', payload)])"
    if "same_policy q example_policy" for q rr d e and prov :: "unit provider_state Provider"
    unfolding providerFailed_def
    by (intro emits_bind emits_finalizeRecord emits_Let emits_set_condition emits_case_prod
        emits_UpdatePolicyStatus_keeps [OF example_server(1)] emits_Now
        emits_weaken [OF dispatch] emits_return)
      (use that in \<open>auto simp: notified_def intro: same_policy_trans\<close>)
  have "SetControllerReference cluster_ext q rr \<noteq> (rr', Some e)" for q rr rr' e
    by (simp add: cluster_ext_def)
  then show ?thesis
    unfolding executeRotation_def
    by (intro emits_bind emits_Now emits_case_prod emits_Let
        emits_UpdatePolicyStatus_keeps [OF example_server(1)] emits_newRotationRecord
        emits_case_option emits_return emits_CreateRecord emits_CallRotate_of emits_case_outcome
        emits_record_event emits_case_sum emits_weaken [OF failed])
      (auto simp: failing_provider_def notified_def)
qed

lemma failing_notified:
  "\<exists>payload. notified failing_events = [(''https://hooks.example.com/x'', payload)]"
proof -
  have get: "fst (get_policy cluster_ext example_key (world example_process)) = Inr example_policy"
    by (simp add: example_get)
  have granted: "rotation_granted cluster_ext (Registry failing_reconciler) example_policy t =
      Some failing_provider" for t
    by (simp add: rotation_granted_def being_deleted_def example_policy_def empty_meta_def
        cluster_ext_def failing_reconciler_def failing_provider_def Get_def provider_defs)
  show ?thesis
  proof (cases rule: Reconcile_cases [where X = cluster_ext and req = example_key
        and s = example_process and r = failing_reconciler])
    case (rotating p prov t)
    then have "p = example_policy" "prov = failing_provider" using get granted by auto
    with rotating(3) emitsD(1) [OF failing_rotation_notifies] show ?thesis
      by (simp add: notified_def)
  qed (use get granted in auto)
qed

text \<open>The system after that reconcile, and after the goroutine that it started has run.\<close>

definition failed_system :: "(cluster, unit provider_state) system" where
  "failed_system = example_system\<lparr>
     proc := run_on (Reconcile cluster_ext failing_reconciler example_key) example_process,
     pending := notified failing_events\<rparr>"

definition posted_system :: "NotificationPayload \<Rightarrow> (cluster, unit provider_state) system" where
  "posted_system payload = failed_system\<lparr>
     proc := run_on (deliver_notification cluster_ext ''https://hooks.example.com/x'' payload)
       (proc failed_system),
     pending := [], delivered_to := [(''https://hooks.example.com/x'', payload)]\<rparr>"

lemma posted_reachable:
  assumes "notified failing_events = [(''https://hooks.example.com/x'', payload)]"
  shows "reachable booted (system_step cluster_ext failing_reconciler) (posted_system payload)"
proof (rule reachable.further [OF reachable.further])
  show "reachable booted (system_step cluster_ext failing_reconciler) example_system"
    by (rule reachable.start) (simp add: booted_def example_system_def example_process_def
        start_process_def)
  show "system_step cluster_ext failing_reconciler example_system failed_system"
    using system_step.reconcile [of cluster_ext failing_reconciler example_system example_key]
    by (simp add: example_system_def failed_system_def)
  show "system_step cluster_ext failing_reconciler failed_system (posted_system payload)"
    using system_step.deliver [of failed_system "[]" "''https://hooks.example.com/x''" payload "[]"
        cluster_ext failing_reconciler] assms
    by (simp add: failed_system_def posted_system_def example_system_def)
qed

lemma notifications_sent_once_witness:
  "\<exists>payload. posts (trace (proc (posted_system payload))) =
       [notification_request (''https://hooks.example.com/x'', payload)] \<and>
     truthful RecordPhaseUnset False (trace (proc (posted_system payload)))"
proof -
  obtain payload where "notified failing_events = [(''https://hooks.example.com/x'', payload)]"
    using failing_notified by blast
  from notifications_sent_once [OF posted_reachable [OF this]]
  have "posts (trace (proc (posted_system payload))) =
       [notification_request (''https://hooks.example.com/x'', payload)] \<and>
     truthful RecordPhaseUnset False (trace (proc (posted_system payload)))"
    by (simp add: posted_system_def sendable_def cluster_ext_def)
  then show ?thesis ..
qed
text \<open>
  The phases that the controller writes are those of the enumeration, less
  one: rotating, ready, failed or suspended, or the phase that the fetched policy has already; the
  pending phase is never written.
\<close>

lemma written_phases:
  assumes "get_policy X req (world s) = (Inr p, w)"
  shows "set (phases (events (Reconcile X r req) s)) \<subseteq>
    {PhaseRotating, PhaseReady, PhaseFailed, PhaseSuspended, srps_Phase (srp_Status p)}"
  using emitsD(1) [OF emits_reconcilePolicy_phases, of X "Registry r" p "fetched X req s"] assms
  by (simp add: Reconcile_steps)

end
